(* ===== verification/Nexus_Prelude.thy ===== *)
theory Nexus_Prelude
  imports Main
begin

text \<open>
  Prelude of the Nexus development: the JavaScript values the services exchange, the
  result type of a handler that may throw, the combinators that sequence such handlers,
  decimal text of numbers, and the fact collections the component theories fill.

  Conventions used by every theory:
  \<^item> a point in time or a duration is an \<open>int\<close> number of milliseconds (\<open>Date.now()\<close>);
  \<^item> a call that may throw returns \<open>js_error + 'a\<close>, with \<open>Inl\<close> for the exception;
  \<^item> a stateful call takes the state last and returns the result paired with the new state,
    also when it throws: the writes made before the exception stay;
  \<^item> values drawn from the environment (random numbers, UUIDs, clock readings, outcomes of
    remote calls) are arguments.
\<close>

named_theorems nexus_defs \<open>definitions unfolded when a concrete run is evaluated\<close>
named_theorems nexus_inv \<open>preservation facts of component invariants\<close>

type_synonym time = int

subsection \<open>JSON values and text\<close>

datatype json =
    JNull
  | JBool bool
  | JNum int
  | JStr string
  | JArr "json list"
  | JObj "(string \<times> json) list"

text \<open>Property access \<open>v.k\<close>; \<open>None\<close> is \<open>undefined\<close>.\<close>

fun jget :: "json \<Rightarrow> string \<Rightarrow> json option" where
  "jget (JObj kvs) k = map_of kvs k"
| "jget _ k = None"

text \<open>
  A JavaScript string, seen through what \<open>JSON.parse\<close> makes of it: either text that was
  written by \<open>JSON.stringify\<close> (of JSON data, or of an object whose fields are JSON data, which
  parsing gives back unchanged), or any other text, which \<open>JSON.parse\<close> rejects.
\<close>

datatype 'v js_text = Txt string | Stringified 'v

fun json_parse :: "'v js_text \<Rightarrow> 'v option" where
  "json_parse (Stringified v) = Some v"
| "json_parse (Txt s) = None"

text \<open>Truthiness of a string: only the empty string is falsy.\<close>

fun text_truthy :: "'v js_text \<Rightarrow> bool" where
  "text_truthy (Txt s) = (s \<noteq> [])"
| "text_truthy (Stringified v) = True"

definition str_truthy :: "string option \<Rightarrow> bool" where
  "str_truthy s = (case s of None \<Rightarrow> False | Some t \<Rightarrow> t \<noteq> [])"

lemma str_truthy_simps [simp]:
  "\<not> str_truthy None"
  "str_truthy (Some t) \<longleftrightarrow> t \<noteq> []"
  by (simp_all add: str_truthy_def)

subsection \<open>Exceptions\<close>

text \<open>
  The classes of \<open>packages/errors\<close> by name, and the record of their fields. Every other
  value the code can throw is kept apart by what the error handlers test: the Prisma and Zod
  errors, another \<open>Error\<close> with its \<open>name\<close>, and a thrown value that is no \<open>Error\<close>.
\<close>

record app_error =
  errName :: string
  statusCode :: int
  errMessage :: string
  isOperational :: bool
  errField :: "string option"

text \<open>A segment of a Zod issue path: an object key or an array index.\<close>

datatype path_seg = PKey string | PIdx nat

record zod_issue =
  issuePath :: "path_seg list"
  issueMessage :: string
  issueCode :: string

record prisma_meta =
  metaTarget :: "string list option"
  metaCause :: "string option"
  metaFieldName :: "string option"
  metaConstraint :: "string option"
  metaColumnName :: "string option"

datatype js_error =
    AppErr app_error
  | ZodErr "zod_issue list" string
  | PrismaKnown string prisma_meta string
  | PrismaValidation string
  | PrismaInit string string
  | OtherError string string
  | NonError

text \<open>
  \<open>err.name\<close> and \<open>err.message\<close>; for a thrown string or number both are \<open>undefined\<close>, whose
  text stands for it (no test of the code compares with that text).
\<close>

fun js_error_name :: "js_error \<Rightarrow> string" where
  "js_error_name (AppErr e) = errName e"
| "js_error_name (ZodErr is msg) = ''ZodError''"
| "js_error_name (PrismaKnown c m msg) = ''PrismaClientKnownRequestError''"
| "js_error_name (PrismaValidation msg) = ''PrismaClientValidationError''"
| "js_error_name (PrismaInit c msg) = ''PrismaClientInitializationError''"
| "js_error_name (OtherError n msg) = n"
| "js_error_name NonError = ''undefined''"

fun js_error_message :: "js_error \<Rightarrow> string" where
  "js_error_message (AppErr e) = errMessage e"
| "js_error_message (ZodErr is msg) = msg"
| "js_error_message (PrismaKnown c m msg) = msg"
| "js_error_message (PrismaValidation msg) = msg"
| "js_error_message (PrismaInit c msg) = msg"
| "js_error_message (OtherError n msg) = msg"
| "js_error_message NonError = ''undefined''"

subsection \<open>Sequencing handlers that may throw\<close>

type_synonym ('a, 's) res = "(js_error + 'a) \<times> 's"

text \<open>\<open>on_ok r k\<close> is \<open>const x = await \<dots>; k(x)\<close>: an exception skips the rest.\<close>

fun on_ok :: "('e + 'a) \<times> 's \<Rightarrow> ('a \<Rightarrow> 's \<Rightarrow> ('e + 'b) \<times> 's) \<Rightarrow> ('e + 'b) \<times> 's" where
  "on_ok (Inl e, s) k = (Inl e, s)"
| "on_ok (Inr x, s) k = k x s"

text \<open>\<open>on_err r h\<close> is \<open>try { \<dots> } catch (e) { h(e) }\<close>.\<close>

fun on_err :: "('e + 'a) \<times> 's \<Rightarrow> ('e \<Rightarrow> 's \<Rightarrow> ('e + 'a) \<times> 's) \<Rightarrow> ('e + 'a) \<times> 's" where
  "on_err (Inl e, s) h = h e s"
| "on_err (Inr x, s) h = (Inr x, s)"

lemma on_ok_split:
  "P (on_ok r k) \<longleftrightarrow>
     (\<forall>e s. r = (Inl e, s) \<longrightarrow> P (Inl e, s)) \<and> (\<forall>x s. r = (Inr x, s) \<longrightarrow> P (k x s))"
  by (cases "(r, k)" rule: on_ok.cases) auto

lemma on_err_split:
  "P (on_err r h) \<longleftrightarrow>
     (\<forall>e s. r = (Inl e, s) \<longrightarrow> P (h e s)) \<and> (\<forall>x s. r = (Inr x, s) \<longrightarrow> P (Inr x, s))"
  by (cases "(r, h)" rule: on_err.cases) auto

lemma on_ok_Inr_iff:
  "on_ok r k = (Inr y, t) \<longleftrightarrow> (\<exists>x s. r = (Inr x, s) \<and> k x s = (Inr y, t))"
  by (cases "(r, k)" rule: on_ok.cases) auto

lemma on_ok_assoc: "on_ok (on_ok r f) g = on_ok r (\<lambda>x s. on_ok (f x s) g)"
  by (cases "(r, f)" rule: on_ok.cases) auto

lemma snd_on_ok:
  assumes "P (snd r)" "\<And>x s. r = (Inr x, s) \<Longrightarrow> P s \<Longrightarrow> P (snd (k x s))"
  shows "P (snd (on_ok r k))"
  using assms by (cases "(r, k)" rule: on_ok.cases) auto

fun is_ok :: "'e + 'a \<Rightarrow> bool" where
  "is_ok (Inl e) = False"
| "is_ok (Inr x) = True"

lemma is_ok_iff: "is_ok r \<longleftrightarrow> (\<exists>x. r = Inr x)"
  by (cases r) auto

subsection \<open>Decimal text of numbers\<close>

definition digit_char :: "nat \<Rightarrow> char" where
  "digit_char d = char_of (48 + d)"

definition char_digit :: "char \<Rightarrow> nat option" where
  "char_digit c = (let n = of_char c :: nat in if 48 \<le> n \<and> n \<le> 57 then Some (n - 48) else None)"

lemma char_digit_digit_char: "d < 10 \<Longrightarrow> char_digit (digit_char d) = Some d"
  by (simp add: char_digit_def digit_char_def Let_def of_char_of)

text \<open>\<open>n.toString()\<close>\<close>

fun show_nat :: "nat \<Rightarrow> string" where
  "show_nat n = (if n < 10 then [digit_char n] else show_nat (n div 10) @ [digit_char (n mod 10)])"

declare show_nat.simps [simp del]

text \<open>
  \<open>parseInt\<close> / \<open>Number\<close> on the texts the services write: the value of a non-empty digit
  string, \<open>None\<close> for \<open>NaN\<close>.
\<close>

fun parse_digits :: "nat \<Rightarrow> string \<Rightarrow> nat option" where
  "parse_digits acc [] = Some acc"
| "parse_digits acc (c # cs) =
     (case char_digit c of None \<Rightarrow> None | Some d \<Rightarrow> parse_digits (10 * acc + d) cs)"

definition parse_nat :: "string \<Rightarrow> nat option" where
  "parse_nat s = (if s = [] then None else parse_digits 0 s)"

lemma parse_digits_append:
  "parse_digits acc (xs @ ys) =
     (case parse_digits acc xs of None \<Rightarrow> None | Some a \<Rightarrow> parse_digits a ys)"
  by (induction xs arbitrary: acc) (auto split: option.splits)

lemma show_nat_nonempty [simp]: "show_nat n \<noteq> []"
  by (subst show_nat.simps) simp

lemma parse_digits_show_nat: "parse_digits 0 (show_nat n) = Some n"
proof (induction n rule: less_induct)
  case (less n)
  show ?case
  proof (cases "n < 10")
    case True
    then show ?thesis by (subst show_nat.simps) (simp add: char_digit_digit_char)
  next
    case False
    then have "parse_digits 0 (show_nat (n div 10)) = Some (n div 10)"
      by (intro less.IH) simp
    with False show ?thesis
      by (subst show_nat.simps) (simp add: parse_digits_append char_digit_digit_char)
  qed
qed

lemma parse_show_nat [simp]: "parse_nat (show_nat n) = Some n"
  by (simp add: parse_nat_def parse_digits_show_nat)

lemma show_nat_inj: "show_nat m = show_nat n \<Longrightarrow> m = n"
  by (metis parse_show_nat option.inject)

definition show_int :: "int \<Rightarrow> string" where
  "show_int i = (if i < 0 then ''-'' @ show_nat (nat (- i)) else show_nat (nat i))"

text \<open>\<open>toLowerCase()\<close> and \<open>trim()\<close> on ASCII text.\<close>

definition lower_char :: "char \<Rightarrow> char" where
  "lower_char c = (let n = of_char c :: nat in if 65 \<le> n \<and> n \<le> 90 then char_of (n + 32) else c)"

definition str_lower :: "string \<Rightarrow> string" where
  "str_lower s = List.map lower_char s"

definition white_char :: "char \<Rightarrow> bool" where
  "white_char c \<longleftrightarrow> (let n = of_char c :: nat in n = 32 \<or> (9 \<le> n \<and> n \<le> 13))"

definition str_trim :: "string \<Rightarrow> string" where
  "str_trim s = rev (dropWhile white_char (rev (dropWhile white_char s)))"

subsection \<open>Lists\<close>

text \<open>\<open>xs.slice(0, n)\<close> for a non-negative \<open>n\<close>, and substring search (\<open>String.includes\<close>).\<close>

fun is_prefix_of :: "'a list \<Rightarrow> 'a list \<Rightarrow> bool" where
  "is_prefix_of [] ys = True"
| "is_prefix_of (x # xs) [] = False"
| "is_prefix_of (x # xs) (y # ys) = (x = y \<and> is_prefix_of xs ys)"

fun str_includes :: "'a list \<Rightarrow> 'a list \<Rightarrow> bool" where
  "str_includes [] p = is_prefix_of p []"
| "str_includes (x # xs) p = (is_prefix_of p (x # xs) \<or> str_includes xs p)"

lemma is_prefix_of_append [simp]: "is_prefix_of p (p @ ys)"
  by (induction p) auto

lemma str_includes_append: "str_includes (xs @ p @ ys) p"
proof (induction xs)
  case Nil
  then show ?case by (cases "p @ ys") (auto, metis is_prefix_of_append)
next
  case (Cons x xs)
  then show ?case by simp
qed

text \<open>The list equation that lets a fact about one row of a table lift to the table.\<close>

definition update_where :: "('a \<Rightarrow> bool) \<Rightarrow> ('a \<Rightarrow> 'a) \<Rightarrow> 'a list \<Rightarrow> 'a list" where
  "update_where p f = map (\<lambda>x. if p x then f x else x)"

lemma length_update_where [simp]: "length (update_where p f xs) = length xs"
  by (simp add: update_where_def)

lemma set_update_where:
  "set (update_where p f xs) = f ` {x \<in> set xs. p x} \<union> {x \<in> set xs. \<not> p x}"
  by (auto simp: update_where_def)

lemma map_update_where_same:
  "(\<And>x. p x \<Longrightarrow> g (f x) = g x) \<Longrightarrow> map g (update_where p f xs) = map g xs"
  by (auto simp: update_where_def)

lemma list_all_update_where:
  "\<lbrakk>list_all P xs; \<And>x. x \<in> set xs \<Longrightarrow> P x \<Longrightarrow> p x \<Longrightarrow> P (f x)\<rbrakk> \<Longrightarrow> list_all P (update_where p f xs)"
  by (auto simp: update_where_def list_all_iff)

text \<open>Row lookups: \<open>find\<close> over updates and inserts.\<close>

lemma find_update_where:
  assumes "\<And>c. p c \<Longrightarrow> q c \<Longrightarrow> p (f c)" "\<And>c. \<not> p c \<Longrightarrow> q c \<Longrightarrow> \<not> p (f c)"
  shows "find p (update_where q f xs) = map_option (\<lambda>c. if q c then f c else c) (find p xs)"
  using assms by (induction xs) (auto simp: update_where_def)

lemma find_Some_set: "find p xs = Some x \<Longrightarrow> x \<in> set xs \<and> p x"
  by (auto simp: find_Some_iff)

lemma find_update_same:
  assumes "find p xs = Some x" "q x" "\<And>y. p (f y) = p y"
  shows "find p (update_where q f xs) = Some (f x)"
  using assms by (induction xs) (auto simp: update_where_def split: if_splits)

lemma find_snoc: "find p xs = None \<Longrightarrow> p x \<Longrightarrow> find p (xs @ [x]) = Some x"
  by (induction xs) (auto split: if_splits)

end
