(* ===== verification/Errors.thy ===== *)
theory Errors
  imports Nexus_Prelude
begin

text \<open>
  \<open>packages/errors/src/index.ts\<close> (the application error classes) and the error types of
  \<open>packages/shared-types\<close>. Each constructor below is the class of the same name: the status
  code, the \<open>isOperational\<close> flag and the default message its constructor passes on.
\<close>

text \<open>
  \<open>new AppError(statusCode, message, isOperational, field)\<close>; its subclasses then set
  \<open>this.name\<close>. The \<open>timestamp\<close> and the stack trace are not kept.
\<close>

definition AppError :: "string \<Rightarrow> int \<Rightarrow> string \<Rightarrow> bool \<Rightarrow> string option \<Rightarrow> app_error" where
  "AppError n code msg op f =
     \<lparr>errName = n, statusCode = code, errMessage = msg, isOperational = op, errField = f\<rparr>"

definition BadRequestError :: "string \<Rightarrow> string option \<Rightarrow> app_error" where
  "BadRequestError msg f = AppError ''BadRequestError'' 400 msg True f"

definition UnauthorizedError :: "string \<Rightarrow> string option \<Rightarrow> app_error" where
  "UnauthorizedError msg f = AppError ''UnauthorizedError'' 401 msg True f"

definition ForbiddenError :: "string \<Rightarrow> string option \<Rightarrow> app_error" where
  "ForbiddenError msg f = AppError ''ForbiddenError'' 403 msg True f"

definition NotFoundError :: "string \<Rightarrow> string option \<Rightarrow> app_error" where
  "NotFoundError msg f = AppError ''NotFoundError'' 404 msg True f"

definition ConflictError :: "string \<Rightarrow> string option \<Rightarrow> app_error" where
  "ConflictError msg f = AppError ''ConflictError'' 409 msg True f"

definition ValidationError :: "string \<Rightarrow> string option \<Rightarrow> app_error" where
  "ValidationError msg f = AppError ''ValidationError'' 422 msg True f"

definition CircuitBreakerError :: "string \<Rightarrow> app_error" where
  "CircuitBreakerError msg = AppError ''CircuitBreakerError'' 500 msg False None"

definition InternalServerError :: "string \<Rightarrow> string option \<Rightarrow> app_error" where
  "InternalServerError msg f = AppError ''InternalServerError'' 500 msg False f"

definition ServiceUnavailableError :: "string \<Rightarrow> string option \<Rightarrow> app_error" where
  "ServiceUnavailableError msg f = AppError ''ServiceUnavailableError'' 503 msg True f"

definition TooManyRequestsError :: "string \<Rightarrow> string option \<Rightarrow> app_error" where
  "TooManyRequestsError msg f = AppError ''TooManyRequestsError'' 429 msg True f"

definition GatewayTimeoutError :: "string \<Rightarrow> string option \<Rightarrow> app_error" where
  "GatewayTimeoutError msg f = AppError ''GatewayTimeoutError'' 504 msg True f"

lemmas app_error_defs [nexus_defs] =
  AppError_def BadRequestError_def UnauthorizedError_def ForbiddenError_def NotFoundError_def
  ConflictError_def ValidationError_def CircuitBreakerError_def InternalServerError_def
  ServiceUnavailableError_def TooManyRequestsError_def GatewayTimeoutError_def

text \<open>The exceptions as thrown, with the \<open>field\<close> argument left out.\<close>

abbreviation "bad_request msg \<equiv> AppErr (BadRequestError msg None)"
abbreviation "unauthorized msg \<equiv> AppErr (UnauthorizedError msg None)"
abbreviation "forbidden msg \<equiv> AppErr (ForbiddenError msg None)"
abbreviation "not_found msg \<equiv> AppErr (NotFoundError msg None)"
abbreviation "conflict msg \<equiv> AppErr (ConflictError msg None)"
abbreviation "internal_error msg \<equiv> AppErr (InternalServerError msg None)"
abbreviation "unavailable msg \<equiv> AppErr (ServiceUnavailableError msg None)"
abbreviation "too_many msg \<equiv> AppErr (TooManyRequestsError msg None)"

lemma errMessage_simps [simp]:
  "errMessage (BadRequestError m f) = m" "errMessage (UnauthorizedError m f) = m"
  "errMessage (ForbiddenError m f) = m" "errMessage (NotFoundError m f) = m"
  "errMessage (ConflictError m f) = m" "errMessage (ValidationError m f) = m"
  "errMessage (CircuitBreakerError m) = m" "errMessage (InternalServerError m f) = m"
  "errMessage (ServiceUnavailableError m f) = m" "errMessage (TooManyRequestsError m f) = m"
  "errMessage (GatewayTimeoutError m f) = m"
  by (simp_all add: app_error_defs)

lemma statusCode_simps [simp]:
  "statusCode (BadRequestError m f) = 400" "statusCode (UnauthorizedError m f) = 401"
  "statusCode (ForbiddenError m f) = 403" "statusCode (NotFoundError m f) = 404"
  "statusCode (ConflictError m f) = 409" "statusCode (ValidationError m f) = 422"
  "statusCode (CircuitBreakerError m) = 500" "statusCode (InternalServerError m f) = 500"
  "statusCode (ServiceUnavailableError m f) = 503" "statusCode (TooManyRequestsError m f) = 429"
  "statusCode (GatewayTimeoutError m f) = 504"
  by (simp_all add: app_error_defs)

text \<open>\<open>err instanceof <Class>\<close> for the classes the code tests: the name each constructor sets.\<close>

definition is_app_error :: "string \<Rightarrow> js_error \<Rightarrow> bool" where
  "is_app_error n e = (case e of AppErr a \<Rightarrow> errName a = n | _ \<Rightarrow> False)"

lemma is_app_error_AppErr [simp]: "is_app_error n (AppErr a) \<longleftrightarrow> errName a = n"
  by (simp add: is_app_error_def)

lemma errName_simps [simp]:
  "errName (BadRequestError m f) = ''BadRequestError''"
  "errName (UnauthorizedError m f) = ''UnauthorizedError''"
  "errName (ForbiddenError m f) = ''ForbiddenError''"
  "errName (NotFoundError m f) = ''NotFoundError''"
  "errName (ConflictError m f) = ''ConflictError''"
  "errName (ValidationError m f) = ''ValidationError''"
  "errName (CircuitBreakerError m) = ''CircuitBreakerError''"
  "errName (InternalServerError m f) = ''InternalServerError''"
  "errName (ServiceUnavailableError m f) = ''ServiceUnavailableError''"
  "errName (TooManyRequestsError m f) = ''TooManyRequestsError''"
  "errName (GatewayTimeoutError m f) = ''GatewayTimeoutError''"
  by (simp_all add: app_error_defs)

subsection \<open>Error responses\<close>

text \<open>\<open>TErrorSource\<close>, \<open>TSimplifiedError\<close> and \<open>TErrorResponse\<close>; an absent field is \<open>None\<close>.\<close>

record error_source =
  srcField :: "path_seg option"
  srcMessage :: string
  srcCode :: "string option"

record simplified_error =
  sStatus :: int
  sMessage :: string
  sErrorType :: string
  sOperational :: bool
  sSources :: "error_source list"

record error_response =
  respMessage :: string
  respErrorType :: string
  respErrors :: "error_source list"
  respRequestId :: "string option"
  respTimestamp :: "string option"
  respStack :: "string option"

definition source :: "string \<Rightarrow> string \<Rightarrow> error_source" where
  "source f m = \<lparr>srcField = Some (PKey f), srcMessage = m, srcCode = None\<rparr>"

definition coded_source :: "string \<Rightarrow> string \<Rightarrow> string \<Rightarrow> error_source" where
  "coded_source f m c = \<lparr>srcField = Some (PKey f), srcMessage = m, srcCode = Some c\<rparr>"

text \<open>
  \<open>handleZodError\<close>: one source per issue, its field the last segment of the path
  (\<open>undefined\<close> when the path is empty).
\<close>

definition zod_source :: "zod_issue \<Rightarrow> error_source" where
  "zod_source i =
     \<lparr>srcField = (if issuePath i = [] then None else Some (last (issuePath i))),
      srcMessage = issueMessage i, srcCode = Some (issueCode i)\<rparr>"

definition handleZodError :: "zod_issue list \<Rightarrow> simplified_error" where
  "handleZodError issues =
     \<lparr>sStatus = 400, sMessage = ''Validation failed'', sErrorType = ''ValidationError'',
      sOperational = True, sSources = List.map zod_source issues\<rparr>"

subsection \<open>Prisma errors the services meet\<close>

text \<open>A broken unique key (\<open>P2002\<close>) and a write to a row that does not exist (\<open>P2025\<close>).\<close>

definition unique_violation :: "string \<Rightarrow> js_error" where
  "unique_violation f = PrismaKnown ''P2002''
     \<lparr>metaTarget = Some [f], metaCause = None, metaFieldName = None, metaConstraint = None,
      metaColumnName = None\<rparr> ''Unique constraint failed''"

definition record_not_found :: js_error where
  "record_not_found = PrismaKnown ''P2025''
     \<lparr>metaTarget = None, metaCause = None, metaFieldName = None, metaConstraint = None,
      metaColumnName = None\<rparr> ''Record to update not found.''"

end
