(* ===== verification/Error_Handlers.thy ===== *)
theory Error_Handlers
  imports Errors
begin

text \<open>
  The four \<open>middlewares/globalErrorHandler.ts\<close>: the classification of a thrown value and the
  response (with its log entries) that leaves the service. The services auth and user
  classify alike; the gateway and the notification service know only \<open>AppError\<close>.
\<close>

subsection \<open>Classification\<close>

text \<open>The \<open>let\<close> bindings every handler starts from.\<close>

definition default_error :: simplified_error where
  "default_error =
     \<lparr>sStatus = 500, sMessage = ''Internal server error'', sErrorType = ''UnknownError'',
      sOperational = False, sSources = [source ''unknown'' ''An unexpected error occurred'']\<rparr>"

text \<open>\<open>x || d\<close> for a string that may be \<open>undefined\<close> or empty.\<close>

definition or_text :: "string option \<Rightarrow> string \<Rightarrow> string" where
  "or_text x d = (case x of None \<Rightarrow> d | Some s \<Rightarrow> if s = [] then d else s)"

definition first_target :: "prisma_meta \<Rightarrow> string option" where
  "first_target m = (case metaTarget m of Some (t # ts) \<Rightarrow> Some t | _ \<Rightarrow> None)"

definition simplified ::
    "int \<Rightarrow> string \<Rightarrow> string \<Rightarrow> bool \<Rightarrow> error_source list \<Rightarrow> simplified_error" where
  "simplified st m t op ss =
     \<lparr>sStatus = st, sMessage = m, sErrorType = t, sOperational = op, sSources = ss\<rparr>"

definition prisma_known_error :: "string \<Rightarrow> prisma_meta \<Rightarrow> string \<Rightarrow> simplified_error" where
  "prisma_known_error code meta msg =
     (if code = ''P2002'' then
        simplified 409 ''Resource already exists'' ''DuplicateError'' True
          [coded_source (or_text (first_target meta) ''unknown'')
             (or_text (first_target meta) ''Field'' @ '' already exists'') code]
      else if code = ''P2025'' then
        simplified 404 ''Resource not found'' ''NotFoundError'' True
          [coded_source ''id'' (or_text (metaCause meta) ''Record not found'') code]
      else if code = ''P2003'' then
        simplified 400 ''Invalid reference'' ''ForeignKeyError'' True
          [coded_source (or_text (metaFieldName meta) ''reference'')
             ''Referenced record does not exist'' code]
      else if code = ''P2011'' then
        simplified 400 ''Null constraint violation'' ''ValidationError'' True
          [coded_source (or_text (metaConstraint meta) ''unknown'') ''Required field is missing'' code]
      else if code = ''P2006'' then
        simplified 400 ''Invalid data type'' ''ValidationError'' True
          [coded_source (or_text (metaColumnName meta) ''unknown'')
             (''Invalid value provided for '' @ or_text (metaColumnName meta) ''field'') code]
      else if code = ''P1001'' \<or> code = ''P1002'' \<or> code = ''P1008'' then
        simplified 503 ''Database connection failed'' ''DatabaseError'' False
          [coded_source ''database'' ''Unable to connect to database'' code]
      else if code = ''P2024'' then
        simplified 408 ''Request timeout'' ''TimeoutError'' True
          [coded_source ''query'' ''Database operation timed out'' code]
      else
        simplified 400 ''Database operation failed'' ''DatabaseError'' True
          [coded_source ''database'' msg code])"

text \<open>The two branches for an \<open>AppError\<close> and for any other \<open>Error\<close>.\<close>

definition app_error_response :: "app_error \<Rightarrow> simplified_error" where
  "app_error_response e =
     simplified (statusCode e) (errMessage e) (errName e) (isOperational e)
       [source (or_text (errField e) ''application'') (errMessage e)]"

definition generic_error_response :: "string \<Rightarrow> simplified_error" where
  "generic_error_response msg =
     default_error\<lparr>sMessage := msg, sSources := [source ''server'' msg]\<rparr>"

definition mentions_redis :: "js_error \<Rightarrow> bool" where
  "mentions_redis e \<longleftrightarrow> js_error_name e = ''RedisError'' \<or> str_includes (js_error_message e) ''Redis''"

text \<open>
  The chain of the services auth and user: Zod, the three Prisma classes, Redis (tested by
  name or by message, before \<open>AppError\<close>), \<open>AppError\<close>, then the error names of JWT and Multer.
\<close>

definition classify_error :: "js_error \<Rightarrow> simplified_error" where
  "classify_error err =
     (case err of
        ZodErr issues msg \<Rightarrow> handleZodError issues
      | PrismaKnown code meta msg \<Rightarrow> prisma_known_error code meta msg
      | PrismaValidation msg \<Rightarrow>
          simplified 400 ''Invalid query parameters'' ''ValidationError'' True
            [source ''query'' ''Invalid data provided to database query'']
      | PrismaInit code msg \<Rightarrow>
          simplified 503 ''Database initialization failed'' ''DatabaseError'' False
            [coded_source ''database'' ''Failed to initialize database connection'' code]
      | _ \<Rightarrow>
          if mentions_redis err then
            simplified 503 ''Cache service unavailable'' ''CacheError'' True
              [source ''cache'' ''Redis operation failed - operating in degraded mode'']
          else (case err of
              AppErr e \<Rightarrow> app_error_response e
            | OtherError n msg \<Rightarrow>
                if n = ''JsonWebTokenError'' then
                  simplified 401 ''Invalid authentication token'' ''AuthenticationError'' True
                    [source ''token'' ''Token is malformed or invalid'']
                else if n = ''TokenExpiredError'' then
                  simplified 401 ''Authentication token expired'' ''AuthenticationError'' True
                    [source ''token'' ''Token has expired, please login again'']
                else if n = ''MulterError'' then
                  simplified 400 ''File upload failed'' ''FileUploadError'' True [source ''file'' msg]
                else generic_error_response msg
            | _ \<Rightarrow> default_error))"

text \<open>The gateway and the notification service: \<open>AppError\<close>, any other \<open>Error\<close>, anything else.\<close>

definition gateway_classify :: "js_error \<Rightarrow> simplified_error" where
  "gateway_classify err =
     (case err of
        AppErr e \<Rightarrow> app_error_response e
      | NonError \<Rightarrow> default_error
      | _ \<Rightarrow> generic_error_response (js_error_message err))"

definition notification_classify :: "js_error \<Rightarrow> simplified_error" where
  "notification_classify err =
     (case err of
        AppErr e \<Rightarrow> app_error_response e
      | NonError \<Rightarrow> default_error
      | _ \<Rightarrow> generic_error_response (js_error_message err))"

subsection \<open>Log entries and response\<close>

record request_meta =
  rqMethod :: string
  rqPath :: string
  rqIp :: string
  rqForwardedFor :: "string option"
  rqRequestId :: "string option"

datatype log_level = LError | LWarn | LInfo

record error_log =
  lgLevel :: log_level
  lgMessage :: string
  lgStatus :: int
  lgErrorType :: string
  lgOperational :: bool
  lgMethod :: string
  lgPath :: string
  lgIp :: string
  lgRequestId :: "string option"

definition error_log_entry ::
    "log_level \<Rightarrow> string \<Rightarrow> simplified_error \<Rightarrow> string \<Rightarrow> request_meta \<Rightarrow> error_log" where
  "error_log_entry lv m s ip rq =
     \<lparr>lgLevel = lv, lgMessage = m, lgStatus = sStatus s, lgErrorType = sErrorType s,
      lgOperational = sOperational s, lgMethod = rqMethod rq, lgPath = rqPath rq, lgIp = ip,
      lgRequestId = rqRequestId rq\<rparr>"

text \<open>The entries, in order: by status class, then the alarm for a non-operational error.\<close>

definition error_logs ::
    "simplified_error \<Rightarrow> js_error \<Rightarrow> string \<Rightarrow> request_meta \<Rightarrow> error_log list" where
  "error_logs s err ip rq =
     (let m = sMessage s @ '' - '' @ js_error_message err in
      (if sStatus s \<ge> 500 then [error_log_entry LError m s ip rq]
       else if sStatus s \<ge> 400 then [error_log_entry LWarn m s ip rq]
       else []) @
      (if sOperational s then []
       else [error_log_entry LError
               ''Non-operational error occurred - this should be investigated'' s ip rq]))"

definition response_of :: "string \<Rightarrow> string \<Rightarrow> simplified_error \<Rightarrow> error_response" where
  "response_of node_env stk s =
     \<lparr>respMessage = sMessage s, respErrorType = sErrorType s, respErrors = sSources s,
      respRequestId = None, respTimestamp = None,
      respStack = (if node_env = ''development'' then Some stk else None)\<rparr>"

definition hide_details :: "string \<Rightarrow> simplified_error \<Rightarrow> error_response \<Rightarrow> error_response" where
  "hide_details node_env s r =
     (if \<not> sOperational s \<and> node_env = ''production''
      then r\<lparr>respMessage := ''Internal server error'',
             respErrors := [source ''server'' ''An unexpected error occurred''],
             respStack := None\<rparr>
      else r)"

text \<open>
  Each handler takes \<open>config.node_env\<close>, the stack text and the request, and returns the
  status with the body and the log entries. The user service, the gateway and the
  notification service add the request id and a timestamp.
\<close>

definition auth_globalErrorHandler ::
    "string \<Rightarrow> string \<Rightarrow> request_meta \<Rightarrow> js_error \<Rightarrow> (int \<times> error_response) \<times> error_log list" where
  "auth_globalErrorHandler node_env stk rq err =
     (let s = classify_error err in
      ((sStatus s, hide_details node_env s (response_of node_env stk s)),
       error_logs s err (rqIp rq) rq))"

definition stamped :: "request_meta \<Rightarrow> string \<Rightarrow> error_response \<Rightarrow> error_response" where
  "stamped rq ts r = r\<lparr>respRequestId := rqRequestId rq, respTimestamp := Some ts\<rparr>"

definition user_globalErrorHandler ::
    "string \<Rightarrow> string \<Rightarrow> string \<Rightarrow> request_meta \<Rightarrow> js_error \<Rightarrow>
       (int \<times> error_response) \<times> error_log list" where
  "user_globalErrorHandler node_env stk ts rq err =
     (let s = classify_error err in
      ((sStatus s, hide_details node_env s (stamped rq ts (response_of node_env stk s))),
       error_logs s err (or_text (rqForwardedFor rq) (rqIp rq)) rq))"

definition gateway_globalErrorHandler ::
    "string \<Rightarrow> string \<Rightarrow> string \<Rightarrow> request_meta \<Rightarrow> js_error \<Rightarrow>
       (int \<times> error_response) \<times> error_log list" where
  "gateway_globalErrorHandler node_env stk ts rq err =
     (let s = gateway_classify err in
      ((sStatus s, hide_details node_env s (stamped rq ts (response_of node_env stk s))),
       error_logs s err (rqIp rq) rq))"

definition notification_globalErrorHandler ::
    "string \<Rightarrow> string \<Rightarrow> string \<Rightarrow> request_meta \<Rightarrow> js_error \<Rightarrow>
       (int \<times> error_response) \<times> error_log list" where
  "notification_globalErrorHandler node_env stk ts rq err =
     (let s = notification_classify err in
      ((sStatus s, hide_details node_env s (stamped rq ts (response_of node_env stk s))),
       error_logs s err (or_text (rqForwardedFor rq) (rqIp rq)) rq))"

subsection \<open>Lemmas\<close>

lemmas classification_defs =
  default_error_def simplified_def prisma_known_error_def app_error_response_def
  generic_error_response_def classify_error_def gateway_classify_def notification_classify_def
  handleZodError_def

lemma simplified_sel [simp]:
  "sStatus (simplified st m t op ss) = st" "sMessage (simplified st m t op ss) = m"
  "sErrorType (simplified st m t op ss) = t" "sOperational (simplified st m t op ss) = op"
  "sSources (simplified st m t op ss) = ss"
  by (simp_all add: simplified_def)

lemma classify_AppErr:
  "\<not> mentions_redis (AppErr e) \<Longrightarrow> classify_error (AppErr e) = app_error_response e"
  by (simp add: classify_error_def)

lemma app_error_response_sel [simp]:
  "sStatus (app_error_response e) = statusCode e"
  "sMessage (app_error_response e) = errMessage e"
  "sOperational (app_error_response e) = isOperational e"
  by (simp_all add: app_error_response_def)

text \<open>A non-operational classification is one of the server errors.\<close>

lemma prisma_known_nonoperational:
  "\<not> sOperational (prisma_known_error c m msg) \<Longrightarrow> sStatus (prisma_known_error c m msg) = 503"
  by (auto simp: prisma_known_error_def split: if_splits)

lemma hidden_body:
  "\<not> sOperational s \<Longrightarrow>
     hide_details ''production'' s r =
       r\<lparr>respMessage := ''Internal server error'',
         respErrors := [source ''server'' ''An unexpected error occurred''], respStack := None\<rparr>"
  by (simp add: hide_details_def)

lemma hide_details_operational [simp]: "sOperational s \<Longrightarrow> hide_details env s r = r"
  by (simp add: hide_details_def)

lemma default_error_not_operational [simp]:
  "\<not> sOperational default_error" "\<not> sOperational (generic_error_response m)"
  "sStatus default_error = 500" "sStatus (generic_error_response m) = 500"
  by (simp_all add: default_error_def generic_error_response_def)

text \<open>
  What production may reveal: the text of a response body, as a function of the
  classification only through its public parts.
\<close>

definition body_of :: "(int \<times> error_response) \<times> error_log list \<Rightarrow> error_response" where
  "body_of r = snd (fst r)"

definition public_body :: "error_response \<Rightarrow> bool" where
  "public_body r \<longleftrightarrow>
     respMessage r = ''Internal server error'' \<and>
     respErrors r = [source ''server'' ''An unexpected error occurred''] \<and> respStack r = None"

lemma public_body_hidden: "\<not> sOperational s \<Longrightarrow> public_body (hide_details ''production'' s r)"
  by (simp add: hidden_body public_body_def)

lemma no_stack_outside_development:
  "env \<noteq> ''development'' \<Longrightarrow> respStack (hide_details env s (response_of env stk s)) = None"
  by (simp add: hide_details_def response_of_def)

subsection \<open>Routes without a handler\<close>

text \<open>\<open>middlewares/notFound.ts\<close> of the services: the error passed to the error handler.\<close>

definition notFoundHandler :: "string \<Rightarrow> string \<Rightarrow> js_error" where
  "notFoundHandler meth originalUrl =
     not_found (''Route '' @ meth @ '' '' @ originalUrl @ '' not found'')"

lemma notFound_mentions_redis:
  "mentions_redis (notFoundHandler meth (xs @ ''Redis'' @ ys))"
proof -
  have "str_includes ((''Route '' @ meth @ '' '' @ xs) @ ''Redis'' @ (ys @ '' not found'')) ''Redis''"
    by (rule str_includes_append)
  then show ?thesis by (simp add: mentions_redis_def notFoundHandler_def)
qed

subsection \<open>Properties\<close>



text \<open>
  The Redis test of the auth and user handlers stands before the \<open>AppError\<close> test and looks
  at the message text, so an application error whose message contains the word is reported as
  an outage: the 404 for any unknown URL containing \<open>Redis\<close> leaves the service as status 503
  with the type \<open>CacheError\<close>, while the gateway, on the same error, sends 404.
\<close>

theorem redis_in_url_becomes_503:
  "fst (fst (auth_globalErrorHandler env stk rq (notFoundHandler meth (xs @ ''Redis'' @ ys)))) = 503 \<and>
   respErrorType (body_of (auth_globalErrorHandler env stk rq
     (notFoundHandler meth (xs @ ''Redis'' @ ys)))) = ''CacheError'' \<and>
   fst (fst (user_globalErrorHandler env stk ts rq (notFoundHandler meth (xs @ ''Redis'' @ ys)))) = 503 \<and>
   fst (fst (gateway_globalErrorHandler env stk ts rq
     (notFoundHandler meth (xs @ ''Redis'' @ ys)))) = 404"
proof -
  have c: "classify_error (notFoundHandler meth (xs @ ''Redis'' @ ys)) =
      simplified 503 ''Cache service unavailable'' ''CacheError'' True
        [source ''cache'' ''Redis operation failed - operating in degraded mode'']"
    using notFound_mentions_redis[of meth xs ys]
    by (simp add: classify_error_def notFoundHandler_def)
  have g: "sStatus (gateway_classify (notFoundHandler meth u)) = 404" for u
    by (simp add: gateway_classify_def notFoundHandler_def)
  show ?thesis
    using c g
    by (simp add: auth_globalErrorHandler_def user_globalErrorHandler_def
        gateway_globalErrorHandler_def body_of_def Let_def response_of_def)
qed

end
