(* ===== verification/Event_Contracts.thy ===== *)
theory Event_Contracts
  imports Nexus_Prelude
begin

text \<open>
  \<open>packages/event-contracts\<close>: Kafka topics, event type names and the Zod schemas of the
  domain events. A schema is the predicate \<open>safeParse(v).success\<close> on a property that may be
  absent (\<open>None\<close>). The format checks of Zod (UUID, email address, ISO date) are a parameter.
\<close>

subsection \<open>Schemas\<close>

record zod_formats =
  isUuid :: "string \<Rightarrow> bool"
  isEmail :: "string \<Rightarrow> bool"
  isDatetime :: "string \<Rightarrow> bool"

type_synonym schema = "json option \<Rightarrow> bool"

definition z_format :: "(string \<Rightarrow> bool) \<Rightarrow> schema" where
  "z_format p v = (case v of Some (JStr s) \<Rightarrow> p s | _ \<Rightarrow> False)"

definition z_string :: schema where
  "z_string = z_format (\<lambda>s. True)"

definition z_enum :: "string list \<Rightarrow> schema" where
  "z_enum xs = z_format (\<lambda>s. s \<in> set xs)"

definition z_literal :: "string \<Rightarrow> schema" where
  "z_literal x = z_enum [x]"

definition z_nullable :: "schema \<Rightarrow> schema" where
  "z_nullable p v \<longleftrightarrow> v = Some JNull \<or> p v"

definition z_optional :: "schema \<Rightarrow> schema" where
  "z_optional p v \<longleftrightarrow> v = None \<or> p v"

definition z_unknown :: schema where
  "z_unknown v = True"

text \<open>\<open>z.object\<close> accepts plain objects; keys it does not name are ignored.\<close>

definition z_object :: "(string \<times> schema) list \<Rightarrow> schema" where
  "z_object fs v = (case v of
     Some (JObj kvs) \<Rightarrow> list_all (\<lambda>(k, p). p (map_of kvs k)) fs | _ \<Rightarrow> False)"

lemmas schema_defs [nexus_defs] =
  z_format_def z_string_def z_enum_def z_literal_def z_nullable_def z_optional_def
  z_unknown_def z_object_def

lemma z_object_field:
  "\<lbrakk>z_object fs (Some v); (k, p) \<in> set fs\<rbrakk> \<Longrightarrow> p (jget v k)"
  by (auto simp: z_object_def list_all_iff split: json.splits)

lemma z_literal_iff: "z_literal x v \<longleftrightarrow> v = Some (JStr x)"
  by (auto simp: z_literal_def z_enum_def z_format_def split: option.splits json.splits)

lemma z_string_iff: "z_string v \<longleftrightarrow> (\<exists>s. v = Some (JStr s))"
  by (auto simp: z_string_def z_format_def split: option.splits json.splits)

subsection \<open>Topics and event types\<close>

definition DOMAIN_EVENTS :: string where "DOMAIN_EVENTS = ''domain-events''"
definition DLQ :: string where "DLQ = ''dead-letter-queue''"

definition EMAIL_VERIFICATION_OTP_SENT :: string where
  "EMAIL_VERIFICATION_OTP_SENT = ''email.verification.otp.sent''"
definition PASSWORD_RESET_REQUESTED :: string where
  "PASSWORD_RESET_REQUESTED = ''password.reset.requested''"
definition SELLER_PROFILE_REQUESTED :: string where
  "SELLER_PROFILE_REQUESTED = ''seller.profile.requested''"
definition CUSTOMER_PROFILE_REQUESTED :: string where
  "CUSTOMER_PROFILE_REQUESTED = ''customer.profile.requested''"
definition ADMIN_INVITE_CREATED :: string where
  "ADMIN_INVITE_CREATED = ''admin.invite.created''"
definition ACCOUNT_RESTORE_REQUESTED :: string where
  "ACCOUNT_RESTORE_REQUESTED = ''account.restore.requested''"

definition USER_REGISTERED :: string where "USER_REGISTERED = ''user.registered''"
definition SELLER_PROFILE_ATTACHED :: string where
  "SELLER_PROFILE_ATTACHED = ''user.seller.profile.attached''"
definition USER_DELETED :: string where "USER_DELETED = ''user.deleted''"
definition USER_RESTORED :: string where "USER_RESTORED = ''user.restored''"

definition DEAD_LETTER_EVENT :: string where "DEAD_LETTER_EVENT = ''dead_letter.event''"

lemmas event_type_defs [nexus_defs] =
  EMAIL_VERIFICATION_OTP_SENT_def PASSWORD_RESET_REQUESTED_def SELLER_PROFILE_REQUESTED_def
  CUSTOMER_PROFILE_REQUESTED_def ADMIN_INVITE_CREATED_def ACCOUNT_RESTORE_REQUESTED_def
  USER_REGISTERED_def SELLER_PROFILE_ATTACHED_def USER_DELETED_def USER_RESTORED_def
  DEAD_LETTER_EVENT_def

definition AuthDomainEventTypes :: "string list" where
  "AuthDomainEventTypes =
     [EMAIL_VERIFICATION_OTP_SENT, PASSWORD_RESET_REQUESTED, SELLER_PROFILE_REQUESTED,
      CUSTOMER_PROFILE_REQUESTED, ADMIN_INVITE_CREATED, ACCOUNT_RESTORE_REQUESTED]"

definition UserDomainEventTypes :: "string list" where
  "UserDomainEventTypes =
     [USER_REGISTERED, SELLER_PROFILE_ATTACHED, USER_DELETED, USER_RESTORED]"

subsection \<open>The envelope and the event schemas\<close>

definition DomainEventEnvelopeSchema :: "zod_formats \<Rightarrow> schema" where
  "DomainEventEnvelopeSchema fm = z_object
     [(''eventType'', z_string), (''aggregateId'', z_format (isUuid fm)), (''payload'', z_unknown)]"

definition event_schema :: "zod_formats \<Rightarrow> string \<Rightarrow> (string \<times> schema) list \<Rightarrow> schema" where
  "event_schema fm ty payload = z_object
     [(''eventType'', z_literal ty), (''aggregateId'', z_format (isUuid fm)),
      (''payload'', z_object payload)]"

definition EmailVerificationOtpEventSchema :: "zod_formats \<Rightarrow> schema" where
  "EmailVerificationOtpEventSchema fm = event_schema fm EMAIL_VERIFICATION_OTP_SENT
     [(''email'', z_string), (''otp'', z_string)]"

definition PasswordResetRequestedEventSchema :: "zod_formats \<Rightarrow> schema" where
  "PasswordResetRequestedEventSchema fm = event_schema fm PASSWORD_RESET_REQUESTED
     [(''email'', z_string), (''resetUiLink'', z_string)]"

definition SellerProfileRequestedEventSchema :: "zod_formats \<Rightarrow> schema" where
  "SellerProfileRequestedEventSchema fm = event_schema fm SELLER_PROFILE_REQUESTED
     [(''userId'', z_string), (''requestedRole'', z_literal ''SELLER'')]"

definition CustomerProfileRequestedEventSchema :: "zod_formats \<Rightarrow> schema" where
  "CustomerProfileRequestedEventSchema fm = event_schema fm CUSTOMER_PROFILE_REQUESTED
     [(''userId'', z_string), (''requestedRole'', z_literal ''CUSTOMER'')]"

definition AdminInviteCreatedEventSchema :: "zod_formats \<Rightarrow> schema" where
  "AdminInviteCreatedEventSchema fm = event_schema fm ADMIN_INVITE_CREATED
     [(''email'', z_string), (''inviteLink'', z_string), (''expiresAt'', z_format (isDatetime fm))]"

definition AccountRestoreRequestedEventSchema :: "zod_formats \<Rightarrow> schema" where
  "AccountRestoreRequestedEventSchema fm = event_schema fm ACCOUNT_RESTORE_REQUESTED
     [(''email'', z_string), (''otp'', z_string)]"

definition UserRegisteredEventSchema :: "zod_formats \<Rightarrow> schema" where
  "UserRegisteredEventSchema fm = event_schema fm USER_REGISTERED
     [(''userId'', z_format (isUuid fm)), (''email'', z_format (isEmail fm)), (''role'', z_string),
      (''firstName'', z_string), (''lastName'', z_string),
      (''createdAt'', z_format (isDatetime fm))]"

definition SellerProfileAttachedEventSchema :: "zod_formats \<Rightarrow> schema" where
  "SellerProfileAttachedEventSchema fm = event_schema fm SELLER_PROFILE_ATTACHED
     [(''userId'', z_format (isUuid fm)), (''email'', z_format (isEmail fm))]"

definition UserDeletedEventSchema :: "zod_formats \<Rightarrow> schema" where
  "UserDeletedEventSchema fm = event_schema fm USER_DELETED
     [(''userId'', z_format (isUuid fm)), (''email'', z_format (isEmail fm)),
      (''deletedAt'', z_format (isDatetime fm)), (''deletedBy'', z_enum [''SELF'', ''ADMIN''])]"

definition UserRestoredEventSchema :: "zod_formats \<Rightarrow> schema" where
  "UserRestoredEventSchema fm = event_schema fm USER_RESTORED
     [(''userId'', z_format (isUuid fm)), (''email'', z_format (isEmail fm))]"

definition AuthDomainEventSchema :: "zod_formats \<Rightarrow> schema" where
  "AuthDomainEventSchema fm v \<longleftrightarrow>
     EmailVerificationOtpEventSchema fm v \<or> PasswordResetRequestedEventSchema fm v \<or>
     SellerProfileRequestedEventSchema fm v \<or> CustomerProfileRequestedEventSchema fm v \<or>
     AdminInviteCreatedEventSchema fm v \<or> AccountRestoreRequestedEventSchema fm v"

definition UserDomainEventSchema :: "zod_formats \<Rightarrow> schema" where
  "UserDomainEventSchema fm v \<longleftrightarrow>
     UserRegisteredEventSchema fm v \<or> SellerProfileAttachedEventSchema fm v \<or>
     UserDeletedEventSchema fm v \<or> UserRestoredEventSchema fm v"

definition DeadLetterEventSchema :: schema where
  "DeadLetterEventSchema = z_object
     [(''eventType'', z_literal DEAD_LETTER_EVENT),
      (''aggregateId'', z_string),
      (''payload'', z_object
         [(''sourceService'', z_string), (''originalEventId'', z_string),
          (''originalEventType'', z_nullable z_string),
          (''failureStage'', z_enum [''publish'', ''consume'']),
          (''error'', z_string), (''rawPayload'', z_optional z_string), (''failedAt'', z_string)]),
      (''traceparent'', z_optional z_string),
      (''correlationId'', z_optional z_string)]"

text \<open>The body \<open>{ eventType, aggregateId, payload }\<close> that the contracts describe.\<close>

definition envelope :: "string \<Rightarrow> string \<Rightarrow> json \<Rightarrow> json" where
  "envelope ty agg payload =
     JObj [(''eventType'', JStr ty), (''aggregateId'', JStr agg), (''payload'', payload)]"

lemma event_schema_eventType:
  "event_schema fm ty ps (Some v) \<Longrightarrow> jget v ''eventType'' = Some (JStr ty)"
  by (auto simp: event_schema_def z_literal_iff dest: z_object_field)

lemmas all_event_schemas =
  EmailVerificationOtpEventSchema_def PasswordResetRequestedEventSchema_def
  SellerProfileRequestedEventSchema_def CustomerProfileRequestedEventSchema_def
  AdminInviteCreatedEventSchema_def AccountRestoreRequestedEventSchema_def
  UserRegisteredEventSchema_def SellerProfileAttachedEventSchema_def
  UserDeletedEventSchema_def UserRestoredEventSchema_def

text \<open>Every schema of the contracts asks for an \<open>eventType\<close> that is a string.\<close>

lemma auth_event_has_type:
  "AuthDomainEventSchema fm (Some v) \<Longrightarrow> \<exists>ty \<in> set AuthDomainEventTypes. jget v ''eventType'' = Some (JStr ty)"
  unfolding AuthDomainEventSchema_def AuthDomainEventTypes_def all_event_schemas
  by (auto dest: event_schema_eventType)

lemma user_event_has_type:
  "UserDomainEventSchema fm (Some v) \<Longrightarrow> \<exists>ty \<in> set UserDomainEventTypes. jget v ''eventType'' = Some (JStr ty)"
  unfolding UserDomainEventSchema_def UserDomainEventTypes_def all_event_schemas
  by (auto dest: event_schema_eventType)

lemma envelope_has_type:
  "DomainEventEnvelopeSchema fm (Some v) \<Longrightarrow> \<exists>ty. jget v ''eventType'' = Some (JStr ty)"
  unfolding DomainEventEnvelopeSchema_def
  by (drule z_object_field[of _ _ "''eventType''" z_string]) (auto simp: z_string_iff)

end
