(* ===== verification/Event_Bus.thy ===== *)
theory Event_Bus
  imports Errors Event_Contracts
begin

text \<open>
  \<open>packages/kafka/src/eventBus.ts\<close>: the shared publish/subscribe object of a service. The
  broker is the list of the messages it accepted; the outcome of each call on the kafkajs
  producer or consumer is an argument, which includes the send whose message was stored and
  whose acknowledgement was lost.
\<close>

record kafka_message =
  kmTopic :: string
  kmKey :: string
  kmValue :: "json js_text"
  kmTraceparent :: "string option"

record publish_options =
  poTopic :: string
  poKey :: string
  poValue :: json
  poTraceparent :: "string option"

datatype send_outcome = SendOk | SendLost string | SendAckLost string

record event_bus =
  isProducerConnected :: bool
  busConsumers :: "nat list"
  busNextConsumer :: nat
  busBroker :: "kafka_message list"

definition createEventBus :: event_bus where
  "createEventBus =
     \<lparr>isProducerConnected = False, busConsumers = [], busNextConsumer = 0, busBroker = []\<rparr>"

text \<open>The rejection of a kafkajs promise with a given message.\<close>

definition kafka_error :: "string \<Rightarrow> js_error" where
  "kafka_error m = OtherError ''KafkaJSError'' m"

definition bus_connect :: "string option \<Rightarrow> event_bus \<Rightarrow> (unit, event_bus) res" where
  "bus_connect conn b =
     (if isProducerConnected b then (Inr (), b)
      else case conn of
          Some m \<Rightarrow> (Inl (kafka_error m), b)
        | None \<Rightarrow> (Inr (), b\<lparr>isProducerConnected := True\<rparr>))"

text \<open>The record sent: the value stringified, the trace header only when it is truthy.\<close>

definition message_of :: "publish_options \<Rightarrow> kafka_message" where
  "message_of po = \<lparr>kmTopic = poTopic po, kmKey = poKey po, kmValue = Stringified (poValue po),
     kmTraceparent = (if str_truthy (poTraceparent po) then poTraceparent po else None)\<rparr>"

definition producer_send ::
    "send_outcome \<Rightarrow> kafka_message \<Rightarrow> event_bus \<Rightarrow> (unit, event_bus) res" where
  "producer_send out m b = (case out of
       SendOk \<Rightarrow> (Inr (), b\<lparr>busBroker := busBroker b @ [m]\<rparr>)
     | SendLost e \<Rightarrow> (Inl (kafka_error e), b)
     | SendAckLost e \<Rightarrow> (Inl (kafka_error e), b\<lparr>busBroker := busBroker b @ [m]\<rparr>))"

definition bus_publish ::
    "string option \<Rightarrow> send_outcome \<Rightarrow> publish_options \<Rightarrow> event_bus \<Rightarrow> (unit, event_bus) res" where
  "bus_publish conn out po b =
     on_ok (bus_connect conn b) (\<lambda>_ b. producer_send out (message_of po) b)"

subsection \<open>Headers\<close>

text \<open>kafkajs header values: text, bytes (with their text), or lists of these.\<close>

datatype header_elem = HText string | HBytes string
datatype header_value = HUndefined | HNull | HOne header_elem | HMany "header_elem list"

fun header_text :: "header_elem \<Rightarrow> string" where
  "header_text (HText s) = s"
| "header_text (HBytes s) = s"

fun first_header :: "header_value \<Rightarrow> string option" where
  "first_header (HOne h) = Some (header_text h)"
| "first_header (HMany (h # hs)) = Some (header_text h)"
| "first_header _ = None"

fun decode_entries :: "(string \<times> header_value) list \<Rightarrow> (string \<rightharpoonup> string) \<Rightarrow> (string \<rightharpoonup> string)" where
  "decode_entries [] d = d"
| "decode_entries ((k, v) # hs) d =
     decode_entries hs (case first_header v of None \<Rightarrow> d | Some s \<Rightarrow> d(k \<mapsto> s))"

definition decodeHeaders :: "(string \<times> header_value) list option \<Rightarrow> (string \<rightharpoonup> string)" where
  "decodeHeaders hs = (case hs of None \<Rightarrow> Map.empty | Some h \<Rightarrow> decode_entries h Map.empty)"

definition parseJsonMessage :: "json js_text option \<Rightarrow> json option" where
  "parseJsonMessage raw = json_parse (case raw of None \<Rightarrow> Stringified (JObj []) | Some t \<Rightarrow> t)"

subsection \<open>Consumers\<close>

record consumer_outcome =
  coConnect :: "string option"
  coSubscribe :: "string option"
  coRun :: "string option"

text \<open>
  \<open>subscribe\<close>: the consumer is registered before it connects, so one whose \<open>connect\<close>,
  \<open>subscribe\<close> or \<open>run\<close> failed stays in the set until \<open>disconnect\<close>. The number returned names the consumer
  that the returned unsubscribe function closes.
\<close>

definition bus_subscribe :: "consumer_outcome \<Rightarrow> event_bus \<Rightarrow> (nat, event_bus) res" where
  "bus_subscribe co b =
     (let c = busNextConsumer b;
          b' = b\<lparr>busConsumers := busConsumers b @ [c], busNextConsumer := c + 1\<rparr>
      in case coConnect co of
           Some m \<Rightarrow> (Inl (kafka_error m), b')
         | None \<Rightarrow> (case coSubscribe co of
             Some m \<Rightarrow> (Inl (kafka_error m), b')
           | None \<Rightarrow> (case coRun co of
               Some m \<Rightarrow> (Inl (kafka_error m), b')
             | None \<Rightarrow> (Inr c, b'))))"

definition bus_unsubscribe :: "string option \<Rightarrow> nat \<Rightarrow> event_bus \<Rightarrow> (unit, event_bus) res" where
  "bus_unsubscribe out c b =
     (let b' = b\<lparr>busConsumers := removeAll c (busConsumers b)\<rparr>
      in case out of Some m \<Rightarrow> (Inl (kafka_error m), b') | None \<Rightarrow> (Inr (), b'))"

text \<open>
  \<open>disconnect\<close> with the outcome of the producer; a consumer whose disconnect rejects is only
  logged, and the set is cleared whatever happened.
\<close>

definition bus_disconnect :: "string option \<Rightarrow> event_bus \<Rightarrow> event_bus" where
  "bus_disconnect prodOut b =
     (let b' = b\<lparr>busConsumers := []\<rparr>
      in if isProducerConnected b' \<and> prodOut = None then b'\<lparr>isProducerConnected := False\<rparr> else b')"

subsection \<open>Lemmas\<close>

lemmas bus_defs [nexus_defs] =
  createEventBus_def kafka_error_def bus_connect_def message_of_def producer_send_def bus_publish_def

lemma message_of_sel [simp]:
  "kmTopic (message_of po) = poTopic po" "kmKey (message_of po) = poKey po"
  "kmValue (message_of po) = Stringified (poValue po)"
  by (simp_all add: message_of_def)

lemma bus_connect_broker [simp]: "busBroker (snd (bus_connect conn b)) = busBroker b"
  by (simp add: bus_connect_def split: option.splits)

text \<open>What a publish call may do to the broker: nothing, or add exactly its own message.\<close>

lemma bus_publish_cases:
  obtains (delivered) "fst (bus_publish conn out po b) = Inr ()"
      "busBroker (snd (bus_publish conn out po b)) = busBroker b @ [message_of po]"
  | (failed) e where "fst (bus_publish conn out po b) = Inl e"
      "busBroker (snd (bus_publish conn out po b)) = busBroker b"
  | (ack_lost) e m where "fst (bus_publish conn out po b) = Inl e" "out = SendAckLost m"
      "busBroker (snd (bus_publish conn out po b)) = busBroker b @ [message_of po]"
  unfolding bus_publish_def bus_connect_def producer_send_def
  by (cases "isProducerConnected b"; cases conn; cases out; simp)

lemma bus_publish_ok:
  "fst (bus_publish conn out po b) = Inr () \<Longrightarrow>
     busBroker (snd (bus_publish conn out po b)) = busBroker b @ [message_of po] \<and>
     isProducerConnected (snd (bus_publish conn out po b))"
  unfolding bus_publish_def bus_connect_def producer_send_def
  by (cases "isProducerConnected b"; cases conn; cases out; simp)

lemma bus_publish_good:
  "bus_publish None SendOk po b =
     (Inr (), b\<lparr>isProducerConnected := True, busBroker := busBroker b @ [message_of po]\<rparr>)"
  by (simp add: bus_publish_def bus_connect_def producer_send_def)

lemma bus_publish_broker_mono:
  "\<exists>ms. busBroker (snd (bus_publish conn out po b)) = busBroker b @ ms \<and> set ms \<subseteq> {message_of po}"
  by (rule bus_publish_cases[of conn out po b]) auto

lemma decode_entries_other:
  "k \<notin> fst ` set hs \<Longrightarrow> decode_entries hs d k = d k"
  by (induction hs d rule: decode_entries.induct) (auto split: option.splits)

end
