(* ===== verification/Js_Date.thy ===== *)
theory Js_Date
  imports Nexus_Prelude
begin

text \<open>
  \<open>new Date(t).toISOString()\<close> for a time in milliseconds since the epoch, in the proleptic
  Gregorian calendar, for years 0 to 9999 (ECMAScript writes the others with a sign and six
  digits; no service builds such a date).
\<close>

definition civil_of_days :: "int \<Rightarrow> int \<times> int \<times> int" where
  "civil_of_days days =
     (let z = days + 719468;
          era = z div 146097;
          doe = z mod 146097;
          yoe = (doe - doe div 1460 + doe div 36524 - doe div 146096) div 365;
          doy = doe - (365 * yoe + yoe div 4 - yoe div 100);
          mp = (5 * doy + 2) div 153;
          d = doy - (153 * mp + 2) div 5 + 1;
          m = (if mp < 10 then mp + 3 else mp - 9);
          y = yoe + era * 400 + (if m \<le> 2 then 1 else 0)
      in (y, m, d))"

definition pad :: "nat \<Rightarrow> int \<Rightarrow> string" where
  "pad n i = (let s = show_nat (nat i) in replicate (n - length s) CHR ''0'' @ s)"

definition iso_of :: "time \<Rightarrow> string" where
  "iso_of t =
     (case civil_of_days (t div 86400000) of (y, m, d) \<Rightarrow>
        let ms = t mod 86400000 in
        pad 4 y @ ''-'' @ pad 2 m @ ''-'' @ pad 2 d @ ''T'' @
        pad 2 (ms div 3600000) @ '':'' @ pad 2 (ms div 60000 mod 60) @ '':'' @
        pad 2 (ms div 1000 mod 60) @ ''.'' @ pad 3 (ms mod 1000) @ ''Z'')"

lemma civil_of_days_examples:
  "civil_of_days 0 = (1970, 1, 1)"
  "civil_of_days 19782 = (2024, 2, 29)"
  "civil_of_days 20088 = (2024, 12, 31)"
  by code_simp+

lemma iso_of_epoch: "iso_of 0 = ''1970-01-01T00:00:00.000Z''"
  by code_simp

end
