(* ===== verification/Kafka_Outbox.thy ===== *)
theory Kafka_Outbox
  imports Event_Bus Js_Date
begin

text \<open>
  The transactional outbox of \<open>packages/kafka/src\<close>: the writer, the poller with its retry and
  dead-letter path, the topic router and the backoff. The \<open>OutboxEvent\<close> table is a list of
  rows in insertion order; the world of a poller is that table, the service's event bus, the
  log and a counter of effects. The environment says, for the n-th effect, whether the
  database rejects, what the broker answers and what the clock shows.
\<close>

subsection \<open>Rows, options, environment\<close>

datatype outbox_status = PENDING | PROCESSING | COMPLETED | DEAD

record outbox_row =
  obId :: string
  obAggregateId :: string
  obEventType :: string
  obPayload :: json
  obTraceparent :: "string option"
  obStatus :: outbox_status
  obRetryCount :: nat
  obMaxRetries :: nat
  obLastError :: "string option"
  obLockedAt :: "time option"
  obLockedBy :: "string option"
  obProcessedAt :: "time option"
  obCreatedAt :: time

record poller_options =
  fallbackPollIntervalMs :: nat
  batchSize :: nat
  baseBackoffMs :: nat
  maxBackoffMs :: nat
  maxRetries :: nat
  lockTimeoutMs :: nat

definition DEFAULT_OUTBOX_POLLER_OPTIONS :: poller_options where
  "DEFAULT_OUTBOX_POLLER_OPTIONS =
     \<lparr>fallbackPollIntervalMs = 5000, batchSize = 100, baseBackoffMs = 1000, maxBackoffMs = 60000,
      maxRetries = 5, lockTimeoutMs = 30000\<rparr>"

record poller_deps =
  pdServiceName :: string
  pdPid :: nat
  pdOptions :: poller_options

record poller_env =
  dbFault :: "nat \<Rightarrow> string option"
  connFault :: "nat \<Rightarrow> string option"
  sendOutcome :: "nat \<Rightarrow> send_outcome"
  clockAt :: "nat \<Rightarrow> time"

datatype poller_log =
    LogPublished string string
  | LogRetry string nat nat nat
  | LogDead string nat
  | LogDlqFailed string
  | LogBatchFailed string

record outbox_world =
  owRows :: "outbox_row list"
  owBus :: event_bus
  owTick :: nat
  owLog :: "poller_log list"

definition tick :: "outbox_world \<Rightarrow> outbox_world" where
  "tick w = w\<lparr>owTick := owTick w + 1\<rparr>"

definition log_line :: "poller_log \<Rightarrow> outbox_world \<Rightarrow> outbox_world" where
  "log_line l w = w\<lparr>owLog := owLog w @ [l]\<rparr>"

subsection \<open>Writer, router, backoff\<close>

text \<open>
  \<open>writeOutboxEvent\<close> inside the caller's transaction: a pending row with the caller's payload
  alone; the event type and the aggregate id are columns. The id is the UUID drawn.
\<close>

definition writeOutboxEvent ::
    "string \<Rightarrow> time \<Rightarrow> string \<Rightarrow> string \<Rightarrow> json \<Rightarrow> string option \<Rightarrow> outbox_row list \<Rightarrow> outbox_row list" where
  "writeOutboxEvent uuid now eventType aggregateId payload traceparent rows =
     rows @ [\<lparr>obId = uuid, obAggregateId = aggregateId, obEventType = eventType,
        obPayload = payload, obTraceparent = traceparent, obStatus = PENDING, obRetryCount = 0,
        obMaxRetries = 5, obLastError = None, obLockedAt = None, obLockedBy = None,
        obProcessedAt = None, obCreatedAt = now\<rparr>]"

definition emitDomainEvent ::
    "string \<Rightarrow> time \<Rightarrow> string \<Rightarrow> string \<Rightarrow> json \<Rightarrow> string option \<Rightarrow> outbox_row list \<Rightarrow> outbox_row list" where
  "emitDomainEvent uuid now eventType aggregateId payload traceparent rows =
     writeOutboxEvent uuid now eventType aggregateId payload traceparent rows"

definition resolveTopic :: "string \<Rightarrow> string" where
  "resolveTopic eventType = (if eventType = DEAD_LETTER_EVENT then DLQ else DOMAIN_EVENTS)"

definition calculateBackoff :: "nat \<Rightarrow> nat \<Rightarrow> nat \<Rightarrow> nat" where
  "calculateBackoff retryCount base mx = min (base * 2 ^ retryCount) mx"

subsection \<open>The table and the publisher\<close>

definition db_error :: "string \<Rightarrow> js_error" where
  "db_error m = OtherError ''Error'' m"

text \<open>One database call: it rejects as the environment says, else \<open>f\<close> is done.\<close>

definition db_call ::
    "poller_env \<Rightarrow> (outbox_world \<Rightarrow> (js_error + 'a) \<times> outbox_world) \<Rightarrow> outbox_world \<Rightarrow>
       (js_error + 'a) \<times> outbox_world" where
  "db_call env f w = (case dbFault env (owTick w) of
       Some m \<Rightarrow> (Inl (db_error m), tick w)
     | None \<Rightarrow> f (tick w))"

text \<open>
  \<open>outboxEvent.findMany\<close>: pending rows that are unlocked or locked before the limit, oldest
  first, at most \<open>batchSize\<close>.
\<close>

definition claimable :: "time \<Rightarrow> outbox_row \<Rightarrow> bool" where
  "claimable lockTimeout r \<longleftrightarrow>
     obStatus r = PENDING \<and>
     (case obLockedAt r of None \<Rightarrow> True | Some t \<Rightarrow> t < lockTimeout)"

definition find_claimable :: "nat \<Rightarrow> time \<Rightarrow> outbox_row list \<Rightarrow> outbox_row list" where
  "find_claimable n lockTimeout rows =
     take n (sort_key obCreatedAt (filter (claimable lockTimeout) rows))"

text \<open>\<open>outboxEvent.update\<close> by primary key rejects with \<open>P2025\<close> when the row is gone.\<close>

definition update_row ::
    "poller_env \<Rightarrow> string \<Rightarrow> (outbox_row \<Rightarrow> outbox_row) \<Rightarrow> outbox_world \<Rightarrow> (unit, outbox_world) res" where
  "update_row env i f = db_call env (\<lambda>w.
     if i \<in> obId ` set (owRows w)
     then (Inr (), w\<lparr>owRows := update_where (\<lambda>r. obId r = i) f (owRows w)\<rparr>)
     else (Inl (PrismaKnown ''P2025''
             \<lparr>metaTarget = None, metaCause = None, metaFieldName = None, metaConstraint = None,
              metaColumnName = None\<rparr> ''No record was found for an update.''), w))"

definition publishOutboxEvent ::
    "poller_env \<Rightarrow> publish_options \<Rightarrow> outbox_world \<Rightarrow> (unit, outbox_world) res" where
  "publishOutboxEvent env po w =
     (case bus_publish (connFault env (owTick w)) (sendOutcome env (owTick w)) po (owBus w) of
        (r, b) \<Rightarrow> (r, tick (w\<lparr>owBus := b\<rparr>)))"

subsection \<open>Dead letters\<close>

record dead_letter_params =
  dlServiceName :: string
  dlEventId :: string
  dlEventType :: "string option"
  dlFailureStage :: "string option"
  dlErrorMessage :: string
  dlRawPayload :: "string option"
  dlTraceparent :: "string option"
  dlCorrelationId :: "string option"

definition opt_key :: "string \<Rightarrow> string option \<Rightarrow> (string \<times> json) list" where
  "opt_key k v = (case v of None \<Rightarrow> [] | Some s \<Rightarrow> [(k, JStr s)])"

definition dead_letter_value :: "string \<Rightarrow> dead_letter_params \<Rightarrow> json" where
  "dead_letter_value failedAt p = JObj
     ([(''eventType'', JStr DEAD_LETTER_EVENT),
       (''aggregateId'', JStr (dlEventId p)),
       (''payload'', JObj
          ([(''sourceService'', JStr (dlServiceName p)),
            (''originalEventId'', JStr (dlEventId p)),
            (''originalEventType'',
               (case dlEventType p of None \<Rightarrow> JNull | Some t \<Rightarrow> JStr t)),
            (''failureStage'',
               JStr (case dlFailureStage p of None \<Rightarrow> ''publish'' | Some s \<Rightarrow> s)),
            (''error'', JStr (dlErrorMessage p))] @
           opt_key ''rawPayload'' (dlRawPayload p) @
           [(''failedAt'', JStr failedAt)]))] @
      opt_key ''traceparent'' (dlTraceparent p) @
      opt_key ''correlationId'' (dlCorrelationId p))"

definition dead_letter_options :: "string \<Rightarrow> dead_letter_params \<Rightarrow> publish_options" where
  "dead_letter_options failedAt p =
     \<lparr>poTopic = DLQ, poKey = ''dlq-'' @ dlEventId p, poValue = dead_letter_value failedAt p,
      poTraceparent = None\<rparr>"

text \<open>A rejected publish is logged and swallowed: the DEAD row is the record of the failure.\<close>

definition publishDeadLetterEvent ::
    "poller_env \<Rightarrow> dead_letter_params \<Rightarrow> outbox_world \<Rightarrow> outbox_world" where
  "publishDeadLetterEvent env p w =
     (case publishOutboxEvent env (dead_letter_options (iso_of (clockAt env (owTick w))) p) w of
        (Inr u, w') \<Rightarrow> w'
      | (Inl e, w') \<Rightarrow> log_line (LogDlqFailed (dlEventId p)) w')"

subsection \<open>The poller\<close>

text \<open>\<open>new OutboxPublishError(id, type, cause)\<close>\<close>

definition OutboxPublishError :: "string \<Rightarrow> string \<Rightarrow> js_error \<Rightarrow> js_error" where
  "OutboxPublishError i ty cause = OtherError ''OutboxPublishError''
     (''Outbox publish failed for event '' @ i @ '' ('' @ ty @ ''): '' @ js_error_message cause)"

definition OutboxConnectionError :: "js_error \<Rightarrow> js_error" where
  "OutboxConnectionError e =
     (if js_error_name e = ''OutboxConnectionError'' then e
      else OtherError ''OutboxConnectionError''
        (''Outbox batch query/claim failed: '' @ js_error_message e))"

definition mark_dead :: "nat \<Rightarrow> string \<Rightarrow> outbox_row \<Rightarrow> outbox_row" where
  "mark_dead n msg r = r\<lparr>obStatus := DEAD, obRetryCount := n, obLastError := Some msg,
     obLockedAt := None, obLockedBy := None\<rparr>"

definition mark_retry :: "nat \<Rightarrow> string \<Rightarrow> outbox_row \<Rightarrow> outbox_row" where
  "mark_retry n msg r = r\<lparr>obStatus := PENDING, obRetryCount := n, obLastError := Some msg,
     obLockedAt := None, obLockedBy := None\<rparr>"

definition mark_completed :: "time \<Rightarrow> outbox_row \<Rightarrow> outbox_row" where
  "mark_completed t r = r\<lparr>obStatus := COMPLETED, obProcessedAt := Some t, obLockedAt := None,
     obLockedBy := None\<rparr>"

definition mark_processing :: "time \<Rightarrow> string \<Rightarrow> outbox_row \<Rightarrow> outbox_row" where
  "mark_processing t who r = r\<lparr>obStatus := PROCESSING, obLockedAt := Some t, obLockedBy := Some who\<rparr>"

definition outbox_dead_params :: "poller_deps \<Rightarrow> outbox_row \<Rightarrow> string \<Rightarrow> dead_letter_params" where
  "outbox_dead_params d ev msg =
     \<lparr>dlServiceName = pdServiceName d, dlEventId = obId ev, dlEventType = Some (obEventType ev),
      dlFailureStage = None, dlErrorMessage = msg, dlRawPayload = None, dlTraceparent = None,
      dlCorrelationId = None\<rparr>"

text \<open>
  \<open>handleFailure\<close>: the retry count comes from the row as it was read, the decision from the
  options. The backoff is computed for the log line only.
\<close>

definition handleFailure ::
    "poller_env \<Rightarrow> poller_deps \<Rightarrow> outbox_row \<Rightarrow> js_error \<Rightarrow> outbox_world \<Rightarrow> (unit, outbox_world) res" where
  "handleFailure env d ev err w =
     (let n = obRetryCount ev + 1; msg = js_error_message err; opt = pdOptions d in
      if n \<ge> maxRetries opt then
        on_ok (update_row env (obId ev) (mark_dead n msg) w) (\<lambda>_ w.
          (Inr (), publishDeadLetterEvent env (outbox_dead_params d ev msg)
                     (log_line (LogDead (obId ev) n) w)))
      else
        on_ok (update_row env (obId ev) (mark_retry n msg) w) (\<lambda>_ w.
          (Inr (), log_line (LogRetry (obId ev) n (maxRetries opt)
                     (calculateBackoff n (baseBackoffMs opt) (maxBackoffMs opt))) w)))"

definition event_options :: "outbox_row \<Rightarrow> publish_options" where
  "event_options ev =
     \<lparr>poTopic = resolveTopic (obEventType ev), poKey = obId ev, poValue = obPayload ev,
      poTraceparent = obTraceparent ev\<rparr>"

definition deliver :: "poller_env \<Rightarrow> outbox_row \<Rightarrow> outbox_world \<Rightarrow> (unit, outbox_world) res" where
  "deliver env ev w =
     on_ok (on_err (publishOutboxEvent env (event_options ev) w)
              (\<lambda>e w. (Inl (OutboxPublishError (obId ev) (obEventType ev) e), w)))
       (\<lambda>_ w. on_ok (update_row env (obId ev) (mark_completed (clockAt env (owTick w))) w)
         (\<lambda>_ w. (Inr (), log_line (LogPublished (obId ev) (resolveTopic (obEventType ev))) w)))"

definition processEvent ::
    "poller_env \<Rightarrow> poller_deps \<Rightarrow> outbox_row \<Rightarrow> outbox_world \<Rightarrow> (unit, outbox_world) res" where
  "processEvent env d ev w = on_err (deliver env ev w) (\<lambda>e w. handleFailure env d ev e w)"

fun processEvents ::
    "poller_env \<Rightarrow> poller_deps \<Rightarrow> outbox_row list \<Rightarrow> outbox_world \<Rightarrow> (unit, outbox_world) res" where
  "processEvents env d [] w = (Inr (), w)"
| "processEvents env d (ev # evs) w =
     on_ok (processEvent env d ev w) (\<lambda>_ w. processEvents env d evs w)"

definition findMany ::
    "poller_env \<Rightarrow> poller_deps \<Rightarrow> time \<Rightarrow> outbox_world \<Rightarrow> (outbox_row list, outbox_world) res" where
  "findMany env d now = db_call env (\<lambda>w.
     (Inr (find_claimable (batchSize (pdOptions d)) (now - int (lockTimeoutMs (pdOptions d)))
             (owRows w)), w))"

definition locking_identity :: "poller_deps \<Rightarrow> string" where
  "locking_identity d = ''outbox-poller-'' @ pdServiceName d @ ''-'' @ show_nat (pdPid d)"

definition claimMany ::
    "poller_env \<Rightarrow> poller_deps \<Rightarrow> time \<Rightarrow> string list \<Rightarrow> outbox_world \<Rightarrow> (unit, outbox_world) res" where
  "claimMany env d now ids = db_call env (\<lambda>w.
     (Inr (), w\<lparr>owRows := update_where (\<lambda>r. obId r \<in> set ids)
        (mark_processing now (locking_identity d)) (owRows w)\<rparr>))"

text \<open>
  One batch, from the clock reading to the \<open>finally\<close>: the row objects handed to
  \<open>processEvent\<close> are those read by \<open>findMany\<close>. Any exception ends the batch with a log line.
\<close>

definition processNextBatch ::
    "poller_env \<Rightarrow> poller_deps \<Rightarrow> outbox_world \<Rightarrow> outbox_world" where
  "processNextBatch env d w =
     (let now = clockAt env (owTick w) in
      case on_ok (findMany env d now w) (\<lambda>events w.
             if events = [] then (Inr (), w)
             else on_ok (claimMany env d now (List.map obId events) w) (\<lambda>_ w.
                    processEvents env d events w))
      of (Inr u, w') \<Rightarrow> w'
       | (Inl e, w') \<Rightarrow> log_line (LogBatchFailed (js_error_message (OutboxConnectionError e))) w')"

subsection \<open>The poller object\<close>

record poller =
  isRunning :: bool
  pTimer :: bool
  isBatchProcessing :: bool
  pendingBatch :: bool

definition new_poller :: poller where
  "new_poller = \<lparr>isRunning = False, pTimer = False, isBatchProcessing = False, pendingBatch = False\<rparr>"

text \<open>
  \<open>triggerBatch\<close>, split at its suspension: begin either joins the pending batch or takes the
  gate, end is the \<open>finally\<close> pair. Only a begin that took the gate runs a batch.
\<close>

definition triggerBatch_begin :: "poller \<Rightarrow> bool \<times> poller" where
  "triggerBatch_begin p =
     (if pendingBatch p then (False, p)
      else if isBatchProcessing p then (False, p)
      else (True, p\<lparr>pendingBatch := True, isBatchProcessing := True\<rparr>))"

definition triggerBatch_end :: "poller \<Rightarrow> poller" where
  "triggerBatch_end p = p\<lparr>pendingBatch := False, isBatchProcessing := False\<rparr>"

text \<open>
  \<open>start\<close>, split at its \<open>await\<close>: the first part takes the running flag (and, with it, the right
  to set the timer later), the second sets the interval once the first drain is over.
\<close>

definition start_begin :: "poller \<Rightarrow> bool \<times> poller" where
  "start_begin p = (if isRunning p then (False, p) else (True, p\<lparr>isRunning := True\<rparr>))"

definition start_resume :: "poller \<Rightarrow> poller" where
  "start_resume p = p\<lparr>pTimer := True\<rparr>"

text \<open>One trigger of the gate: a batch when the gate was free.\<close>

definition triggerBatch ::
    "poller_env \<Rightarrow> poller_deps \<Rightarrow> poller \<times> outbox_world \<Rightarrow> poller \<times> outbox_world" where
  "triggerBatch env d pw = (case triggerBatch_begin (fst pw) of
     (go, p) \<Rightarrow> if go then (triggerBatch_end p, processNextBatch env d (snd pw)) else (p, snd pw))"

definition start :: "poller_env \<Rightarrow> poller_deps \<Rightarrow> poller \<times> outbox_world \<Rightarrow> poller \<times> outbox_world" where
  "start env d pw = (case start_begin (fst pw) of
     (go, p) \<Rightarrow>
       if go then (case triggerBatch env d (p, snd pw) of (p', w') \<Rightarrow> (start_resume p', w'))
       else (p, snd pw))"

definition interval_tick ::
    "poller_env \<Rightarrow> poller_deps \<Rightarrow> poller \<times> outbox_world \<Rightarrow> poller \<times> outbox_world" where
  "interval_tick env d pw = (if pTimer (fst pw) then triggerBatch env d pw else pw)"

text \<open>\<open>stop\<close>: the interval is cleared if it is set, then the batch in flight is awaited.\<close>

definition stop_begin :: "poller \<Rightarrow> poller" where
  "stop_begin p = p\<lparr>isRunning := False, pTimer := False\<rparr>"

definition stop :: "poller \<Rightarrow> poller" where
  "stop p = triggerBatch_end (stop_begin p)"

end
