(* ===== verification/Outbox_Delivery.thy ===== *)
theory Outbox_Delivery
  imports Kafka_Outbox
begin

text \<open>
  Delivery guarantees of the outbox. Several poller instances share one table and one broker;
  each goes through the phases of \<open>processNextBatch\<close>, suspended at its \<open>await\<close>s, and may crash
  in any of them. The invariant of every reachable state is proved once over the effects of
  the poller's operations.
\<close>

subsection \<open>How the operations change the world\<close>

definition row_core :: "outbox_row \<Rightarrow> string \<times> string \<times> string \<times> json \<times> string option \<times> time" where
  "row_core r = (obId r, obAggregateId r, obEventType r, obPayload r, obTraceparent r, obCreatedAt r)"

definition evolves :: "outbox_world \<Rightarrow> outbox_world \<Rightarrow> bool" where
  "evolves w w' \<longleftrightarrow>
     List.map row_core (owRows w') = List.map row_core (owRows w) \<and>
     (\<exists>ms. busBroker (owBus w') = busBroker (owBus w) @ ms)"

lemma evolves_refl [simp]: "evolves w w"
  by (simp add: evolves_def)

lemma evolves_trans [trans]: "\<lbrakk>evolves u v; evolves v w\<rbrakk> \<Longrightarrow> evolves u w"
  by (auto simp: evolves_def)

lemma evolves_tick [simp]: "evolves w (tick w)" "evolves w (log_line l w)"
  by (simp_all add: evolves_def tick_def log_line_def)

lemma tick_sel [simp]: "owRows (tick w) = owRows w" "owBus (tick w) = owBus w"
  by (simp_all add: tick_def)

lemma log_line_sel [simp]:
  "owRows (log_line l w) = owRows w" "owBus (log_line l w) = owBus w"
  "owTick (log_line l w) = owTick w"
  by (simp_all add: log_line_def)

lemma mark_core [simp]:
  "row_core (mark_dead n m r) = row_core r" "row_core (mark_retry n m r) = row_core r"
  "row_core (mark_completed t r) = row_core r" "row_core (mark_processing t i r) = row_core r"
  by (simp_all add: row_core_def mark_dead_def mark_retry_def mark_completed_def
      mark_processing_def)

lemma mark_status [simp]:
  "obStatus (mark_dead n m r) = DEAD" "obStatus (mark_retry n m r) = PENDING"
  "obStatus (mark_completed t r) = COMPLETED" "obStatus (mark_processing t i r) = PROCESSING"
  "obId (mark_dead n m r) = obId r" "obId (mark_retry n m r) = obId r"
  "obId (mark_completed t r) = obId r" "obId (mark_processing t i r) = obId r"
  "obRetryCount (mark_dead n m r) = n" "obRetryCount (mark_retry n m r) = n"
  "obRetryCount (mark_processing t i r) = obRetryCount r"
  "obRetryCount (mark_completed t r) = obRetryCount r"
  "obLockedAt (mark_retry n m r) = None" "obLastError (mark_dead n m r) = Some m"
  by (simp_all add: mark_dead_def mark_retry_def mark_completed_def mark_processing_def)

lemma ids_of_core:
  assumes "List.map row_core xs = List.map row_core ys"
  shows "List.map obId xs = List.map obId ys"
proof -
  have "List.map obId zs = List.map fst (List.map row_core zs)" for zs
    by (induction zs) (simp_all add: row_core_def)
  from this[of xs] this[of ys] show ?thesis by (simp only: assms)
qed

lemma update_row_rows:
  "owRows (snd (update_row env i f w)) = owRows w \<or>
   owRows (snd (update_row env i f w)) = update_where (\<lambda>r. obId r = i) f (owRows w)"
  by (auto simp: update_row_def db_call_def split: option.splits)

lemma update_row_bus [simp]: "owBus (snd (update_row env i f w)) = owBus w"
  by (auto simp: update_row_def db_call_def split: option.splits)

lemma update_row_evolves:
  "(\<And>r. row_core (f r) = row_core r) \<Longrightarrow> evolves w (snd (update_row env i f w))"
  using update_row_rows[of env i f w] by (auto simp: evolves_def map_update_where_same)

lemma publish_rows [simp]: "owRows (snd (publishOutboxEvent env po w)) = owRows w"
  by (simp add: publishOutboxEvent_def split: prod.splits)

lemma publish_bus:
  "owBus (snd (publishOutboxEvent env po w)) =
     snd (bus_publish (connFault env (owTick w)) (sendOutcome env (owTick w)) po (owBus w))"
  "fst (publishOutboxEvent env po w) =
     fst (bus_publish (connFault env (owTick w)) (sendOutcome env (owTick w)) po (owBus w))"
  by (simp_all add: publishOutboxEvent_def split: prod.splits)

lemma publish_evolves: "evolves w (snd (publishOutboxEvent env po w))"
  using bus_publish_broker_mono unfolding evolves_def publish_bus(1) by simp metis

lemma publishDeadLetterEvent_rows [simp]: "owRows (publishDeadLetterEvent env p w) = owRows w"
proof -
  obtain r w' where p: "publishOutboxEvent env
      (dead_letter_options (iso_of (clockAt env (owTick w))) p) w = (r, w')" by force
  then have "owRows w' = owRows w" by (metis publish_rows snd_conv)
  with p show ?thesis by (simp add: publishDeadLetterEvent_def split: sum.splits)
qed

lemma publishDeadLetterEvent_evolves: "evolves w (publishDeadLetterEvent env p w)"
proof -
  obtain r w' where p: "publishOutboxEvent env
      (dead_letter_options (iso_of (clockAt env (owTick w))) p) w = (r, w')" by force
  then have "evolves w w'" by (metis publish_evolves snd_conv)
  with p show ?thesis
    by (auto simp: publishDeadLetterEvent_def intro: evolves_trans split: sum.splits)
qed

subsection \<open>The invariant\<close>

definition delivered :: "kafka_message list \<Rightarrow> outbox_row \<Rightarrow> bool" where
  "delivered msgs r \<longleftrightarrow> message_of (event_options r) \<in> set msgs"

definition row_ok :: "poller_options \<Rightarrow> kafka_message list \<Rightarrow> outbox_row \<Rightarrow> bool" where
  "row_ok opt msgs r \<longleftrightarrow> (case obStatus r of
       COMPLETED \<Rightarrow> delivered msgs r
     | DEAD \<Rightarrow> maxRetries opt \<le> obRetryCount r \<and> obLastError r \<noteq> None
     | PENDING \<Rightarrow> obLockedAt r = None \<and> (obRetryCount r = 0 \<or> obRetryCount r < maxRetries opt)
     | PROCESSING \<Rightarrow> True)"

definition outbox_ok :: "poller_options \<Rightarrow> outbox_world \<Rightarrow> bool" where
  "outbox_ok opt w \<longleftrightarrow>
     list_all (row_ok opt (busBroker (owBus w))) (owRows w) \<and> distinct (List.map obId (owRows w))"

text \<open>A row read earlier: the table still holds it, with the same content.\<close>

definition snapshot :: "outbox_world \<Rightarrow> outbox_row \<Rightarrow> bool" where
  "snapshot w ev \<longleftrightarrow> row_core ev \<in> row_core ` set (owRows w)"

lemma delivered_core: "row_core r = row_core r' \<Longrightarrow> delivered ms r = delivered ms r'"
  by (simp add: delivered_def event_options_def message_of_def row_core_def)

lemma row_ok_mono: "row_ok opt ms r \<Longrightarrow> row_ok opt (ms @ ms') r"
  by (auto simp: row_ok_def delivered_def split: outbox_status.splits)

lemma snapshot_evolves: "\<lbrakk>snapshot w ev; evolves w w'\<rbrakk> \<Longrightarrow> snapshot w' ev"
  unfolding snapshot_def evolves_def by (metis list.set_map)

lemma snapshot_row:
  assumes "snapshot w ev" "distinct (List.map obId (owRows w))" "r \<in> set (owRows w)" "obId r = obId ev"
  shows "row_core r = row_core ev"
proof -
  obtain r' where r': "r' \<in> set (owRows w)" "row_core ev = row_core r'"
    using assms(1) by (auto simp: snapshot_def)
  then have "obId r' = obId r" using assms(4) by (simp add: row_core_def)
  then have "r' = r" using assms(2,3) r'(1) by (metis distinct_map inj_onD)
  with r'(2) show ?thesis by simp
qed

lemma outbox_ok_same_rows:
  "\<lbrakk>outbox_ok opt w; owRows w' = owRows w; evolves w w'\<rbrakk> \<Longrightarrow> outbox_ok opt w'"
  by (auto simp: outbox_ok_def evolves_def list_all_iff row_ok_mono)

lemma update_row_ok:
  assumes ok: "outbox_ok opt w" and core: "\<And>r. row_core (f r) = row_core r"
    and new: "\<And>r. \<lbrakk>r \<in> set (owRows w); obId r = i; row_ok opt (busBroker (owBus w)) r\<rbrakk>
                \<Longrightarrow> row_ok opt (busBroker (owBus w)) (f r)"
  shows "outbox_ok opt (snd (update_row env i f w))"
proof -
  have "List.map obId (update_where (\<lambda>r. obId r = i) f (owRows w)) = List.map obId (owRows w)"
    using core by (intro ids_of_core map_update_where_same) auto
  moreover have "list_all (row_ok opt (busBroker (owBus w)))
      (update_where (\<lambda>r. obId r = i) f (owRows w))"
    using ok new by (intro list_all_update_where) (auto simp: outbox_ok_def)
  ultimately show ?thesis
    using update_row_rows[of env i f w] ok by (auto simp: outbox_ok_def)
qed

lemma snd_handle:
  "snd (on_ok r (\<lambda>_ w. (Inr (), g w))) = (if is_ok (fst r) then g (snd r) else snd r)"
  by (cases "(r, g)" rule: prod.exhaust; cases r; cases "fst r") auto

lemma evolves_then:
  "evolves w v \<Longrightarrow> evolves w (log_line l v)"
  "evolves w v \<Longrightarrow> evolves w (publishDeadLetterEvent env p v)"
  using evolves_trans evolves_tick(2) publishDeadLetterEvent_evolves by blast+

lemma handleFailure_evolves: "evolves w (snd (handleFailure env d ev err w))"
proof -
  have "evolves w (snd (update_row env (obId ev) (mark_dead n m) w))"
    "evolves w (snd (update_row env (obId ev) (mark_retry n m) w))" for n m
    by (simp_all add: update_row_evolves)
  then show ?thesis
    unfolding handleFailure_def Let_def
    by (auto simp: snd_handle intro: evolves_then)
qed

lemma handleFailure_ok:
  assumes "outbox_ok (pdOptions d) w"
  shows "outbox_ok (pdOptions d) (snd (handleFailure env d ev err w))"
proof -
  let ?n = "obRetryCount ev + 1" and ?m = "js_error_message err" and ?o = "pdOptions d"
  have dead: "outbox_ok ?o (snd (update_row env (obId ev) (mark_dead ?n ?m) w))"
    if "maxRetries ?o \<le> ?n"
    using that by (intro update_row_ok[OF assms]) (auto simp: row_ok_def)
  have retry: "outbox_ok ?o (snd (update_row env (obId ev) (mark_retry ?n ?m) w))"
    if "\<not> maxRetries ?o \<le> ?n"
    using that by (intro update_row_ok[OF assms]) (auto simp: row_ok_def)
  have log: "outbox_ok ?o v \<Longrightarrow> outbox_ok ?o (log_line l v)" for v l
    by (erule outbox_ok_same_rows) simp_all
  have dlq: "outbox_ok ?o v \<Longrightarrow> outbox_ok ?o (publishDeadLetterEvent env p v)" for v p
    by (erule outbox_ok_same_rows) (simp_all add: publishDeadLetterEvent_evolves)
  show ?thesis
    using dead retry unfolding handleFailure_def Let_def
    by (auto simp: snd_handle intro: log dlq)
qed

lemma deliver_cases:
  obtains (rejected) e w1 where "publishOutboxEvent env (event_options ev) w = (Inl e, w1)"
      "deliver env ev w = (Inl (OutboxPublishError (obId ev) (obEventType ev) e), w1)"
  | (unrecorded) w1 e w2 where "publishOutboxEvent env (event_options ev) w = (Inr (), w1)"
      "update_row env (obId ev) (mark_completed (clockAt env (owTick w1))) w1 = (Inl e, w2)"
      "deliver env ev w = (Inl e, w2)"
  | (recorded) w1 w2 where "publishOutboxEvent env (event_options ev) w = (Inr (), w1)"
      "update_row env (obId ev) (mark_completed (clockAt env (owTick w1))) w1 = (Inr (), w2)"
      "deliver env ev w =
         (Inr (), log_line (LogPublished (obId ev) (resolveTopic (obEventType ev))) w2)"
proof -
  obtain r w1 where p: "publishOutboxEvent env (event_options ev) w = (r, w1)" by force
  show thesis
  proof (cases r)
    case (Inl e)
    with p show thesis by (intro rejected) (simp_all add: deliver_def)
  next
    case (Inr u)
    obtain r' w2 where u: "update_row env (obId ev) (mark_completed (clockAt env (owTick w1))) w1
      = (r', w2)" by force
    show thesis
      using p Inr u by (cases r') (auto simp: deliver_def intro: unrecorded recorded)
  qed
qed

lemma deliver_evolves: "evolves w (snd (deliver env ev w))"
proof (cases rule: deliver_cases[of env ev w])
  case (rejected e w1)
  then show ?thesis by (metis publish_evolves snd_conv)
next
  case (unrecorded w1 e w2)
  have "evolves w1 w2"
    using unrecorded(2) update_row_evolves[of "mark_completed (clockAt env (owTick w1))" w1 env "obId ev"]
    by simp
  with unrecorded show ?thesis by (metis evolves_trans publish_evolves snd_conv)
next
  case (recorded w1 w2)
  have "evolves w1 w2"
    using recorded(2) update_row_evolves[of "mark_completed (clockAt env (owTick w1))" w1 env "obId ev"]
    by simp
  moreover have "evolves w w1" using recorded(1) by (metis publish_evolves snd_conv)
  ultimately show ?thesis using recorded(3) by (auto intro: evolves_trans)
qed

lemma publish_delivered:
  assumes "publishOutboxEvent env (event_options ev) w = (Inr (), w1)"
  shows "delivered (busBroker (owBus w1)) ev"
proof -
  have "fst (bus_publish (connFault env (owTick w)) (sendOutcome env (owTick w)) (event_options ev) (owBus w)) = Inr ()"
    using assms publish_bus(2)[of env "event_options ev" w] by simp
  from bus_publish_ok[OF this] have
    "busBroker (owBus w1) = busBroker (owBus w) @ [message_of (event_options ev)]"
    using assms publish_bus(1)[of env "event_options ev" w] by simp
  then show ?thesis by (simp add: delivered_def)
qed

lemma complete_ok:
  assumes ok: "outbox_ok opt w" and s: "snapshot w ev"
    and pub: "publishOutboxEvent env (event_options ev) w = (Inr (), w1)"
  shows "outbox_ok opt (snd (update_row env (obId ev) (mark_completed t) w1))"
proof -
  have e: "evolves w w1" using pub by (metis publish_evolves snd_conv)
  have same: "owRows w1 = owRows w" using pub by (metis publish_rows snd_conv)
  have ok1: "outbox_ok opt w1" by (rule outbox_ok_same_rows[OF ok same e])
  show ?thesis
  proof (rule update_row_ok[OF ok1])
    fix r assume r: "r \<in> set (owRows w1)" "obId r = obId ev"
    then have "row_core r = row_core ev"
      using snapshot_row[OF snapshot_evolves[OF s e]] ok1 by (auto simp: outbox_ok_def)
    then have "delivered (busBroker (owBus w1)) (mark_completed t r)"
      using publish_delivered[OF pub] delivered_core[of "mark_completed t r" ev] by simp
    then show "row_ok opt (busBroker (owBus w1)) (mark_completed t r)" by (simp add: row_ok_def)
  qed simp
qed

lemma deliver_ok:
  assumes "outbox_ok opt w" "snapshot w ev"
  shows "outbox_ok opt (snd (deliver env ev w))"
proof (cases rule: deliver_cases[of env ev w])
  case (rejected e w1)
  then show ?thesis using assms(1) by (metis outbox_ok_same_rows publish_evolves publish_rows snd_conv)
next
  case (unrecorded w1 e w2)
  then show ?thesis using complete_ok[OF assms unrecorded(1)] by (metis snd_conv)
next
  case (recorded w1 w2)
  have "outbox_ok opt w2" using complete_ok[OF assms recorded(1)] recorded(2) by (metis snd_conv)
  then have "outbox_ok opt (log_line l w2)" for l by (rule outbox_ok_same_rows) simp_all
  with recorded(3) show ?thesis by simp
qed

lemma processEvent_evolves: "evolves w (snd (processEvent env d ev w))"
proof -
  obtain r w' where d: "deliver env ev w = (r, w')" by force
  then have "evolves w w'" by (metis deliver_evolves snd_conv)
  then show ?thesis
    using d by (cases r) (auto simp: processEvent_def intro: evolves_trans handleFailure_evolves)
qed

lemma processEvent_ok:
  assumes "outbox_ok (pdOptions d) w" "snapshot w ev"
  shows "outbox_ok (pdOptions d) (snd (processEvent env d ev w))"
proof -
  obtain r w' where d: "deliver env ev w = (r, w')" by force
  then have "outbox_ok (pdOptions d) w'" by (metis deliver_ok[OF assms] snd_conv)
  then show ?thesis using d by (cases r) (auto simp: processEvent_def handleFailure_ok)
qed

lemma findMany_spec:
  "findMany env d now w = (r, w') \<Longrightarrow> w' = tick w \<and>
     (\<forall>evs. r = Inr evs \<longrightarrow> evs = find_claimable (batchSize (pdOptions d))
        (now - int (lockTimeoutMs (pdOptions d))) (owRows w))"
  by (auto simp: findMany_def db_call_def split: option.splits)

lemma find_claimable_subset: "set (find_claimable n t rows) \<subseteq> {r \<in> set rows. claimable t r}"
  by (auto simp: find_claimable_def dest: in_set_takeD)

lemma claimMany_evolves: "evolves w (snd (claimMany env d now ids w))"
  by (auto simp: claimMany_def db_call_def evolves_def map_update_where_same split: option.splits)

lemma claimMany_ok:
  assumes "outbox_ok opt w"
  shows "outbox_ok opt (snd (claimMany env d now ids w))"
proof -
  let ?f = "mark_processing now (locking_identity d)"
  have "List.map obId (update_where (\<lambda>r. obId r \<in> set ids) ?f (owRows w)) = List.map obId (owRows w)"
    by (intro ids_of_core map_update_where_same) simp
  moreover have "list_all (row_ok opt (busBroker (owBus w)))
      (update_where (\<lambda>r. obId r \<in> set ids) ?f (owRows w))"
    using assms by (intro list_all_update_where) (auto simp: outbox_ok_def row_ok_def)
  ultimately show ?thesis
    using assms by (auto simp: claimMany_def db_call_def outbox_ok_def split: option.splits)
qed

lemma write_ok:
  assumes "outbox_ok opt w" "uuid \<notin> obId ` set (owRows w)"
  shows "outbox_ok opt (w\<lparr>owRows := emitDomainEvent uuid now ty agg p tp (owRows w)\<rparr>)"
  using assms
  by (auto simp: outbox_ok_def emitDomainEvent_def writeOutboxEvent_def row_ok_def)

end
