(* ===== verification/Outbox_Steps.thy ===== *)
theory Outbox_Steps
  imports Outbox_Delivery
begin

text \<open>
  The outbox as a transition system. \<open>poller_next\<close> is one call of a poller on the database or
  the broker, from one \<open>await\<close> to the next; \<open>outbox_step\<close> lets any number of pollers of a service,
  the services' own transactions and crashes interleave.
\<close>

datatype phase =
    PIdle
  | PFetched time "outbox_row list"
  | PWorking "outbox_row list"
  | PRecording outbox_row "outbox_row list"
  | PFailing js_error outbox_row "outbox_row list"
  | PDlq string outbox_row "outbox_row list"

definition batch_failed :: "js_error \<Rightarrow> outbox_world \<Rightarrow> phase \<times> outbox_world" where
  "batch_failed e w = (PIdle, log_line (LogBatchFailed (js_error_message (OutboxConnectionError e))) w)"

definition fail_update :: "poller_deps \<Rightarrow> js_error \<Rightarrow> outbox_row \<Rightarrow> outbox_row \<Rightarrow> outbox_row" where
  "fail_update d err ev =
     (if obRetryCount ev + 1 \<ge> maxRetries (pdOptions d)
      then mark_dead (obRetryCount ev + 1) (js_error_message err)
      else mark_retry (obRetryCount ev + 1) (js_error_message err))"

fun poller_next :: "poller_env \<Rightarrow> poller_deps \<Rightarrow> phase \<Rightarrow> outbox_world \<Rightarrow> phase \<times> outbox_world" where
  "poller_next env d PIdle w =
     (let now = clockAt env (owTick w) in
      case findMany env d now w of
        (Inl e, w') \<Rightarrow> batch_failed e w'
      | (Inr evs, w') \<Rightarrow> (if evs = [] then PIdle else PFetched now evs, w'))"
| "poller_next env d (PFetched now evs) w =
     (case claimMany env d now (List.map obId evs) w of
        (Inl e, w') \<Rightarrow> batch_failed e w'
      | (Inr u, w') \<Rightarrow> (PWorking evs, w'))"
| "poller_next env d (PWorking []) w = (PIdle, w)"
| "poller_next env d (PWorking (ev # evs)) w =
     (case publishOutboxEvent env (event_options ev) w of
        (Inl e, w') \<Rightarrow> (PFailing (OutboxPublishError (obId ev) (obEventType ev) e) ev evs, w')
      | (Inr u, w') \<Rightarrow> (PRecording ev evs, w'))"
| "poller_next env d (PRecording ev evs) w =
     (case update_row env (obId ev) (mark_completed (clockAt env (owTick w))) w of
        (Inl e, w') \<Rightarrow> (PFailing e ev evs, w')
      | (Inr u, w') \<Rightarrow>
          (PWorking evs, log_line (LogPublished (obId ev) (resolveTopic (obEventType ev))) w'))"
| "poller_next env d (PFailing err ev evs) w =
     (let n = obRetryCount ev + 1; opt = pdOptions d in
      case update_row env (obId ev) (fail_update d err ev) w of
        (Inl e, w') \<Rightarrow> batch_failed e w'
      | (Inr u, w') \<Rightarrow>
          if n \<ge> maxRetries opt
          then (PDlq (js_error_message err) ev evs, log_line (LogDead (obId ev) n) w')
          else (PWorking evs, log_line (LogRetry (obId ev) n (maxRetries opt)
                  (calculateBackoff n (baseBackoffMs opt) (maxBackoffMs opt))) w'))"
| "poller_next env d (PDlq msg ev evs) w =
     (PWorking evs, publishDeadLetterEvent env (outbox_dead_params d ev msg) w)"

text \<open>The pollers of one service differ only in their process id.\<close>

definition deps_of :: "poller_deps \<Rightarrow> nat \<Rightarrow> poller_deps" where
  "deps_of d i = d\<lparr>pdPid := i\<rparr>"

type_synonym outbox_sys = "outbox_world \<times> (nat \<Rightarrow> phase)"

inductive outbox_step :: "poller_deps \<Rightarrow> outbox_sys \<Rightarrow> outbox_sys \<Rightarrow> bool" for d where
  emit: "uuid \<notin> obId ` set (owRows w) \<Longrightarrow>
     outbox_step d (w, ph)
       (w\<lparr>owRows := emitDomainEvent uuid now ty agg payload tp (owRows w)\<rparr>, ph)"
| poll: "poller_next env (deps_of d i) (ph i) w = (p, w') \<Longrightarrow>
     outbox_step d (w, ph) (w', ph(i := p))"
| crash: "outbox_step d (w, ph) (w, ph(i := PIdle))"

definition outbox_init :: outbox_sys where
  "outbox_init = (\<lparr>owRows = [], owBus = createEventBus, owTick = 0, owLog = []\<rparr>, \<lambda>_. PIdle)"

inductive_cases outbox_stepE: "outbox_step d s s'"

abbreviation outbox_steps :: "poller_deps \<Rightarrow> outbox_sys \<Rightarrow> outbox_sys \<Rightarrow> bool" where
  "outbox_steps d \<equiv> (outbox_step d)\<^sup>*\<^sup>*"

subsection \<open>The invariant of the reachable states\<close>

fun phase_ok :: "outbox_world \<Rightarrow> phase \<Rightarrow> bool" where
  "phase_ok w PIdle = True"
| "phase_ok w (PFetched now evs) = (\<forall>ev \<in> set evs. snapshot w ev)"
| "phase_ok w (PWorking evs) = (\<forall>ev \<in> set evs. snapshot w ev)"
| "phase_ok w (PRecording ev evs) =
     (delivered (busBroker (owBus w)) ev \<and> (\<forall>e \<in> set (ev # evs). snapshot w e))"
| "phase_ok w (PFailing err ev evs) = (\<forall>e \<in> set (ev # evs). snapshot w e)"
| "phase_ok w (PDlq msg ev evs) = (\<forall>e \<in> set (ev # evs). snapshot w e)"

definition sys_ok :: "poller_deps \<Rightarrow> outbox_sys \<Rightarrow> bool" where
  "sys_ok d s \<longleftrightarrow> outbox_ok (pdOptions d) (fst s) \<and> (\<forall>i. phase_ok (fst s) (snd s i))"

lemma deps_of_sel [simp]:
  "pdOptions (deps_of d i) = pdOptions d" "pdServiceName (deps_of d i) = pdServiceName d"
  by (simp_all add: deps_of_def)

lemma delivered_evolves:
  "\<lbrakk>delivered (busBroker (owBus w)) ev; evolves w w'\<rbrakk> \<Longrightarrow> delivered (busBroker (owBus w')) ev"
  by (auto simp: delivered_def evolves_def)

lemma phase_ok_evolves: "\<lbrakk>phase_ok w p; evolves w w'\<rbrakk> \<Longrightarrow> phase_ok w' p"
  by (cases p) (auto intro: snapshot_evolves delivered_evolves)

lemma fail_update_core [simp]: "row_core (fail_update d err ev r) = row_core r"
  by (simp add: fail_update_def)

lemma fail_update_ok: "row_ok (pdOptions d) ms (fail_update d err ev r)"
  by (auto simp: fail_update_def row_ok_def)

lemma evolves_findMany: "findMany env d now w = (r, w') \<Longrightarrow> evolves w w'"
  using findMany_spec by (metis evolves_tick(1))

lemma evolves_update:
  "update_row env i f w = (r, w') \<Longrightarrow> (\<And>x. row_core (f x) = row_core x) \<Longrightarrow> evolves w w'"
  by (metis snd_conv update_row_evolves)

lemma evolves_publish: "publishOutboxEvent env po w = (r, w') \<Longrightarrow> evolves w w'"
  by (metis publish_evolves snd_conv)

lemma evolves_claim: "claimMany env d now ids w = (r, w') \<Longrightarrow> evolves w w'"
  by (metis claimMany_evolves snd_conv)

lemma poller_next_evolves: "poller_next env d p w = (p', w') \<Longrightarrow> evolves w w'"
  by (induction env d p w rule: poller_next.induct)
    (auto simp: Let_def batch_failed_def split: prod.splits sum.splits if_splits
      intro!: evolves_then dest: evolves_findMany evolves_update evolves_publish evolves_claim
      intro: publishDeadLetterEvent_evolves)

lemma find_snapshots:
  assumes "findMany env d now w = (Inr evs, w')" "ev \<in> set evs"
  shows "snapshot w' ev"
proof -
  have "ev \<in> set (owRows w)"
    using findMany_spec[OF assms(1)] assms(2) find_claimable_subset by blast
  then show ?thesis using findMany_spec[OF assms(1)] by (auto simp: snapshot_def)
qed

lemma poller_next_phase:
  assumes "phase_ok w p" "poller_next env d p w = (p', w')"
  shows "phase_ok w' p'"
proof -
  have e: "\<forall>ev. snapshot w ev \<longrightarrow> snapshot w' ev"
    using poller_next_evolves[OF assms(2)] by (blast intro: snapshot_evolves)
  show ?thesis
  proof (cases p)
    case PIdle
    with assms(2) show ?thesis
      by (auto simp: Let_def batch_failed_def find_snapshots split: prod.splits sum.splits if_splits)
  next
    case (PFetched now evs)
    with assms(1) e have "\<forall>ev \<in> set evs. snapshot w' ev" by simp
    with PFetched assms(2) show ?thesis
      by (auto simp: batch_failed_def split: prod.splits sum.splits)
  next
    case (PWorking evs)
    with assms e show ?thesis
      by (cases evs) (auto simp: publish_delivered split: prod.splits sum.splits)
  next
    case (PRecording ev evs)
    with assms e show ?thesis
      by (auto split: prod.splits sum.splits)
  next
    case (PFailing err ev evs)
    with assms e show ?thesis
      by (auto simp: Let_def batch_failed_def split: prod.splits sum.splits if_splits)
  next
    case (PDlq msg ev evs)
    with assms e show ?thesis by auto
  qed
qed

lemma ok_log: "outbox_ok opt w \<Longrightarrow> outbox_ok opt (log_line l w)"
  by (erule outbox_ok_same_rows) simp_all

lemma ok_same:
  "\<lbrakk>outbox_ok opt w; publishOutboxEvent env po w = (r, w')\<rbrakk> \<Longrightarrow> outbox_ok opt w'"
  by (metis evolves_publish outbox_ok_same_rows publish_rows snd_conv)

lemma ok_dlq: "outbox_ok opt w \<Longrightarrow> outbox_ok opt (publishDeadLetterEvent env p w)"
  by (erule outbox_ok_same_rows) (simp_all add: publishDeadLetterEvent_evolves)

lemma ok_find: "\<lbrakk>outbox_ok opt w; findMany env d now w = (r, w')\<rbrakk> \<Longrightarrow> outbox_ok opt w'"
  by (metis findMany_spec evolves_findMany outbox_ok_same_rows tick_sel(1))

lemma ok_claim: "\<lbrakk>outbox_ok opt w; claimMany env d now ids w = (r, w')\<rbrakk> \<Longrightarrow> outbox_ok opt w'"
  by (metis claimMany_ok snd_conv)

lemma ok_fail:
  assumes "outbox_ok (pdOptions d) w" "update_row env i (fail_update d err ev) w = (r, w')"
  shows "outbox_ok (pdOptions d) w'"
  using update_row_ok[OF assms(1), of "fail_update d err ev" i env] assms(2)
  by (simp add: fail_update_ok)

lemma ok_record:
  assumes ok: "outbox_ok opt w" and s: "snapshot w ev" and del: "delivered (busBroker (owBus w)) ev"
    and u: "update_row env (obId ev) (mark_completed t) w = (r, w')"
  shows "outbox_ok opt w'"
proof -
  have "outbox_ok opt (snd (update_row env (obId ev) (mark_completed t) w))"
  proof (rule update_row_ok[OF ok])
    fix x assume "x \<in> set (owRows w)" "obId x = obId ev"
    then have "row_core x = row_core ev" using snapshot_row[OF s] ok by (auto simp: outbox_ok_def)
    then have "delivered (busBroker (owBus w)) (mark_completed t x)"
      using del delivered_core[of "mark_completed t x" ev] by simp
    then show "row_ok opt (busBroker (owBus w)) (mark_completed t x)" by (simp add: row_ok_def)
  qed simp
  with u show ?thesis by simp
qed

lemma poller_next_ok:
  assumes "outbox_ok (pdOptions d) w" "phase_ok w p" "poller_next env d p w = (p', w')"
  shows "outbox_ok (pdOptions d) w'"
proof (cases p)
  case PIdle
  with assms show ?thesis
    by (auto simp: Let_def batch_failed_def split: prod.splits sum.splits
        intro: ok_log ok_find)
next
  case (PFetched now evs)
  with assms show ?thesis
    by (auto simp: batch_failed_def split: prod.splits sum.splits intro: ok_log ok_claim)
next
  case (PWorking evs)
  with assms show ?thesis
    by (cases evs) (auto split: prod.splits sum.splits intro: ok_same)
next
  case (PRecording ev evs)
  with assms show ?thesis
    by (auto split: prod.splits sum.splits intro!: ok_log intro: ok_record)
next
  case (PFailing err ev evs)
  with assms show ?thesis
    by (auto simp: Let_def batch_failed_def split: prod.splits sum.splits if_splits
        intro!: ok_log intro: ok_fail)
next
  case (PDlq msg ev evs)
  with assms show ?thesis by (auto intro: ok_dlq)
qed

lemma phase_ok_write:
  assumes "phase_ok w p"
  shows "phase_ok (w\<lparr>owRows := emitDomainEvent uuid now ty agg pl tp (owRows w)\<rparr>) p"
proof -
  have "snapshot (w\<lparr>owRows := emitDomainEvent uuid now ty agg pl tp (owRows w)\<rparr>) ev"
    if "snapshot w ev" for ev
    using that by (auto simp: snapshot_def emitDomainEvent_def writeOutboxEvent_def)
  with assms show ?thesis by (cases p) auto
qed

lemma outbox_step_ok [nexus_inv]:
  assumes "outbox_step d s s'" "sys_ok d s"
  shows "sys_ok d s'"
  using assms(1)
proof (cases rule: outbox_step.cases)
  case (emit uuid w ph now ty agg payload tp)
  with assms(2) show ?thesis by (simp add: sys_ok_def write_ok phase_ok_write)
next
  case (poll env i ph w p w')
  have ok: "outbox_ok (pdOptions d) w" "\<And>j. phase_ok w (ph j)"
    using assms(2) poll by (simp_all add: sys_ok_def)
  have "outbox_ok (pdOptions d) w'"
    using poller_next_ok[of "deps_of d i" w "ph i" env] ok poll(3) by simp
  moreover have "phase_ok w' p" by (rule poller_next_phase[OF ok(2) poll(3)])
  moreover have "phase_ok w' (ph j)" for j
    by (rule phase_ok_evolves[OF ok(2) poller_next_evolves[OF poll(3)]])
  ultimately show ?thesis using poll by (simp add: sys_ok_def)
next
  case (crash w ph i)
  with assms(2) show ?thesis by (simp add: sys_ok_def)
qed

lemma outbox_init_ok: "sys_ok d outbox_init"
  by (simp add: sys_ok_def outbox_init_def outbox_ok_def)

lemma outbox_reachable_ok: "outbox_steps d outbox_init s \<Longrightarrow> sys_ok d s"
  by (induction rule: rtranclp_induct) (auto intro: outbox_init_ok outbox_step_ok)

text \<open>Rows are only appended; their content never changes.\<close>

lemma outbox_step_rows:
  assumes "outbox_step d s s'"
  shows "\<exists>new. List.map row_core (owRows (fst s')) = List.map row_core (owRows (fst s)) @ new"
  using assms
proof (cases rule: outbox_step.cases)
  case (poll env i ph w p w')
  then have "evolves w w'" by (blast intro: poller_next_evolves)
  with poll show ?thesis by (auto simp: evolves_def)
qed (auto simp: emitDomainEvent_def writeOutboxEvent_def)

subsection \<open>A batch is a sequence of steps\<close>

text \<open>One poller alone, from some phase until its batch is over.\<close>

inductive poller_run :: "poller_env \<Rightarrow> poller_deps \<Rightarrow> phase \<times> outbox_world \<Rightarrow> phase \<times> outbox_world \<Rightarrow> bool"
  for env d where
  run_refl: "poller_run env d s s"
| run_step: "poller_run env d (poller_next env d p w) s \<Longrightarrow> poller_run env d (p, w) s"

lemma run_one: "poller_next env d p w = s \<Longrightarrow> poller_run env d (p, w) s"
  by (metis run_refl run_step)

lemma run_trans: "\<lbrakk>poller_run env d s t; poller_run env d t u\<rbrakk> \<Longrightarrow> poller_run env d s u"
  by (induction rule: poller_run.induct) (auto intro: run_step)

lemma run_next:
  "\<lbrakk>poller_next env d p w = (q, v); poller_run env d (q, v) s\<rbrakk> \<Longrightarrow> poller_run env d (p, w) s"
  by (metis run_step)

lemma run_failure:
  assumes "handleFailure env d ev err w = (r, w')"
  shows "poller_run env d (PFailing err ev evs, w)
    (case r of Inr u \<Rightarrow> (PWorking evs, w') | Inl e \<Rightarrow> batch_failed e w')"
proof -
  obtain r1 w1 where u: "update_row env (obId ev) (fail_update d err ev) w = (r1, w1)" by force
  have h: "handleFailure env d ev err w = (case r1 of
      Inl e \<Rightarrow> (Inl e, w1)
    | Inr x \<Rightarrow> if obRetryCount ev + 1 \<ge> maxRetries (pdOptions d)
        then (Inr (), publishDeadLetterEvent env (outbox_dead_params d ev (js_error_message err))
                (log_line (LogDead (obId ev) (obRetryCount ev + 1)) w1))
        else (Inr (), log_line (LogRetry (obId ev) (obRetryCount ev + 1) (maxRetries (pdOptions d))
                (calculateBackoff (obRetryCount ev + 1) (baseBackoffMs (pdOptions d))
                   (maxBackoffMs (pdOptions d)))) w1))"
    using u by (cases r1) (auto simp: handleFailure_def fail_update_def Let_def)
  show ?thesis
  proof (cases r1)
    case (Inl e)
    with u h assms show ?thesis by (intro run_one) auto
  next
    case (Inr x)
    show ?thesis
    proof (cases "obRetryCount ev + 1 \<ge> maxRetries (pdOptions d)")
      case True
      with u h assms Inr have a: "poller_next env d (PFailing err ev evs) w =
          (PDlq (js_error_message err) ev evs, log_line (LogDead (obId ev) (obRetryCount ev + 1)) w1)"
        by (auto simp: Let_def)
      show ?thesis
        by (rule run_next[OF a], rule run_one) (use True h assms Inr in auto)
    next
      case False
      with u h assms Inr show ?thesis by (intro run_one) (auto simp: Let_def)
    qed
  qed
qed

lemma run_event:
  assumes "processEvent env d ev w = (r, w')"
  shows "poller_run env d (PWorking (ev # evs), w)
    (case r of Inr u \<Rightarrow> (PWorking evs, w') | Inl e \<Rightarrow> batch_failed e w')"
proof (cases rule: deliver_cases[of env ev w])
  case (rejected e w1)
  have h: "handleFailure env d ev (OutboxPublishError (obId ev) (obEventType ev) e) w1 = (r, w')"
    using assms rejected by (simp add: processEvent_def)
  show ?thesis
    by (rule run_next[OF _ run_failure[OF h]]) (use rejected in simp)
next
  case (unrecorded w1 e w2)
  have h: "handleFailure env d ev e w2 = (r, w')" using assms unrecorded by (simp add: processEvent_def)
  have a: "poller_next env d (PWorking (ev # evs)) w = (PRecording ev evs, w1)" using unrecorded by simp
  show ?thesis
    by (rule run_next[OF a], rule run_next[OF _ run_failure[OF h]]) (use unrecorded in simp)
next
  case (recorded w1 w2)
  have a: "poller_next env d (PWorking (ev # evs)) w = (PRecording ev evs, w1)" using recorded by simp
  show ?thesis
    by (rule run_next[OF a], rule run_one) (use recorded assms in \<open>auto simp: processEvent_def\<close>)
qed

lemma run_events:
  "processEvents env d evs w = (r, w') \<Longrightarrow> poller_run env d (PWorking evs, w)
    (case r of Inr u \<Rightarrow> (PIdle, w') | Inl e \<Rightarrow> batch_failed e w')"
proof (induction evs arbitrary: w)
  case Nil
  then show ?case by (auto intro: run_one)
next
  case (Cons ev evs)
  obtain r1 w1 where e: "processEvent env d ev w = (r1, w1)" by force
  show ?case
  proof (cases r1)
    case (Inl x)
    then show ?thesis using run_event[OF e, of evs] Cons.prems e by auto
  next
    case (Inr x)
    then have "processEvents env d evs w1 = (r, w')" using Cons.prems e by simp
    then show ?thesis using run_event[OF e, of evs] Cons.IH Inr by (auto intro: run_trans)
  qed
qed

lemma run_batch: "poller_run env d (PIdle, w) (PIdle, processNextBatch env d w)"
proof -
  let ?now = "clockAt env (owTick w)"
  obtain r w1 where f: "findMany env d ?now w = (r, w1)" by force
  show ?thesis
  proof (cases r)
    case (Inl e)
    with f show ?thesis by (intro run_one) (simp add: processNextBatch_def batch_failed_def)
  next
    case (Inr evs)
    show ?thesis
    proof (cases "evs = []")
      case True
      with f Inr show ?thesis by (intro run_one) (simp add: processNextBatch_def)
    next
      case False
      obtain r2 w2 where c: "claimMany env d ?now (List.map obId evs) w1 = (r2, w2)" by force
      have a: "poller_next env d PIdle w = (PFetched ?now evs, w1)" using f Inr False by simp
      show ?thesis
      proof (cases r2)
        case (Inl e)
        with c f Inr False \<open>r = Inr evs\<close> show ?thesis
          by (intro run_next[OF a] run_one) (simp add: processNextBatch_def batch_failed_def)
      next
        case (Inr u)
        obtain r3 w3 where p: "processEvents env d evs w2 = (r3, w3)" by force
        have b: "processNextBatch env d w = snd (case r3 of Inr u \<Rightarrow> (PIdle, w3) | Inl e \<Rightarrow> batch_failed e w3)"
          using p c f Inr False \<open>r = Inr evs\<close>
          by (cases r3) (simp_all add: processNextBatch_def batch_failed_def)
        have i: "fst (case r3 of Inr u \<Rightarrow> (PIdle, w3) | Inl e \<Rightarrow> batch_failed e w3) = PIdle"
          by (simp add: batch_failed_def split: sum.splits)
        have n: "poller_next env d (PFetched ?now evs) w1 = (PWorking evs, w2)" using c Inr by simp
        show ?thesis
          using run_next[OF a run_next[OF n run_events[OF p]]] b i by (metis prod.collapse)
      qed
    qed
  qed
qed

lemma run_steps:
  assumes "poller_run env (deps_of d i) s t" "s = (p, w)" "t = (p', w')" "ph i = p"
  shows "outbox_steps d (w, ph) (w', ph(i := p'))"
  using assms
proof (induction arbitrary: p w ph rule: poller_run.induct)
  case (run_refl s)
  then have "ph(i := p') = ph" "w' = w" by auto
  then show ?case by simp
next
  case (run_step q v t)
  obtain q' v' where n: "poller_next env (deps_of d i) q v = (q', v')" by force
  have "outbox_step d (v, ph) (v', ph(i := q'))"
    using n run_step.prems by (intro outbox_step.poll) auto
  moreover have "outbox_steps d (v', ph(i := q')) (w', (ph(i := q'))(i := p'))"
    using run_step.IH[of q' v' "ph(i := q')"] n run_step.prems by (simp only: fun_upd_same fun_upd_upd)
  ultimately have "outbox_steps d (v, ph) (w', ph(i := p'))"
    by (simp only: fun_upd_upd converse_rtranclp_into_rtranclp)
  with run_step.prems show ?case by (simp only: prod.inject)
qed

lemma batch_steps:
  assumes "ph i = PIdle"
  shows "outbox_steps d (w, ph) (processNextBatch env (deps_of d i) w, ph)"
proof -
  have "outbox_steps d (w, ph) (processNextBatch env (deps_of d i) w, ph(i := PIdle))"
    using assms by (intro run_steps[OF run_batch[of env "deps_of d i" w]]) simp_all
  moreover have "ph(i := PIdle) = ph" using assms by auto
  ultimately show ?thesis by simp
qed

end
