(* ===== verification/Outbox_Batches.thy ===== *)
theory Outbox_Batches
  imports Outbox_Steps "HOL-Library.Multiset"
begin

text \<open>
  Batches of one poller, run to their end: what a batch does when every call succeeds, when
  the broker rejects every message, and when only some deliveries fail. The facts are about
  the list of rows seen through their content, status and retry count.
\<close>

type_synonym row_view =
  "(string \<times> string \<times> string \<times> json \<times> string option \<times> time) \<times> outbox_status \<times> nat"

definition row_view :: "outbox_row \<Rightarrow> row_view" where
  "row_view r = (row_core r, obStatus r, obRetryCount r)"

definition is_pending :: "outbox_row \<Rightarrow> bool" where
  "is_pending r \<longleftrightarrow> obStatus r = PENDING"

definition outgoing :: "outbox_row \<Rightarrow> kafka_message" where
  "outgoing r = message_of (event_options r)"

text \<open>The rows a batch takes: the oldest pending ones.\<close>

definition next_batch :: "nat \<Rightarrow> outbox_row list \<Rightarrow> outbox_row list" where
  "next_batch n rows = take n (sort_key obCreatedAt (filter is_pending rows))"

lemma find_claimable_ok:
  assumes "outbox_ok opt w"
  shows "find_claimable n t (owRows w) = next_batch n (owRows w)"
proof -
  have "filter (claimable t) (owRows w) = filter is_pending (owRows w)"
    using assms by (intro filter_cong)
      (auto simp: outbox_ok_def list_all_iff row_ok_def claimable_def is_pending_def
        split: outbox_status.splits option.splits)
  then show ?thesis by (simp add: find_claimable_def next_batch_def)
qed

lemma next_batch_subset: "set (next_batch n rows) \<subseteq> {r \<in> set rows. is_pending r}"
  by (auto simp: next_batch_def dest: in_set_takeD)

lemma sorted_pending_distinct:
  assumes "distinct (List.map obId rows)"
  shows "distinct (List.map obId (sort_key obCreatedAt (filter is_pending rows)))"
proof -
  have "distinct (List.map obId (filter is_pending rows))"
    using assms by (rule distinct_map_filter)
  moreover have "mset (List.map obId (sort_key obCreatedAt (filter is_pending rows))) =
      mset (List.map obId (filter is_pending rows))" by simp
  ultimately show ?thesis using mset_eq_imp_distinct_iff by blast
qed

lemma next_batch_distinct:
  "distinct (List.map obId rows) \<Longrightarrow> distinct (List.map obId (next_batch n rows))"
  using distinct_take[OF sorted_pending_distinct, of rows n]
  by (simp add: next_batch_def take_map)

lemma next_batch_length:
  "length (next_batch n rows) = min n (length (filter is_pending rows))"
  by (simp add: next_batch_def min.commute)

text \<open>Taking the batch out of the pending rows leaves the younger ones.\<close>

lemma pending_after_batch:
  assumes "distinct (List.map obId rows)"
  shows "length (filter (\<lambda>r. is_pending r \<and> obId r \<notin> obId ` set (next_batch n rows)) rows) =
         length (filter is_pending rows) - n"
proof -
  let ?S = "sort_key obCreatedAt (filter is_pending rows)"
  let ?Q = "\<lambda>r. obId r \<notin> obId ` set (take n ?S)"
  have "distinct (List.map obId ?S)" by (rule sorted_pending_distinct[OF assms])
  then have d: "distinct (List.map obId (take n ?S @ drop n ?S))" by simp
  have dr: "filter ?Q (drop n ?S) = drop n ?S"
    using d unfolding map_append distinct_append by (intro filter_True) auto
  have tk: "filter ?Q (take n ?S) = []" by (simp add: filter_empty_conv)
  have "filter ?Q ?S = filter ?Q (take n ?S @ drop n ?S)" by simp
  also have "\<dots> = drop n ?S" unfolding filter_append dr tk by simp
  finally have f: "filter ?Q ?S = drop n ?S" .
  have "filter (\<lambda>r. is_pending r \<and> obId r \<notin> obId ` set (next_batch n rows)) rows =
      filter ?Q (filter is_pending rows)"
    by (simp add: next_batch_def conj_commute)
  moreover have "mset (filter ?Q (filter is_pending rows)) = mset (filter ?Q ?S)"
    unfolding mset_filter by simp
  then have "length (filter ?Q (filter is_pending rows)) = length (filter ?Q ?S)"
    by (rule mset_eq_length)
  ultimately show ?thesis unfolding f by simp
qed

subsection \<open>A database that answers\<close>

definition db_up :: "poller_env \<Rightarrow> bool" where
  "db_up env \<longleftrightarrow> (\<forall>n. dbFault env n = None)"

definition no_lost_ack :: "poller_env \<Rightarrow> bool" where
  "no_lost_ack env \<longleftrightarrow> (\<forall>n m. sendOutcome env n \<noteq> SendAckLost m)"

definition broker_up :: "poller_env \<Rightarrow> bool" where
  "broker_up env \<longleftrightarrow> (\<forall>n. connFault env n = None \<and> sendOutcome env n = SendOk)"

definition broker_down :: "poller_env \<Rightarrow> bool" where
  "broker_down env \<longleftrightarrow> (\<forall>n. \<exists>m. sendOutcome env n = SendLost m)"

lemma update_row_up:
  "\<lbrakk>db_up env; i \<in> obId ` set (owRows w)\<rbrakk> \<Longrightarrow> update_row env i f w =
     (Inr (), (tick w)\<lparr>owRows := update_where (\<lambda>r. obId r = i) f (owRows w)\<rparr>)"
  by (simp add: update_row_def db_call_def db_up_def)

lemma findMany_up:
  "db_up env \<Longrightarrow> findMany env d now w =
     (Inr (find_claimable (batchSize (pdOptions d)) (now - int (lockTimeoutMs (pdOptions d)))
        (owRows w)), tick w)"
  by (simp add: findMany_def db_call_def db_up_def)

lemma claimMany_up:
  "db_up env \<Longrightarrow> claimMany env d now ids w = (Inr (),
     (tick w)\<lparr>owRows := update_where (\<lambda>r. obId r \<in> set ids)
        (mark_processing now (locking_identity d)) (owRows w)\<rparr>)"
  by (simp add: claimMany_def db_call_def db_up_def)

text \<open>What one event leaves behind: completed and sent, or failed with at most a dead letter.\<close>

lemma dead_letter_broker:
  assumes "no_lost_ack env"
  shows "\<exists>dl. busBroker (owBus (publishDeadLetterEvent env p w)) = busBroker (owBus w) @ dl \<and>
           (\<forall>m \<in> set dl. kmTopic m = DLQ)"
proof -
  let ?po = "dead_letter_options (iso_of (clockAt env (owTick w))) p"
  obtain r w' where pw: "publishOutboxEvent env ?po w = (r, w')" by force
  then have "owBus w' = snd (bus_publish (connFault env (owTick w)) (sendOutcome env (owTick w)) ?po (owBus w))"
    using publish_bus(1)[of env ?po w] by simp
  moreover obtain ms where "busBroker (snd (bus_publish (connFault env (owTick w))
      (sendOutcome env (owTick w)) ?po (owBus w))) = busBroker (owBus w) @ ms" "set ms \<subseteq> {message_of ?po}"
    using bus_publish_broker_mono by blast
  moreover have "kmTopic (message_of ?po) = DLQ" by (simp add: dead_letter_options_def)
  ultimately show ?thesis using pw
    by (intro exI[of _ ms]) (auto simp: publishDeadLetterEvent_def split: sum.splits)
qed

lemma handleFailure_up:
  assumes "db_up env" "obId ev \<in> obId ` set (owRows w)"
  shows "fst (handleFailure env d ev err w) = Inr () \<and>
    owRows (snd (handleFailure env d ev err w)) =
      update_where (\<lambda>r. obId r = obId ev) (fail_update d err ev) (owRows w)"
  using assms by (simp add: handleFailure_def Let_def update_row_up fail_update_def)

lemma handleFailure_broker:
  assumes "db_up env" "no_lost_ack env" "obId ev \<in> obId ` set (owRows w)"
  shows "\<exists>dl. busBroker (owBus (snd (handleFailure env d ev err w))) = busBroker (owBus w) @ dl \<and>
    (\<forall>m \<in> set dl. kmTopic m = DLQ)"
proof (cases "maxRetries (pdOptions d) \<le> obRetryCount ev + 1")
  case True
  let ?w = "log_line (LogDead (obId ev) (obRetryCount ev + 1)) ((tick w)\<lparr>owRows :=
     update_where (\<lambda>r. obId r = obId ev) (mark_dead (obRetryCount ev + 1) (js_error_message err)) (owRows w)\<rparr>)"
  have "handleFailure env d ev err w =
      (Inr (), publishDeadLetterEvent env (outbox_dead_params d ev (js_error_message err)) ?w)"
    using True assms by (simp add: handleFailure_def Let_def update_row_up)
  then show ?thesis
    using dead_letter_broker[OF assms(2), of "outbox_dead_params d ev (js_error_message err)" ?w] by simp
next
  case False
  then show ?thesis using assms by (simp add: handleFailure_def Let_def update_row_up)
qed

lemma processEvent_up:
  assumes up: "db_up env" and mem: "obId ev \<in> obId ` set (owRows w)"
  obtains (sent) t where "fst (processEvent env d ev w) = Inr ()"
      "fst (publishOutboxEvent env (event_options ev) w) = Inr ()"
      "owRows (snd (processEvent env d ev w)) =
         update_where (\<lambda>r. obId r = obId ev) (mark_completed t) (owRows w)"
      "busBroker (owBus (snd (processEvent env d ev w))) = busBroker (owBus w) @ [outgoing ev]"
  | (failed) e w1 where "fst (processEvent env d ev w) = Inr ()"
      "publishOutboxEvent env (event_options ev) w = (Inl e, w1)"
      "processEvent env d ev w =
         handleFailure env d ev (OutboxPublishError (obId ev) (obEventType ev) e) w1"
      "owRows (snd (processEvent env d ev w)) =
         update_where (\<lambda>r. obId r = obId ev)
           (fail_update d (OutboxPublishError (obId ev) (obEventType ev) e) ev) (owRows w)"
proof (cases rule: deliver_cases[of env ev w])
  case (rejected e w1)
  have "owRows w1 = owRows w" using rejected(1) by (metis publish_rows snd_conv)
  with rejected show thesis
    using handleFailure_up[OF up, of ev w1] mem
    by (intro failed[of e w1]) (simp_all add: processEvent_def)
next
  case (unrecorded w1 e w2)
  have "owRows w1 = owRows w" using unrecorded(1) by (metis publish_rows snd_conv)
  with unrecorded(2) mem update_row_up[OF up, of "obId ev" w1] show thesis by simp
next
  case (recorded w1 w2)
  have r: "owRows w1 = owRows w" using recorded(1) by (metis publish_rows snd_conv)
  have "fst (bus_publish (connFault env (owTick w)) (sendOutcome env (owTick w)) (event_options ev)
      (owBus w)) = Inr ()"
    using recorded(1) publish_bus(2)[of env "event_options ev" w] by simp
  from bus_publish_ok[OF this] have b: "busBroker (owBus w1) = busBroker (owBus w) @ [outgoing ev]"
    using recorded(1) publish_bus(1)[of env "event_options ev" w] by (simp add: outgoing_def)
  have "w2 = (tick w1)\<lparr>owRows := update_where (\<lambda>r. obId r = obId ev)
      (mark_completed (clockAt env (owTick w1))) (owRows w1)\<rparr>"
    using recorded(2) update_row_up[OF up, of "obId ev" w1] mem r by simp
  with recorded b r show thesis
    by (intro sent[of "clockAt env (owTick w1)"]) (simp_all add: processEvent_def)
qed

subsection \<open>Every call succeeds\<close>

definition completed_view :: "string set \<Rightarrow> row_view \<Rightarrow> row_view" where
  "completed_view ids v =
     (if fst (fst v) \<in> ids then (fst v, COMPLETED, snd (snd v)) else v)"

lemma view_id [simp]: "fst (fst (row_view r)) = obId r"
  by (simp add: row_view_def row_core_def)

lemma view_update:
  assumes "\<And>r. row_view (f r) = g (row_view r)"
  shows "List.map row_view (update_where (\<lambda>r. obId r \<in> S) f rows) =
         List.map (\<lambda>v. if fst (fst v) \<in> S then g v else v) (List.map row_view rows)"
  using assms by (auto simp: update_where_def)

lemma publish_up:
  "broker_up env \<Longrightarrow> fst (publishOutboxEvent env po w) = Inr ()"
  by (simp add: publish_bus(2) broker_up_def bus_publish_good)

lemma views_ids: "List.map row_view xs = List.map row_view ys \<Longrightarrow> List.map obId xs = List.map obId ys"
proof -
  assume a: "List.map row_view xs = List.map row_view ys"
  have "List.map obId zs = List.map (fst \<circ> fst) (List.map row_view zs)" for zs
    by (induction zs) simp_all
  from this[of xs] this[of ys] show ?thesis by (simp only: a)
qed

lemma update_where_ids:
  assumes "\<And>r. obId (f r) = obId r"
  shows "obId ` set (update_where p f rows) = obId ` set rows"
proof -
  have "List.map obId (update_where p f rows) = List.map obId rows"
    using assms by (intro map_update_where_same)
  then show ?thesis by (metis list.set_map)
qed

lemma owbus_rows:
  "owBus (w\<lparr>owRows := rs\<rparr>) = owBus w" "owBus (tick w) = owBus w"
  by simp_all

lemma processEvents_all_up:
  assumes "db_up env" "broker_up env" "obId ` set evs \<subseteq> obId ` set (owRows w)"
  shows "fst (processEvents env d evs w) = Inr () \<and>
    busBroker (owBus (snd (processEvents env d evs w))) = busBroker (owBus w) @ List.map outgoing evs \<and>
    List.map row_view (owRows (snd (processEvents env d evs w))) =
      List.map (completed_view (obId ` set evs)) (List.map row_view (owRows w))"
  using assms(3)
proof (induction evs arbitrary: w)
  case Nil
  have "completed_view {} = id" by (auto simp: completed_view_def)
  then show ?case by simp
next
  case (Cons ev evs)
  obtain r w' where p: "processEvent env d ev w = (r, w')" by force
  have mem: "obId ev \<in> obId ` set (owRows w)" using Cons.prems by simp
  show ?case
    using assms(1) mem
  proof (cases rule: processEvent_up[where d = d])
    case (failed e w1)
    then show ?thesis using publish_up[OF assms(2), of "event_options ev" w] by simp
  next
    case (sent t)
    have v: "List.map row_view (owRows w') = List.map (completed_view {obId ev}) (List.map row_view (owRows w))"
      using sent(3) p view_update[of "mark_completed t" "\<lambda>v. (fst v, COMPLETED, snd (snd v))" "{obId ev}"]
      by (simp add: row_view_def completed_view_def cong: if_cong)
    have "obId ` set evs \<subseteq> obId ` set (owRows w')"
      using Cons.prems sent(3) p by (simp add: update_where_ids)
    note IH = Cons.IH[OF this]
    have c: "completed_view (obId ` set evs) \<circ> completed_view {obId ev} = completed_view (obId ` set (ev # evs))"
      by (auto simp: completed_view_def)
    have "r = Inr ()" using sent(1) p by simp
    then show ?thesis using IH sent(4) p v c[symmetric] by simp
  qed
qed

text \<open>The specification of a batch when nothing fails.\<close>

lemma processNextBatch_all_up:
  assumes "db_up env" "broker_up env" "outbox_ok (pdOptions d) w"
  defines "evs \<equiv> next_batch (batchSize (pdOptions d)) (owRows w)"
  shows "busBroker (owBus (processNextBatch env d w)) = busBroker (owBus w) @ List.map outgoing evs \<and>
    List.map row_view (owRows (processNextBatch env d w)) =
      List.map (completed_view (obId ` set evs)) (List.map row_view (owRows w))"
proof (cases "evs = []")
  case True
  have "completed_view {} = id" by (auto simp: completed_view_def)
  with True show ?thesis
    using assms by (simp add: processNextBatch_def findMany_up find_claimable_ok[OF assms(3)])
next
  case False
  let ?now = "clockAt env (owTick w)"
  let ?w = "(tick (tick w))\<lparr>owRows := update_where (\<lambda>r. obId r \<in> obId ` set evs)
      (mark_processing ?now (locking_identity d)) (owRows w)\<rparr>"
  have sub: "obId ` set evs \<subseteq> obId ` set (owRows w)" using next_batch_subset evs_def by blast
  have mem: "obId ` set evs \<subseteq> obId ` set (owRows ?w)"
    using sub by (simp add: update_where_ids)
  note P = processEvents_all_up[OF assms(1,2) mem, of d]
  have b: "processNextBatch env d w = snd (processEvents env d evs ?w)"
    using assms False P
    by (cases "processEvents env d evs ?w")
      (simp add: processNextBatch_def findMany_up claimMany_up find_claimable_ok[OF assms(3)])
  have v: "List.map row_view (owRows ?w) = List.map (\<lambda>v. if fst (fst v) \<in> obId ` set evs
      then (fst v, PROCESSING, snd (snd v)) else v) (List.map row_view (owRows w))"
    using view_update[of "mark_processing ?now (locking_identity d)" "\<lambda>v. (fst v, PROCESSING, snd (snd v))"]
    by (simp add: row_view_def cong: if_cong)
  have c: "completed_view S \<circ> (\<lambda>v. if fst (fst v) \<in> S then (fst v, PROCESSING, snd (snd v)) else v) =
      completed_view S" for S
    by (auto simp: completed_view_def)
  have "List.map (completed_view (obId ` set evs)) (List.map row_view (owRows ?w)) =
      List.map (completed_view (obId ` set evs)) (List.map row_view (owRows w))"
    unfolding v List.map.compositionality o_assoc c ..
  with P show ?thesis unfolding b by (simp only: owbus_rows)
qed

end
