(* ===== verification/Outbox_Claims.thy ===== *)
theory Outbox_Claims
  imports Outbox_Properties
begin

text \<open>
  The stated properties of the outbox, with the schedules and tables of their witnesses. The
  facts about a broker that rejects everything come first, since only the retry bound needs
  them.
\<close>

subsection \<open>A broker that rejects every message\<close>

definition failed_view :: "poller_options \<Rightarrow> string set \<Rightarrow> row_view \<Rightarrow> row_view" where
  "failed_view opt ids v =
     (if fst (fst v) \<in> ids
      then (fst v, (if snd (snd v) + 1 \<ge> maxRetries opt then DEAD else PENDING), snd (snd v) + 1)
      else v)"

lemma bus_publish_down:
  "out = SendLost m \<Longrightarrow> \<exists>e. fst (bus_publish conn out po b) = Inl e \<and>
     busBroker (snd (bus_publish conn out po b)) = busBroker b"
  by (cases conn; cases "isProducerConnected b")
    (auto simp: bus_publish_def bus_connect_def producer_send_def)

lemma publish_down:
  assumes "broker_down env"
  obtains e w1 where "publishOutboxEvent env po w = (Inl e, w1)" "owRows w1 = owRows w"
    "busBroker (owBus w1) = busBroker (owBus w)"
proof -
  obtain m where "sendOutcome env (owTick w) = SendLost m" using assms by (auto simp: broker_down_def)
  from bus_publish_down[OF this, of "connFault env (owTick w)" po "owBus w"]
  obtain e where e: "fst (publishOutboxEvent env po w) = Inl e"
    "busBroker (owBus (snd (publishOutboxEvent env po w))) = busBroker (owBus w)"
    by (auto simp: publish_bus)
  then show thesis
    by (intro that[of e "snd (publishOutboxEvent env po w)"]) (simp_all add: prod_eq_iff)
qed

lemma dead_letter_down:
  assumes "broker_down env"
  shows "busBroker (owBus (publishDeadLetterEvent env p w)) = busBroker (owBus w)"
  by (rule publish_down[OF assms, of "dead_letter_options (iso_of (clockAt env (owTick w))) p" w])
    (simp add: publishDeadLetterEvent_def)

lemma handleFailure_down:
  assumes "db_up env" "broker_down env" "obId ev \<in> obId ` set (owRows w)"
  shows "busBroker (owBus (snd (handleFailure env d ev err w))) = busBroker (owBus w)"
  using assms by (simp add: handleFailure_def Let_def update_row_up dead_letter_down)

lemma processEvent_down:
  assumes "db_up env" "broker_down env" "obId ev \<in> obId ` set (owRows w)"
  shows "fst (processEvent env d ev w) = Inr () \<and>
    busBroker (owBus (snd (processEvent env d ev w))) = busBroker (owBus w) \<and>
    (\<exists>err. owRows (snd (processEvent env d ev w)) =
       update_where (\<lambda>r. obId r = obId ev) (fail_update d err ev) (owRows w))"
  using assms(1,3)
proof (cases rule: processEvent_up[where d = d])
  case (sent t)
  obtain e w1 where "publishOutboxEvent env (event_options ev) w = (Inl e, w1)"
    by (rule publish_down[OF assms(2)])
  with sent(2) show ?thesis by simp
next
  case (failed e w1)
  obtain e' w1' where p: "publishOutboxEvent env (event_options ev) w = (Inl e', w1')"
    "owRows w1' = owRows w" "busBroker (owBus w1') = busBroker (owBus w)"
    by (rule publish_down[OF assms(2)])
  then have "w1' = w1" using failed(2) by simp
  with p failed handleFailure_down[OF assms(1,2), of ev w1] assms(3) show ?thesis by auto
qed

lemma failed_view_update:
  assumes "\<forall>r \<in> set rows. obId r = obId ev \<longrightarrow> obRetryCount r = obRetryCount ev"
  shows "List.map row_view (update_where (\<lambda>r. obId r = obId ev) (fail_update d err ev) rows) =
         List.map (failed_view (pdOptions d) {obId ev}) (List.map row_view rows)"
  using assms
  by (auto simp: update_where_def failed_view_def fail_update_def row_view_def row_core_def
      mark_dead_def mark_retry_def)

lemma processEvents_all_down:
  assumes "db_up env" "broker_down env" "obId ` set evs \<subseteq> obId ` set (owRows w)"
    and "distinct (List.map obId evs)"
    and "\<forall>ev \<in> set evs. \<forall>r \<in> set (owRows w). obId r = obId ev \<longrightarrow> obRetryCount r = obRetryCount ev"
  shows "fst (processEvents env d evs w) = Inr () \<and>
    busBroker (owBus (snd (processEvents env d evs w))) = busBroker (owBus w) \<and>
    List.map row_view (owRows (snd (processEvents env d evs w))) =
      List.map (failed_view (pdOptions d) (obId ` set evs)) (List.map row_view (owRows w))"
  using assms(3-)
proof (induction evs arbitrary: w)
  case Nil
  have "failed_view (pdOptions d) {} = id" by (auto simp: failed_view_def)
  then show ?case by simp
next
  case (Cons ev evs)
  obtain x w' where p: "processEvent env d ev w = (x, w')" by force
  have mem: "obId ev \<in> obId ` set (owRows w)" using Cons.prems(1) by simp
  obtain err where D: "x = Inr ()" "busBroker (owBus w') = busBroker (owBus w)"
    "owRows w' = update_where (\<lambda>r. obId r = obId ev) (fail_update d err ev) (owRows w)"
    using processEvent_down[OF assms(1,2) mem, of d] p by auto
  have v: "List.map row_view (owRows w') =
      List.map (failed_view (pdOptions d) {obId ev}) (List.map row_view (owRows w))"
    unfolding D(3) using Cons.prems(3) by (intro failed_view_update) simp
  have n: "obId ev \<notin> obId ` set evs" using Cons.prems(2) by simp
  have ids: "obId ` set evs \<subseteq> obId ` set (owRows w')"
    using Cons.prems(1) unfolding D(3) by (subst update_where_ids) (auto simp: fail_update_def)
  have "obRetryCount r = obRetryCount f" if "f \<in> set evs" "r \<in> set (owRows w')" "obId r = obId f" for f r
  proof -
    have "obId r \<noteq> obId ev" using n that by (metis imageI)
    then have "r \<in> set (owRows w)" using that(2) unfolding D(3) set_update_where
      by (auto simp: fail_update_def split: if_splits)
    then show ?thesis using Cons.prems(3) that by simp
  qed
  then have IH: "fst (processEvents env d evs w') = Inr () \<and>
    busBroker (owBus (snd (processEvents env d evs w'))) = busBroker (owBus w') \<and>
    List.map row_view (owRows (snd (processEvents env d evs w'))) =
      List.map (failed_view (pdOptions d) (obId ` set evs)) (List.map row_view (owRows w'))"
    using Cons.IH[of w'] ids Cons.prems(2) by simp
  have c: "failed_view (pdOptions d) (obId ` set evs) \<circ> failed_view (pdOptions d) {obId ev} =
      failed_view (pdOptions d) (obId ` set (ev # evs))"
    using n by (auto simp: failed_view_def fun_eq_iff)
  show ?case using IH v D(1,2) p c[symmetric] by simp
qed

lemma processNextBatch_all_down:
  assumes "db_up env" "broker_down env" "outbox_ok (pdOptions d) w"
  defines "evs \<equiv> next_batch (batchSize (pdOptions d)) (owRows w)"
  shows "busBroker (owBus (processNextBatch env d w)) = busBroker (owBus w) \<and>
    List.map row_view (owRows (processNextBatch env d w)) =
      List.map (failed_view (pdOptions d) (obId ` set evs)) (List.map row_view (owRows w))"
proof (cases "evs = []")
  case True
  have "failed_view (pdOptions d) {} = id" by (auto simp: failed_view_def)
  with True show ?thesis
    using assms by (simp add: processNextBatch_def findMany_up find_claimable_ok[OF assms(3)])
next
  case False
  let ?now = "clockAt env (owTick w)"
  let ?w = "(tick (tick w))\<lparr>owRows := update_where (\<lambda>r. obId r \<in> obId ` set evs)
      (mark_processing ?now (locking_identity d)) (owRows w)\<rparr>"
  have dist: "distinct (List.map obId (owRows w))" using assms(3) by (simp add: outbox_ok_def)
  have sub: "set evs \<subseteq> set (owRows w)" using next_batch_subset evs_def by blast
  have mem: "obId ` set evs \<subseteq> obId ` set (owRows ?w)" using sub by (auto simp: update_where_ids)
  have rc: "\<forall>ev \<in> set evs. \<forall>r \<in> set (owRows ?w). obId r = obId ev \<longrightarrow> obRetryCount r = obRetryCount ev"
  proof (intro ballI impI)
    fix ev r assume a: "ev \<in> set evs" "r \<in> set (owRows ?w)" "obId r = obId ev"
    then obtain x where x: "x \<in> set (owRows w)" "obId x = obId r" "obRetryCount x = obRetryCount r"
      by (auto simp: set_update_where)
    then have "x = ev" using a sub dist by (metis distinct_map inj_onD subsetD)
    with x show "obRetryCount r = obRetryCount ev" by simp
  qed
  have de: "distinct (List.map obId evs)" unfolding evs_def by (rule next_batch_distinct[OF dist])
  note P = processEvents_all_down[OF assms(1,2) mem de rc, where d = d]
  have b: "processNextBatch env d w = snd (processEvents env d evs ?w)"
    using assms False P
    by (cases "processEvents env d evs ?w")
      (simp add: processNextBatch_def findMany_up claimMany_up find_claimable_ok[OF assms(3)])
  have v: "List.map row_view (owRows ?w) = List.map (\<lambda>v. if fst (fst v) \<in> obId ` set evs
      then (fst v, PROCESSING, snd (snd v)) else v) (List.map row_view (owRows w))"
    using view_update[of "mark_processing ?now (locking_identity d)" "\<lambda>v. (fst v, PROCESSING, snd (snd v))"]
    by (simp add: row_view_def cong: if_cong)
  have c: "failed_view opt S \<circ> (\<lambda>v. if fst (fst v) \<in> S then (fst v, PROCESSING, snd (snd v)) else v) =
      failed_view opt S" for opt S
    by (auto simp: failed_view_def)
  have "List.map (failed_view (pdOptions d) (obId ` set evs)) (List.map row_view (owRows ?w)) =
      List.map (failed_view (pdOptions d) (obId ` set evs)) (List.map row_view (owRows w))"
    unfolding v List.map.compositionality o_assoc c ..
  with P show ?thesis unfolding b by (simp only: owbus_rows)
qed

text \<open>The state of every row after \<open>k\<close> failed attempts.\<close>

definition attempts_status :: "poller_options \<Rightarrow> nat \<Rightarrow> outbox_status \<times> nat" where
  "attempts_status opt k =
     (if k \<ge> maxRetries opt then (DEAD, maxRetries opt) else (PENDING, k))"

lemma all_down_round:
  assumes "db_up env" "broker_down env" "outbox_ok (pdOptions d) w" "0 < maxRetries (pdOptions d)"
    and "length (owRows w) \<le> batchSize (pdOptions d)"
    and "\<forall>r \<in> set (owRows w). (obStatus r, obRetryCount r) = attempts_status (pdOptions d) k"
  shows "busBroker (owBus (processNextBatch env d w)) = busBroker (owBus w) \<and>
    (\<forall>r \<in> set (owRows (processNextBatch env d w)).
       (obStatus r, obRetryCount r) = attempts_status (pdOptions d) (Suc k))"
proof -
  let ?evs = "next_batch (batchSize (pdOptions d)) (owRows w)"
  note D = processNextBatch_all_down[OF assms(1-3)]
  have evs: "set ?evs = {r \<in> set (owRows w). is_pending r}"
    using assms(5) by (simp add: next_batch_def le_trans[OF length_filter_le])
  have "(obStatus r, obRetryCount r) = attempts_status (pdOptions d) (Suc k)"
    if r: "r \<in> set (owRows (processNextBatch env d w))" for r
  proof -
    have "row_view r \<in> set (List.map row_view (owRows (processNextBatch env d w)))" using r by simp
    then obtain x where x: "x \<in> set (owRows w)"
      "row_view r = failed_view (pdOptions d) (obId ` set ?evs) (row_view x)"
      using D by auto
    have s: "(obStatus x, obRetryCount x) = attempts_status (pdOptions d) k" using assms(6) x(1) by simp
    show ?thesis
    proof (cases "k < maxRetries (pdOptions d)")
      case True
      then have "x \<in> set ?evs" using s x(1) evs by (auto simp: attempts_status_def is_pending_def)
      then show ?thesis using x(2) s True
        by (auto simp: failed_view_def row_view_def row_core_def attempts_status_def split: if_splits)
    next
      case False
      then have n: "obStatus x = DEAD" using s by (simp add: attempts_status_def)
      have "obId x \<notin> obId ` set ?evs"
      proof
        assume "obId x \<in> obId ` set ?evs"
        then obtain y where "y \<in> set (owRows w)" "is_pending y" "obId y = obId x" using evs by auto
        then have "y = x" using assms(3) x(1) unfolding outbox_ok_def by (metis distinct_map inj_onD)
        with n \<open>is_pending y\<close> show False by (simp add: is_pending_def)
      qed
      then show ?thesis using x(2) s False
        by (auto simp: failed_view_def row_view_def row_core_def attempts_status_def split: if_splits)
    qed
  qed
  with D show ?thesis by blast
qed

lemma all_down_rounds:
  assumes "\<forall>(env, d) \<in> set bs. db_up env \<and> broker_down env \<and> pdOptions d = opt"
    and "outbox_ok opt w" "0 < maxRetries opt" "length (owRows w) \<le> batchSize opt"
    and "\<forall>r \<in> set (owRows w). (obStatus r, obRetryCount r) = attempts_status opt k"
  shows "busBroker (owBus (run_batches bs w)) = busBroker (owBus w) \<and>
    (\<forall>r \<in> set (owRows (run_batches bs w)).
       (obStatus r, obRetryCount r) = attempts_status opt (k + length bs))"
  using assms
proof (induction bs arbitrary: w k)
  case (Cons b bs)
  obtain env d where b: "b = (env, d)" by force
  have h: "db_up env" "broker_down env" "pdOptions d = opt" using Cons.prems(1) b by auto
  let ?w = "processNextBatch env d w"
  have len: "length (owRows ?w) = length (owRows w)"
    using processNextBatch_evolves[of w env d] by (metis evolves_def length_map)
  have ok: "outbox_ok opt ?w" using processNextBatch_ok[of d w env] Cons.prems(2) h by simp
  have R: "busBroker (owBus ?w) = busBroker (owBus w) \<and>
    (\<forall>r \<in> set (owRows ?w). (obStatus r, obRetryCount r) = attempts_status opt (Suc k))"
    using all_down_round[OF h(1,2), of d w k] Cons.prems h(3) by simp
  have "busBroker (owBus (run_batches bs ?w)) = busBroker (owBus ?w) \<and>
    (\<forall>r \<in> set (owRows (run_batches bs ?w)). (obStatus r, obRetryCount r) = attempts_status opt (Suc k + length bs))"
    using Cons.prems(1,3,4) R len by (intro Cons.IH[OF _ ok]) auto
  with R show ?case by (simp add: b)
qed simp

subsection \<open>A table and a schedule for the witnesses\<close>

definition quiet_env :: poller_env where
  "quiet_env = \<lparr>dbFault = \<lambda>_. None, connFault = \<lambda>_. None, sendOutcome = \<lambda>_. SendOk, clockAt = \<lambda>_. 0\<rparr>"

definition outage_env :: poller_env where
  "outage_env = quiet_env\<lparr>sendOutcome := \<lambda>_. SendLost ''broker down''\<rparr>"

definition demo_deps :: poller_deps where
  "demo_deps = \<lparr>pdServiceName = ''auth-service'', pdPid = 0,
     pdOptions = DEFAULT_OUTBOX_POLLER_OPTIONS\<rparr>"

definition demo_payload :: json where
  "demo_payload = JObj [(''email'', JStr ''a@b.c''), (''otp'', JStr ''123456'')]"

definition demo_world :: outbox_world where
  "demo_world = (fst outbox_init)\<lparr>owRows :=
     emitDomainEvent ''e1'' 0 EMAIL_VERIFICATION_OTP_SENT ''agg'' demo_payload None []\<rparr>"

definition demo_row :: outbox_row where
  "demo_row = hd (owRows demo_world)"

lemma demo_rows: "owRows demo_world = [demo_row]" "obId demo_row = ''e1''" "obStatus demo_row = PENDING"
    "obRetryCount demo_row = 0" "obEventType demo_row = EMAIL_VERIFICATION_OTP_SENT"
  by (simp_all add: demo_world_def demo_row_def emitDomainEvent_def writeOutboxEvent_def)

lemma demo_options [simp]: "pdOptions demo_deps = DEFAULT_OUTBOX_POLLER_OPTIONS"
  by (simp add: demo_deps_def)

lemma quiet_env_up [simp]: "db_up quiet_env" "broker_up quiet_env" "no_lost_ack quiet_env"
  by (simp_all add: quiet_env_def db_up_def broker_up_def no_lost_ack_def)

lemma outage_env_down [simp]: "db_up outage_env" "broker_down outage_env"
  by (simp_all add: quiet_env_def outage_env_def db_up_def broker_down_def)

lemma demo_emit: "outbox_step d outbox_init (demo_world, \<lambda>_. PIdle)"
proof -
  have "outbox_step d (fst outbox_init, \<lambda>_. PIdle)
      ((fst outbox_init)\<lparr>owRows := emitDomainEvent ''e1'' 0 EMAIL_VERIFICATION_OTP_SENT ''agg''
         demo_payload None (owRows (fst outbox_init))\<rparr>, \<lambda>_. PIdle)"
    by (rule outbox_step.emit) (simp add: outbox_init_def)
  then show ?thesis by (simp add: demo_world_def outbox_init_def)
qed

lemma demo_emitted: "outbox_steps d outbox_init (demo_world, \<lambda>_. PIdle)"
  using demo_emit by blast

lemma demo_batched:
  "outbox_steps d outbox_init (processNextBatch env (deps_of d 0) demo_world, \<lambda>_. PIdle)"
  by (rule rtranclp_trans[OF demo_emitted batch_steps]) simp

lemma demo_ok: "outbox_ok opt demo_world"
  using demo_rows by (simp add: outbox_ok_def row_ok_def demo_world_def demo_row_def
      emitDomainEvent_def writeOutboxEvent_def)

lemma deps_of_self: "deps_of demo_deps 0 = demo_deps"
  by (simp add: deps_of_def demo_deps_def)

text \<open>One call of poller after poller, as scheduled.\<close>

fun run_schedule :: "poller_env \<Rightarrow> poller_deps \<Rightarrow> nat list \<Rightarrow> outbox_sys \<Rightarrow> outbox_sys" where
  "run_schedule env d [] s = s"
| "run_schedule env d (i # is) (w, ph) =
     (case poller_next env (deps_of d i) (ph i) w of (p, w') \<Rightarrow> run_schedule env d is (w', ph(i := p)))"

lemma run_schedule_steps: "outbox_steps d s (run_schedule env d is s)"
proof (induction env d "is" s rule: run_schedule.induct)
  case (2 env d i "is" w ph)
  obtain p w' where n: "poller_next env (deps_of d i) (ph i) w = (p, w')" by force
  have "outbox_step d (w, ph) (w', ph(i := p))" using n by (rule outbox_step.poll)
  moreover have "outbox_steps d (w', ph(i := p)) (run_schedule env d is (w', ph(i := p)))"
    using 2 n by simp
  ultimately show ?case using n by (simp add: converse_rtranclp_into_rtranclp)
qed simp

lemmas trace_defs =
  Let_def batch_failed_def findMany_def db_call_def quiet_env_def tick_def log_line_def
  find_claimable_def claimable_def claimMany_def update_where_def mark_processing_def
  publishOutboxEvent_def bus_publish_good update_row_def event_options_def resolveTopic_def
  mark_completed_def demo_world_def emitDomainEvent_def writeOutboxEvent_def outbox_init_def
  deps_of_def demo_deps_def DEFAULT_OUTBOX_POLLER_OPTIONS_def createEventBus_def sent_count_def
  message_of_def EMAIL_VERIFICATION_OTP_SENT_def DEAD_LETTER_EVENT_def

subsection \<open>Properties\<close>

text \<open>
  C1: At-least-once delivery. However the pollers of a service, its transactions and crashes
  interleave, and whatever the database and the broker answer, a row is marked COMPLETED only
  when its message (topic, key and payload) is in the broker; a DEAD row has used up its retry
  budget and keeps its error; and row ids stay unique.
\<close>

theorem outbox_at_least_once:
  assumes "outbox_steps d outbox_init (w, ph)" and "r \<in> set (owRows w)"
  shows "(obStatus r = COMPLETED \<longrightarrow> message_of (event_options r) \<in> set (busBroker (owBus w))) \<and>
         (obStatus r = DEAD \<longrightarrow> maxRetries (pdOptions d) \<le> obRetryCount r \<and> obLastError r \<noteq> None) \<and>
         distinct (List.map obId (owRows w))"
  using outbox_reachable_ok[OF assms(1)] assms(2)
  by (auto simp: sys_ok_def outbox_ok_def list_all_iff row_ok_def delivered_def)

theorem outbox_at_least_once_witness:
  "\<exists>r \<in> set (owRows (processNextBatch quiet_env demo_deps demo_world)). obStatus r = COMPLETED \<and>
     message_of (event_options r) \<in> set (busBroker (owBus (processNextBatch quiet_env demo_deps demo_world)))"
proof -
  define w where "w = processNextBatch quiet_env demo_deps demo_world"
  have s: "outbox_steps demo_deps outbox_init (w, \<lambda>_. PIdle)"
    using demo_batched[of demo_deps quiet_env] by (simp add: deps_of_self w_def)
  have "List.map obStatus (owRows w) = [COMPLETED]"
    unfolding w_def by (simp add: trace_defs processNextBatch_def processEvent_def deliver_def)
  then obtain r where r: "r \<in> set (owRows w)" "obStatus r = COMPLETED" by (auto simp: map_eq_Cons_conv)
  show ?thesis using outbox_at_least_once[OF s r(1)] r unfolding w_def by blast
qed

text \<open>
  No event is lost or altered: along every step, the rows written so far keep their id,
  aggregate, type, payload, trace and creation time, in order; later rows are appended.
\<close>

theorem outbox_rows_never_lost:
  assumes "outbox_steps d s s'"
  shows "\<exists>new. List.map row_core (owRows (fst s')) = List.map row_core (owRows (fst s)) @ new"
  using assms
proof (induction rule: rtranclp_induct)
  case (step t u)
  then show ?case using outbox_step_rows[OF step(2)] by auto
qed simp

theorem outbox_rows_never_lost_witness:
  "\<exists>new. List.map row_core (owRows (processNextBatch outage_env demo_deps demo_world)) =
     List.map row_core (owRows demo_world) @ new"
  using outbox_rows_never_lost[OF batch_steps[of "\<lambda>_. PIdle" 0 demo_deps demo_world outage_env]]
  by (simp add: deps_of_self)



text \<open>
  One batch, when nothing fails, sends exactly the oldest pending rows, at most
  \<open>batchSize\<close> of them, in the order of their creation, marks these COMPLETED and leaves every
  other row's status and retry count alone.
\<close>

theorem batch_sends_oldest_pending:
  assumes "db_up env" "broker_up env" "outbox_ok (pdOptions d) w"
  shows "busBroker (owBus (processNextBatch env d w)) = busBroker (owBus w) @
           List.map (\<lambda>r. message_of (event_options r))
             (take (batchSize (pdOptions d)) (sort_key obCreatedAt
                (filter (\<lambda>r. obStatus r = PENDING) (owRows w)))) \<and>
         List.map (\<lambda>r. (obId r, obStatus r, obRetryCount r)) (owRows (processNextBatch env d w)) =
           List.map (\<lambda>r. (obId r,
             if obId r \<in> obId ` set (next_batch (batchSize (pdOptions d)) (owRows w))
             then COMPLETED else obStatus r, obRetryCount r)) (owRows w)"
proof -
  let ?S = "obId ` set (next_batch (batchSize (pdOptions d)) (owRows w))"
  note B = processNextBatch_all_up[OF assms]
  have "List.map (\<lambda>r. (obId r, obStatus r, obRetryCount r)) rows =
      List.map (\<lambda>v. (fst (fst v), fst (snd v), snd (snd v))) (List.map row_view rows)" for rows
    by (simp add: row_view_def row_core_def)
  from this[of "owRows (processNextBatch env d w)"]
  have "List.map (\<lambda>r. (obId r, obStatus r, obRetryCount r)) (owRows (processNextBatch env d w)) =
      List.map (\<lambda>v. (fst (fst v), fst (snd v), snd (snd v)))
        (List.map (completed_view ?S) (List.map row_view (owRows w)))"
    using B by (simp only:)
  also have "\<dots> = List.map (\<lambda>r. (obId r, if obId r \<in> ?S then COMPLETED else obStatus r, obRetryCount r)) (owRows w)"
    by (auto simp: completed_view_def row_view_def row_core_def)
  moreover have "outgoing = (\<lambda>r. message_of (event_options r))" "is_pending = (\<lambda>r. obStatus r = PENDING)"
    by (simp_all add: fun_eq_iff outgoing_def is_pending_def)
  ultimately show ?thesis using B unfolding next_batch_def by simp
qed

theorem batch_sends_oldest_pending_witness:
  "busBroker (owBus (processNextBatch quiet_env demo_deps demo_world)) =
     [message_of (event_options demo_row)]"
  using batch_sends_oldest_pending[OF quiet_env_up(1,2), of demo_deps demo_world] demo_ok demo_rows
  by (simp add: DEFAULT_OUTBOX_POLLER_OPTIONS_def demo_world_def outbox_init_def createEventBus_def)

text \<open>
  C24: Progress. From any reachable table, when the database and the broker answer, enough
  batches to cover the pending rows leave every one of them COMPLETED and sent; the clocks of
  the batches do not matter.
\<close>

theorem outbox_drains:
  assumes "outbox_steps d outbox_init (w, ph)"
    and "\<forall>(env, d') \<in> set bs. db_up env \<and> broker_up env \<and> pdOptions d' = pdOptions d"
    and "pending_count w \<le> length bs * batchSize (pdOptions d)"
    and "r \<in> set (owRows w)" "obStatus r = PENDING"
  shows "\<exists>r' \<in> set (owRows (run_batches bs w)). row_core r' = row_core r \<and> obStatus r' = COMPLETED \<and>
           message_of (event_options r') \<in> set (busBroker (owBus (run_batches bs w)))"
proof -
  have ok: "outbox_ok (pdOptions d) w" using outbox_reachable_ok[OF assms(1)] by (simp add: sys_ok_def)
  note F = drain_fate[OF assms(2) ok assms(4)]
  then obtain r' where r': "r' \<in> set (owRows (run_batches bs w))" "row_core r' = row_core r"
    "obStatus r' = PENDING \<or> obStatus r' = COMPLETED" using assms(5) by auto
  have "pending_count (run_batches bs w) = 0" using F assms(3) by simp
  then have "obStatus r' \<noteq> PENDING" using r'(1)
    by (auto simp: pending_count_def filter_empty_conv is_pending_def)
  with r' have "obStatus r' = COMPLETED" by simp
  moreover have "delivered (busBroker (owBus (run_batches bs w))) r'"
    using F r'(1) calculation by (auto simp: outbox_ok_def list_all_iff row_ok_def)
  ultimately show ?thesis using r' by (auto simp: delivered_def)
qed

theorem outbox_drains_witness:
  "\<exists>r' \<in> set (owRows (run_batches [(quiet_env, demo_deps)] demo_world)).
     row_core r' = row_core demo_row \<and> obStatus r' = COMPLETED"
  using outbox_drains[OF demo_emitted, of "[(quiet_env, demo_deps)]" demo_deps demo_row]
  by (auto simp: demo_rows pending_count_def is_pending_def DEFAULT_OUTBOX_POLLER_OPTIONS_def)

text \<open>
  C25: The retry bound. While the broker rejects everything, fresh rows that fit in a batch
  count one retry per batch and become DEAD at \<open>maxRetries\<close>, never later and never sent.
  The clocks of the batches are arbitrary: the computed backoff delays nothing, so that
  \<open>maxRetries\<close> polling intervals are enough to park an event.
\<close>

theorem outbox_retry_bound:
  assumes "\<forall>(env, d) \<in> set bs. db_up env \<and> broker_down env \<and> pdOptions d = opt"
    and "0 < maxRetries opt" "length (owRows w) \<le> batchSize opt"
    and "distinct (List.map obId (owRows w))"
    and "\<forall>r \<in> set (owRows w). obStatus r = PENDING \<and> obRetryCount r = 0 \<and> obLockedAt r = None"
  shows "busBroker (owBus (run_batches bs w)) = busBroker (owBus w) \<and>
    (\<forall>r \<in> set (owRows (run_batches bs w)).
       if length bs < maxRetries opt then obStatus r = PENDING \<and> obRetryCount r = length bs
       else obStatus r = DEAD \<and> obRetryCount r = maxRetries opt)"
proof -
  have "outbox_ok opt w" using assms(4,5) by (auto simp: outbox_ok_def list_all_iff row_ok_def)
  moreover have "\<forall>r \<in> set (owRows w). (obStatus r, obRetryCount r) = attempts_status opt 0"
    using assms(2,5) by (simp add: attempts_status_def)
  ultimately show ?thesis
    using all_down_rounds[OF assms(1) _ assms(2,3), of 0] by (auto simp: attempts_status_def)
qed

theorem outbox_retry_bound_witness:
  "list_all (\<lambda>r. obStatus r = DEAD \<and> obRetryCount r = 5)
     (owRows (run_batches (replicate 5 (outage_env, demo_deps)) demo_world))"
proof -
  have m: "maxRetries DEFAULT_OUTBOX_POLLER_OPTIONS = 5" "batchSize DEFAULT_OUTBOX_POLLER_OPTIONS = 100"
    by (simp_all add: DEFAULT_OUTBOX_POLLER_OPTIONS_def)
  have "obLockedAt demo_row = None"
    by (simp add: demo_row_def demo_world_def emitDomainEvent_def writeOutboxEvent_def)
  then show ?thesis
    using outbox_retry_bound[of "replicate 5 (outage_env, demo_deps)" DEFAULT_OUTBOX_POLLER_OPTIONS demo_world]
    by (simp add: demo_rows m list_all_iff)
qed

text \<open>
  A row left PROCESSING is never taken up again. A batch query asks for PENDING rows only,
  so a row that was claimed when its poller crashed stays exactly as it is through any number
  of later batches, of any poller, at any time: the lock timeout is not consulted for it.
\<close>

theorem processing_row_is_stranded:
  assumes "distinct (List.map obId (owRows w))" "r \<in> set (owRows w)" "obStatus r = PROCESSING"
  shows "r \<in> set (owRows (run_batches bs w))"
  using assms run_batches_keeps[of r w bs] by simp

theorem processing_row_is_stranded_witness:
  "\<exists>w ph. outbox_steps demo_deps outbox_init (w, ph) \<and> (\<forall>i. ph i = PIdle) \<and>
     (\<exists>r \<in> set (owRows (run_batches (replicate 9 (quiet_env, demo_deps)) w)). obStatus r = PROCESSING)"
proof -
  define s where "s = run_schedule quiet_env demo_deps [0, 0] (demo_world, \<lambda>_. PIdle)"
  obtain w ph where wp: "s = (w, ph)" by force
  have a: "outbox_steps demo_deps outbox_init (w, ph)"
    unfolding wp[symmetric] s_def by (rule rtranclp_trans[OF demo_emitted run_schedule_steps])
  have "ph i = PIdle" if "i \<noteq> 0" for i
    using wp[symmetric] that by (auto simp: s_def split: prod.splits)
  then have i: "\<forall>i. (ph(0 := PIdle)) i = PIdle" by simp
  have "outbox_step demo_deps (w, ph) (w, ph(0 := PIdle))" by (rule outbox_step.crash)
  with a have b: "outbox_steps demo_deps outbox_init (w, ph(0 := PIdle))"
    by (rule rtranclp.rtrancl_into_rtrancl)
  have "List.map obStatus (owRows (fst s)) = [PROCESSING]" 
    unfolding s_def by (simp add: trace_defs)
  then have st: "List.map obStatus (owRows w) = [PROCESSING]" by (simp add: wp)
  then obtain r where r: "r \<in> set (owRows w)" "obStatus r = PROCESSING" by (auto simp: map_eq_Cons_conv)
  have "distinct (List.map obId (owRows w))"
    using outbox_reachable_ok[OF a] by (simp add: sys_ok_def outbox_ok_def)
  from processing_row_is_stranded[OF this r, of "replicate 9 (quiet_env, demo_deps)"] r(2)
  have "\<exists>r \<in> set (owRows (run_batches (replicate 9 (quiet_env, demo_deps)) w)). obStatus r = PROCESSING"
    by blast
  with b i show ?thesis by blast
qed

text \<open>
  Two pollers can deliver the same event twice, with every call succeeding. The claim is a
  read followed by an update that does not test the status, so a second instance that reads
  before the first one claims processes the row as well.
\<close>

theorem two_pollers_deliver_twice:
  "\<exists>w ph. outbox_steps demo_deps outbox_init (w, ph) \<and>
     List.map (\<lambda>r. (obId r, obStatus r)) (owRows w) = [(''e1'', COMPLETED)] \<and>
     sent_count ''e1'' (busBroker (owBus w)) = 2"
proof -
  define s where "s = run_schedule quiet_env demo_deps [0, 1, 0, 1, 0, 0, 1, 1] (demo_world, \<lambda>_. PIdle)"
  obtain w ph where wp: "s = (w, ph)" by force
  have "outbox_steps demo_deps outbox_init (w, ph)"
    unfolding wp[symmetric] s_def by (rule rtranclp_trans[OF demo_emitted run_schedule_steps])
  moreover have "List.map (\<lambda>r. (obId r, obStatus r)) (owRows (fst s)) = [(''e1'', COMPLETED)] \<and>
      sent_count ''e1'' (busBroker (owBus (fst s))) = 2" 
    unfolding s_def by (simp add: trace_defs)
  then have "List.map (\<lambda>r. (obId r, obStatus r)) (owRows w) = [(''e1'', COMPLETED)] \<and>
      sent_count ''e1'' (busBroker (owBus w)) = 2" by (simp add: wp)
  ultimately show ?thesis by (intro exI[of _ w] exI[of _ ph] conjI) simp_all
qed

text \<open>
  The gate of a poller. Of two overlapping triggers only the first runs a batch, until the
  batch is over; but a \<open>stop\<close> that arrives while \<open>start\<close> awaits its first drain finds no timer to
  clear, and the interval is set afterwards: the stopped poller keeps polling.
\<close>

theorem poller_gate_and_late_timer:
  "\<not> fst (triggerBatch_begin (snd (triggerBatch_begin p))) \<and>
   fst (triggerBatch_begin (triggerBatch_end p)) \<and>
   pTimer (start_resume (stop (snd (triggerBatch_begin (snd (start_begin new_poller)))))) \<and>
   \<not> isRunning (start_resume (stop (snd (triggerBatch_begin (snd (start_begin new_poller))))))"
  by (auto simp: triggerBatch_begin_def triggerBatch_end_def start_resume_def stop_def stop_begin_def
      start_begin_def new_poller_def)

end
