(* ===== verification/Breaker_Interface.thy ===== *)
theory Breaker_Interface
  imports Nexus_Prelude
begin

text \<open>
  What the callers of a circuit breaker rely on. A call is split at its \<open>await\<close>: \<open>admit\<close> is the
  synchronous part before it (the verdict and the new state), \<open>success\<close> and \<open>failure\<close> the part
  after it, so that any number of calls can be in flight. Each synchronous part reads the
  clock once.
\<close>

datatype circuit_state = CLOSED | OPEN | HALF_OPEN

datatype breaker_event = Ask time | Succeeded time | Failed time

fun event_time :: "breaker_event \<Rightarrow> time" where
  "event_time (Ask t) = t"
| "event_time (Succeeded t) = t"
| "event_time (Failed t) = t"

locale circuit_breaker =
  fixes admit :: "time \<Rightarrow> 's \<Rightarrow> bool \<times> 's"
    and success :: "time \<Rightarrow> 's \<Rightarrow> 's"
    and failure :: "time \<Rightarrow> 's \<Rightarrow> 's"
    and phase :: "'s \<Rightarrow> circuit_state"
    and opened_at :: "'s \<Rightarrow> time"
    and reset :: int
  assumes closed_admits: "phase s = CLOSED \<Longrightarrow> fst (admit t s) \<and> phase (snd (admit t s)) = CLOSED"
    and open_rejects: "\<lbrakk>phase s = OPEN; t - opened_at s < reset\<rbrakk> \<Longrightarrow>
          \<not> fst (admit t s) \<and> phase (snd (admit t s)) = OPEN \<and> opened_at (snd (admit t s)) = opened_at s"
    and success_open: "phase s = OPEN \<Longrightarrow> phase (success t s) = OPEN \<and> opened_at (success t s) = opened_at s"
    and failure_open: "phase s = OPEN \<Longrightarrow>
          phase (failure t s) = OPEN \<and> opened_at (failure t s) \<in> {opened_at s, t}"
    and failure_half_open: "phase s = HALF_OPEN \<Longrightarrow> phase (failure t s) = OPEN \<and> opened_at (failure t s) = t"
    and success_not_open: "phase s \<noteq> OPEN \<Longrightarrow> phase (success t s) \<noteq> OPEN"
begin

fun event_step :: "breaker_event \<Rightarrow> 's \<Rightarrow> 's" where
  "event_step (Ask t) s = snd (admit t s)"
| "event_step (Succeeded t) s = success t s"
| "event_step (Failed t) s = failure t s"

fun events_run :: "breaker_event list \<Rightarrow> 's \<Rightarrow> 's" where
  "events_run [] s = s"
| "events_run (e # es) s = events_run es (event_step e s)"

text \<open>
  While a breaker is open, and until \<open>reset\<close> has passed since it opened, nothing that may
  happen (new calls, late results of old ones) closes it or lets a call through.
\<close>

lemma open_step:
  assumes "phase s = OPEN" "t0 \<le> opened_at s" "t0 \<le> event_time e" "event_time e - t0 < reset"
  shows "phase (event_step e s) = OPEN \<and> t0 \<le> opened_at (event_step e s)"
  using assms open_rejects[of s "event_time e"] success_open[of s "event_time e"]
    failure_open[of s "event_time e"]
  by (cases e) auto

lemma stays_open:
  assumes "phase s = OPEN" "t0 \<le> opened_at s"
    and "\<forall>e \<in> set es. t0 \<le> event_time e \<and> event_time e - t0 < reset"
  shows "phase (events_run es s) = OPEN \<and> t0 \<le> opened_at (events_run es s)"
  using assms
proof (induction es arbitrary: s)
  case (Cons e es)
  then show ?case using open_step[of s t0 e] by simp
qed simp

lemma fails_fast:
  assumes "phase s = OPEN" "t0 \<le> opened_at s"
    and "\<forall>e \<in> set es. t0 \<le> event_time e \<and> event_time e - t0 < reset"
    and "t - t0 < reset"
  shows "\<not> fst (admit t (events_run es s))"
  using stays_open[OF assms(1-3)] assms(4) open_rejects[of "events_run es s" t] by force

end

end
