(* ===== verification/Breakers.thy ===== *)
theory Breakers
  imports Breaker_Interface Errors
begin

text \<open>
  The three circuit breakers: \<open>cache/circuitBreaker.ts\<close> (the same file in the auth and the user
  service), \<open>resilience/circuitBreaker.ts\<close> of the notification service and the middleware
  \<open>circuitBreaker.ts\<close> of the gateway. Log lines are not kept.
\<close>

subsection \<open>The breaker of the auth and user services\<close>

record cb_options =
  cbName :: string
  failureThreshold :: nat
  failureWindowMs :: int
  resetTimeoutMs :: int
  halfOpenMaxRetries :: nat

definition DEFAULT_OPTIONS :: cb_options where
  "DEFAULT_OPTIONS = \<lparr>cbName = ''unnamed-circuit-breaker'', failureThreshold = 5,
     failureWindowMs = 10000, resetTimeoutMs = 30000, halfOpenMaxRetries = 3\<rparr>"

record cb_state =
  cbState :: circuit_state
  failureCount :: nat
  lastFailureTime :: time
  lastStateChange :: time
  halfOpenAttempts :: nat
  consecutiveSuccesses :: nat
  failureTimestamps :: "time list"

definition new_breaker :: "time \<Rightarrow> cb_state" where
  "new_breaker now = \<lparr>cbState = CLOSED, failureCount = 0, lastFailureTime = 0,
     lastStateChange = now, halfOpenAttempts = 0, consecutiveSuccesses = 0, failureTimestamps = []\<rparr>"

definition getState :: "cb_state \<Rightarrow> circuit_state" where
  "getState s = cbState s"

definition transitionTo :: "time \<Rightarrow> circuit_state \<Rightarrow> cb_state \<Rightarrow> cb_state" where
  "transitionTo now new s =
     (let s = s\<lparr>cbState := new, lastStateChange := now\<rparr> in
      if new = CLOSED
      then s\<lparr>failureTimestamps := [], failureCount := 0, halfOpenAttempts := 0,
             consecutiveSuccesses := 0\<rparr>
      else s)"

definition forceState :: "time \<Rightarrow> circuit_state \<Rightarrow> cb_state \<Rightarrow> cb_state" where
  "forceState now st s = transitionTo now st s"

definition pruneFailureTimestamps :: "cb_options \<Rightarrow> time \<Rightarrow> cb_state \<Rightarrow> cb_state" where
  "pruneFailureTimestamps opt now s =
     (let ts = dropWhile (\<lambda>t. t < now - failureWindowMs opt) (failureTimestamps s)
      in s\<lparr>failureTimestamps := ts, failureCount := length ts\<rparr>)"

definition recordFailure :: "cb_options \<Rightarrow> time \<Rightarrow> cb_state \<Rightarrow> cb_state" where
  "recordFailure opt now s =
     (let ts = failureTimestamps s @ [now];
          s = s\<lparr>failureTimestamps := ts, lastFailureTime := now, failureCount := length ts\<rparr>
      in if cbState s = CLOSED \<and> length ts \<ge> failureThreshold opt
         then transitionTo now OPEN s else s)"

text \<open>
  \<open>execute\<close> before its \<open>await fn()\<close>: a rejection carries the error thrown when the caller gave
  no fallback.
\<close>

definition open_error :: "cb_options \<Rightarrow> js_error" where
  "open_error opt = AppErr (CircuitBreakerError (''Circuit breaker is OPEN for \"'' @ cbName opt @
     ''\". Failing fast to prevent cascading failure.''))"

definition half_open_error :: "cb_options \<Rightarrow> js_error" where
  "half_open_error opt = AppErr (CircuitBreakerError (''Circuit breaker is OPEN for \"'' @ cbName opt @
     ''\" after failed HALF_OPEN attempts.''))"

definition enter_half_open :: "cb_options \<Rightarrow> time \<Rightarrow> cb_state \<Rightarrow> (unit, cb_state) res" where
  "enter_half_open opt now s =
     (if cbState s = HALF_OPEN then
        if halfOpenAttempts s \<ge> halfOpenMaxRetries opt
        then (Inl (half_open_error opt), (transitionTo now OPEN s)\<lparr>halfOpenAttempts := 0\<rparr>)
        else (Inr (), s\<lparr>halfOpenAttempts := halfOpenAttempts s + 1\<rparr>)
      else (Inr (), s))"

definition execute_begin :: "cb_options \<Rightarrow> time \<Rightarrow> cb_state \<Rightarrow> (unit, cb_state) res" where
  "execute_begin opt now s =
     (let s = pruneFailureTimestamps opt now s in
      if cbState s = OPEN then
        if now - lastStateChange s \<ge> resetTimeoutMs opt
        then enter_half_open opt now (transitionTo now HALF_OPEN s)
        else (Inl (open_error opt), s)
      else enter_half_open opt now s)"

definition execute_success :: "time \<Rightarrow> cb_state \<Rightarrow> cb_state" where
  "execute_success now s =
     (if cbState s = HALF_OPEN then
        let s = s\<lparr>consecutiveSuccesses := consecutiveSuccesses s + 1\<rparr> in
        if consecutiveSuccesses s \<ge> 2
        then (transitionTo now CLOSED s)\<lparr>halfOpenAttempts := 0, consecutiveSuccesses := 0\<rparr>
        else s
      else s\<lparr>failureCount := 0\<rparr>)"

definition execute_failure :: "cb_options \<Rightarrow> time \<Rightarrow> cb_state \<Rightarrow> cb_state" where
  "execute_failure opt now s =
     (let s = recordFailure opt now s in
      if cbState s = HALF_OPEN then transitionTo now OPEN s else s)"

text \<open>\<open>execute(fn, fallback)\<close> for a call whose \<open>fn\<close> settles with \<open>r\<close> at time \<open>t1\<close>.\<close>

definition execute ::
    "cb_options \<Rightarrow> time \<Rightarrow> time \<Rightarrow> (js_error + 'a) \<Rightarrow> (js_error + 'a) option \<Rightarrow> cb_state \<Rightarrow> ('a, cb_state) res" where
  "execute opt t0 t1 r fallback s =
     (case execute_begin opt t0 s of
        (Inl e, s) \<Rightarrow> (case fallback of Some f \<Rightarrow> (f, s) | None \<Rightarrow> (Inl e, s))
      | (Inr u, s) \<Rightarrow> (case r of
            Inr x \<Rightarrow> (Inr x, execute_success t1 s)
          | Inl e \<Rightarrow> (Inl e, execute_failure opt t1 s)))"

lemmas cb_defs =
  transitionTo_def pruneFailureTimestamps_def recordFailure_def enter_half_open_def
  execute_begin_def execute_success_def execute_failure_def Let_def

subsection \<open>The breaker of the notification service\<close>

record nb_options =
  nbThreshold :: nat
  nbResetMs :: int

record nb_state =
  nbState :: circuit_state
  nbFailureCount :: nat
  nbLastFailureTime :: time
  halfOpenInFlight :: bool

definition nb_new :: nb_state where
  "nb_new = \<lparr>nbState = CLOSED, nbFailureCount = 0, nbLastFailureTime = 0, halfOpenInFlight = False\<rparr>"

definition nb_trial_error :: js_error where
  "nb_trial_error =
     AppErr (CircuitBreakerError ''Circuit breaker is OPEN - trial request already in flight'')"

definition nb_open_error :: js_error where
  "nb_open_error =
     AppErr (CircuitBreakerError ''Circuit breaker is OPEN - external dependency unavailable'')"

definition nb_execute_begin :: "nb_options \<Rightarrow> time \<Rightarrow> nb_state \<Rightarrow> (unit, nb_state) res" where
  "nb_execute_begin opt now s =
     (if nbState s = OPEN then
        if now - nbLastFailureTime s \<ge> nbResetMs opt then
          if halfOpenInFlight s then (Inl nb_trial_error, s)
          else (Inr (), s\<lparr>nbState := HALF_OPEN, halfOpenInFlight := True\<rparr>)
        else (Inl nb_open_error, s)
      else (Inr (), s))"

definition onSuccess :: "nb_state \<Rightarrow> nb_state" where
  "onSuccess s =
     (if nbState s = HALF_OPEN
      then s\<lparr>nbState := CLOSED, nbFailureCount := 0, halfOpenInFlight := False\<rparr> else s)"

definition onFailure :: "nb_options \<Rightarrow> time \<Rightarrow> nb_state \<Rightarrow> nb_state" where
  "onFailure opt now s =
     (let s = s\<lparr>nbLastFailureTime := now\<rparr> in
      if nbState s = HALF_OPEN then s\<lparr>nbState := OPEN, halfOpenInFlight := False\<rparr>
      else let s = s\<lparr>nbFailureCount := nbFailureCount s + 1\<rparr> in
           if nbFailureCount s \<ge> nbThreshold opt then s\<lparr>nbState := OPEN\<rparr> else s)"

text \<open>The part after the \<open>await\<close>; only errors that \<open>shouldTrip\<close> accepts count.\<close>

definition nb_settle ::
    "nb_options \<Rightarrow> ('e \<Rightarrow> bool) \<Rightarrow> time \<Rightarrow> ('e + 'a) \<Rightarrow> nb_state \<Rightarrow> nb_state" where
  "nb_settle opt shouldTrip now r s =
     (case r of Inr x \<Rightarrow> onSuccess s | Inl e \<Rightarrow> if shouldTrip e then onFailure opt now s else s)"

definition nb_execute ::
    "nb_options \<Rightarrow> (js_error \<Rightarrow> bool) \<Rightarrow> time \<Rightarrow> time \<Rightarrow> (js_error + 'a) \<Rightarrow> nb_state \<Rightarrow> ('a, nb_state) res" where
  "nb_execute opt shouldTrip t0 t1 r s =
     on_ok (nb_execute_begin opt t0 s) (\<lambda>_ s. (r, nb_settle opt shouldTrip t1 r s))"

subsection \<open>The breaker of the gateway\<close>

record gw_state =
  gwFailures :: nat
  gwLastFailureTime :: time
  gwState :: circuit_state

record gw_config =
  gwThreshold :: nat
  gwTimeout :: int
  gwResetTimeout :: int

definition gw_new :: gw_state where
  "gw_new = \<lparr>gwFailures = 0, gwLastFailureTime = 0, gwState = CLOSED\<rparr>"

type_synonym gw_services = "string \<rightharpoonup> gw_state"

definition getOrCreate :: "string \<Rightarrow> gw_services \<Rightarrow> gw_state" where
  "getOrCreate service m = (case m service of None \<Rightarrow> gw_new | Some s \<Rightarrow> s)"

definition refreshState :: "gw_config \<Rightarrow> time \<Rightarrow> gw_state \<Rightarrow> gw_state" where
  "refreshState c now s =
     (let elapsed = now - gwLastFailureTime s;
          s = (if gwState s = OPEN \<and> elapsed \<ge> gwResetTimeout c
               then s\<lparr>gwState := HALF_OPEN, gwFailures := 0\<rparr> else s)
      in if gwState s = CLOSED \<and> elapsed \<ge> gwTimeout c \<and> gwFailures s > 0
         then s\<lparr>gwFailures := 0\<rparr> else s)"

definition success_of :: "gw_state \<Rightarrow> gw_state" where
  "success_of s = (if gwState s = HALF_OPEN then s\<lparr>gwState := CLOSED, gwFailures := 0\<rparr> else s)"

definition failure_of :: "gw_config \<Rightarrow> time \<Rightarrow> gw_state \<Rightarrow> gw_state" where
  "failure_of c now s =
     (let s = s\<lparr>gwFailures := gwFailures s + 1, gwLastFailureTime := now\<rparr>;
          s = (if gwFailures s \<ge> gwThreshold c then s\<lparr>gwState := OPEN\<rparr> else s)
      in if gwState s = HALF_OPEN then s\<lparr>gwState := OPEN\<rparr> else s)"

definition gw_recordSuccess :: "string \<Rightarrow> gw_services \<Rightarrow> gw_services" where
  "gw_recordSuccess service m = m(service \<mapsto> success_of (getOrCreate service m))"

definition gw_recordFailure :: "gw_config \<Rightarrow> time \<Rightarrow> string \<Rightarrow> gw_services \<Rightarrow> gw_services" where
  "gw_recordFailure c now service m = m(service \<mapsto> failure_of c now (getOrCreate service m))"

definition isOpen :: "gw_config \<Rightarrow> time \<Rightarrow> string \<Rightarrow> gw_services \<Rightarrow> bool \<times> gw_services" where
  "isOpen c now service m =
     (let s = refreshState c now (getOrCreate service m) in (gwState s = OPEN, m(service \<mapsto> s)))"

text \<open>\<open>/^\\/([a-zA-Z0-9\\-]+)-service\\//\<close>: the greedy group ends at the last \<open>-service/\<close> that is
  preceded by characters of the class only.\<close>

definition name_char :: "char \<Rightarrow> bool" where
  "name_char c \<longleftrightarrow> (let n = of_char c :: nat in
     (97 \<le> n \<and> n \<le> 122) \<or> (65 \<le> n \<and> n \<le> 90) \<or> (48 \<le> n \<and> n \<le> 57) \<or> n = 45)"

text \<open>The class excludes the slash, so the group and \<open>-service\<close> fill the first path segment.\<close>

definition service_match :: "string \<Rightarrow> string option" where
  "service_match path = (case path of
       [] \<Rightarrow> None
     | c # rest \<Rightarrow>
         let seg = takeWhile (\<lambda>x. x \<noteq> CHR ''/'') rest;
             n = length seg - length ''-service''
         in if c = CHR ''/'' \<and> length seg < length rest \<and> list_all name_char seg \<and>
               length ''-service'' < length seg \<and> drop n seg = ''-service''
            then Some (take n seg) else None)"

text \<open>The middleware, and the wrapped \<open>res.json\<close> it leaves behind for admitted requests.\<close>

datatype gw_verdict = PassUnwatched | PassWatched string | Blocked js_error

definition circuitBreakerMiddleware ::
    "gw_config \<Rightarrow> time \<Rightarrow> string \<Rightarrow> gw_services \<Rightarrow> gw_verdict \<times> gw_services" where
  "circuitBreakerMiddleware c now path m =
     (case service_match path of
        None \<Rightarrow> (PassUnwatched, m)
      | Some service \<Rightarrow> (case isOpen c now service m of (op, m) \<Rightarrow>
          if op then (Blocked (unavailable
              ''Service temporarily unavailable due to high failure rate.''), m)
          else (PassWatched service, m)))"

definition watched_json :: "gw_config \<Rightarrow> time \<Rightarrow> string \<Rightarrow> int \<Rightarrow> gw_services \<Rightarrow> gw_services" where
  "watched_json c now service code m =
     (if code \<ge> 500 then gw_recordFailure c now service m else gw_recordSuccess service m)"

subsection \<open>The contract holds of all three\<close>

definition cb_admit :: "cb_options \<Rightarrow> time \<Rightarrow> cb_state \<Rightarrow> bool \<times> cb_state" where
  "cb_admit opt t s = (is_ok (fst (execute_begin opt t s)), snd (execute_begin opt t s))"

definition nb_admit :: "nb_options \<Rightarrow> time \<Rightarrow> nb_state \<Rightarrow> bool \<times> nb_state" where
  "nb_admit opt t s = (is_ok (fst (nb_execute_begin opt t s)), snd (nb_execute_begin opt t s))"

definition nb_success :: "time \<Rightarrow> nb_state \<Rightarrow> nb_state" where
  "nb_success t s = onSuccess s"

definition gw_admit :: "gw_config \<Rightarrow> time \<Rightarrow> gw_state \<Rightarrow> bool \<times> gw_state" where
  "gw_admit c t s = (gwState (refreshState c t s) \<noteq> OPEN, refreshState c t s)"

definition gw_success :: "time \<Rightarrow> gw_state \<Rightarrow> gw_state" where
  "gw_success t s = success_of s"

interpretation auth_cb: circuit_breaker
  "cb_admit opt" execute_success "execute_failure opt" cbState lastStateChange "resetTimeoutMs opt"
  for opt
  by unfold_locales (auto simp: cb_defs cb_admit_def)

interpretation notification_cb: circuit_breaker
  "nb_admit opt" nb_success "onFailure opt" nbState nbLastFailureTime "nbResetMs opt"
  for opt
  by unfold_locales
    (auto simp: nb_admit_def nb_success_def nb_execute_begin_def onSuccess_def onFailure_def Let_def)

interpretation gateway_cb: circuit_breaker
  "gw_admit c" gw_success "failure_of c" gwState gwLastFailureTime "gwResetTimeout c"
  for c
  by unfold_locales
    (auto simp: gw_admit_def gw_success_def refreshState_def success_of_def failure_of_def Let_def)

end
