(* ===== verification/Breaker_Claims.thy ===== *)
theory Breaker_Claims
  imports Breakers
begin

text \<open>Properties of the three circuit breakers.\<close>

subsection \<open>Helper facts\<close>

lemma dropWhile_sorted: "sorted ts \<Longrightarrow> dropWhile (\<lambda>t. t < c) ts = filter (\<lambda>t. c \<le> t) (ts :: int list)"
proof (induction ts)
  case (Cons t ts)
  show ?case
  proof (cases "t < c")
    case False
    then have "filter (\<lambda>t. c \<le> t) ts = ts" using Cons.prems by (intro filter_True) auto
    with False show ?thesis by simp
  qed (use Cons in auto)
qed simp

lemma nb_step_inv:
  "(halfOpenInFlight s \<longleftrightarrow> nbState s = HALF_OPEN) \<Longrightarrow>
     (halfOpenInFlight (notification_cb.event_step opt e s) \<longleftrightarrow>
      nbState (notification_cb.event_step opt e s) = HALF_OPEN)"
  by (cases e)
    (auto simp: nb_admit_def nb_success_def nb_execute_begin_def onSuccess_def onFailure_def Let_def)

lemma nb_run_inv:
  "(halfOpenInFlight s \<longleftrightarrow> nbState s = HALF_OPEN) \<Longrightarrow>
     (halfOpenInFlight (notification_cb.events_run opt es s) \<longleftrightarrow>
      nbState (notification_cb.events_run opt es s) = HALF_OPEN)"
proof (induction es arbitrary: s)
  case (Cons e es)
  show ?case using Cons.IH[OF nb_step_inv[OF Cons.prems]] by simp
qed simp

lemma gw_failures_run:
  assumes "gwState s \<noteq> HALF_OPEN"
  shows "gwState (foldl (\<lambda>s t. failure_of c t s) s ts) \<noteq> HALF_OPEN \<and>
    gwFailures (foldl (\<lambda>s t. failure_of c t s) s ts) = gwFailures s + length ts \<and>
    (ts \<noteq> [] \<longrightarrow> gwLastFailureTime (foldl (\<lambda>s t. failure_of c t s) s ts) = last ts \<and>
       (gwThreshold c \<le> gwFailures s + length ts \<longrightarrow> gwState (foldl (\<lambda>s t. failure_of c t s) s ts) = OPEN))"
  using assms
proof (induction ts rule: rev_induct)
  case (snoc t ts)
  then show ?case by (auto simp: failure_of_def Let_def)
qed simp

lemma gw_service_failures:
  "foldl (\<lambda>m t. watched_json c t service 503 m) m (t # ts) service =
     Some (foldl (\<lambda>s t. failure_of c t s) (getOrCreate service m) (t # ts))"
  "service' \<noteq> service \<Longrightarrow> foldl (\<lambda>m t. watched_json c t service 503 m) m us service' = m service'"
proof -
  show "foldl (\<lambda>m t. watched_json c t service 503 m) m (t # ts) service =
     Some (foldl (\<lambda>s t. failure_of c t s) (getOrCreate service m) (t # ts))"
  proof (induction ts rule: rev_induct)
    case (snoc u ts)
    then show ?case by (simp add: watched_json_def gw_recordFailure_def getOrCreate_def)
  qed (simp add: watched_json_def gw_recordFailure_def)
  show "service' \<noteq> service \<Longrightarrow> foldl (\<lambda>m t. watched_json c t service 503 m) m us service' = m service'"
    by (induction us rule: rev_induct) (simp_all add: watched_json_def gw_recordFailure_def)
qed

subsection \<open>Properties\<close>

text \<open>
  C20: An open breaker fails fast. In each of the three breakers, from the moment \<open>t0\<close> it opened
  and until its reset timeout has passed, no call is admitted, whatever calls are made and
  whatever results of earlier calls (successes included) still arrive.
\<close>

theorem open_breakers_fail_fast:
  assumes "\<forall>e \<in> set es. t0 \<le> event_time e \<and> event_time e - t0 < reset" "t - t0 < reset"
  shows "(cbState s = OPEN \<and> t0 \<le> lastStateChange s \<and> resetTimeoutMs opt = reset \<longrightarrow>
            \<not> is_ok (fst (execute_begin opt t (auth_cb.events_run opt es s)))) \<and>
         (nbState n = OPEN \<and> t0 \<le> nbLastFailureTime n \<and> nbResetMs nopt = reset \<longrightarrow>
            \<not> is_ok (fst (nb_execute_begin nopt t (notification_cb.events_run nopt es n)))) \<and>
         (gwState g = OPEN \<and> t0 \<le> gwLastFailureTime g \<and> gwResetTimeout c = reset \<longrightarrow>
            gwState (refreshState c t (gateway_cb.events_run c es g)) = OPEN)"
  using auth_cb.fails_fast[where s = s and es = es and opt = opt and t = t and ?t0.0 = t0]
    notification_cb.fails_fast[where s = n and es = es and opt = nopt and t = t and ?t0.0 = t0]
    gateway_cb.fails_fast[where s = g and es = es and c = c and t = t and ?t0.0 = t0] assms
  by (auto simp: cb_admit_def nb_admit_def gw_admit_def)

theorem open_breakers_fail_fast_witness:
  "\<not> is_ok (fst (execute_begin DEFAULT_OPTIONS 29999
     (auth_cb.events_run DEFAULT_OPTIONS [Ask 5, Succeeded 7, Failed 9]
       ((new_breaker 0)\<lparr>cbState := OPEN\<rparr>))))"
  using open_breakers_fail_fast[of "[Ask 5, Succeeded 7, Failed 9]" 0 30000 29999
      "(new_breaker 0)\<lparr>cbState := OPEN\<rparr>" DEFAULT_OPTIONS]
  by (simp add: DEFAULT_OPTIONS_def new_breaker_def)



text \<open>
  C22: Recovery. An open breaker with a clean half-open record lets the first call after the
  reset timeout through, and two successful calls in a row close it and clear the failures.
\<close>

theorem breaker_recovers:
  fixes x y :: 'a and fb :: "(js_error + 'a) option" and t1' :: time
  assumes "cbState s = OPEN" "halfOpenAttempts s = 0" "consecutiveSuccesses s = 0"
    and "t1 - lastStateChange s \<ge> resetTimeoutMs opt" "2 \<le> halfOpenMaxRetries opt"
  defines "s1 \<equiv> snd (execute opt t1 t1' (Inr x :: js_error + 'a) fb s)"
  shows "fst (execute opt t1 t1' (Inr x :: js_error + 'a) fb s) = Inr x \<and> cbState s1 = HALF_OPEN \<and>
    fst (execute opt t2 t2' (Inr y :: js_error + 'a) fb s1) = Inr y \<and>
    cbState (snd (execute opt t2 t2' (Inr y :: js_error + 'a) fb s1)) = CLOSED \<and>
    failureTimestamps (snd (execute opt t2 t2' (Inr y :: js_error + 'a) fb s1)) = []"
  using assms(1-5) unfolding s1_def by (simp add: execute_def cb_defs)

theorem breaker_recovers_witness:
  "cbState (snd (execute DEFAULT_OPTIONS 30001 30001 (Inr 1 :: js_error + nat) None
     (snd (execute DEFAULT_OPTIONS 30000 30000 (Inr 0 :: js_error + nat) None
       ((new_breaker 0)\<lparr>cbState := OPEN\<rparr>))))) = CLOSED"
  using breaker_recovers[where 'a = nat and s = "(new_breaker 0)\<lparr>cbState := OPEN\<rparr>" and
      opt = DEFAULT_OPTIONS and ?t1.0 = 30000 and t1' = 30000 and x = 0 and fb = None and
      ?t2.0 = 30001 and t2' = 30001 and y = 1]
  by (simp add: DEFAULT_OPTIONS_def new_breaker_def)

text \<open>
  A failed half-open probe does not clear the half-open record: the success count and the
  attempt count survive the return to OPEN. With the default options, a success, a failed
  probe and a success half a minute later close the breaker although no two successes are
  consecutive; and after three failed probes the next call after the timeout is rejected
  without being tried and the breaker waits for another timeout.
\<close>

theorem half_open_record_survives_reopening:
  "cbState (snd (execute DEFAULT_OPTIONS 60002 60002 (Inr 0 :: js_error + nat) None
     (snd (execute DEFAULT_OPTIONS 30001 30001 (Inl NonError :: js_error + nat) None
       (snd (execute DEFAULT_OPTIONS 30000 30000 (Inr 0 :: js_error + nat) None
         ((new_breaker 0)\<lparr>cbState := OPEN\<rparr>))))))) = CLOSED \<and>
   \<not> is_ok (fst (execute DEFAULT_OPTIONS 120000 120000 (Inr 0 :: js_error + nat) None
     (snd (execute DEFAULT_OPTIONS 90000 90000 (Inl NonError :: js_error + nat) None
       (snd (execute DEFAULT_OPTIONS 60000 60000 (Inl NonError :: js_error + nat) None
         (snd (execute DEFAULT_OPTIONS 30000 30000 (Inl NonError :: js_error + nat) None
           ((new_breaker 0)\<lparr>cbState := OPEN\<rparr>)))))))))"
  by (simp add: execute_def cb_defs DEFAULT_OPTIONS_def new_breaker_def)

text \<open>
  The single trial request of the notification breaker. In every state the breaker can
  reach, the in-flight flag is set exactly in HALF_OPEN, so the test of the flag in the OPEN
  branch never rejects anyone; and in HALF_OPEN every further caller is admitted while the
  trial is still running.
\<close>

theorem notification_half_open_admits_everyone:
  assumes "s = notification_cb.events_run opt es nb_new"
  shows "fst (nb_execute_begin opt t s) \<noteq> Inl nb_trial_error \<and>
    (nbState s = HALF_OPEN \<longrightarrow> nb_execute_begin opt t s = (Inr (), s))"
proof -
  have "halfOpenInFlight s \<longleftrightarrow> nbState s = HALF_OPEN"
    unfolding assms by (rule nb_run_inv) (simp add: nb_new_def)
  then show ?thesis
    by (auto simp: nb_execute_begin_def nb_open_error_def nb_trial_error_def CircuitBreakerError_def AppError_def)
qed

theorem notification_half_open_admits_everyone_witness:
  "let s = notification_cb.events_run \<lparr>nbThreshold = 1, nbResetMs = 100\<rparr> [Failed 1, Ask 101] nb_new in
   nbState s = HALF_OPEN \<and> nb_execute_begin \<lparr>nbThreshold = 1, nbResetMs = 100\<rparr> 102 s = (Inr (), s)"
  using notification_half_open_admits_everyone[OF refl, where
      opt = "\<lparr>nbThreshold = 1, nbResetMs = 100\<rparr>" and es = "[Failed 1, Ask 101]" and t = 102]
  by (simp add: Let_def nb_new_def onFailure_def nb_execute_begin_def nb_admit_def)

text \<open>
  The failures that open the notification breaker need not be consecutive: successes in
  CLOSED do not reset the count, so two failures open a breaker of threshold two however many
  successes come between them.
\<close>

theorem notification_failures_accumulate:
  "nbState (notification_cb.events_run \<lparr>nbThreshold = 2, nbResetMs = r\<rparr>
     (Failed t1 # List.map Succeeded ts @ [Failed t2]) nb_new) = OPEN"
proof -
  let ?o = "\<lparr>nbThreshold = 2, nbResetMs = r\<rparr>"
  have app: "notification_cb.events_run opt (xs @ ys) s =
      notification_cb.events_run opt ys (notification_cb.events_run opt xs s)" for opt xs ys s
    by (induction xs arbitrary: s) simp_all
  have succ: "nbState s = CLOSED \<Longrightarrow> notification_cb.events_run ?o (List.map Succeeded ts) s = s" for s
    by (induction ts arbitrary: s) (simp_all add: nb_success_def onSuccess_def)
  show ?thesis by (simp add: app succ nb_new_def onFailure_def)
qed

text \<open>
  The gateway opens per service. After THRESHOLD responses of status 500 or more in a row
  for one service, requests under its path are answered 503 until RESET_TIMEOUT has passed
  since the last failure, and the breakers of other services are as before.
\<close>

theorem gateway_blocks_failing_service:
  assumes "ts \<noteq> []" "gwThreshold c \<le> length ts" "service_match path = Some service"
    and "gwState (getOrCreate service m) \<noteq> HALF_OPEN" "now - last ts < gwResetTimeout c"
  defines "m' \<equiv> foldl (\<lambda>m t. watched_json c t service 503 m) m ts"
  shows "fst (circuitBreakerMiddleware c now path m') =
      Blocked (unavailable ''Service temporarily unavailable due to high failure rate.'') \<and>
    (\<forall>other. other \<noteq> service \<longrightarrow> m' other = m other)"
proof -
  obtain t us where ts: "ts = t # us" using assms(1) by (cases ts) auto
  let ?g = "foldl (\<lambda>s t. failure_of c t s) (getOrCreate service m) ts"
  have m': "getOrCreate service m' = ?g"
    using gw_service_failures(1)[of c service m t us] unfolding m'_def ts by (simp add: getOrCreate_def)
  have "gwState ?g = OPEN" "gwLastFailureTime ?g = last ts"
    using gw_failures_run[OF assms(4), of c ts] assms(1,2) by auto
  then have "gwState (refreshState c now (getOrCreate service m')) = OPEN"
    using assms(5) unfolding m' by (simp add: refreshState_def)
  then show ?thesis
    using assms(3) gw_service_failures(2)[of _ service c m ts]
    by (auto simp: circuitBreakerMiddleware_def isOpen_def Let_def m'_def)
qed

theorem gateway_blocks_failing_service_witness:
  "fst (circuitBreakerMiddleware \<lparr>gwThreshold = 2, gwTimeout = 60000, gwResetTimeout = 30000\<rparr> 40
     ''/auth-service/api/v1/login''
     (foldl (\<lambda>m t. watched_json \<lparr>gwThreshold = 2, gwTimeout = 60000, gwResetTimeout = 30000\<rparr> t ''auth'' 503 m)
       Map.empty [10, 20])) =
   Blocked (unavailable ''Service temporarily unavailable due to high failure rate.'')"
proof -
  have "service_match ''/auth-service/api/v1/login'' = Some ''auth''" by code_simp
  then show ?thesis
    using gateway_blocks_failing_service[of "[10, 20]"
        "\<lparr>gwThreshold = 2, gwTimeout = 60000, gwResetTimeout = 30000\<rparr>"
        "''/auth-service/api/v1/login''" "''auth''" Map.empty 40]
    by (simp add: getOrCreate_def gw_new_def)
qed

end
