(* ===== verification/Redis_Store.thy ===== *)
theory Redis_Store
  imports Nexus_Prelude
begin

text \<open>
  The key-value stores the services keep short-lived facts in. \<open>cache_store\<close> is what a reader
  of a cache may rely on (entries may be evicted at any time, never altered); \<open>ttl_store\<close> adds
  that a write leaves other keys alone. The Redis commands the services send are modelled on
  a map from keys to a text and an optional expiry; a key is gone once its time has come.
\<close>

subsection \<open>Interfaces\<close>

datatype ('k, 'v) store_op = Put time 'k 'v int | Remove 'k

locale cache_store =
  fixes get :: "time \<Rightarrow> 'k \<Rightarrow> 's \<Rightarrow> 'v option"
    and put :: "time \<Rightarrow> 'k \<Rightarrow> 'v \<Rightarrow> int \<Rightarrow> 's \<Rightarrow> 's"
    and remove :: "'k \<Rightarrow> 's \<Rightarrow> 's"
  assumes put_get: "now - t < ttl \<Longrightarrow> get now k (put t k v ttl s) = Some v"
    and put_expired: "ttl < now - t \<Longrightarrow> get now k (put t k v ttl s) = None"
    and put_same: "get now k (put t k v ttl s) \<in> {Some v, None}"
    and put_other: "k' \<noteq> k \<Longrightarrow> get now k' (put t k v ttl s) \<in> {get now k' s, None}"
    and remove_get: "get now k (remove k s) = None"
    and remove_other: "k' \<noteq> k \<Longrightarrow> get now k' (remove k s) = get now k' s"
begin

fun apply_op :: "('k, 'v) store_op \<Rightarrow> 's \<Rightarrow> 's" where
  "apply_op (Put t k v ttl) s = put t k v ttl s"
| "apply_op (Remove k) s = remove k s"

fun apply_ops :: "('k, 'v) store_op list \<Rightarrow> 's \<Rightarrow> 's" where
  "apply_ops [] s = s"
| "apply_ops (p # ps) s = apply_ops ps (apply_op p s)"

lemma apply_op_origin:
  "get now k (apply_op p s) = Some v \<Longrightarrow>
     get now k s = Some v \<or> (\<exists>t ttl. p = Put t k v ttl \<and> now - t \<le> ttl)"
proof (cases p)
  case (Put t k' v' ttl)
  assume a: "get now k (apply_op p s) = Some v"
  show ?thesis
  proof (cases "k' = k")
    case True
    then have "v' = v" using a Put put_same[of now k t v' ttl s] by auto
    moreover have "now - t \<le> ttl" using a Put True put_expired[of ttl now t k v' s] by force
    ultimately show ?thesis using Put True by blast
  next
    case False
    then show ?thesis using a Put put_other[of k k' now t v' ttl s] by auto
  qed
next
  case (Remove k')
  assume "get now k (apply_op p s) = Some v"
  then show ?thesis using Remove remove_get[of now k s] remove_other[of k k' now s] by (cases "k' = k") auto
qed

text \<open>Whatever a store holds was in it before, or was put under that key not longer ago than
  its time to live.\<close>

lemma get_origin:
  "get now k (apply_ops ps s) = Some v \<Longrightarrow>
     get now k s = Some v \<or> (\<exists>t ttl. Put t k v ttl \<in> set ps \<and> now - t \<le> ttl)"
proof (induction ps arbitrary: s)
  case (Cons p ps)
  then show ?case using apply_op_origin[of now k p s v] by fastforce
qed simp

lemma get_after_remove:
  assumes "get now k (apply_ops ps (remove k s)) = Some v"
  shows "\<exists>t ttl. Put t k v ttl \<in> set ps \<and> now - t \<le> ttl"
  using get_origin[OF assms] remove_get by simp

end

locale ttl_store = cache_store +
  assumes put_other_same: "k' \<noteq> k \<Longrightarrow> get now k' (put t k v ttl s) = get now k' s"
begin

text \<open>A write survives any later operation on other keys.\<close>

lemma put_survives:
  assumes "\<forall>p \<in> set ps. (case p of Put t' k' v' ttl' \<Rightarrow> k' \<noteq> k | Remove k' \<Rightarrow> k' \<noteq> k)"
    and "now - t < ttl"
  shows "get now k (apply_ops ps (put t k v ttl s)) = Some v"
proof -
  have "get now k (apply_ops ps u) = get now k u" for u
    using assms(1)
  proof (induction ps arbitrary: u)
    case (Cons p ps)
    have "get now k (apply_op p u) = get now k u"
      using Cons.prems by (cases p) (auto simp: put_other_same remove_other)
    then show ?case using Cons by simp
  qed simp
  then show ?thesis using put_get[OF assms(2)] by simp
qed

end

subsection \<open>Redis\<close>

record 'v redis =
  rdMap :: "string \<Rightarrow> ('v js_text \<times> time option) option"

definition redis_empty :: "'v redis" where
  "redis_empty = \<lparr>rdMap = \<lambda>k. None\<rparr>"

definition live :: "time \<Rightarrow> time option \<Rightarrow> bool" where
  "live now e = (case e of None \<Rightarrow> True | Some t \<Rightarrow> now < t)"

definition redis_get :: "time \<Rightarrow> string \<Rightarrow> 'v redis \<Rightarrow> 'v js_text option" where
  "redis_get now k r = (case rdMap r k of
     None \<Rightarrow> None | Some (v, e) \<Rightarrow> if live now e then Some v else None)"

text \<open>\<open>SETEX k seconds v\<close>, \<open>SET k v\<close>, \<open>DEL k\<close>, \<open>EXPIRE k seconds\<close>.\<close>

definition redis_setex :: "time \<Rightarrow> string \<Rightarrow> int \<Rightarrow> 'v js_text \<Rightarrow> 'v redis \<Rightarrow> 'v redis" where
  "redis_setex now k secs v r = r\<lparr>rdMap := (rdMap r)(k \<mapsto> (v, Some (now + 1000 * secs)))\<rparr>"

definition redis_set :: "string \<Rightarrow> 'v js_text \<Rightarrow> 'v redis \<Rightarrow> 'v redis" where
  "redis_set k v r = r\<lparr>rdMap := (rdMap r)(k \<mapsto> (v, None))\<rparr>"

definition redis_del :: "string \<Rightarrow> 'v redis \<Rightarrow> 'v redis" where
  "redis_del k r = r\<lparr>rdMap := (rdMap r)(k := None)\<rparr>"

definition redis_expire :: "time \<Rightarrow> string \<Rightarrow> int \<Rightarrow> 'v redis \<Rightarrow> 'v redis" where
  "redis_expire now k secs r = (case rdMap r k of
     None \<Rightarrow> r
   | Some (v, e) \<Rightarrow> if live now e then r\<lparr>rdMap := (rdMap r)(k \<mapsto> (v, Some (now + 1000 * secs)))\<rparr> else r)"

text \<open>\<open>INCR k\<close>: the counter after the increment; \<open>None\<close> is the error for a value that is no number.
  The expiry of a live key is kept, an expired key starts again without one.\<close>

definition redis_incr :: "time \<Rightarrow> string \<Rightarrow> 'v redis \<Rightarrow> nat option \<times> 'v redis" where
  "redis_incr now k r =
     (case redis_get now k r of
        None \<Rightarrow> (Some 1, r\<lparr>rdMap := (rdMap r)(k \<mapsto> (Txt (show_nat 1), None))\<rparr>)
      | Some (Stringified v) \<Rightarrow> (None, r)
      | Some (Txt s) \<Rightarrow> (case parse_nat s of
            None \<Rightarrow> (None, r)
          | Some n \<Rightarrow> (Some (n + 1),
              r\<lparr>rdMap := (rdMap r)(k \<mapsto> (Txt (show_nat (n + 1)), snd (the (rdMap r k))))\<rparr>)))"

text \<open>Remaining time to live in seconds, rounded up; -1 without expiry, -2 when absent.\<close>

definition redis_ttl :: "time \<Rightarrow> string \<Rightarrow> 'v redis \<Rightarrow> int" where
  "redis_ttl now k r = (case rdMap r k of
     None \<Rightarrow> -2
   | Some (v, None) \<Rightarrow> -1
   | Some (v, Some t) \<Rightarrow> if now < t then (t - now + 999) div 1000 else -2)"

lemmas redis_defs =
  redis_get_def redis_setex_def redis_set_def redis_del_def redis_expire_def live_def

lemma redis_get_setex [simp]:
  "redis_get now k (redis_setex t k secs v r) = (if now < t + 1000 * secs then Some v else None)"
  "k' \<noteq> k \<Longrightarrow> redis_get now k' (redis_setex t k secs v r) = redis_get now k' r"
  by (simp_all add: redis_defs)

lemma redis_get_set [simp]:
  "redis_get now k (redis_set k v r) = Some v"
  "k' \<noteq> k \<Longrightarrow> redis_get now k' (redis_set k v r) = redis_get now k' r"
  by (simp_all add: redis_defs)

lemma redis_get_del [simp]:
  "redis_get now k (redis_del k r) = None"
  "k' \<noteq> k \<Longrightarrow> redis_get now k' (redis_del k r) = redis_get now k' r"
  by (simp_all add: redis_defs)

lemma redis_get_expire [simp]:
  "k' \<noteq> k \<Longrightarrow> redis_get now k' (redis_expire t k secs r) = redis_get now k' r"
  by (simp add: redis_defs split: option.splits)

lemma redis_get_empty [simp]: "redis_get now k redis_empty = None"
  by (simp add: redis_get_def redis_empty_def)

lemma redis_incr_absent:
  "redis_get now k r = None \<Longrightarrow> fst (redis_incr now k r) = Some 1 \<and>
     redis_get now' k (snd (redis_incr now k r)) = Some (Txt (show_nat 1))"
  by (simp add: redis_incr_def redis_get_def live_def)

lemma redis_incr_count:
  "redis_get now k r = Some (Txt (show_nat n)) \<Longrightarrow> fst (redis_incr now k r) = Some (n + 1) \<and>
     redis_get now k (snd (redis_incr now k r)) = Some (Txt (show_nat (n + 1)))"
  by (auto simp: redis_incr_def redis_get_def live_def split: option.splits if_splits)

lemma redis_incr_other [simp]:
  "k' \<noteq> k \<Longrightarrow> redis_get now' k' (snd (redis_incr now k r)) = redis_get now' k' r"
  by (auto simp: redis_incr_def redis_get_def split: option.splits js_text.splits)

definition redis_put :: "time \<Rightarrow> string \<Rightarrow> 'v js_text \<Rightarrow> int \<Rightarrow> 'v redis \<Rightarrow> 'v redis" where
  "redis_put t k v ttl r = r\<lparr>rdMap := (rdMap r)(k \<mapsto> (v, Some (t + ttl)))\<rparr>"

lemma redis_setex_put: "redis_setex t k secs v r = redis_put t k v (1000 * secs) r"
  by (simp add: redis_setex_def redis_put_def)

interpretation redis_store: ttl_store redis_get redis_put redis_del
  by unfold_locales (auto simp: redis_get_def redis_put_def redis_del_def live_def)

end
