(* ===== verification/User_Roles.thy ===== *)
theory User_Roles
  imports Nexus_Prelude
begin

text \<open>
  The enum \<open>UserRoles\<close> of the Prisma schemas of the auth and user services, in the order of its
  declaration (the order the database sorts it by).
\<close>

datatype role = SUPER_ADMIN | ADMIN | SELLER | CUSTOMER

fun role_text :: "role \<Rightarrow> string" where
  "role_text SUPER_ADMIN = ''SUPER_ADMIN''"
| "role_text ADMIN = ''ADMIN''"
| "role_text SELLER = ''SELLER''"
| "role_text CUSTOMER = ''CUSTOMER''"

fun role_index :: "role \<Rightarrow> nat" where
  "role_index SUPER_ADMIN = 0"
| "role_index ADMIN = 1"
| "role_index SELLER = 2"
| "role_index CUSTOMER = 3"

lemma role_index_inj: "role_index r = role_index r' \<longleftrightarrow> r = r'"
  by (cases r; cases r') simp_all

lemma role_text_inj [simp]: "role_text r = role_text r' \<longleftrightarrow> r = r'"
  by (cases r; cases r') simp_all

instantiation role :: linorder
begin

definition less_eq_role :: "role \<Rightarrow> role \<Rightarrow> bool" where
  "less_eq_role r r' \<longleftrightarrow> role_index r \<le> role_index r'"

definition less_role :: "role \<Rightarrow> role \<Rightarrow> bool" where
  "less_role r r' \<longleftrightarrow> role_index r < role_index r'"

instance
  by standard (auto simp: less_eq_role_def less_role_def role_index_inj)

end

text \<open>The two role groups that never mix on one identity.\<close>

definition admin_role :: "role \<Rightarrow> bool" where
  "admin_role r \<longleftrightarrow> r \<in> {ADMIN, SUPER_ADMIN}"

lemma admin_role_simps [simp]:
  "admin_role ADMIN" "admin_role SUPER_ADMIN" "\<not> admin_role SELLER" "\<not> admin_role CUSTOMER"
  by (simp_all add: admin_role_def)

lemma admin_role_leq: "admin_role r \<longleftrightarrow> r \<le> ADMIN"
  by (cases r) (simp_all add: less_eq_role_def)

definition roles_separate :: "role list \<Rightarrow> bool" where
  "roles_separate rs \<longleftrightarrow> list_all admin_role rs \<or> list_all (\<lambda>r. \<not> admin_role r) rs"

definition roles_json :: "role list \<Rightarrow> json" where
  "roles_json rs = JArr (List.map (JStr \<circ> role_text) rs)"

end
