(* ===== verification/Auth_World.thy ===== *)
theory Auth_World
  imports Redis_Store Kafka_Outbox User_Roles Js_Date
begin

text \<open>
  The state of the auth service: its PostgreSQL tables and its Redis keys, and the
  environment of one request. One handler runs at one clock reading; database and Redis
  answer its calls (a broken unique key and a missing row are answers too). Cryptography
  (\<open>crypto\<close>, \<open>bcrypt\<close>, \<open>jsonwebtoken\<close>, \<open>uuid\<close>) is a parameter.
\<close>

subsection \<open>Parameters\<close>

record jwt_claims =
  jwId :: "string option"
  jwEmail :: string
  jwRole :: "role list"
  jwActiveRole :: "role option"
  jwFamilyId :: "string option"
  jwTokenType :: "string option"

record auth_config =
  acAccessSecret :: string
  acAccessExpires :: string
  acRefreshSecret :: string
  acRefreshExpires :: string
  acResetSecret :: string
  acResetExpires :: string
  acInternalSecret :: string
  acCustomerUrl :: string
  acSellerUrl :: string
  acAdminUrl :: string

text \<open>
  \<open>jwtSign claims secret expiresIn now\<close>, \<open>jwtVerify token secret now\<close> (its exception is the
  library's), \<open>jwtDecode token\<close> without verification; \<open>bcryptHash\<close> is the hash drawn for this
  request.
\<close>

record auth_crypto =
  sha256 :: "string \<Rightarrow> string"
  hmac256 :: "string \<Rightarrow> string \<Rightarrow> string"
  bcryptCompare :: "string \<Rightarrow> string \<Rightarrow> bool"
  bcryptHash :: "string \<Rightarrow> string"
  jwtSign :: "jwt_claims \<Rightarrow> string \<Rightarrow> string \<Rightarrow> time \<Rightarrow> string"
  jwtVerify :: "string \<Rightarrow> string \<Rightarrow> time \<Rightarrow> js_error + jwt_claims"
  jwtDecode :: "string \<Rightarrow> jwt_claims option"
  uuidV5 :: "string \<Rightarrow> string"

text \<open>Random values, the text of a date in the server's time zone, and the answer of the user
  service to the one call a handler makes to it.\<close>

record auth_env =
  aeNow :: time
  aeConfig :: auth_config
  aeCrypto :: auth_crypto
  aeRowId :: string
  aeOutboxId :: string
  aeFamily :: string
  aeOtp :: string
  aeInviteToken :: string
  aeDateText :: "time \<Rightarrow> string"
  aeUserService :: "js_error + unit"

subsection \<open>Tables and keys\<close>

record credential =
  crId :: string
  crEmail :: string
  crPassword :: string
  crRole :: "role list"
  crIsActive :: bool
  crIsBlocked :: bool
  crBlockedUntil :: "time option"
  crIsDeleted :: bool
  crDeletedAt :: "time option"
  crLastLogin :: "time option"
  crFailedLoginAttempts :: nat
  crLockedUntil :: "time option"

record password_reset =
  prId :: string
  prCredentialId :: string
  prToken :: string
  prExpiresAt :: time
  prUsedAt :: "time option"

datatype invite_status = INVITE_PENDING | INVITE_CONSUMED | INVITE_EXPIRED

record admin_invite =
  inId :: string
  inEmail :: string
  inTokenHash :: string
  inStatus :: invite_status
  inInvitedById :: string
  inExpiresAt :: time
  inConsumedAt :: "time option"
  inConsumedById :: "string option"

record auth_audit =
  aaActorId :: string
  aaAction :: string
  aaTargetId :: string
  aaTargetType :: string
  aaOldValues :: "json option"
  aaNewValues :: "json option"
  aaMetadata :: "json option"
  aaIpAddress :: "string option"
  aaUserAgent :: "string option"

record auth_db =
  adCredentials :: "credential list"
  adResets :: "password_reset list"
  adInvites :: "admin_invite list"
  adAudit :: "auth_audit list"
  adOutbox :: "outbox_row list"

record registration =
  rgEmail :: string
  rgPassword :: string
  rgFirstName :: string
  rgProfile :: "(string \<times> json) list"

datatype auth_value =
    CachedRegistration registration
  | StoredRefresh (storedHash: string) (storedCreatedAt: string)

record auth_world =
  awDb :: auth_db
  awRedis :: "auth_value redis"

type_synonym 'a aw = "auth_world \<Rightarrow> ('a, auth_world) res"

definition on_db :: "(auth_db \<Rightarrow> auth_db) \<Rightarrow> auth_world \<Rightarrow> auth_world" where
  "on_db f w = w\<lparr>awDb := f (awDb w)\<rparr>"

definition on_redis :: "(auth_value redis \<Rightarrow> auth_value redis) \<Rightarrow> auth_world \<Rightarrow> auth_world" where
  "on_redis f w = w\<lparr>awRedis := f (awRedis w)\<rparr>"

lemma on_db_simps [simp]:
  "awDb (on_db f w) = f (awDb w)" "awRedis (on_db f w) = awRedis w"
  by (simp_all add: on_db_def)

lemma on_redis_simps [simp]:
  "awRedis (on_redis f w) = f (awRedis w)" "awDb (on_redis f w) = awDb w"
  by (simp_all add: on_redis_def)

text \<open>\<open>prisma.$transaction(callback)\<close>: the tables go back when the callback throws.\<close>

definition auth_tx :: "'a aw \<Rightarrow> 'a aw" where
  "auth_tx f w = (case f w of
     (Inl e, w') \<Rightarrow> (Inl e, w'\<lparr>awDb := awDb w\<rparr>)
   | (Inr x, w') \<Rightarrow> (Inr x, w'))"

text \<open>\<open>redis.get(k)\<close> at the time of the request, and the setters with an expiry in seconds.\<close>

definition r_get :: "auth_env \<Rightarrow> string \<Rightarrow> auth_world \<Rightarrow> auth_value js_text option" where
  "r_get env k w = redis_get (aeNow env) k (awRedis w)"

definition r_truthy :: "auth_env \<Rightarrow> string \<Rightarrow> auth_world \<Rightarrow> bool" where
  "r_truthy env k w = (case r_get env k w of None \<Rightarrow> False | Some t \<Rightarrow> text_truthy t)"

definition r_setex :: "auth_env \<Rightarrow> string \<Rightarrow> int \<Rightarrow> auth_value js_text \<Rightarrow> auth_world \<Rightarrow> auth_world" where
  "r_setex env k secs v = on_redis (redis_setex (aeNow env) k secs v)"

definition r_del :: "string list \<Rightarrow> auth_world \<Rightarrow> auth_world" where
  "r_del ks = on_redis (fold redis_del ks)"

lemmas auth_world_defs [nexus_defs] =
  on_db_def on_redis_def auth_tx_def r_get_def r_truthy_def r_setex_def r_del_def

lemma awDb_r [simp]: "awDb (r_setex env k s v w) = awDb w" "awDb (r_del ks w) = awDb w"
  by (simp_all add: r_setex_def r_del_def)

lemma r_get_setex:
  "0 < s \<Longrightarrow> r_get env k (r_setex env k' s v w) = (if k = k' then Some v else r_get env k w)"
  by (simp add: r_get_def r_setex_def)

lemma redis_get_fold_del:
  "redis_get t k (fold redis_del ks r) = (if k \<in> set ks then None else redis_get t k r)"
proof (induction ks arbitrary: r)
  case (Cons a ks)
  then show ?case by (cases "a = k") auto
qed simp

lemma r_get_del: "r_get env k (r_del ks w) = (if k \<in> set ks then None else r_get env k w)"
  by (simp add: r_get_def r_del_def redis_get_fold_del)

subsection \<open>Repositories\<close>

definition findByEmail :: "string \<Rightarrow> auth_world \<Rightarrow> credential option" where
  "findByEmail email w = find (\<lambda>c. crEmail c = email) (adCredentials (awDb w))"

definition findById :: "string \<Rightarrow> auth_world \<Rightarrow> credential option" where
  "findById i w = find (\<lambda>c. crId c = i) (adCredentials (awDb w))"

definition update_credentials ::
    "(credential \<Rightarrow> bool) \<Rightarrow> (credential \<Rightarrow> credential) \<Rightarrow> auth_world \<Rightarrow> auth_world" where
  "update_credentials p f = on_db (\<lambda>db. db\<lparr>adCredentials := update_where p f (adCredentials db)\<rparr>)"

text \<open>\<open>credential.update\<close> by id throws when there is no such row, \<open>updateMany\<close> does not.\<close>

definition update_credential :: "string \<Rightarrow> (credential \<Rightarrow> credential) \<Rightarrow> unit aw" where
  "update_credential i f w =
     (if i \<in> crId ` set (adCredentials (awDb w))
      then (Inr (), update_credentials (\<lambda>c. crId c = i) f w)
      else (Inl record_not_found, w))"

definition markDeleted :: "string \<Rightarrow> time \<Rightarrow> auth_world \<Rightarrow> auth_world" where
  "markDeleted i t = update_credentials (\<lambda>c. crId c = i) (\<lambda>c. c\<lparr>crIsDeleted := True, crDeletedAt := Some t\<rparr>)"

definition markRestored :: "string \<Rightarrow> auth_world \<Rightarrow> auth_world" where
  "markRestored i = update_credentials (\<lambda>c. crId c = i) (\<lambda>c. c\<lparr>crIsDeleted := False, crDeletedAt := None\<rparr>)"

text \<open>\<open>Array.from(new Set(xs))\<close>: first occurrences, in order.\<close>

fun js_set :: "'a list \<Rightarrow> 'a list" where
  "js_set [] = []"
| "js_set (x # xs) = x # js_set (filter (\<lambda>y. y \<noteq> x) xs)"

definition addRoleIfUnchanged :: "string \<Rightarrow> role \<Rightarrow> role list \<Rightarrow> auth_world \<Rightarrow> bool \<times> auth_world" where
  "addRoleIfUnchanged i r expected w =
     (let p = (\<lambda>c. crId c = i \<and> crRole c = expected) in
      (length (filter p (adCredentials (awDb w))) = 1,
       update_credentials p (\<lambda>c. c\<lparr>crRole := js_set (expected @ [r])\<rparr>) w))"

definition existsSuperAdmin :: "auth_world \<Rightarrow> bool" where
  "existsSuperAdmin w \<longleftrightarrow>
     0 < length (filter (\<lambda>c. SUPER_ADMIN \<in> set (crRole c)) (adCredentials (awDb w)))"

definition create_credential :: "auth_env \<Rightarrow> string \<Rightarrow> string \<Rightarrow> role list \<Rightarrow> credential aw" where
  "create_credential env email password roles w =
     (if email \<in> crEmail ` set (adCredentials (awDb w)) then (Inl (unique_violation ''email''), w)
      else if aeRowId env \<in> crId ` set (adCredentials (awDb w)) then (Inl (unique_violation ''id''), w)
      else let c = \<lparr>crId = aeRowId env, crEmail = email, crPassword = password, crRole = roles,
                    crIsActive = True, crIsBlocked = False, crBlockedUntil = None, crIsDeleted = False,
                    crDeletedAt = None, crLastLogin = None, crFailedLoginAttempts = 0,
                    crLockedUntil = None\<rparr>
           in (Inr c, on_db (\<lambda>db. db\<lparr>adCredentials := adCredentials db @ [c]\<rparr>) w))"

text \<open>The password resets go with the credential (\<open>onDelete: Cascade\<close>).\<close>

definition delete_credential :: "string \<Rightarrow> unit aw" where
  "delete_credential i w =
     (if i \<in> crId ` set (adCredentials (awDb w))
      then (Inr (), on_db (\<lambda>db. db\<lparr>adCredentials := filter (\<lambda>c. crId c \<noteq> i) (adCredentials db),
              adResets := filter (\<lambda>p. prCredentialId p \<noteq> i) (adResets db)\<rparr>) w)
      else (Inl record_not_found, w))"

record audit_log_input =
  alActorId :: string
  alAction :: string
  alTargetId :: string
  alTargetType :: string
  alOldValues :: "json option"
  alNewValues :: "json option"
  alMetadata :: "json option"
  alIpAddress :: "string option"
  alUserAgent :: "string option"

definition auth_writeAuditLog :: "audit_log_input \<Rightarrow> auth_world \<Rightarrow> auth_world" where
  "auth_writeAuditLog p = on_db (\<lambda>db. db\<lparr>adAudit := adAudit db @
     [\<lparr>aaActorId = alActorId p, aaAction = alAction p, aaTargetId = alTargetId p,
       aaTargetType = alTargetType p, aaOldValues = alOldValues p, aaNewValues = alNewValues p,
       aaMetadata = alMetadata p, aaIpAddress = alIpAddress p, aaUserAgent = alUserAgent p\<rparr>]\<rparr>)"

definition auth_emit :: "auth_env \<Rightarrow> string \<Rightarrow> string \<Rightarrow> json \<Rightarrow> auth_world \<Rightarrow> auth_world" where
  "auth_emit env ty agg payload = on_db (\<lambda>db. db\<lparr>adOutbox :=
     emitDomainEvent (aeOutboxId env) (aeNow env) ty agg payload None (adOutbox db)\<rparr>)"

lemmas auth_repo_defs [nexus_defs] =
  findByEmail_def findById_def update_credentials_def update_credential_def create_credential_def
  delete_credential_def auth_writeAuditLog_def auth_emit_def

lemma awRedis_writes [simp]:
  "awRedis (update_credentials p f w) = awRedis w" "awRedis (auth_writeAuditLog a w) = awRedis w"
  "awRedis (auth_emit env ty agg payload w) = awRedis w"
  by (simp_all add: update_credentials_def auth_writeAuditLog_def auth_emit_def)

lemma findByEmail_redis [simp]:
  "findByEmail e (r_setex env k s v w) = findByEmail e w" "findByEmail e (r_del ks w) = findByEmail e w"
  by (simp_all add: findByEmail_def)

end
