(* ===== verification/Auth_Sessions.thy ===== *)
theory Auth_Sessions
  imports Auth_World
begin

text \<open>
  Tokens of the auth service: \<open>utils/token\<close>, \<open>repositories/refreshToken.ts\<close>, the session part of
  \<open>auth.service.ts\<close> (issue, refresh, logout) and \<open>middlewares/auth.ts\<close>, with the middleware of the
  user service that reads the same access tokens.
\<close>

subsection \<open>Verifying and issuing tokens\<close>

text \<open>The type error is thrown inside the \<open>try\<close>, so it comes out as \<open>UnauthorizedError\<close> too.\<close>

definition verifyToken ::
    "auth_crypto \<Rightarrow> time \<Rightarrow> string option \<Rightarrow> string \<Rightarrow> string option \<Rightarrow> js_error + jwt_claims" where
  "verifyToken cr now token secret expectedType =
     (if \<not> str_truthy token then Inl (unauthorized ''No token provided'')
      else if secret = [] then Inl (bad_request ''JWT secret is not configured'')
      else case jwtVerify cr (the token) secret now of
        Inl e \<Rightarrow> Inl (unauthorized (js_error_message e))
      | Inr c \<Rightarrow>
          if str_truthy expectedType \<and> jwTokenType c \<noteq> expectedType
          then Inl (unauthorized (''Invalid token type. Expected '' @ the expectedType @ '' token''))
          else Inr c)"

definition buildJwtPayload :: "string option \<Rightarrow> string \<Rightarrow> role list \<Rightarrow> role \<Rightarrow> jwt_claims" where
  "buildJwtPayload i email roles activeRole =
     \<lparr>jwId = i, jwEmail = email, jwRole = roles, jwActiveRole = Some activeRole, jwFamilyId = None,
      jwTokenType = None\<rparr>"

definition generateToken :: "auth_env \<Rightarrow> jwt_claims \<Rightarrow> string \<Rightarrow> string \<Rightarrow> string" where
  "generateToken env c secret expiresIn = jwtSign (aeCrypto env) c secret expiresIn (aeNow env)"

definition issueAccessToken :: "auth_env \<Rightarrow> jwt_claims \<Rightarrow> string" where
  "issueAccessToken env c = generateToken env (c\<lparr>jwTokenType := Some ''access''\<rparr>)
     (acAccessSecret (aeConfig env)) (acAccessExpires (aeConfig env))"

definition signRefreshToken :: "auth_env \<Rightarrow> jwt_claims \<Rightarrow> string \<Rightarrow> string" where
  "signRefreshToken env c fam =
     generateToken env (c\<lparr>jwTokenType := Some ''refresh'', jwFamilyId := Some fam\<rparr>)
       (acRefreshSecret (aeConfig env)) (acRefreshExpires (aeConfig env))"

subsection \<open>The refresh token store\<close>

definition REFRESH_TOKEN_TTL_SECONDS :: int where "REFRESH_TOKEN_TTL_SECONDS = 7 * 24 * 60 * 60"

definition refreshKey :: "string \<Rightarrow> string \<Rightarrow> string" where
  "refreshKey credentialId familyId = ''auth:refresh:'' @ credentialId @ '':'' @ familyId"

definition hashRefreshToken :: "auth_env \<Rightarrow> string \<Rightarrow> string" where
  "hashRefreshToken env token = sha256 (aeCrypto env) token"

definition buildStoredValue :: "auth_env \<Rightarrow> string \<Rightarrow> auth_value js_text" where
  "buildStoredValue env token =
     Stringified (StoredRefresh (hashRefreshToken env token) (iso_of (aeNow env)))"

text \<open>Without a family, the random UUID of the request starts one.\<close>

definition issueRefreshToken ::
    "auth_env \<Rightarrow> jwt_claims \<Rightarrow> string \<Rightarrow> string option \<Rightarrow> auth_world \<Rightarrow> (string \<times> string) \<times> auth_world" where
  "issueRefreshToken env payload credentialId familyId w =
     (let fam = (case familyId of None \<Rightarrow> aeFamily env | Some f \<Rightarrow> f);
          token = signRefreshToken env payload fam
      in ((token, fam), r_setex env (refreshKey credentialId fam) REFRESH_TOKEN_TTL_SECONDS
            (buildStoredValue env token) w))"

text \<open>A value that is no JSON, or has no hash, counts as revoked.\<close>

definition stored_hash_of :: "auth_value js_text \<Rightarrow> string option" where
  "stored_hash_of t = (case json_parse t of Some (StoredRefresh h c) \<Rightarrow> Some h | _ \<Rightarrow> None)"

definition findActiveTokenHash :: "auth_env \<Rightarrow> string \<Rightarrow> string \<Rightarrow> auth_world \<Rightarrow> string option" where
  "findActiveTokenHash env credentialId familyId w =
     (case r_get env (refreshKey credentialId familyId) w of
        None \<Rightarrow> None
      | Some t \<Rightarrow> if text_truthy t then stored_hash_of t else None)"

text \<open>The Lua script, run by Redis without interruption.\<close>

definition rotate_script ::
    "time \<Rightarrow> string \<Rightarrow> string \<Rightarrow> auth_value js_text \<Rightarrow> int \<Rightarrow> auth_value redis \<Rightarrow> nat \<times> auth_value redis" where
  "rotate_script now key expected value secs r =
     (case redis_get now key r of
        None \<Rightarrow> (0, r)
      | Some t \<Rightarrow> if stored_hash_of t \<noteq> Some expected then (0, r)
                  else (1, redis_setex now key secs value r))"

definition rotateRefreshToken ::
    "auth_env \<Rightarrow> string \<Rightarrow> string \<Rightarrow> string \<Rightarrow> jwt_claims \<Rightarrow> auth_world \<Rightarrow> (string \<times> string) option \<times> auth_world" where
  "rotateRefreshToken env credentialId familyId expected payload w =
     (let token = signRefreshToken env payload familyId in
      case rotate_script (aeNow env) (refreshKey credentialId familyId) expected
             (buildStoredValue env token) REFRESH_TOKEN_TTL_SECONDS (awRedis w)
      of (n, r) \<Rightarrow> (if n \<noteq> 1 then None else Some (token, familyId), w\<lparr>awRedis := r\<rparr>))"

definition revokeTokenFamily :: "string \<Rightarrow> string \<Rightarrow> auth_world \<Rightarrow> auth_world" where
  "revokeTokenFamily credentialId familyId = r_del [refreshKey credentialId familyId]"

text \<open>The scan visits every key that is there from its start to its end.\<close>

definition revokeAllRefreshTokens :: "string \<Rightarrow> auth_world \<Rightarrow> auth_world" where
  "revokeAllRefreshTokens credentialId = on_redis (\<lambda>r. r\<lparr>rdMap :=
     (\<lambda>k. if is_prefix_of (refreshKey credentialId []) k then None else rdMap r k)\<rparr>)"

text \<open>Logout decodes the token without verifying it.\<close>

definition revokeRefreshToken :: "auth_env \<Rightarrow> string option \<Rightarrow> auth_world \<Rightarrow> auth_world" where
  "revokeRefreshToken env token w =
     (case (case token of None \<Rightarrow> None | Some t \<Rightarrow> jwtDecode (aeCrypto env) t) of
        None \<Rightarrow> w
      | Some c \<Rightarrow>
          if str_truthy (jwId c) \<and> str_truthy (jwFamilyId c)
          then r_del [refreshKey (the (jwId c)) (the (jwFamilyId c))] w else w)"

lemmas session_defs [nexus_defs] =
  buildJwtPayload_def generateToken_def issueAccessToken_def signRefreshToken_def hashRefreshToken_def
  buildStoredValue_def issueRefreshToken_def findActiveTokenHash_def rotate_script_def
  rotateRefreshToken_def revokeTokenFamily_def stored_hash_of_def

subsection \<open>Sessions\<close>

record auth_result =
  arId :: string
  arEmail :: string
  arRole :: "role list"
  arAccessToken :: string
  arRefreshToken :: string

definition issueSession :: "auth_env \<Rightarrow> credential \<Rightarrow> role \<Rightarrow> auth_result aw" where
  "issueSession env c activeRole w =
     (let p = buildJwtPayload (Some (crId c)) (crEmail c) (crRole c) activeRole in
      case issueRefreshToken env p (crId c) None w of
        ((token, fam), w') \<Rightarrow>
          (Inr \<lparr>arId = crId c, arEmail = crEmail c, arRole = crRole c,
                arAccessToken = issueAccessToken env p, arRefreshToken = token\<rparr>, w'))"

record token_refresh =
  trAccessToken :: string
  trRefreshToken :: string
  trRole :: "role list"

text \<open>
  \<open>refreshToken\<close>, cut where another request can come in between: the checks up to the hash
  comparison, and the rotation. An undefined id prints as such in the key.
\<close>

definition id_text :: "string option \<Rightarrow> string" where
  "id_text i = (case i of None \<Rightarrow> ''undefined'' | Some s \<Rightarrow> s)"

definition refresh_check :: "auth_env \<Rightarrow> string option \<Rightarrow> (jwt_claims \<times> string) aw" where
  "refresh_check env token w =
     (case verifyToken (aeCrypto env) (aeNow env) token (acRefreshSecret (aeConfig env)) (Some ''refresh'') of
        Inl e \<Rightarrow> (Inl e, w)
      | Inr c \<Rightarrow>
          if \<not> str_truthy (jwFamilyId c) \<or> jwActiveRole c = None
          then (Inl (unauthorized ''Invalid refresh token''), w)
          else case findActiveTokenHash env (id_text (jwId c)) (the (jwFamilyId c)) w of
            None \<Rightarrow> (Inl (unauthorized ''Invalid refresh token''), w)
          | Some h \<Rightarrow>
              if h = [] then (Inl (unauthorized ''Invalid refresh token''), w)
              else if hashRefreshToken env (the token) \<noteq> h
              then (Inl (unauthorized ''Refresh token has been revoked''),
                    revokeTokenFamily (id_text (jwId c)) (the (jwFamilyId c)) w)
              else (Inr (c, h), w))"

definition refresh_rotate :: "auth_env \<Rightarrow> jwt_claims \<times> string \<Rightarrow> token_refresh aw" where
  "refresh_rotate env ch w =
     (case ch of (c, h) \<Rightarrow>
        let i = id_text (jwId c); fam = the (jwFamilyId c);
            p = buildJwtPayload (jwId c) (jwEmail c) (jwRole c) (the (jwActiveRole c)) in
        (case rotateRefreshToken env i fam h p w of
           (None, w') \<Rightarrow> (Inl (unauthorized ''Refresh token has been revoked''), revokeTokenFamily i fam w')
         | (Some (token, f), w') \<Rightarrow>
             (Inr \<lparr>trAccessToken = issueAccessToken env p, trRefreshToken = token, trRole = jwRole c\<rparr>, w')))"

definition refreshToken :: "auth_env \<Rightarrow> string option \<Rightarrow> token_refresh aw" where
  "refreshToken env token w = on_ok (refresh_check env token w) (refresh_rotate env)"

definition logout :: "auth_env \<Rightarrow> string option \<Rightarrow> unit aw" where
  "logout env token w = (Inr (), revokeRefreshToken env token w)"

subsection \<open>Authenticated requests\<close>

text \<open>\<open>s.split(" ")[1]\<close>\<close>

definition second_word :: "string \<Rightarrow> string option" where
  "second_word s = (case dropWhile (\<lambda>c. c \<noteq> CHR '' '') s of
     [] \<Rightarrow> None | _ # rest \<Rightarrow> Some (takeWhile (\<lambda>c. c \<noteq> CHR '' '') rest))"

definition bearer_token :: "string option \<Rightarrow> string option \<Rightarrow> string option" where
  "bearer_token cookie header =
     (if str_truthy cookie then cookie
      else case header of None \<Rightarrow> None | Some h \<Rightarrow> second_word h)"

record request_user =
  ruId :: "string option"
  ruEmail :: string
  ruRole :: role

definition authenticate ::
    "auth_crypto \<Rightarrow> time \<Rightarrow> string \<Rightarrow> string option \<Rightarrow> string option \<Rightarrow> js_error + request_user" where
  "authenticate cr now secret cookie header =
     (let token = bearer_token cookie header in
      if \<not> str_truthy token then Inl (unauthorized ''You are not authorized!'')
      else case verifyToken cr now token secret (Some ''access'') of
        Inl e \<Rightarrow> Inl e
      | Inr c \<Rightarrow> (case jwActiveRole c of
            None \<Rightarrow> Inl (unauthorized ''Invalid access token'')
          | Some r \<Rightarrow> Inr \<lparr>ruId = jwId c, ruEmail = jwEmail c, ruRole = r\<rparr>))"

definition requireRole :: "role list \<Rightarrow> request_user option \<Rightarrow> js_error + unit" where
  "requireRole allowed u =
     (case u of
        None \<Rightarrow> Inl (forbidden ''You do not have permission to perform this action'')
      | Some x \<Rightarrow> if ruRole x \<in> set allowed then Inr ()
                  else Inl (forbidden ''You do not have permission to perform this action''))"

text \<open>
  \<open>middlewares/auth.ts\<close> of the user service; its \<open>verifyToken\<close> has the same text. It looks at
  all roles of the account, not at the active role of the session.
\<close>

record user_request =
  uqId :: "string option"
  uqEmail :: string
  uqRole :: "role list"

definition user_auth ::
    "role list \<Rightarrow> auth_crypto \<Rightarrow> time \<Rightarrow> string \<Rightarrow> string option \<Rightarrow> string option \<Rightarrow> js_error + user_request" where
  "user_auth required cr now secret cookie header =
     (let token = bearer_token cookie header in
      if \<not> str_truthy token then Inl (unauthorized ''You are not authorized!'')
      else case verifyToken cr now token secret (Some ''access'') of
        Inl e \<Rightarrow> Inl e
      | Inr c \<Rightarrow>
          if required \<noteq> [] \<and> \<not> list_ex (\<lambda>r. r \<in> set required) (jwRole c)
          then Inl (forbidden ''You do not have permission to perform this action'')
          else Inr \<lparr>uqId = jwId c, uqEmail = jwEmail c, uqRole = jwRole c\<rparr>)"

end
