(* ===== verification/Auth_Login.thy ===== *)
theory Auth_Login
  imports Auth_Sessions
begin

text \<open>
  Logging in: the client surface guard, the password check with its lockout
  (\<open>utils/handleLogin.ts\<close>), the account checks, and the three login surfaces.
\<close>

subsection \<open>Client surfaces\<close>

datatype client_surface = CUSTOMER_WEB | SELLER_WEB | ADMIN_WEB

fun surface_text :: "client_surface \<Rightarrow> string" where
  "surface_text CUSTOMER_WEB = ''customer-web''"
| "surface_text SELLER_WEB = ''seller-web''"
| "surface_text ADMIN_WEB = ''admin-web''"

record request_context =
  rcClientType :: "string option"
  rcIpAddress :: "string option"
  rcUserAgent :: "string option"

definition assertClientSurface :: "client_surface \<Rightarrow> request_context \<Rightarrow> unit aw" where
  "assertClientSurface expected ctx w =
     (if rcClientType ctx = Some (surface_text expected) then (Inr (), w)
      else (Inl (AppErr (BadRequestError (''This endpoint serves the '' @ surface_text expected @
                 '' client only'') (Some ''CLIENT_TYPE_MISMATCH''))),
            if str_truthy (rcClientType ctx) then
              auth_writeAuditLog
                \<lparr>alActorId = ''anonymous'', alAction = ''CLIENT_TYPE_MISMATCH'', alTargetId = ''anonymous'',
                 alTargetType = ''Credential'', alOldValues = None,
                 alNewValues = Some (JObj [(''expectedSurface'', JStr (surface_text expected)),
                   (''clientType'', JStr (the (rcClientType ctx)))]),
                 alMetadata = Some (JObj [(''context'', JStr ''clientSurfaceGuard'')]),
                 alIpAddress = rcIpAddress ctx, alUserAgent = rcUserAgent ctx\<rparr> w
            else w))"

subsection \<open>Lockout\<close>

definition MAX_LOGIN_ATTEMPTS :: nat where "MAX_LOGIN_ATTEMPTS = 5"
definition LOCK_DURATION_MS :: int where "LOCK_DURATION_MS = 15 * 60 * 1000"

definition checkLockout :: "time \<Rightarrow> credential \<Rightarrow> js_error + unit" where
  "checkLockout now c =
     (case crLockedUntil c of
        Some t \<Rightarrow> if t > now
          then Inl (unauthorized (''Account temporarily locked. Try again in '' @
                 show_int ((t - now + 59999) div 60000) @ '' minute(s).''))
          else Inr ()
      | None \<Rightarrow> Inr ())"

definition handleFailedLogin :: "auth_env \<Rightarrow> string \<Rightarrow> unit aw" where
  "handleFailedLogin env i w =
     on_ok (update_credential i (\<lambda>c. c\<lparr>crFailedLoginAttempts := crFailedLoginAttempts c + 1\<rparr>) w) (\<lambda>_ w.
     case findById i w of
       None \<Rightarrow> (Inr (), w)
     | Some updated \<Rightarrow>
         if crFailedLoginAttempts updated \<ge> MAX_LOGIN_ATTEMPTS
         then update_credential i (\<lambda>c. c\<lparr>crLockedUntil := Some (aeNow env + LOCK_DURATION_MS)\<rparr>) w
         else (Inr (), w))"

definition resetLoginAttempts :: "auth_env \<Rightarrow> string \<Rightarrow> unit aw" where
  "resetLoginAttempts env i =
     update_credential i (\<lambda>c. c\<lparr>crFailedLoginAttempts := 0, crLockedUntil := None,
       crLastLogin := Some (aeNow env)\<rparr>)"

subsection \<open>Credentials and account state\<close>

definition invalid_login :: js_error where
  "invalid_login = unauthorized ''Invalid email or password''"

definition verifyCredentials :: "auth_env \<Rightarrow> string \<Rightarrow> string \<Rightarrow> credential aw" where
  "verifyCredentials env email password w =
     (case findByEmail email w of
        None \<Rightarrow> (Inl invalid_login, w)
      | Some c \<Rightarrow>
          if \<not> bcryptCompare (aeCrypto env) password (crPassword c)
          then on_ok (handleFailedLogin env (crId c) w) (\<lambda>_ w. (Inl invalid_login, w))
          else (Inr c, w))"

definition login_grace_ms :: int where "login_grace_ms = 30 * 24 * 60 * 60 * 1000"

definition account_state :: "auth_env \<Rightarrow> credential \<Rightarrow> js_error + unit" where
  "account_state env c =
     (if crIsDeleted c then
        (case crDeletedAt c of
           Some t \<Rightarrow> if aeNow env - t < login_grace_ms then Inl (unauthorized ''ACCOUNT_DELETED'')
                     else Inl invalid_login
         | None \<Rightarrow> Inl invalid_login)
      else if crIsBlocked c then
        Inl (unauthorized (''Account is blocked until '' @
          (case crBlockedUntil c of None \<Rightarrow> ''null'' | Some t \<Rightarrow> aeDateText env t)))
      else if \<not> crIsActive c then Inl (unauthorized ''Account is deactivated'')
      else checkLockout (aeNow env) c)"

definition completeLogin :: "auth_env \<Rightarrow> credential \<Rightarrow> role \<Rightarrow> auth_result aw" where
  "completeLogin env c activeRole w =
     (case account_state env c of
        Inl e \<Rightarrow> (Inl e, w)
      | Inr _ \<Rightarrow>
          on_ok (resetLoginAttempts env (crId c) w) (\<lambda>_ w. issueSession env c activeRole w))"

subsection \<open>The three surfaces\<close>

definition customerLogin :: "auth_env \<Rightarrow> string \<Rightarrow> string \<Rightarrow> request_context \<Rightarrow> auth_result aw" where
  "customerLogin env email password ctx w =
     on_ok (assertClientSurface CUSTOMER_WEB ctx w) (\<lambda>_ w.
     on_ok (verifyCredentials env email password w) (\<lambda>c w.
     if CUSTOMER \<notin> set (crRole c)
     then (Inl (AppErr (BadRequestError ''No customer profile exists for this account. Please create one to continue.''
             (Some ''NO_CUSTOMER_PROFILE''))), w)
     else completeLogin env c CUSTOMER w))"

definition sellerLogin :: "auth_env \<Rightarrow> string \<Rightarrow> string \<Rightarrow> request_context \<Rightarrow> auth_result aw" where
  "sellerLogin env email password ctx w =
     on_ok (assertClientSurface SELLER_WEB ctx w) (\<lambda>_ w.
     on_ok (verifyCredentials env email password w) (\<lambda>c w.
     if SELLER \<notin> set (crRole c)
     then (Inl (AppErr (BadRequestError ''No seller profile exists for this account. Create one to start selling.''
             (Some ''NO_SELLER_PROFILE''))), w)
     else completeLogin env c SELLER w))"

definition adminLogin :: "auth_env \<Rightarrow> string \<Rightarrow> string \<Rightarrow> request_context \<Rightarrow> auth_result aw" where
  "adminLogin env email password ctx w =
     on_ok (assertClientSurface ADMIN_WEB ctx w) (\<lambda>_ w.
     on_ok (verifyCredentials env email password w) (\<lambda>c w.
     if \<not> list_ex admin_role (crRole c)
     then (Inl (forbidden ''Access denied''),
           auth_writeAuditLog
             \<lparr>alActorId = crId c, alAction = ''ADMIN_LOGIN_DENIED_NO_ROLE'', alTargetId = crId c,
              alTargetType = ''Credential'', alOldValues = Some (JObj [(''roles'', roles_json (crRole c))]),
              alNewValues = None, alMetadata = None, alIpAddress = rcIpAddress ctx,
              alUserAgent = rcUserAgent ctx\<rparr> w)
     else completeLogin env c (if SUPER_ADMIN \<in> set (crRole c) then SUPER_ADMIN else ADMIN) w))"

subsection \<open>Facts on the table updates\<close>

lemma find_id_mem: "find (\<lambda>c. crEmail c = e) cs = Some c \<Longrightarrow> crId c \<in> crId ` set cs"
  by (auto simp: find_Some_iff)

lemma find_by_id_of_email:
  assumes "distinct (List.map crId cs)" "find (\<lambda>c. crEmail c = e) cs = Some c"
  shows "find (\<lambda>x. crId x = crId c) cs = Some c"
  using assms
proof (induction cs)
  case (Cons x xs)
  show ?case
  proof (cases "crEmail x = e")
    case True
    then show ?thesis using Cons.prems(2) by simp
  next
    case False
    then have f: "find (\<lambda>c. crEmail c = e) xs = Some c" using Cons.prems(2) by simp
    then have "crId x \<noteq> crId c" using Cons.prems(1) find_id_mem[OF f] by auto
    then show ?thesis using Cons.IH Cons.prems(1) f by simp
  qed
qed simp

text \<open>What a failed password check does to the row: one more failure, and from the fifth on a
  lock of fifteen minutes from now.\<close>

definition failed_once :: "time \<Rightarrow> credential \<Rightarrow> credential" where
  "failed_once now c =
     (let c' = c\<lparr>crFailedLoginAttempts := crFailedLoginAttempts c + 1\<rparr> in
      if 5 \<le> crFailedLoginAttempts c' then c'\<lparr>crLockedUntil := Some (now + 900000)\<rparr> else c')"

lemma failed_once_simps [simp]:
  "crId (failed_once t c) = crId c" "crEmail (failed_once t c) = crEmail c"
  "crPassword (failed_once t c) = crPassword c" "crRole (failed_once t c) = crRole c"
  "crIsDeleted (failed_once t c) = crIsDeleted c" "crIsBlocked (failed_once t c) = crIsBlocked c"
  "crIsActive (failed_once t c) = crIsActive c"
  "crFailedLoginAttempts (failed_once t c) = crFailedLoginAttempts c + 1"
  by (simp_all add: failed_once_def Let_def)

lemma wrong_password_login:
  assumes "findByEmail email w = Some c" "\<not> bcryptCompare (aeCrypto env) password (crPassword c)"
    and ids: "distinct (List.map crId (adCredentials (awDb w)))"
  obtains w' where "verifyCredentials env email password w = (Inl invalid_login, w')"
    "findByEmail email w' = Some (failed_once (aeNow env) c)" "awRedis w' = awRedis w"
    "List.map crId (adCredentials (awDb w')) = List.map crId (adCredentials (awDb w))"
proof -
  let ?cs = "adCredentials (awDb w)"
  let ?q = "\<lambda>x. crId x = crId c"
  let ?f = "\<lambda>x. x\<lparr>crFailedLoginAttempts := crFailedLoginAttempts x + 1\<rparr>"
  let ?g = "\<lambda>x. x\<lparr>crLockedUntil := Some (aeNow env + LOCK_DURATION_MS)\<rparr>"
  have fe: "find (\<lambda>x. crEmail x = email) ?cs = Some c" using assms(1) by (simp add: findByEmail_def)
  have fi: "find ?q ?cs = Some c" by (rule find_by_id_of_email[OF ids fe])
  let ?cs1 = "update_where ?q ?f ?cs"
  let ?w1 = "on_db (\<lambda>db. db\<lparr>adCredentials := ?cs1\<rparr>) w"
  have f1: "find ?q ?cs1 = Some (?f c)" "find (\<lambda>x. crEmail x = email) ?cs1 = Some (?f c)"
    using find_update_where[of ?q ?q ?f ?cs] find_update_where[of "\<lambda>x. crEmail x = email" ?q ?f ?cs] fi fe by simp_all
  have "crId (?f c) \<in> crId ` set ?cs1" using find_Some_set[OF f1(1)] by (intro imageI) simp
  then have m1: "crId c \<in> crId ` set ?cs1" by simp
  have u1: "update_credential (crId c) ?f w = (Inr (), ?w1)"
    using find_id_mem[OF fe] by (simp add: update_credential_def update_credentials_def on_db_def)
  show thesis
  proof (cases "5 \<le> crFailedLoginAttempts c + 1")
    case False
    then have "verifyCredentials env email password w = (Inl invalid_login, ?w1)"
      using assms(1,2) u1 f1(1) by (simp add: verifyCredentials_def handleFailedLogin_def findById_def MAX_LOGIN_ATTEMPTS_def)
    then show thesis using f1(2) False
      by (intro that[of ?w1]) (simp_all add: findByEmail_def failed_once_def map_update_where_same)
  next
    case True
    let ?cs2 = "update_where ?q ?g ?cs1"
    let ?w2 = "on_db (\<lambda>db. db\<lparr>adCredentials := ?cs2\<rparr>) w"
    have u2: "update_credential (crId c) ?g ?w1 = (Inr (), ?w2)"
      using m1 by (simp add: update_credential_def update_credentials_def on_db_def)
    have "find (\<lambda>x. crEmail x = email) ?cs2 = Some (?g (?f c))"
      using find_update_where[of "\<lambda>x. crEmail x = email" ?q ?g ?cs1] f1 by simp
    moreover have "verifyCredentials env email password w = (Inl invalid_login, ?w2)"
      using assms(1,2) u1 u2 f1(1) True by (simp add: verifyCredentials_def handleFailedLogin_def findById_def MAX_LOGIN_ATTEMPTS_def)
    ultimately show thesis using True
      by (intro that[of ?w2]) (simp_all add: findByEmail_def failed_once_def map_update_where_same LOCK_DURATION_MS_def)
  qed
qed

end
