(* ===== verification/Auth_Otp.thy ===== *)
theory Auth_Otp
  imports Auth_World
begin

text \<open>
  \<open>utils/otp\<close> of the auth service: the restrictions before a new code is sent, the count of
  requests, and the verification of a code with its limit of attempts. The only purpose is
  \<open>EMAIL_VERIFICATION\<close>; \<open>generateOtp\<close> is the number drawn by \<open>crypto.randomInt\<close>.
\<close>

definition EMAIL_VERIFICATION :: string where "EMAIL_VERIFICATION = ''EMAIL_VERIFICATION''"

definition otp_block_key :: "string \<Rightarrow> string" where
  "otp_block_key email = ''auth:otp_block:'' @ email @ '':'' @ EMAIL_VERIFICATION"

definition otp_spam_key :: "string \<Rightarrow> string" where
  "otp_spam_key email = ''auth:otp_spam_block:'' @ email @ '':'' @ EMAIL_VERIFICATION"

definition otp_cooldown_key :: "string \<Rightarrow> string" where
  "otp_cooldown_key email = ''auth:otp_cooldown:'' @ email @ '':'' @ EMAIL_VERIFICATION"

definition otp_count_key :: "string \<Rightarrow> string" where
  "otp_count_key email = ''auth:otp_request_count:'' @ email @ '':'' @ EMAIL_VERIFICATION"

definition otp_attempts_key :: "string \<Rightarrow> string" where
  "otp_attempts_key email = ''auth:otp_attempts:'' @ email @ '':'' @ EMAIL_VERIFICATION"

definition registrationOtpKey :: "string \<Rightarrow> string" where
  "registrationOtpKey email = ''auth:otp:'' @ EMAIL_VERIFICATION @ '':'' @ email"

definition normalizedEmail :: "string \<Rightarrow> string" where
  "normalizedEmail email = str_trim (str_lower email)"

text \<open>\<open>crypto.randomInt(min, max)\<close> excludes the upper bound.\<close>

definition otp_numbers :: "nat set" where
  "otp_numbers = {100000..<999999}"

definition generateOtp :: "nat \<Rightarrow> string" where
  "generateOtp n = show_nat n"

definition checkOtpRestrictions :: "auth_env \<Rightarrow> string \<Rightarrow> unit aw" where
  "checkOtpRestrictions env email w =
     (let e = normalizedEmail email in
      if r_truthy env (otp_block_key e) w then
        (Inl (AppErr (BadRequestError ''Account temporarily blocked due to multiple failed OTP attempts. Please try again after 30 minutes.'' (Some ''OTP_BLOCKED''))), w)
      else if r_truthy env (otp_spam_key e) w then
        (Inl (AppErr (BadRequestError ''Too many OTP requests. Please try again after 60 minutes.'' (Some ''OTP_SPAM_BLOCKED''))), w)
      else if r_truthy env (otp_cooldown_key e) w then
        (Inl (AppErr (BadRequestError ''Please wait 1 minute before requesting a new OTP.'' (Some ''OTP_COOLDOWN''))), w)
      else (Inr (), w))"

definition OTP_REQUEST_LIMIT :: nat where "OTP_REQUEST_LIMIT = 3"
definition OTP_SPAM_BLOCK_DURATION :: int where "OTP_SPAM_BLOCK_DURATION = 60 * 60"
definition OTP_REQUEST_WINDOW :: int where "OTP_REQUEST_WINDOW = 30 * 60"
definition OTP_COOLDOWN_DURATION :: int where "OTP_COOLDOWN_DURATION = 60"

text \<open>
  A JavaScript count: \<open>None\<close> is \<open>NaN\<close>, of which every comparison is false and whose text is
  \<open>NaN\<close>. The services write decimal numbers under these keys.
\<close>

definition js_count :: "auth_value js_text option \<Rightarrow> nat option" where
  "js_count t = (case t of
     None \<Rightarrow> Some 0
   | Some (Txt s) \<Rightarrow> if s = [] then Some 0 else parse_nat s
   | Some (Stringified v) \<Rightarrow> None)"

definition count_gt :: "nat option \<Rightarrow> nat \<Rightarrow> bool" where
  "count_gt c n = (case c of None \<Rightarrow> False | Some m \<Rightarrow> m > n)"

definition count_text :: "nat option \<Rightarrow> string" where
  "count_text c = (case c of None \<Rightarrow> ''NaN'' | Some n \<Rightarrow> show_nat n)"

definition trackOtpRequests :: "auth_env \<Rightarrow> string \<Rightarrow> unit aw" where
  "trackOtpRequests env email w =
     (let e = normalizedEmail email;
          tooMany = AppErr (BadRequestError ''Too many OTP requests. Please try again after 60 minutes.'' None) in
      if r_truthy env (otp_spam_key e) w then (Inl tooMany, w)
      else let n = map_option Suc (js_count (r_get env (otp_count_key e) w)) in
        if count_gt n OTP_REQUEST_LIMIT
        then (Inl tooMany, r_setex env (otp_spam_key e) OTP_SPAM_BLOCK_DURATION (Txt ''blocked'') w)
        else (Inr (), r_setex env (otp_cooldown_key e) OTP_COOLDOWN_DURATION (Txt ''active'')
               (r_setex env (otp_count_key e) OTP_REQUEST_WINDOW (Txt (count_text n)) w)))"

definition MAX_ATTEMPTS :: nat where "MAX_ATTEMPTS = 3"
definition BLOCK_TIME :: int where "BLOCK_TIME = 30 * 60"

text \<open>\<open>otp !== storedOtp\<close> compares texts.\<close>

definition verifyOtp :: "auth_env \<Rightarrow> string \<Rightarrow> string \<Rightarrow> unit aw" where
  "verifyOtp env email otp w =
     (if r_truthy env (otp_block_key email) w then
        (Inl (AppErr (BadRequestError ''Too many failed attempts. Please try again after 30 minutes.'' None)), w)
      else case r_get env (registrationOtpKey email) w of
        None \<Rightarrow> (Inl (AppErr (BadRequestError ''Invalid or Expired OTP'' None)), w)
      | Some stored \<Rightarrow>
          if \<not> text_truthy stored then (Inl (AppErr (BadRequestError ''Invalid or Expired OTP'' None)), w)
          else if stored \<noteq> Txt otp then
            (let n = map_option Suc (js_count (r_get env (otp_attempts_key email) w)) in
             if count_gt n MAX_ATTEMPTS then
               (Inl (AppErr (BadRequestError ''Account blocked due to multiple failed OTP attempts. Please try again after 30 minutes.'' None)),
                r_del [registrationOtpKey email, otp_attempts_key email]
                  (r_setex env (otp_block_key email) BLOCK_TIME (Txt ''blocked'') w))
             else
               (Inl (AppErr (BadRequestError (''Invalid OTP. '' @
                   (case n of None \<Rightarrow> ''NaN'' | Some m \<Rightarrow> show_int (int MAX_ATTEMPTS - int m)) @
                   '' attempts left.'') None)),
                r_setex env (otp_attempts_key email) BLOCK_TIME (Txt (count_text n)) w))
          else (Inr (), r_del [registrationOtpKey email, otp_attempts_key email] w))"

subsection \<open>The keys of one address are different\<close>

lemma otp_keys_distinct [simp]:
  "otp_block_key e \<noteq> registrationOtpKey e'" "registrationOtpKey e \<noteq> otp_block_key e'"
  "otp_block_key e \<noteq> otp_attempts_key e'" "otp_attempts_key e \<noteq> otp_block_key e'"
  "otp_attempts_key e \<noteq> registrationOtpKey e'" "registrationOtpKey e \<noteq> otp_attempts_key e'"
  "otp_spam_key e \<noteq> otp_count_key e'" "otp_count_key e \<noteq> otp_spam_key e'"
  "otp_spam_key e \<noteq> otp_cooldown_key e'" "otp_cooldown_key e \<noteq> otp_spam_key e'"
  "otp_count_key e \<noteq> otp_cooldown_key e'" "otp_cooldown_key e \<noteq> otp_count_key e'"
  by (simp_all add: otp_block_key_def registrationOtpKey_def otp_attempts_key_def otp_spam_key_def
      otp_count_key_def otp_cooldown_key_def)

text \<open>Changing the clock reading of the request.\<close>

abbreviation at_time :: "auth_env \<Rightarrow> time \<Rightarrow> auth_env" where
  "at_time env t \<equiv> env\<lparr>aeNow := t\<rparr>"

subsection \<open>Guessing a code\<close>

text \<open>The state of an address that is being guessed at: a live code, \<open>n\<close> wrong attempts so far.\<close>

definition guessing :: "string \<Rightarrow> string \<Rightarrow> time \<Rightarrow> nat \<Rightarrow> auth_world \<Rightarrow> bool" where
  "guessing email code expires n w \<longleftrightarrow> code \<noteq> [] \<and>
     (\<forall>t. redis_get t (otp_block_key email) (awRedis w) = None) \<and>
     (\<forall>t < expires. redis_get t (registrationOtpKey email) (awRedis w) = Some (Txt code) \<and>
        js_count (redis_get t (otp_attempts_key email) (awRedis w)) = Some n)"

lemma verifyOtp_wrong:
  assumes "guessing email code expires n w" "aeNow env < expires" "otp \<noteq> code" "n < 3"
    "expires \<le> aeNow env + 1800000"
  shows "verifyOtp env email otp w =
      (Inl (AppErr (BadRequestError (''Invalid OTP. '' @ show_int (2 - int n) @ '' attempts left.'') None)),
       snd (verifyOtp env email otp w))"
    "guessing email code expires (Suc n) (snd (verifyOtp env email otp w))"
    "awDb (snd (verifyOtp env email otp w)) = awDb w"
proof -
  have c: "js_count (r_get env (otp_attempts_key email) w) = Some n" "\<not> r_truthy env (otp_block_key email) w"
    "r_get env (registrationOtpKey email) w = Some (Txt code)"
    using assms(1,2) by (simp_all add: guessing_def r_get_def r_truthy_def)
  have v: "verifyOtp env email otp w =
      (Inl (AppErr (BadRequestError (''Invalid OTP. '' @ show_int (2 - int n) @ '' attempts left.'') None)),
       r_setex env (otp_attempts_key email) BLOCK_TIME (Txt (show_nat (Suc n))) w)"
    using c assms(1,3,4)
    by (auto simp: verifyOtp_def count_gt_def MAX_ATTEMPTS_def count_text_def guessing_def Let_def)
  then show "verifyOtp env email otp w =
      (Inl (AppErr (BadRequestError (''Invalid OTP. '' @ show_int (2 - int n) @ '' attempts left.'') None)),
       snd (verifyOtp env email otp w))" "awDb (snd (verifyOtp env email otp w)) = awDb w" by simp_all
  show "guessing email code expires (Suc n) (snd (verifyOtp env email otp w))"
    using assms(1,5) unfolding v
    by (simp add: guessing_def r_setex_def js_count_def BLOCK_TIME_def)
qed

lemma verifyOtp_right:
  assumes "guessing email code expires n w" "aeNow env < expires"
  shows "fst (verifyOtp env email code w) = Inr ()"
  using assms by (simp add: verifyOtp_def guessing_def r_get_def r_truthy_def)

lemma verifyOtp_blocks:
  assumes "guessing email code expires n w" "aeNow env < expires" "otp \<noteq> code" "3 \<le> n"
  shows "\<not> is_ok (fst (verifyOtp env email otp w)) \<and>
    redis_get t (otp_block_key email) (awRedis (snd (verifyOtp env email otp w))) =
      (if t < aeNow env + 1800000 then Some (Txt ''blocked'') else None) \<and>
    redis_get t (registrationOtpKey email) (awRedis (snd (verifyOtp env email otp w))) = None"
  using assms
  by (simp add: verifyOtp_def guessing_def r_get_def r_truthy_def count_gt_def MAX_ATTEMPTS_def r_setex_def
      r_del_def BLOCK_TIME_def Let_def)

lemma verifyOtp_blocked:
  assumes "redis_get (aeNow env) (otp_block_key email) (awRedis w) = Some (Txt ''blocked'')"
  shows "verifyOtp env email otp w =
    (Inl (AppErr (BadRequestError ''Too many failed attempts. Please try again after 30 minutes.'' None)), w)"
  using assms by (simp add: verifyOtp_def r_truthy_def r_get_def)

text \<open>A run of attempts at given times: whether one succeeds, and the state after them.\<close>

fun attempts :: "auth_env \<Rightarrow> string \<Rightarrow> (time \<times> string) list \<Rightarrow> auth_world \<Rightarrow> bool \<times> auth_world" where
  "attempts env email [] w = (False, w)"
| "attempts env email ((t, otp) # rest) w =
     (case verifyOtp (at_time env t) email otp w of
        (Inr _, w') \<Rightarrow> (True, w')
      | (Inl _, w') \<Rightarrow> attempts env email rest w')"

subsection \<open>Asking for codes\<close>

text \<open>The restrictions followed by the count, as both callers do.\<close>

definition request_code :: "auth_env \<Rightarrow> string \<Rightarrow> unit aw" where
  "request_code env email w =
     on_ok (checkOtpRestrictions env email w) (\<lambda>_. trackOtpRequests env email)"

fun requests :: "auth_env \<Rightarrow> string \<Rightarrow> time list \<Rightarrow> auth_world \<Rightarrow> nat" where
  "requests env email [] w = 0"
| "requests env email (t # ts) w =
     (case request_code (at_time env t) email w of
        (r, w') \<Rightarrow> (if is_ok r then 1 else 0) + requests env email ts w')"

subsection \<open>The format of a code\<close>

text \<open>\<open>z.string().length(6).regex(/^\d+$/)\<close>\<close>

definition otpSchema :: "string \<Rightarrow> bool" where
  "otpSchema s \<longleftrightarrow> length s = 6 \<and> s \<noteq> [] \<and> list_all (\<lambda>c. char_digit c \<noteq> None) s"

end
