(* ===== verification/Auth_Registration.thy ===== *)
theory Auth_Registration
  imports Auth_Login Auth_Otp
begin

text \<open>
  The rest of \<open>modules/auth/auth.service.ts\<close>: registration with a one-time code, the replica of
  roles, password reset and account restore, with the customer and seller entry points of
  registration and the consumer of user events.
\<close>

subsection \<open>Bytes of a hexadecimal text\<close>

definition hex_value :: "char \<Rightarrow> nat option" where
  "hex_value c = (let n = of_char c :: nat in
     if 48 \<le> n \<and> n \<le> 57 then Some (n - 48)
     else if 97 \<le> n \<and> n \<le> 102 then Some (n - 87)
     else if 65 \<le> n \<and> n \<le> 70 then Some (n - 55) else None)"

text \<open>\<open>Buffer.from(s, "hex")\<close> stops at the first pair that is no byte.\<close>

fun hex_bytes :: "string \<Rightarrow> nat list" where
  "hex_bytes (a # b # cs) = (case (hex_value a, hex_value b) of
     (Some x, Some y) \<Rightarrow> (16 * x + y) # hex_bytes cs | _ \<Rightarrow> [])"
| "hex_bytes _ = []"

subsection \<open>Registration\<close>

definition REGISTRATION_TTL_SECONDS :: int where "REGISTRATION_TTL_SECONDS = 35 * 60"
definition OTP_TTL_SECONDS :: int where "OTP_TTL_SECONDS = 5 * 60"

definition registrationKey :: "role \<Rightarrow> string \<Rightarrow> string" where
  "registrationKey r email = ''auth:reg:'' @ role_text r @ '':'' @ email"

definition emitOtpEmail :: "auth_env \<Rightarrow> string \<Rightarrow> string \<Rightarrow> string \<Rightarrow> unit aw" where
  "emitOtpEmail env email firstName otp = auth_tx (\<lambda>w.
     (Inr (), auth_emit env EMAIL_VERIFICATION_OTP_SENT (uuidV5 (aeCrypto env) email)
        (JObj [(''firstName'', JStr firstName), (''email'', JStr email), (''otp'', JStr otp)]) w))"

record registration_input =
  riRole :: role
  riEmail :: string
  riPassword :: string
  riFirstName :: string
  riProfile :: "(string \<times> json) list"

definition startRegistration :: "auth_env \<Rightarrow> registration_input \<Rightarrow> unit aw" where
  "startRegistration env i w =
     (case findByEmail (riEmail i) w of
        Some c \<Rightarrow> (Inl (AppErr (BadRequestError ''Email already in use'' (Some ''email''))), w)
      | None \<Rightarrow>
          on_ok (checkOtpRestrictions env (riEmail i) w) (\<lambda>_ w.
          on_ok (trackOtpRequests env (riEmail i) w) (\<lambda>_ w.
          let reg = \<lparr>rgEmail = riEmail i, rgPassword = bcryptHash (aeCrypto env) (riPassword i),
                     rgFirstName = riFirstName i, rgProfile = riProfile i\<rparr>;
              w = r_setex env (registrationKey (riRole i) (riEmail i)) REGISTRATION_TTL_SECONDS
                    (Stringified (CachedRegistration reg)) w;
              w = r_setex env (registrationOtpKey (riEmail i)) OTP_TTL_SECONDS (Txt (aeOtp env)) w
          in emitOtpEmail env (riEmail i) (riFirstName i) (aeOtp env) w)))"

text \<open>
  \<open>JSON.parse(cached) as ICachedRegistration\<close>. Only \<open>startRegistration\<close> writes under these keys;
  for any other text the parse throws or the fields are missing, and the exception stands for
  both.
\<close>

definition cached_registration :: "auth_env \<Rightarrow> role \<Rightarrow> string \<Rightarrow> auth_world \<Rightarrow> js_error + registration" where
  "cached_registration env r email w =
     (case r_get env (registrationKey r email) w of
        None \<Rightarrow> Inl (bad_request ''Registration expired or not found'')
      | Some t \<Rightarrow>
          if \<not> text_truthy t then Inl (bad_request ''Registration expired or not found'')
          else case json_parse t of
            Some (CachedRegistration reg) \<Rightarrow> Inr reg
          | _ \<Rightarrow> Inl (OtherError ''SyntaxError'' ''Unexpected token''))"

definition resendRegistrationOtp :: "auth_env \<Rightarrow> string \<Rightarrow> role \<Rightarrow> unit aw" where
  "resendRegistrationOtp env email r w =
     (case cached_registration env r email w of
        Inl e \<Rightarrow> (Inl e, w)
      | Inr reg \<Rightarrow>
          on_ok (checkOtpRestrictions env email w) (\<lambda>_ w.
          on_ok (trackOtpRequests env email w) (\<lambda>_ w.
          emitOtpEmail env email (rgFirstName reg) (aeOtp env)
            (r_setex env (registrationOtpKey email) OTP_TTL_SECONDS (Txt (aeOtp env)) w))))"

text \<open>\<open>createUserProfile\<close> is the call whose answer the environment holds.\<close>

definition completeRegistration :: "auth_env \<Rightarrow> role \<Rightarrow> string \<Rightarrow> string \<Rightarrow> auth_result aw" where
  "completeRegistration env r email otp w =
     (case cached_registration env r email w of
        Inl e \<Rightarrow> (Inl e, w)
      | Inr reg \<Rightarrow>
          on_ok (verifyOtp env email otp w) (\<lambda>_ w.
          on_ok (create_credential env (rgEmail reg) (rgPassword reg) [r] w) (\<lambda>c w.
          case aeUserService env of
            Inl e \<Rightarrow>
              on_ok (delete_credential (crId c) w) (\<lambda>_ w.
              (Inl (internal_error ''User registration failed. Please try again.''), w))
          | Inr _ \<Rightarrow> issueSession env c r (r_del [registrationKey r email] w))))"

text \<open>The role modules: the surface guard first, and the profile fields that are kept.\<close>

definition customer_registration_profile :: "string \<Rightarrow> string \<Rightarrow> (string \<times> json) list" where
  "customer_registration_profile fn ln = [(''firstName'', JStr fn), (''lastName'', JStr ln)]"

definition seller_registration_profile ::
    "string \<Rightarrow> string \<Rightarrow> string option \<Rightarrow> string option \<Rightarrow> (string \<times> json) list" where
  "seller_registration_profile fn ln phone bio =
     [(''firstName'', JStr fn), (''lastName'', JStr ln)] @
     (if str_truthy phone then [(''phone'', JStr (the phone))] else []) @
     (if str_truthy bio then [(''bio'', JStr (the bio))] else [])"

definition customerRegisterRequest ::
    "auth_env \<Rightarrow> string \<Rightarrow> string \<Rightarrow> string \<Rightarrow> string \<Rightarrow> request_context \<Rightarrow> unit aw" where
  "customerRegisterRequest env email password fn ln ctx w =
     on_ok (assertClientSurface CUSTOMER_WEB ctx w) (\<lambda>_. startRegistration env
       \<lparr>riRole = CUSTOMER, riEmail = email, riPassword = password, riFirstName = fn,
        riProfile = customer_registration_profile fn ln\<rparr>)"

definition verifyCustomerRegistration :: "auth_env \<Rightarrow> string \<Rightarrow> string \<Rightarrow> request_context \<Rightarrow> auth_result aw" where
  "verifyCustomerRegistration env email otp ctx w =
     on_ok (assertClientSurface CUSTOMER_WEB ctx w) (\<lambda>_. completeRegistration env CUSTOMER email otp)"

definition resendCustomerRegistrationOtp :: "auth_env \<Rightarrow> string \<Rightarrow> request_context \<Rightarrow> unit aw" where
  "resendCustomerRegistrationOtp env email ctx w =
     on_ok (assertClientSurface CUSTOMER_WEB ctx w) (\<lambda>_. resendRegistrationOtp env email CUSTOMER)"

definition sellerRegisterRequest ::
    "auth_env \<Rightarrow> string \<Rightarrow> string \<Rightarrow> string \<Rightarrow> string \<Rightarrow> string option \<Rightarrow> string option \<Rightarrow> request_context \<Rightarrow> unit aw" where
  "sellerRegisterRequest env email password fn ln phone bio ctx w =
     on_ok (assertClientSurface SELLER_WEB ctx w) (\<lambda>_. startRegistration env
       \<lparr>riRole = SELLER, riEmail = email, riPassword = password, riFirstName = fn,
        riProfile = seller_registration_profile fn ln phone bio\<rparr>)"

definition verifySellerRegistration :: "auth_env \<Rightarrow> string \<Rightarrow> string \<Rightarrow> request_context \<Rightarrow> auth_result aw" where
  "verifySellerRegistration env email otp ctx w =
     on_ok (assertClientSurface SELLER_WEB ctx w) (\<lambda>_. completeRegistration env SELLER email otp)"

definition resendSellerRegistrationOtp :: "auth_env \<Rightarrow> string \<Rightarrow> request_context \<Rightarrow> unit aw" where
  "resendSellerRegistrationOtp env email ctx w =
     on_ok (assertClientSurface SELLER_WEB ctx w) (\<lambda>_. resendRegistrationOtp env email SELLER)"

subsection \<open>The replica of roles\<close>

definition role_sync_audit :: "string \<Rightarrow> role list \<Rightarrow> role \<Rightarrow> audit_log_input" where
  "role_sync_audit i old r =
     \<lparr>alActorId = ''user-service'', alAction = ''CREDENTIAL_ROLE_ADDED'', alTargetId = i,
      alTargetType = ''Credential'', alOldValues = Some (JObj [(''roles'', roles_json old)]),
      alNewValues = Some (JObj [(''roles'', roles_json (old @ [r]))]), alMetadata = None,
      alIpAddress = None, alUserAgent = None\<rparr>"

definition addRoleToCredential :: "string \<Rightarrow> role \<Rightarrow> auth_world \<Rightarrow> auth_world" where
  "addRoleToCredential i r w =
     (case findById i w of
        None \<Rightarrow> w
      | Some c \<Rightarrow>
          if r \<in> set (crRole c) then w
          else if list_ex admin_role (crRole c) then w
          else case addRoleIfUnchanged i r (crRole c) w of
            (False, w) \<Rightarrow> w
          | (True, w) \<Rightarrow> auth_writeAuditLog (role_sync_audit i (crRole c) r) w)"

text \<open>
  \<open>handleRoleSyncMessage\<close>: the dead letters it sends and the state after it. \<open>raw\<close> is the text of
  the message, \<open>details\<close> the text of the Zod issues, \<open>parseDate\<close> is \<open>new Date(s)\<close>.
\<close>

record message_context =
  mcTopic :: string
  mcPartition :: nat
  mcOffset :: string
  mcTraceparent :: "string option"
  mcCorrelationId :: "string option"

definition poison_letter :: "message_context \<Rightarrow> string option \<Rightarrow> string \<Rightarrow> dead_letter_params" where
  "poison_letter ctx raw reason =
     \<lparr>dlServiceName = ''auth-service'',
      dlEventId = mcTopic ctx @ '':'' @ show_nat (mcPartition ctx) @ '':'' @ mcOffset ctx,
      dlEventType = None, dlFailureStage = Some ''consume'', dlErrorMessage = reason,
      dlRawPayload = Some (case raw of None \<Rightarrow> '''' | Some s \<Rightarrow> s),
      dlTraceparent = mcTraceparent ctx, dlCorrelationId = mcCorrelationId ctx\<rparr>"

definition jfield :: "json \<Rightarrow> string \<Rightarrow> string \<Rightarrow> string" where
  "jfield v k k' = (case jget v k of
     Some u \<Rightarrow> (case jget u k' of Some (JStr s) \<Rightarrow> s | _ \<Rightarrow> '''') | None \<Rightarrow> '''')"

definition handleRoleSyncMessage ::
    "zod_formats \<Rightarrow> (string \<Rightarrow> time) \<Rightarrow> (json \<Rightarrow> string) \<Rightarrow> message_context \<Rightarrow> string option \<Rightarrow>
       json js_text option \<Rightarrow> auth_world \<Rightarrow> dead_letter_params list \<times> auth_world" where
  "handleRoleSyncMessage fm parseDate details ctx raw value w =
     (case (case value of None \<Rightarrow> Inr None
                | Some t \<Rightarrow> if text_truthy t
                    then (case json_parse t of None \<Rightarrow> Inl () | Some v \<Rightarrow> Inr (Some v)) else Inr None) of
        Inl _ \<Rightarrow> ([poison_letter ctx raw ''Kafka message is not valid JSON''], w)
      | Inr None \<Rightarrow> ([], w)
      | Inr (Some v) \<Rightarrow>
          if jget v ''eventType'' = Some (JStr USER_DELETED) then
            (if \<not> UserDeletedEventSchema fm (Some v)
             then ([poison_letter ctx raw ''user.deleted failed schema validation''], w)
             else ([], revokeAllRefreshTokens (jfield v ''payload'' ''userId'')
                    (markDeleted (jfield v ''payload'' ''userId'')
                      (parseDate (jfield v ''payload'' ''deletedAt'')) w)))
          else if jget v ''eventType'' = Some (JStr USER_RESTORED) then
            (if \<not> UserRestoredEventSchema fm (Some v)
             then ([poison_letter ctx raw ''user.restored failed schema validation''], w)
             else ([], markRestored (jfield v ''payload'' ''userId'') w))
          else if jget v ''eventType'' \<noteq> Some (JStr SELLER_PROFILE_ATTACHED) then ([], w)
          else if \<not> SellerProfileAttachedEventSchema fm (Some v)
          then ([poison_letter ctx raw
                  (SELLER_PROFILE_ATTACHED @ '' failed schema validation: '' @ details v)], w)
          else ([], addRoleToCredential (jfield v ''payload'' ''userId'') SELLER w))"

subsection \<open>Password reset\<close>

definition RESET_TOKEN_TTL_MS :: int where "RESET_TOKEN_TTL_MS = 15 * 60 * 1000"

text \<open>
  The page of a surface. The map is a plain object: a name that \<open>Object.prototype\<close> defines finds
  that member, whose text \<open>inherited\<close> gives.
\<close>

definition resolveResetPage :: "auth_config \<Rightarrow> (string \<Rightarrow> string option) \<Rightarrow> string option \<Rightarrow> js_error + string" where
  "resolveResetPage cfg inherited clientType =
     (let customer = acCustomerUrl cfg @ ''/reset-password'' in
      if \<not> str_truthy clientType then Inr customer
      else if clientType = Some ''customer-web'' then Inr customer
      else if clientType = Some ''seller-web'' then Inr (acSellerUrl cfg @ ''/reset-password'')
      else if clientType = Some ''admin-web'' then Inr (acAdminUrl cfg @ ''/reset-password'')
      else case inherited (the clientType) of
        Some page \<Rightarrow> Inr page
      | None \<Rightarrow> Inl (bad_request ''Invalid or unrecognized X-Client-Type''))"

definition reset_claims :: "credential \<Rightarrow> jwt_claims" where
  "reset_claims c = \<lparr>jwId = Some (crId c), jwEmail = crEmail c, jwRole = crRole c, jwActiveRole = None,
     jwFamilyId = None, jwTokenType = Some ''password_reset''\<rparr>"

definition create_reset :: "auth_env \<Rightarrow> string \<Rightarrow> string \<Rightarrow> unit aw" where
  "create_reset env credentialId token w =
     (if token \<in> prToken ` set (adResets (awDb w)) then (Inl (unique_violation ''resetToken''), w)
      else (Inr (), on_db (\<lambda>db. db\<lparr>adResets := adResets db @
              [\<lparr>prId = aeRowId env, prCredentialId = credentialId, prToken = token,
                prExpiresAt = aeNow env + RESET_TOKEN_TTL_MS, prUsedAt = None\<rparr>]\<rparr>) w))"

definition requestPasswordReset ::
    "auth_env \<Rightarrow> (string \<Rightarrow> string option) \<Rightarrow> string \<Rightarrow> string option \<Rightarrow> unit aw" where
  "requestPasswordReset env inherited email clientType w =
     (case findByEmail email w of
        None \<Rightarrow> (Inr (), w)
      | Some c \<Rightarrow>
          let token = generateToken env (reset_claims c) (acResetSecret (aeConfig env))
                        (acResetExpires (aeConfig env)) in
          on_ok (create_reset env (crId c) token w) (\<lambda>_ w.
          case resolveResetPage (aeConfig env) inherited clientType of
            Inl e \<Rightarrow> (Inl e, w)
          | Inr page \<Rightarrow> auth_tx (\<lambda>w. (Inr (), auth_emit env PASSWORD_RESET_REQUESTED (crId c)
              (JObj [(''email'', JStr email),
                     (''resetUiLink'', JStr (page @ ''?resetToken='' @ token))]) w)) w))"

definition verifyPasswordReset :: "auth_env \<Rightarrow> string \<Rightarrow> string \<Rightarrow> unit aw" where
  "verifyPasswordReset env token newPassword w =
     (case find (\<lambda>p. prToken p = token) (adResets (awDb w)) of
        None \<Rightarrow> (Inl (bad_request ''Invalid or expired reset token''), w)
      | Some p \<Rightarrow>
          if prUsedAt p \<noteq> None then (Inl (bad_request ''Reset token has already been used''), w)
          else if prExpiresAt p < aeNow env then (Inl (bad_request ''Reset token has expired''), w)
          else auth_tx (\<lambda>w.
            on_ok (update_credential (prCredentialId p)
                    (\<lambda>c. c\<lparr>crPassword := bcryptHash (aeCrypto env) newPassword\<rparr>) w) (\<lambda>_ w.
            (Inr (), on_db (\<lambda>db. db\<lparr>adResets := update_where (\<lambda>q. prId q = prId p)
               (\<lambda>q. q\<lparr>prUsedAt := Some (aeNow env)\<rparr>) (adResets db)\<rparr>) w))) w)"

subsection \<open>Account restore\<close>

definition restoreKey :: "string \<Rightarrow> string" where
  "restoreKey credentialId = ''auth:restore:'' @ credentialId"

definition restore_hash :: "auth_env \<Rightarrow> string \<Rightarrow> string" where
  "restore_hash env otp = hmac256 (aeCrypto env) (acInternalSecret (aeConfig env)) otp"

definition requestAccountRestore :: "auth_env \<Rightarrow> string \<Rightarrow> unit aw" where
  "requestAccountRestore env email w =
     (case findByEmail email w of
        None \<Rightarrow> (Inr (), w)
      | Some c \<Rightarrow>
          if \<not> crIsDeleted c then (Inr (), w)
          else case crDeletedAt c of
            None \<Rightarrow> (Inr (), w)
          | Some t \<Rightarrow>
              if aeNow env - t > login_grace_ms then (Inr (), w)
              else auth_tx (\<lambda>w. (Inr (), auth_emit env ACCOUNT_RESTORE_REQUESTED (crId c)
                       (JObj [(''email'', JStr email), (''otp'', JStr (aeOtp env))]) w))
                     (r_setex env (restoreKey (crId c)) 600 (Txt (restore_hash env (aeOtp env))) w))"

text \<open>
  The stored hash is compared as bytes. \<open>restoreUser\<close> is the call whose answer the environment
  holds; the code is spent before it is made.
\<close>

definition verifyAccountRestore :: "auth_env \<Rightarrow> string \<Rightarrow> string \<Rightarrow> unit aw" where
  "verifyAccountRestore env email otp w =
     (let invalid = (Inl (bad_request ''Invalid or expired restore request''), w) in
      case findByEmail email w of
        None \<Rightarrow> invalid
      | Some c \<Rightarrow>
          if \<not> crIsDeleted c then invalid
          else case r_get env (restoreKey (crId c)) w of
            None \<Rightarrow> invalid
          | Some (Stringified v) \<Rightarrow> (Inl (bad_request ''Invalid OTP''), w)
          | Some (Txt stored) \<Rightarrow>
              if stored = [] then invalid
              else if hex_bytes (restore_hash env otp) \<noteq> hex_bytes stored
              then (Inl (bad_request ''Invalid OTP''), w)
              else (aeUserService env, r_del [restoreKey (crId c)] w))"

end
