(* ===== verification/Internal_Calls.thy ===== *)
theory Internal_Calls
  imports Auth_Registration Breakers
begin

text \<open>
  The signed calls from the auth service to the user service:
  \<open>lib/axiosClients/userServiceClient.ts\<close> and \<open>utils/createInternalSignature.ts\<close> on one side,
  \<open>middlewares/verifyInternalCall.ts\<close> and the mount points of the routers on the other.
\<close>

subsection \<open>JSON text\<close>

definition hex_digit :: "nat \<Rightarrow> char" where
  "hex_digit n = char_of (if n < 10 then 48 + n else 87 + n)"

definition json_char :: "char \<Rightarrow> string" where
  "json_char c = (let n = of_char c :: nat in
     if n = 34 then [CHR 0x5C, c]
     else if n = 92 then [c, c]
     else if n = 8 then [CHR 0x5C, CHR ''b''] else if n = 12 then [CHR 0x5C, CHR ''f'']
     else if n = 10 then [CHR 0x5C, CHR ''n''] else if n = 13 then [CHR 0x5C, CHR ''r'']
     else if n = 9 then [CHR 0x5C, CHR ''t'']
     else if n < 32 then [CHR 0x5C] @ ''u00'' @ [hex_digit (n div 16), hex_digit (n mod 16)]
     else [c])"

definition json_string :: "string \<Rightarrow> string" where
  "json_string s = [CHR 0x22] @ concat (List.map json_char s) @ [CHR 0x22]"

fun intersperse_comma :: "string list \<Rightarrow> string" where
  "intersperse_comma [] = ''''"
| "intersperse_comma [s] = s"
| "intersperse_comma (s # ss) = s @ '','' @ intersperse_comma ss"

text \<open>\<open>JSON.stringify\<close>\<close>

fun json_text :: "json \<Rightarrow> string" where
  "json_text JNull = ''null''"
| "json_text (JBool b) = (if b then ''true'' else ''false'')"
| "json_text (JNum i) = show_int i"
| "json_text (JStr s) = json_string s"
| "json_text (JArr vs) = ''['' @ intersperse_comma (List.map json_text vs) @ '']''"
| "json_text (JObj kvs) = ''{'' @ intersperse_comma
     (List.map (\<lambda>(k, v). json_string k @ '':'' @ json_text v) kvs) @ ''}''"

subsection \<open>Signing\<close>

text \<open>\<open>method\<close> is upper case in every call.\<close>

definition signed_text :: "string \<Rightarrow> string \<Rightarrow> json \<Rightarrow> string \<Rightarrow> string" where
  "signed_text method path body timestamp =
     method @ '':'' @ path @ '':'' @ timestamp @ '':'' @ json_text body"

definition createInternalSignature ::
    "(string \<Rightarrow> string \<Rightarrow> string) \<Rightarrow> string \<Rightarrow> string \<Rightarrow> json \<Rightarrow> string \<Rightarrow> string \<Rightarrow> string" where
  "createInternalSignature hmac method path body timestamp secret =
     hmac secret (signed_text method path body timestamp)"

record internal_request =
  iqMethod :: string
  iqPath :: string
  iqSignature :: "string option"
  iqTimestamp :: "string option"
  iqBody :: json

text \<open>\<open>parseInt\<close>: blanks, a sign, then the longest run of digits; \<open>None\<close> is \<open>NaN\<close>.\<close>

definition parse_int :: "string \<Rightarrow> int option" where
  "parse_int s =
     (let s = dropWhile white_char s;
          neg = (s \<noteq> [] \<and> hd s = CHR ''-'');
          r = (if s \<noteq> [] \<and> (hd s = CHR ''-'' \<or> hd s = CHR ''+'') then tl s else s)
      in map_option (\<lambda>n. if neg then - int n else int n)
           (parse_nat (takeWhile (\<lambda>c. char_digit c \<noteq> None) r)))"

text \<open>\<open>req.baseUrl + req.path\<close> is the path of the request, its mount point included.\<close>

definition verifyInternalCall ::
    "(string \<Rightarrow> string \<Rightarrow> string) \<Rightarrow> string \<Rightarrow> time \<Rightarrow> internal_request \<Rightarrow> js_error + unit" where
  "verifyInternalCall hmac secret now q =
     (if \<not> str_truthy (iqSignature q) \<or> \<not> str_truthy (iqTimestamp q)
      then Inl (unauthorized ''Missing internal service credentials'')
      else if (case parse_int (the (iqTimestamp q)) of None \<Rightarrow> True | Some t \<Rightarrow> now - t > 5 * 60 * 1000)
      then Inl (unauthorized ''Request timestamp expired'')
      else if hex_bytes (the (iqSignature q)) \<noteq>
              hex_bytes (hmac secret (signed_text (iqMethod q) (iqPath q) (iqBody q) (the (iqTimestamp q))))
      then Inl (unauthorized ''Invalid internal service signature'')
      else Inr ())"

text \<open>The user service: everything but the root and \<open>/health\<close> lies under \<open>/api/v1\<close>. \<open>handler\<close> is the
  status the route answers with once the call is verified.\<close>

definition api_prefix :: string where "api_prefix = ''/api/v1''"

definition serve_internal ::
    "(string \<Rightarrow> string \<Rightarrow> string) \<Rightarrow> string \<Rightarrow> time \<Rightarrow> (internal_request \<Rightarrow> int) \<Rightarrow> internal_request \<Rightarrow> int" where
  "serve_internal hmac secret now handler q =
     (if \<not> is_prefix_of api_prefix (iqPath q) then 404
      else case verifyInternalCall hmac secret now q of
        Inl (AppErr e) \<Rightarrow> statusCode e
      | Inl _ \<Rightarrow> 500
      | Inr _ \<Rightarrow> handler q)"

subsection \<open>The client\<close>

datatype http_answer = Status int | NetworkError

fun profile_endpoint :: "role \<Rightarrow> string" where
  "profile_endpoint CUSTOMER = ''/customers/profile''"
| "profile_endpoint SELLER = ''/sellers/profile''"
| "profile_endpoint ADMIN = ''/admins/profile''"
| "profile_endpoint SUPER_ADMIN = ''/admins/super-admin-profile''"

definition MAX_RETRIES :: nat where "MAX_RETRIES = 3"

fun retryable :: "http_answer \<Rightarrow> bool" where
  "retryable (Status s) = (s \<in> {408, 429, 500, 502, 503, 504})"
| "retryable NetworkError = False"

fun http_ok :: "http_answer \<Rightarrow> bool" where
  "http_ok (Status s) = (200 \<le> s \<and> s < 300)"
| "http_ok NetworkError = False"

text \<open>The request interceptor replaces \<open>metadata\<close>, so the count the response interceptor left there
  is lost; \<open>None\<close> is an absent \<open>retryCount\<close>.\<close>

definition request_interceptor :: "nat option \<Rightarrow> nat option" where
  "request_interceptor retryCount = None"

text \<open>
  \<open>userServiceClient.request\<close>: \<open>answer k\<close> is what the network gives to the \<open>k\<close>-th request sent. The
  result is the last answer with the number of requests sent; \<open>None\<close> when it never settles.
\<close>

partial_function (option) client_request ::
    "(nat \<Rightarrow> http_answer) \<Rightarrow> nat \<Rightarrow> nat option \<Rightarrow> (http_answer \<times> nat) option" where
  "client_request answer k metadata =
     (let metadata = request_interceptor metadata; a = answer k;
          retryCount = (case metadata of None \<Rightarrow> 0 | Some n \<Rightarrow> n) in
      if \<not> http_ok a \<and> retryCount < MAX_RETRIES \<and> retryable a
      then client_request answer (k + 1) (Some (retryCount + 1))
      else Some (a, k + 1))"

declare client_request.simps [code]

definition profile_body :: "string \<Rightarrow> string \<Rightarrow> (string \<times> json) list \<Rightarrow> json" where
  "profile_body i email profile =
     JObj [(''id'', JStr i), (''email'', JStr email), (''profile'', JObj profile)]"

text \<open>The request as it leaves: \<open>base\<close> is the path of \<open>USER_SERVICE_URL\<close>, which axios puts in front.\<close>

definition profile_request ::
    "(string \<Rightarrow> string \<Rightarrow> string) \<Rightarrow> string \<Rightarrow> string \<Rightarrow> time \<Rightarrow> role \<Rightarrow> json \<Rightarrow> internal_request" where
  "profile_request hmac secret base now r body =
     \<lparr>iqMethod = ''POST'', iqPath = base @ profile_endpoint r,
      iqSignature = Some (createInternalSignature hmac ''POST'' (profile_endpoint r) body (show_int now) secret),
      iqTimestamp = Some (show_int now), iqBody = body\<rparr>"

definition user_service_unavailable :: js_error where
  "user_service_unavailable = AppErr (ServiceUnavailableError
     ''Failed to create user profile. Please try again later.'' (Some ''userService''))"

definition user_service_breaker :: cb_options where
  "user_service_breaker = DEFAULT_OPTIONS\<lparr>cbName := ''UserServiceCircuitBreaker''\<rparr>"

text \<open>\<open>createUserProfile\<close> behind its breaker, for a request that settles at \<open>t1\<close>.\<close>

definition createUserProfile ::
    "time \<Rightarrow> time \<Rightarrow> (nat \<Rightarrow> http_answer) \<Rightarrow> cb_state \<Rightarrow> ((js_error + unit) \<times> cb_state) option" where
  "createUserProfile t0 t1 answer b =
     (case client_request answer 0 None of
        None \<Rightarrow> (case execute_begin user_service_breaker t0 b of
            (Inl e, b') \<Rightarrow> Some (Inl e, b') | (Inr u, b') \<Rightarrow> None)
      | Some (a, n) \<Rightarrow> Some (execute user_service_breaker t0 t1
            (if http_ok a then Inr () else Inl user_service_unavailable) None b))"

definition restore_path :: "string \<Rightarrow> string" where
  "restore_path userId = ''/users/'' @ userId @ ''/restore''"

definition restore_request ::
    "(string \<Rightarrow> string \<Rightarrow> string) \<Rightarrow> string \<Rightarrow> string \<Rightarrow> time \<Rightarrow> string \<Rightarrow> internal_request" where
  "restore_request hmac secret base now userId =
     \<lparr>iqMethod = ''POST'', iqPath = base @ restore_path userId,
      iqSignature = Some (createInternalSignature hmac ''POST'' (restore_path userId) (JObj []) (show_int now) secret),
      iqTimestamp = Some (show_int now), iqBody = JObj []\<rparr>"

subsection \<open>How the client settles\<close>

lemma client_request_unfold:
  "client_request answer k m =
     (if \<not> http_ok (answer k) \<and> retryable (answer k) then client_request answer (k + 1) (Some 1)
      else Some (answer k, k + 1))"
  by (subst client_request.simps) (simp add: request_interceptor_def MAX_RETRIES_def Let_def)

lemma client_request_settles:
  assumes "\<not> retryable (answer (k + n))" "\<forall>j < n. retryable (answer (k + j))"
  shows "client_request answer k m = Some (answer (k + n), k + n + 1)"
  using assms
proof (induction n arbitrary: k m)
  case 0
  then show ?case by (subst client_request_unfold) simp
next
  case (Suc n)
  have r: "retryable (answer k)" using Suc.prems(2) by force
  then have "\<not> http_ok (answer k)" by (cases "answer k") auto
  then have "client_request answer k m = client_request answer (k + 1) (Some 1)"
    using r by (subst client_request_unfold) simp
  moreover have "client_request answer (k + 1) (Some 1) = Some (answer (k + 1 + n), k + 1 + n + 1)"
    by (rule Suc.IH) (use Suc.prems in \<open>auto simp: add.assoc dest: spec[of _ "Suc _"]\<close>)
  ultimately show ?case by simp
qed

lemma client_request_result:
  assumes "client_request answer k m = Some y"
  shows "\<exists>j \<ge> k. fst y = answer j \<and> (http_ok (answer j) \<or> \<not> retryable (answer j))"
  using assms
proof (rule client_request.raw_induct[where P = "\<lambda>answer k m y. \<exists>j \<ge> k. fst y = answer j \<and>
    (http_ok (answer j) \<or> \<not> retryable (answer j))", rotated])
  fix f and answer :: "nat \<Rightarrow> http_answer" and k :: nat and metadata y
  assume IH: "\<And>answer k metadata y. f answer k metadata = Some y \<Longrightarrow>
      \<exists>j \<ge> k. fst y = answer j \<and> (http_ok (answer j) \<or> \<not> retryable (answer j))"
    and run: "(let metadata = request_interceptor metadata; a = answer k;
          retryCount = (case metadata of None \<Rightarrow> 0 | Some n \<Rightarrow> n) in
      if \<not> http_ok a \<and> retryCount < MAX_RETRIES \<and> retryable a
      then f answer (k + 1) (Some (retryCount + 1))
      else Some (a, k + 1)) = Some y"
  show "\<exists>j \<ge> k. fst y = answer j \<and> (http_ok (answer j) \<or> \<not> retryable (answer j))"
  proof (cases "\<not> http_ok (answer k) \<and> retryable (answer k)")
    case True
    then have "f answer (k + 1) (Some 1) = Some y"
      using run by (simp add: request_interceptor_def MAX_RETRIES_def Let_def)
    from IH[OF this] obtain j where "j \<ge> k + 1" "fst y = answer j" "http_ok (answer j) \<or> \<not> retryable (answer j)"
      by blast
    then show ?thesis by (intro exI[of _ j]) simp
  next
    case False
    then show ?thesis using run by (auto simp: request_interceptor_def MAX_RETRIES_def Let_def intro!: exI[of _ k])
  qed
qed

text \<open>So a service that keeps answering with a retryable error is called for ever.\<close>

lemma client_request_never:
  assumes "\<forall>j \<ge> k. retryable (answer j)"
  shows "client_request answer k m = None"
proof (rule ccontr)
  assume "client_request answer k m \<noteq> None"
  then obtain y where "client_request answer k m = Some y" by blast
  from client_request_result[OF this] obtain j where "j \<ge> k" "http_ok (answer j)" using assms by blast
  moreover have "\<not> http_ok (answer j)" using assms \<open>j \<ge> k\<close> by (cases "answer j") auto
  ultimately show False by simp
qed

end
