(* ===== verification/Otp_Claims.thy ===== *)
theory Otp_Claims
  imports Auth_Otp
begin

text \<open>Properties of the one-time codes: how many guesses, how many requests, which codes.\<close>

lemma attempts_append:
  "attempts env email (xs @ ys) w =
     (if fst (attempts env email xs w) then (True, snd (attempts env email xs w))
      else attempts env email ys (snd (attempts env email xs w)))"
  by (induction xs arbitrary: w) (auto split: prod.splits sum.splits)

definition wrong_guesses :: "string \<Rightarrow> time \<Rightarrow> (time \<times> string) list \<Rightarrow> bool" where
  "wrong_guesses code expires gs \<longleftrightarrow>
     (\<forall>(t, otp) \<in> set gs. otp \<noteq> code \<and> t < expires \<and> expires \<le> t + 1800000)"

lemma attempts_wrong:
  "\<lbrakk>guessing email code expires n w; wrong_guesses code expires gs; length gs + n \<le> 3\<rbrakk> \<Longrightarrow>
     \<not> fst (attempts env email gs w) \<and>
     guessing email code expires (n + length gs) (snd (attempts env email gs w))"
proof (induction gs arbitrary: w n)
  case (Cons g gs)
  obtain t otp where g: "g = (t, otp)" by force
  have p: "aeNow (at_time env t) < expires" "otp \<noteq> code" "n < 3" "expires \<le> aeNow (at_time env t) + 1800000"
    using Cons.prems g by (auto simp: wrong_guesses_def)
  note V = verifyOtp_wrong[OF Cons.prems(1) p]
  let ?w = "snd (verifyOtp (at_time env t) email otp w)"
  have r: "wrong_guesses code expires gs" "length gs + Suc n \<le> 3"
    using Cons.prems by (auto simp: wrong_guesses_def)
  have "attempts env email (g # gs) w = attempts env email gs ?w"
    unfolding g attempts.simps by (subst V(1)) simp
  with Cons.IH[OF V(2) r] show ?case by simp
qed simp

lemma attempts_blocked:
  assumes "\<forall>(t, otp) \<in> set gs. redis_get t (otp_block_key email) (awRedis w) = Some (Txt ''blocked'')"
  shows "attempts env email gs w = (False, w)"
  using assms by (induction gs) (auto simp: verifyOtp_blocked)

text \<open>
  C29: A code can be guessed at four times. After three wrong guesses at a live code (the third
  answer already says that no attempt is left) the right code is still accepted; after four it
  is gone, and for the thirty minutes that follow no attempt succeeds, whatever codes are sent.
\<close>

theorem otp_four_guesses:
  assumes g: "guessing email code expires 0 w" and wr: "wrong_guesses code expires (gs @ [(t4, otp4)])"
    and len: "length gs = 3"
  shows "(t < expires \<longrightarrow> fst (verifyOtp (at_time env t) email code (snd (attempts env email gs w))) = Inr ()) \<and>
    \<not> fst (attempts env email (gs @ [(t4, otp4)]) w) \<and>
    redis_get t (registrationOtpKey email) (awRedis (snd (attempts env email (gs @ [(t4, otp4)]) w))) = None \<and>
    ((\<forall>(t, otp) \<in> set later. t < t4 + 1800000) \<longrightarrow>
       \<not> fst (attempts env email (gs @ (t4, otp4) # later) w))"
proof -
  have w3: "wrong_guesses code expires gs" and w4: "otp4 \<noteq> code" "t4 < expires"
    using wr by (auto simp: wrong_guesses_def)
  have A: "\<not> fst (attempts env email gs w)" "guessing email code expires 3 (snd (attempts env email gs w))"
    using attempts_wrong[OF g w3, of env] len by simp_all
  let ?w = "snd (attempts env email gs w)"
  note B = verifyOtp_blocks[OF A(2), of "at_time env t4" otp4, simplified, OF w4(2,1)]
  obtain e w' where v: "verifyOtp (at_time env t4) email otp4 ?w = (Inl e, w')"
    using B by (cases "verifyOtp (at_time env t4) email otp4 ?w"; cases "fst (verifyOtp (at_time env t4) email otp4 ?w)") auto
  have one: "attempts env email (gs @ [(t4, otp4)]) w = (False, w')"
    using A(1) v by (simp add: attempts_append)
  have k: "redis_get u (otp_block_key email) (awRedis w') = (if u < t4 + 1800000 then Some (Txt ''blocked'') else None)"
    "redis_get u (registrationOtpKey email) (awRedis w') = None" for u
    using B[of u] v by simp_all
  have "\<not> fst (attempts env email (gs @ (t4, otp4) # later) w)" if "\<forall>(t, otp) \<in> set later. t < t4 + 1800000"
  proof -
    have "attempts env email later w' = (False, w')"
      by (rule attempts_blocked) (use that k(1) in auto)
    then show ?thesis using attempts_append[of env email "gs @ [(t4, otp4)]" later w] one by simp
  qed
  then show ?thesis using verifyOtp_right[OF A(2), of "at_time env t"] one k(2) by simp
qed

text \<open>The state right after a registration has stored a code.\<close>

definition demo_crypto :: auth_crypto where
  "demo_crypto = \<lparr>sha256 = (\<lambda>s. s), hmac256 = (\<lambda>k s. s), bcryptCompare = (=), bcryptHash = (\<lambda>s. s),
     jwtSign = (\<lambda>c s e t. ''jwt''), jwtVerify = (\<lambda>s k t. Inl NonError), jwtDecode = (\<lambda>s. None), uuidV5 = (\<lambda>s. s)\<rparr>"

definition demo_config :: auth_config where
  "demo_config = \<lparr>acAccessSecret = ''a'', acAccessExpires = ''15m'', acRefreshSecret = ''r'',
     acRefreshExpires = ''7d'', acResetSecret = ''p'', acResetExpires = ''15m'', acInternalSecret = ''i'',
     acCustomerUrl = ''c'', acSellerUrl = ''s'', acAdminUrl = ''d''\<rparr>"

definition demo_auth_env :: auth_env where
  "demo_auth_env = \<lparr>aeNow = 0, aeConfig = demo_config, aeCrypto = demo_crypto, aeRowId = ''c1'',
     aeOutboxId = ''o1'', aeFamily = ''f1'', aeOtp = ''123456'', aeInviteToken = ''tok'',
     aeDateText = (\<lambda>t. ''''), aeUserService = Inr ()\<rparr>"

definition empty_auth :: auth_world where
  "empty_auth = \<lparr>awDb = \<lparr>adCredentials = [], adResets = [], adInvites = [], adAudit = [], adOutbox = []\<rparr>,
     awRedis = redis_empty\<rparr>"

lemma guessing_start:
  "code \<noteq> [] \<Longrightarrow> guessing email code 300000 0
     (r_setex demo_auth_env (registrationOtpKey email) 300 (Txt code) empty_auth)"
  by (simp add: guessing_def r_setex_def empty_auth_def demo_auth_env_def js_count_def)

theorem otp_four_guesses_witness:
  "\<not> fst (attempts demo_auth_env ''a@b.c''
     [(1, ''000001''), (2, ''000002''), (3, ''000003''), (4, ''000004''), (5, ''123456'')]
     (r_setex demo_auth_env (registrationOtpKey ''a@b.c'') 300 (Txt ''123456'') empty_auth))"
proof -
  have g: "guessing ''a@b.c'' ''123456'' 300000 0
     (r_setex demo_auth_env (registrationOtpKey ''a@b.c'') 300 (Txt ''123456'') empty_auth)"
    by (rule guessing_start) simp
  show ?thesis
    using otp_four_guesses[OF g, of "[(1, ''000001''), (2, ''000002''), (3, ''000003'')]" 4 "''000004''" 0
        demo_auth_env "[(5, ''123456'')]"]
    by (simp add: wrong_guesses_def)
qed

subsection \<open>Requests\<close>

definition counted :: "string \<Rightarrow> time list \<Rightarrow> nat \<Rightarrow> auth_world \<Rightarrow> bool" where
  "counted email ts n w \<longleftrightarrow>
     (\<forall>t \<in> set ts. js_count (redis_get t (otp_count_key (normalizedEmail email)) (awRedis w)) = Some n)"

lemma request_code_cases:
  assumes "js_count (redis_get (aeNow env) (otp_count_key (normalizedEmail email)) (awRedis w)) = Some n"
  obtains (refused) e w' where "request_code env email w = (Inl e, w')"
      "\<And>t. redis_get t (otp_count_key (normalizedEmail email)) (awRedis w') =
         redis_get t (otp_count_key (normalizedEmail email)) (awRedis w)"
  | (sent) w' where "request_code env email w = (Inr (), w')" "n < 3"
      "\<And>t. redis_get t (otp_count_key (normalizedEmail email)) (awRedis w') =
         (if t < aeNow env + 1800000 then Some (Txt (show_nat (Suc n))) else None)"
proof -
  obtain r w' where R: "request_code env email w = (r, w')" by force
  obtain r1 w1 where C: "checkOtpRestrictions env email w = (r1, w1)" by force
  have w1: "w1 = w" using C by (auto simp: checkOtpRestrictions_def Let_def split: if_splits)
  show thesis
  proof (cases r1)
    case (Inl e)
    then show thesis using C w1 refused[of e w] by (simp add: request_code_def)
  next
    case (Inr u)
    then have T: "request_code env email w = trackOtpRequests env email w"
      using C w1 by (simp add: request_code_def)
    have n: "js_count (r_get env (otp_count_key (normalizedEmail email)) w) = Some n"
      using assms by (simp add: r_get_def)
    show thesis
    proof (cases "r_truthy env (otp_spam_key (normalizedEmail email)) w \<or> 3 \<le> n")
      case True
      let ?out = "request_code env email w"
      have "fst ?out = Inl (AppErr (BadRequestError ''Too many OTP requests. Please try again after 60 minutes.'' None))"
        "\<And>t. redis_get t (otp_count_key (normalizedEmail email)) (awRedis (snd ?out)) =
           redis_get t (otp_count_key (normalizedEmail email)) (awRedis w)"
        using True n by (auto simp: T trackOtpRequests_def Let_def count_gt_def OTP_REQUEST_LIMIT_def r_setex_def)
      then show thesis by (intro refused[of _ "snd ?out"]) (auto simp: prod_eq_iff)
    next
      case False
      then show thesis using n
        by (intro sent[of "snd (request_code env email w)"])
          (auto simp: T trackOtpRequests_def Let_def count_gt_def OTP_REQUEST_LIMIT_def r_setex_def
            OTP_REQUEST_WINDOW_def count_text_def)
    qed
  qed
qed

lemma requests_bounded:
  "\<lbrakk>counted email ts n w; n \<le> 3; \<forall>t \<in> set ts. \<forall>t' \<in> set ts. t < t' + 1800000\<rbrakk> \<Longrightarrow>
     requests env email ts w \<le> 3 - n"
proof (induction ts arbitrary: w n)
  case (Cons t ts)
  have c: "js_count (redis_get (aeNow (at_time env t)) (otp_count_key (normalizedEmail email)) (awRedis w)) = Some n"
    using Cons.prems(1) by (simp add: counted_def)
  have sp: "\<forall>u \<in> set ts. \<forall>u' \<in> set ts. u < u' + 1800000" using Cons.prems(3) by simp
  show ?case
  proof (cases rule: request_code_cases[OF c])
    case (1 e w')
    have "counted email ts n w'" using Cons.prems(1) 1(2) by (simp add: counted_def)
    with Cons.IH[OF this Cons.prems(2) sp] 1(1) show ?thesis by simp
  next
    case (2 w')
    have "counted email ts (Suc n) w'"
      using 2(3) Cons.prems(3) by (simp add: counted_def js_count_def)
    then have "requests env email ts w' \<le> 3 - Suc n" using Cons.IH[of "Suc n" w'] 2(2) sp by simp
    with 2(1,2) show ?thesis by simp
  qed
qed simp

text \<open>
  At most three codes are sent to an address in thirty minutes: of any number of requests
  at any times within such a span, for an address whose request counter is not set, no more
  than three pass the restrictions and the count.
\<close>

theorem otp_request_limit:
  assumes "\<forall>t \<in> set ts. redis_get t (otp_count_key (normalizedEmail email)) (awRedis w) = None"
    and "\<forall>t \<in> set ts. \<forall>t' \<in> set ts. t < t' + 1800000"
  shows "requests env email ts w \<le> 3"
proof -
  have "counted email ts 0 w" using assms(1) by (simp add: counted_def js_count_def)
  from requests_bounded[OF this _ assms(2)] show ?thesis by simp
qed

theorem otp_request_limit_witness:
  "requests demo_auth_env ''a@b.c'' [0, 61000, 122000, 183000, 244000] empty_auth \<le> 3"
  by (rule otp_request_limit) (simp_all add: empty_auth_def)

subsection \<open>Codes\<close>

lemma length_show_nat: "10 ^ k \<le> n \<Longrightarrow> n < 10 ^ Suc k \<Longrightarrow> length (show_nat n) = Suc k"
proof (induction k arbitrary: n)
  case 0
  then show ?case by (subst show_nat.simps) simp
next
  case (Suc k)
  then have "10 ^ k \<le> n div 10" "n div 10 < 10 ^ Suc k" by (simp_all add: less_mult_imp_div_less div_le_mono)
  moreover have "(10::nat) * 1 \<le> 10 * 10 ^ k" by (rule mult_le_mono2) simp
  then have "\<not> n < 10" using Suc.prems(1) unfolding power_Suc by linarith
  ultimately show ?case using Suc.IH[of "n div 10"] by (subst show_nat.simps) simp
qed

lemma digits_show_nat: "list_all (\<lambda>c. char_digit c \<noteq> None) (show_nat n)"
proof (induction n rule: less_induct)
  case (less n)
  show ?case
  proof (cases "n < 10")
    case True
    then show ?thesis by (subst show_nat.simps) (simp add: char_digit_digit_char)
  next
    case False
    then have "list_all (\<lambda>c. char_digit c \<noteq> None) (show_nat (n div 10))" by (intro less.IH) simp
    with False show ?thesis by (subst show_nat.simps) (simp add: char_digit_digit_char)
  qed
qed

text \<open>
  Every code that can be drawn passes the schema of the routes that take it back, and two
  different numbers give different codes.
\<close>

theorem generated_codes_are_accepted:
  assumes "n \<in> otp_numbers"
  shows "otpSchema (generateOtp n) \<and> (\<forall>m. generateOtp m = generateOtp n \<longrightarrow> m = n)"
  using assms length_show_nat[of 5 n] digits_show_nat[of n] show_nat_inj
  by (auto simp: otpSchema_def generateOtp_def otp_numbers_def)

theorem generated_codes_are_accepted_witness: "otpSchema (generateOtp 123456)"
  using generated_codes_are_accepted[of 123456] by (simp add: otp_numbers_def)

end
