(* ===== verification/Session_Claims.thy ===== *)
theory Session_Claims
  imports Auth_Login Otp_Claims
begin

text \<open>Properties of refresh tokens, login and lockout.\<close>

subsection \<open>Refresh tokens\<close>

text \<open>A refresh token that verifies, for the credential \<open>i\<close> and the family \<open>fam\<close>.\<close>

definition good_refresh :: "auth_env \<Rightarrow> string \<Rightarrow> jwt_claims \<Rightarrow> string \<Rightarrow> string \<Rightarrow> bool" where
  "good_refresh env token c i fam \<longleftrightarrow>
     token \<noteq> [] \<and> acRefreshSecret (aeConfig env) \<noteq> [] \<and>
     jwtVerify (aeCrypto env) token (acRefreshSecret (aeConfig env)) (aeNow env) = Inr c \<and>
     jwTokenType c = Some ''refresh'' \<and> jwFamilyId c = Some fam \<and> fam \<noteq> [] \<and> jwId c = Some i \<and>
     jwActiveRole c \<noteq> None"

definition refreshed :: "auth_env \<Rightarrow> jwt_claims \<Rightarrow> string" where
  "refreshed env c = signRefreshToken env
     (buildJwtPayload (jwId c) (jwEmail c) (jwRole c) (the (jwActiveRole c))) (the (jwFamilyId c))"

definition with_hash :: "auth_env \<Rightarrow> string \<Rightarrow> string \<Rightarrow> string \<Rightarrow> auth_world \<Rightarrow> auth_world" where
  "with_hash env i fam token =
     r_setex env (refreshKey i fam) REFRESH_TOKEN_TTL_SECONDS (buildStoredValue env token)"

lemma stored_with_hash:
  "findActiveTokenHash (at_time env t) i fam (with_hash env i fam token w) =
     (if t < aeNow env + 604800000 then Some (sha256 (aeCrypto env) token) else None)"
  by (simp add: with_hash_def findActiveTokenHash_def r_get_def r_setex_def buildStoredValue_def
      stored_hash_of_def hashRefreshToken_def REFRESH_TOKEN_TTL_SECONDS_def)

lemma findActive_at:
  "findActiveTokenHash env i fam w = Some h \<Longrightarrow>
     \<exists>t. redis_get (aeNow env) (refreshKey i fam) (awRedis w) = Some t \<and> stored_hash_of t = Some h"
  by (auto simp: findActiveTokenHash_def r_get_def split: option.splits if_splits)

lemma check_accepts:
  assumes "good_refresh env token c i fam" "findActiveTokenHash env i fam w = Some h"
    "h = sha256 (aeCrypto env) token" "h \<noteq> []"
  shows "refresh_check env (Some token) w = (Inr (c, h), w)"
  using assms by (auto simp: refresh_check_def good_refresh_def verifyToken_def id_text_def hashRefreshToken_def)

lemma check_reuse:
  assumes "good_refresh env token c i fam" "findActiveTokenHash env i fam w = Some h"
    "h \<noteq> sha256 (aeCrypto env) token" "h \<noteq> []"
  shows "refresh_check env (Some token) w =
    (Inl (unauthorized ''Refresh token has been revoked''), revokeTokenFamily i fam w)"
  using assms by (auto simp: refresh_check_def good_refresh_def verifyToken_def id_text_def hashRefreshToken_def)

lemma check_gone:
  assumes "good_refresh env token c i fam" "findActiveTokenHash env i fam w = None"
  shows "refresh_check env (Some token) w = (Inl (unauthorized ''Invalid refresh token''), w)"
  using assms by (auto simp: refresh_check_def good_refresh_def verifyToken_def id_text_def)

lemma rotate_wins:
  assumes "good_refresh env token c i fam" "findActiveTokenHash env i fam w = Some h"
  shows "refresh_rotate env (c, h) w =
    (Inr \<lparr>trAccessToken = issueAccessToken env (buildJwtPayload (jwId c) (jwEmail c) (jwRole c) (the (jwActiveRole c))),
          trRefreshToken = refreshed env c, trRole = jwRole c\<rparr>, with_hash env i fam (refreshed env c) w)"
proof -
  obtain t where "redis_get (aeNow env) (refreshKey i fam) (awRedis w) = Some t" "stored_hash_of t = Some h"
    using findActive_at[OF assms(2)] by blast
  then show ?thesis using assms(1)
    by (simp add: refresh_rotate_def rotateRefreshToken_def rotate_script_def good_refresh_def id_text_def
        refreshed_def with_hash_def r_setex_def on_redis_def Let_def)
qed

lemma rotate_loses:
  assumes "good_refresh env token c i fam" "findActiveTokenHash env i fam w = Some h'" "h' \<noteq> h"
  shows "refresh_rotate env (c, h) w =
    (Inl (unauthorized ''Refresh token has been revoked''), revokeTokenFamily i fam w)"
proof -
  obtain t where "redis_get (aeNow env) (refreshKey i fam) (awRedis w) = Some t" "stored_hash_of t = Some h'"
    using findActive_at[OF assms(2)] by blast
  then show ?thesis using assms(1,3)
    by (simp add: refresh_rotate_def rotateRefreshToken_def rotate_script_def good_refresh_def id_text_def Let_def)
qed

lemma revoked_family: "findActiveTokenHash env i fam (revokeTokenFamily i fam w) = None"
  by (simp add: findActiveTokenHash_def revokeTokenFamily_def r_get_del)


text \<open>Tokens that carry their claims: a crypto environment to run the handlers with. The token
  shows the time of issue in seconds, as \<open>iat\<close> does.\<close>

definition demo_claims :: jwt_claims where
  "demo_claims = \<lparr>jwId = Some ''c1'', jwEmail = ''a@b.c'', jwRole = [CUSTOMER], jwActiveRole = Some CUSTOMER,
     jwFamilyId = Some ''f1'', jwTokenType = Some ''refresh''\<rparr>"

definition jwt_env :: auth_env where
  "jwt_env = demo_auth_env\<lparr>aeCrypto := demo_crypto\<lparr>
     jwtSign := (\<lambda>c s e t. show_int (t div 1000)), jwtVerify := (\<lambda>tok s now. Inr demo_claims)\<rparr>\<rparr>"

lemma show_0: "show_int 0 = ''0''" "show_int 1 = ''1''" "show_int 2 = ''2''"
  by code_simp+

lemma jwt_env_good: "tok \<noteq> [] \<Longrightarrow> good_refresh (at_time jwt_env t) tok demo_claims ''c1'' ''f1''"
  by (simp add: good_refresh_def jwt_env_def demo_auth_env_def demo_config_def demo_claims_def)

lemma jwt_env_refreshed: "refreshed (at_time jwt_env t) c = show_int (t div 1000)"
  by (simp add: refreshed_def signRefreshToken_def generateToken_def jwt_env_def)


text \<open>
  Of two concurrent refreshes with one token at most one wins, and both lose the session.
  When both requests pass their checks before either rotates, the second rotation is taken for
  reuse and revokes the family, so the token the winner received is refused too.
\<close>

theorem concurrent_refresh:
  assumes g1: "good_refresh env1 token c i fam" and g2: "good_refresh env2 token c i fam"
    and cr: "aeCrypto env2 = aeCrypto env1"
    and st: "findActiveTokenHash env1 i fam w = Some (sha256 (aeCrypto env1) token)"
      "findActiveTokenHash env2 i fam w = Some (sha256 (aeCrypto env1) token)"
    and ne: "sha256 (aeCrypto env1) token \<noteq> []"
    and new: "sha256 (aeCrypto env1) (refreshed env1 c) \<noteq> sha256 (aeCrypto env1) token"
    and t: "aeNow env2 < aeNow env1 + 604800000"
    and g3: "good_refresh env3 (refreshed env1 c) c' i fam"
  shows "\<exists>ch1 ch2 r w1 w2. refresh_check env1 (Some token) w = (Inr ch1, w) \<and>
      refresh_check env2 (Some token) w = (Inr ch2, w) \<and>
      refresh_rotate env1 ch1 w = (Inr r, w1) \<and> trRefreshToken r = refreshed env1 c \<and>
      refresh_rotate env2 ch2 w1 = (Inl (unauthorized ''Refresh token has been revoked''), w2) \<and>
      refreshToken env3 (Some (refreshed env1 c)) w2 = (Inl (unauthorized ''Invalid refresh token''), w2)"
proof -
  let ?h = "sha256 (aeCrypto env1) token"
  let ?w1 = "with_hash env1 i fam (refreshed env1 c) w"
  let ?w2 = "revokeTokenFamily i fam ?w1"
  have s1: "findActiveTokenHash env2 i fam ?w1 = Some (sha256 (aeCrypto env1) (refreshed env1 c))"
    using t by (simp add: with_hash_def findActiveTokenHash_def r_get_def r_setex_def buildStoredValue_def
        stored_hash_of_def hashRefreshToken_def REFRESH_TOKEN_TTL_SECONDS_def)
  have "refresh_check env1 (Some token) w = (Inr (c, ?h), w)" by (rule check_accepts[OF g1 st(1) refl ne])
  moreover have "refresh_check env2 (Some token) w = (Inr (c, ?h), w)"
    by (rule check_accepts[OF g2 st(2)]) (simp_all add: cr ne)
  moreover have "\<exists>r. refresh_rotate env1 (c, ?h) w = (Inr r, ?w1) \<and> trRefreshToken r = refreshed env1 c"
    using rotate_wins[OF g1 st(1)] by simp
  moreover have "refresh_rotate env2 (c, ?h) ?w1 =
      (Inl (unauthorized ''Refresh token has been revoked''), ?w2)"
    by (rule rotate_loses[OF g2 s1 new])
  moreover have "refreshToken env3 (Some (refreshed env1 c)) ?w2 =
      (Inl (unauthorized ''Invalid refresh token''), ?w2)"
    using check_gone[OF g3 revoked_family] by (simp add: refreshToken_def)
  ultimately show ?thesis by blast
qed

theorem concurrent_refresh_witness:
  "\<exists>ch1 ch2 r w1 w2. refresh_check (at_time jwt_env 1000) (Some ''0'')
        (with_hash (at_time jwt_env 0) ''c1'' ''f1'' ''0'' empty_auth) =
          (Inr ch1, with_hash (at_time jwt_env 0) ''c1'' ''f1'' ''0'' empty_auth) \<and>
     refresh_rotate (at_time jwt_env 1000) ch1
        (with_hash (at_time jwt_env 0) ''c1'' ''f1'' ''0'' empty_auth) = (Inr r, w1) \<and>
     refresh_rotate (at_time jwt_env 2000) ch2 w1 = (Inl (unauthorized ''Refresh token has been revoked''), w2)"
proof -
  let ?e = "at_time jwt_env 1000"
  let ?f = "at_time jwt_env 2000"
  let ?w = "with_hash (at_time jwt_env 0) ''c1'' ''f1'' ''0'' empty_auth"
  have sh: "sha256 (aeCrypto jwt_env) s = s" for s
    by (simp add: jwt_env_def demo_auth_env_def demo_crypto_def)
  have st: "findActiveTokenHash (at_time jwt_env t) ''c1'' ''f1'' ?w = Some (sha256 (aeCrypto ?e) ''0'')"
    if "t < 604800000" for t
    using stored_with_hash[where env = "at_time jwt_env 0" and t = t and i = "''c1''" and fam = "''f1''"
        and token = "''0''" and w = empty_auth] that by (simp add: jwt_env_def demo_auth_env_def)
  have re: "refreshed ?e demo_claims = ''1''" by (simp add: jwt_env_refreshed show_0)
  have g: "good_refresh ?f (refreshed ?e demo_claims) demo_claims ''c1'' ''f1''" by (rule jwt_env_good) (simp add: re)
  have "\<exists>ch1 ch2 r w1 w2. refresh_check ?e (Some ''0'') ?w = (Inr ch1, ?w) \<and>
      refresh_check ?f (Some ''0'') ?w = (Inr ch2, ?w) \<and>
      refresh_rotate ?e ch1 ?w = (Inr r, w1) \<and> trRefreshToken r = refreshed ?e demo_claims \<and>
      refresh_rotate ?f ch2 w1 = (Inl (unauthorized ''Refresh token has been revoked''), w2) \<and>
      refreshToken ?f (Some (refreshed ?e demo_claims)) w2 = (Inl (unauthorized ''Invalid refresh token''), w2)"
    by (rule concurrent_refresh[OF jwt_env_good jwt_env_good _ st st _ _ _ g]) (simp_all add: sh re)
  then obtain ch1 ch2 r w1 w2 where "refresh_check ?e (Some ''0'') ?w = (Inr ch1, ?w)"
    "refresh_rotate ?e ch1 ?w = (Inr r, w1)"
    "refresh_rotate ?f ch2 w1 = (Inl (unauthorized ''Refresh token has been revoked''), w2)" by blast
  then show ?thesis by (intro exI conjI) auto
qed

text \<open>
  A refresh within the second in which the token was signed changes nothing. JWT signatures
  depend on the claims and on the time in seconds, so the rotated token is the presented one
  and goes on being accepted.
\<close>

theorem same_second_refresh_returns_same_token:
  assumes g: "good_refresh env token c i fam"
    and signed: "token = jwtSign (aeCrypto env) ((buildJwtPayload (jwId c) (jwEmail c) (jwRole c) (the (jwActiveRole c)))
      \<lparr>jwTokenType := Some ''refresh'', jwFamilyId := Some fam\<rparr>)
      (acRefreshSecret (aeConfig env)) (acRefreshExpires (aeConfig env)) signedAt"
    and seconds: "\<And>cl s e t t'. t div 1000 = t' div 1000 \<Longrightarrow> jwtSign (aeCrypto env) cl s e t = jwtSign (aeCrypto env) cl s e t'"
    and now: "signedAt div 1000 = aeNow env div 1000"
    and st: "findActiveTokenHash env i fam w = Some (sha256 (aeCrypto env) token)" "sha256 (aeCrypto env) token \<noteq> []"
  shows "\<exists>r w1 r' w2. refreshToken env (Some token) w = (Inr r, w1) \<and> trRefreshToken r = token \<and>
      refreshToken env (Some token) w1 = (Inr r', w2) \<and> trRefreshToken r' = token"
proof -
  have fam: "the (jwFamilyId c) = fam" using g by (simp add: good_refresh_def)
  have re: "refreshed env c = token"
    unfolding refreshed_def signRefreshToken_def generateToken_def fam signed by (rule seconds) (simp add: now)
  let ?w1 = "with_hash env i fam token w"
  have s1: "findActiveTokenHash env i fam ?w1 = Some (sha256 (aeCrypto env) token)"
    using stored_with_hash[where env = env and t = "aeNow env"] by simp
  show ?thesis
    using check_accepts[OF g st(1) refl st(2)] rotate_wins[OF g st(1)]
      check_accepts[OF g s1 refl st(2)] rotate_wins[OF g s1] by (simp add: refreshToken_def re)
qed

theorem same_second_refresh_returns_same_token_witness:
  "\<exists>r w1. refreshToken (at_time jwt_env 999) (Some ''0'')
     (with_hash (at_time jwt_env 0) ''c1'' ''f1'' ''0'' empty_auth) = (Inr r, w1) \<and> trRefreshToken r = ''0''"
proof -
  let ?e = "at_time jwt_env 999"
  let ?w = "with_hash (at_time jwt_env 0) ''c1'' ''f1'' ''0'' empty_auth"
  have st: "findActiveTokenHash ?e ''c1'' ''f1'' ?w = Some (sha256 (aeCrypto ?e) ''0'')"
    using stored_with_hash[where env = "at_time jwt_env 0" and t = 999 and i = "''c1''" and fam = "''f1''"
        and token = "''0''" and w = empty_auth] by (simp add: jwt_env_def demo_auth_env_def)
  have "\<exists>r w1 r' w2. refreshToken ?e (Some ''0'') ?w = (Inr r, w1) \<and> trRefreshToken r = ''0'' \<and>
      refreshToken ?e (Some ''0'') w1 = (Inr r', w2) \<and> trRefreshToken r' = ''0''"
    by (rule same_second_refresh_returns_same_token[OF jwt_env_good _ _ _ st, where signedAt = 0])
      (simp_all add: jwt_env_def demo_auth_env_def demo_crypto_def show_0)
  then show ?thesis by blast
qed

end
