(* ===== verification/Login_Claims.thy ===== *)
theory Login_Claims
  imports Session_Claims
begin

text \<open>Properties of the login surfaces: the role of the session, and the lockout.\<close>

subsection \<open>What a successful login has checked\<close>

definition login_allowed :: "auth_env \<Rightarrow> credential \<Rightarrow> bool" where
  "login_allowed env c \<longleftrightarrow> \<not> crIsDeleted c \<and> \<not> crIsBlocked c \<and> crIsActive c \<and>
     (\<forall>t. crLockedUntil c = Some t \<longrightarrow> t \<le> aeNow env)"

lemma account_state_ok: "account_state env c = Inr x \<longleftrightarrow> login_allowed env c"
  by (auto simp: account_state_def login_allowed_def checkLockout_def split: option.splits if_splits)

lemma assertClientSurface_ok:
  "assertClientSurface s ctx w = (Inr x, w') \<longleftrightarrow> rcClientType ctx = Some (surface_text s) \<and> w' = w"
  by (auto simp: assertClientSurface_def)

lemma verifyCredentials_ok:
  "verifyCredentials env email password w = (Inr c, w') \<longleftrightarrow>
     findByEmail email w = Some c \<and> bcryptCompare (aeCrypto env) password (crPassword c) \<and> w' = w"
  by (auto simp: verifyCredentials_def on_ok_Inr_iff split: option.splits)

definition session_of :: "auth_env \<Rightarrow> credential \<Rightarrow> role \<Rightarrow> auth_result \<Rightarrow> bool" where
  "session_of env c r res \<longleftrightarrow> arId res = crId c \<and> arRole res = crRole c \<and>
     arAccessToken res = issueAccessToken env (buildJwtPayload (Some (crId c)) (crEmail c) (crRole c) r)"

lemma completeLogin_ok:
  assumes "completeLogin env c r w = (Inr res, w')"
  shows "login_allowed env c \<and> session_of env c r res \<and>
    findActiveTokenHash env (crId c) (aeFamily env) w' = Some (sha256 (aeCrypto env) (arRefreshToken res)) \<and>
    crId c \<in> crId ` set (adCredentials (awDb w))"
proof (cases "account_state env c")
  case (Inl e)
  then show ?thesis using assms by (simp add: completeLogin_def)
next
  case (Inr u)
  then obtain w1 where w1: "resetLoginAttempts env (crId c) w = (Inr (), w1)"
    "issueSession env c r w1 = (Inr res, w')"
    using assms by (auto simp: completeLogin_def on_ok_Inr_iff)
  have "crId c \<in> crId ` set (adCredentials (awDb w))"
    using w1(1) by (auto simp: resetLoginAttempts_def update_credential_def split: if_splits)
  then show ?thesis using Inr w1(2) account_state_ok[of env c u]
    by (auto simp: issueSession_def issueRefreshToken_def Let_def session_of_def findActiveTokenHash_def
        r_get_setex REFRESH_TOKEN_TTL_SECONDS_def buildStoredValue_def stored_hash_of_def hashRefreshToken_def)
qed

lemma login_cases:
  "customerLogin env email pw ctx w = (Inr res, w') \<Longrightarrow> \<exists>c. findByEmail email w = Some c \<and>
     bcryptCompare (aeCrypto env) pw (crPassword c) \<and> CUSTOMER \<in> set (crRole c) \<and>
     rcClientType ctx = Some ''customer-web'' \<and> completeLogin env c CUSTOMER w = (Inr res, w')"
  "sellerLogin env email pw ctx w = (Inr res, w') \<Longrightarrow> \<exists>c. findByEmail email w = Some c \<and>
     bcryptCompare (aeCrypto env) pw (crPassword c) \<and> SELLER \<in> set (crRole c) \<and>
     rcClientType ctx = Some ''seller-web'' \<and> completeLogin env c SELLER w = (Inr res, w')"
  "adminLogin env email pw ctx w = (Inr res, w') \<Longrightarrow> \<exists>c. findByEmail email w = Some c \<and>
     bcryptCompare (aeCrypto env) pw (crPassword c) \<and> list_ex admin_role (crRole c) \<and>
     rcClientType ctx = Some ''admin-web'' \<and>
     completeLogin env c (if SUPER_ADMIN \<in> set (crRole c) then SUPER_ADMIN else ADMIN) w = (Inr res, w')"
  by (auto simp: customerLogin_def sellerLogin_def adminLogin_def on_ok_Inr_iff assertClientSurface_ok
      verifyCredentials_ok split: if_splits)

definition granted ::
    "auth_env \<Rightarrow> string \<Rightarrow> string \<Rightarrow> request_context \<Rightarrow> client_surface \<Rightarrow> (role list \<Rightarrow> bool) \<Rightarrow>
       (role list \<Rightarrow> role) \<Rightarrow> auth_world \<Rightarrow> auth_result \<Rightarrow> auth_world \<Rightarrow> bool" where
  "granted env email pw ctx s holds active w res w' \<longleftrightarrow> (\<exists>c. findByEmail email w = Some c \<and>
     bcryptCompare (aeCrypto env) pw (crPassword c) \<and> holds (crRole c) \<and> login_allowed env c \<and>
     rcClientType ctx = Some (surface_text s) \<and> session_of env c (active (crRole c)) res \<and>
     findActiveTokenHash env (crId c) (aeFamily env) w' = Some (sha256 (aeCrypto env) (arRefreshToken res)))"

lemma granted_by:
  "\<lbrakk>findByEmail email w = Some c; bcryptCompare (aeCrypto env) pw (crPassword c); holds (crRole c);
    rcClientType ctx = Some (surface_text s); completeLogin env c (active (crRole c)) w = (Inr res, w')\<rbrakk> \<Longrightarrow>
   granted env email pw ctx s holds active w res w'"
  unfolding granted_def by (drule completeLogin_ok) blast

text \<open>
  C13: A login succeeds only for the right surface, password, role and account state, and its
  session carries the role of the surface. The admin surface gives the highest admin role the
  account holds, and the refresh token it hands out is stored.
\<close>

theorem login_checks:
  "(customerLogin env email pw ctx w = (Inr res, w') \<longrightarrow>
      granted env email pw ctx CUSTOMER_WEB (\<lambda>rs. CUSTOMER \<in> set rs) (\<lambda>rs. CUSTOMER) w res w') \<and>
   (sellerLogin env email pw ctx w = (Inr res, w') \<longrightarrow>
      granted env email pw ctx SELLER_WEB (\<lambda>rs. SELLER \<in> set rs) (\<lambda>rs. SELLER) w res w') \<and>
   (adminLogin env email pw ctx w = (Inr res, w') \<longrightarrow>
      granted env email pw ctx ADMIN_WEB (list_ex admin_role)
        (\<lambda>rs. if SUPER_ADMIN \<in> set rs then SUPER_ADMIN else ADMIN) w res w')"
proof (intro conjI impI)
  show "granted env email pw ctx CUSTOMER_WEB (\<lambda>rs. CUSTOMER \<in> set rs) (\<lambda>rs. CUSTOMER) w res w'"
    if "customerLogin env email pw ctx w = (Inr res, w')"
    using login_cases(1)[OF that] by (elim exE conjE) (rule granted_by, simp_all)
  show "granted env email pw ctx SELLER_WEB (\<lambda>rs. SELLER \<in> set rs) (\<lambda>rs. SELLER) w res w'"
    if "sellerLogin env email pw ctx w = (Inr res, w')"
    using login_cases(2)[OF that] by (elim exE conjE) (rule granted_by, simp_all)
  show "granted env email pw ctx ADMIN_WEB (list_ex admin_role)
        (\<lambda>rs. if SUPER_ADMIN \<in> set rs then SUPER_ADMIN else ADMIN) w res w'"
    if "adminLogin env email pw ctx w = (Inr res, w')"
    using login_cases(3)[OF that] by (elim exE conjE) (rule granted_by, simp_all)
qed

definition dual_account :: credential where
  "dual_account = \<lparr>crId = ''c1'', crEmail = ''a@b.c'', crPassword = ''pw'', crRole = [CUSTOMER, SELLER],
     crIsActive = True, crIsBlocked = False, crBlockedUntil = None, crIsDeleted = False, crDeletedAt = None,
     crLastLogin = None, crFailedLoginAttempts = 0, crLockedUntil = None\<rparr>"

definition dual_world :: auth_world where
  "dual_world = empty_auth\<lparr>awDb := (awDb empty_auth)\<lparr>adCredentials := [dual_account]\<rparr>\<rparr>"

definition storefront :: request_context where
  "storefront = \<lparr>rcClientType = Some ''customer-web'', rcIpAddress = None, rcUserAgent = None\<rparr>"

lemma dual_login: "is_ok (fst (customerLogin jwt_env ''a@b.c'' ''pw'' storefront dual_world))"
  by (simp add: customerLogin_def assertClientSurface_def storefront_def verifyCredentials_def findByEmail_def
      dual_world_def dual_account_def jwt_env_def demo_auth_env_def demo_crypto_def completeLogin_def
      account_state_def checkLockout_def resetLoginAttempts_def update_credential_def issueSession_def
      issueRefreshToken_def Let_def)

theorem login_checks_witness:
  "\<exists>res w'. customerLogin jwt_env ''a@b.c'' ''pw'' storefront dual_world = (Inr res, w') \<and>
     granted jwt_env ''a@b.c'' ''pw'' storefront CUSTOMER_WEB (\<lambda>rs. CUSTOMER \<in> set rs) (\<lambda>rs. CUSTOMER)
       dual_world res w'"
proof -
  obtain res w' where l: "customerLogin jwt_env ''a@b.c'' ''pw'' storefront dual_world = (Inr res, w')"
    using dual_login is_ok_iff by (metis prod.collapse)
  show ?thesis using l login_checks[of jwt_env "''a@b.c''" "''pw''" storefront dual_world res w'] by blast
qed

subsection \<open>Sessions at the gates\<close>

text \<open>The access token of a session verifies: what \<open>jsonwebtoken\<close> promises for a token it signed,
  while it lives.\<close>

definition access_claims :: "credential \<Rightarrow> role \<Rightarrow> jwt_claims" where
  "access_claims c r = (buildJwtPayload (Some (crId c)) (crEmail c) (crRole c) r)\<lparr>jwTokenType := Some ''access''\<rparr>"

definition access_token_verifies :: "auth_env \<Rightarrow> time \<Rightarrow> jwt_claims \<Rightarrow> bool" where
  "access_token_verifies env now' c \<longleftrightarrow> acAccessSecret (aeConfig env) \<noteq> [] \<and>
     (let t = jwtSign (aeCrypto env) c (acAccessSecret (aeConfig env)) (acAccessExpires (aeConfig env)) (aeNow env)
      in t \<noteq> [] \<and> jwtVerify (aeCrypto env) t (acAccessSecret (aeConfig env)) now' = Inr c)"

lemma authenticate_session:
  assumes "access_token_verifies env now' (access_claims c r)" "session_of env c r res"
  shows "authenticate (aeCrypto env) now' (acAccessSecret (aeConfig env)) (Some (arAccessToken res)) None =
      Inr \<lparr>ruId = Some (crId c), ruEmail = crEmail c, ruRole = r\<rparr>"
    "user_auth required (aeCrypto env) now' (acAccessSecret (aeConfig env)) (Some (arAccessToken res)) None =
      (if required \<noteq> [] \<and> \<not> list_ex (\<lambda>r. r \<in> set required) (crRole c)
       then Inl (forbidden ''You do not have permission to perform this action'')
       else Inr \<lparr>uqId = Some (crId c), uqEmail = crEmail c, uqRole = crRole c\<rparr>)"
  using assms
  by (simp_all add: access_token_verifies_def access_claims_def session_of_def issueAccessToken_def
      generateToken_def authenticate_def user_auth_def bearer_token_def verifyToken_def buildJwtPayload_def Let_def)

text \<open>
  Which gates a session passes. In the auth service a customer session passes exactly the
  gates that name CUSTOMER, whatever other roles the account holds, so it never passes an
  admin gate. The user service tests all roles of the account instead: there the same session
  passes every gate that names any of them.
\<close>

theorem customer_session_gates:
  assumes l: "customerLogin env email pw ctx w = (Inr res, w')" and c: "findByEmail email w = Some c"
    and v: "access_token_verifies env now' (access_claims c CUSTOMER)"
  shows "\<exists>u. authenticate (aeCrypto env) now' (acAccessSecret (aeConfig env)) (Some (arAccessToken res)) None = Inr u \<and>
    (\<forall>allowed. is_ok (requireRole allowed (Some u)) \<longleftrightarrow> CUSTOMER \<in> set allowed) \<and>
    (\<forall>required. is_ok (user_auth required (aeCrypto env) now' (acAccessSecret (aeConfig env))
        (Some (arAccessToken res)) None) \<longleftrightarrow> required = [] \<or> (\<exists>r \<in> set (crRole c). r \<in> set required))"
proof -
  have s: "session_of env c CUSTOMER res"
    using login_cases(1)[OF l] completeLogin_ok c by force
  have "is_ok (user_auth required (aeCrypto env) now' (acAccessSecret (aeConfig env))
        (Some (arAccessToken res)) None) \<longleftrightarrow> required = [] \<or> (\<exists>r \<in> set (crRole c). r \<in> set required)" for required
    using authenticate_session(2)[OF v s] by (auto simp: list_ex_iff)
  moreover have "is_ok (requireRole allowed (Some \<lparr>ruId = Some (crId c), ruEmail = crEmail c, ruRole = CUSTOMER\<rparr>))
      \<longleftrightarrow> CUSTOMER \<in> set allowed" for allowed
    by (simp add: requireRole_def)
  ultimately show ?thesis using authenticate_session(1)[OF v s] by blast
qed

text \<open>A crypto environment whose only token is the access token of the dual account.\<close>

definition dual_env :: auth_env where
  "dual_env = demo_auth_env\<lparr>aeCrypto := demo_crypto\<lparr>jwtVerify :=
     (\<lambda>tok s now. Inr (access_claims dual_account CUSTOMER))\<rparr>\<rparr>"

theorem customer_session_gates_witness:
  "\<exists>res w'. customerLogin dual_env ''a@b.c'' ''pw'' storefront dual_world = (Inr res, w') \<and>
     is_ok (user_auth [SELLER] (aeCrypto dual_env) 0 (acAccessSecret (aeConfig dual_env)) (Some (arAccessToken res)) None)"
proof -
  have "is_ok (fst (customerLogin dual_env ''a@b.c'' ''pw'' storefront dual_world))"
    by (simp add: customerLogin_def assertClientSurface_def storefront_def verifyCredentials_def findByEmail_def
      dual_world_def dual_account_def dual_env_def demo_auth_env_def demo_crypto_def completeLogin_def
      account_state_def checkLockout_def resetLoginAttempts_def update_credential_def issueSession_def
      issueRefreshToken_def Let_def)
  then obtain res w' where l: "customerLogin dual_env ''a@b.c'' ''pw'' storefront dual_world = (Inr res, w')"
    using is_ok_iff by (metis prod.collapse)
  have c: "findByEmail ''a@b.c'' dual_world = Some dual_account"
    by (simp add: findByEmail_def dual_world_def dual_account_def)
  have v: "access_token_verifies dual_env 0 (access_claims dual_account CUSTOMER)"
    by (simp add: access_token_verifies_def dual_env_def demo_auth_env_def demo_crypto_def demo_config_def Let_def)
  have "SELLER \<in> set (crRole dual_account)" by (simp add: dual_account_def)
  then have "is_ok (user_auth [SELLER] (aeCrypto dual_env) 0 (acAccessSecret (aeConfig dual_env))
      (Some (arAccessToken res)) None)"
    using customer_session_gates[OF l c v] by auto
  with l show ?thesis by blast
qed

subsection \<open>Lockout\<close>

fun guesses :: "auth_env \<Rightarrow> string \<Rightarrow> (time \<times> string) list \<Rightarrow> auth_world \<Rightarrow> auth_world" where
  "guesses env email [] w = w"
| "guesses env email ((t, pw) # gs) w =
     guesses env email gs (snd (verifyCredentials (at_time env t) email pw w))"

definition ids_distinct :: "auth_world \<Rightarrow> bool" where
  "ids_distinct w \<longleftrightarrow> distinct (List.map crId (adCredentials (awDb w)))"

lemma guesses_row:
  "\<lbrakk>findByEmail email w = Some c; ids_distinct w;
    \<forall>(t, pw) \<in> set gs. \<not> bcryptCompare (aeCrypto env) pw (crPassword c)\<rbrakk> \<Longrightarrow>
   findByEmail email (guesses env email gs w) = Some (fold (\<lambda>(t, pw). failed_once t) gs c) \<and>
   ids_distinct (guesses env email gs w)"
proof (induction gs arbitrary: w c)
  case (Cons g gs)
  obtain t pw where g: "g = (t, pw)" by force
  have np: "\<not> bcryptCompare (aeCrypto (at_time env t)) pw (crPassword c)" using Cons.prems(3) g by auto
  obtain w' where w': "verifyCredentials (at_time env t) email pw w = (Inl invalid_login, w')"
    "findByEmail email w' = Some (failed_once t c)" "ids_distinct w'"
    by (rule wrong_password_login[OF Cons.prems(1) np Cons.prems(2)[unfolded ids_distinct_def]])
      (use Cons.prems(2) in \<open>simp add: ids_distinct_def\<close>)
  have "\<forall>(t', pw') \<in> set gs. \<not> bcryptCompare (aeCrypto env) pw' (crPassword (failed_once t c))"
    using Cons.prems(3) by auto
  from Cons.IH[OF w'(2,3) this] show ?case using w'(1) g by simp
qed simp

lemma fold_failed_once:
  "crFailedLoginAttempts (fold (\<lambda>(t, pw). failed_once t) gs c) = crFailedLoginAttempts c + length gs"
  "crPassword (fold (\<lambda>(t, pw). failed_once t) gs c) = crPassword c"
  "crRole (fold (\<lambda>(t, pw). failed_once t) gs c) = crRole c"
  "crIsDeleted (fold (\<lambda>(t, pw). failed_once t) gs c) = crIsDeleted c"
  "crIsBlocked (fold (\<lambda>(t, pw). failed_once t) gs c) = crIsBlocked c"
  "crIsActive (fold (\<lambda>(t, pw). failed_once t) gs c) = crIsActive c"
  by (induction gs arbitrary: c) auto

lemma locked_after:
  assumes "4 \<le> crFailedLoginAttempts c + length gs"
  shows "crLockedUntil (fold (\<lambda>(t, pw). failed_once t) (gs @ [(t, pw)]) c) = Some (t + 900000)"
  using assms fold_failed_once(1)[of gs c] by (simp add: failed_once_def Let_def)

definition locked_answer :: "time \<Rightarrow> js_error" where
  "locked_answer ms = unauthorized (''Account temporarily locked. Try again in '' @
     show_int ((ms + 59999) div 60000) @ '' minute(s).'')"

text \<open>
  C31: The lockout. When the last of at least five wrong guesses (in any number of requests since
  the counter was reset) was made at time \<open>t\<close>, the right password is refused for fifteen minutes
  from \<open>t\<close>, with an answer that differs from the answer to a wrong one: during the lock the
  password can still be told from others. Once the lock has run out the right password logs in.
\<close>

theorem lockout:
  assumes c: "findByEmail email w = Some c" "ids_distinct w"
    and wrong: "\<forall>(t', pw') \<in> set (gs @ [(t, pw)]). \<not> bcryptCompare (aeCrypto env) pw' (crPassword c)"
    and five: "5 \<le> crFailedLoginAttempts c + length (gs @ [(t, pw)])"
    and right: "bcryptCompare (aeCrypto env) good (crPassword c)"
    and bad: "\<not> bcryptCompare (aeCrypto env) other (crPassword c)"
    and ok: "CUSTOMER \<in> set (crRole c)" "\<not> crIsDeleted c" "\<not> crIsBlocked c" "crIsActive c"
    and ctx: "rcClientType ctx = Some ''customer-web''"
  defines "w' \<equiv> guesses env email (gs @ [(t, pw)]) w"
  shows "(now < t + 900000 \<longrightarrow>
      customerLogin (at_time env now) email good ctx w' = (Inl (locked_answer (t + 900000 - now)), w') \<and>
      fst (customerLogin (at_time env now) email other ctx w') = Inl invalid_login) \<and>
    (t + 900000 \<le> now \<longrightarrow> is_ok (fst (customerLogin (at_time env now) email good ctx w')))"
proof -
  let ?c = "fold (\<lambda>(t, pw). failed_once t) (gs @ [(t, pw)]) c"
  have r: "findByEmail email w' = Some ?c" "ids_distinct w'"
    using guesses_row[OF c wrong] unfolding w'_def by blast+
  have lk: "crLockedUntil ?c = Some (t + 900000)" by (rule locked_after) (use five in simp)
  have pw: "crPassword ?c = crPassword c" and ro: "crRole ?c = crRole c"
    and st: "\<not> crIsDeleted ?c" "\<not> crIsBlocked ?c" "crIsActive ?c"
    using ok unfolding fold_failed_once by simp_all
  have v: "verifyCredentials (at_time env now) email good w' = (Inr ?c, w')"
    using r(1) right pw unfolding verifyCredentials_ok by simp
  have s: "assertClientSurface CUSTOMER_WEB ctx w' = (Inr (), w')" using ctx unfolding assertClientSurface_ok by simp
  have L: "customerLogin (at_time env now) email good ctx w' = completeLogin (at_time env now) ?c CUSTOMER w'"
    using s v ok(1) ro by (simp add: customerLogin_def del: fold_append)
  have np: "\<not> bcryptCompare (aeCrypto (at_time env now)) other (crPassword ?c)" using bad pw by simp
  obtain w2 where "verifyCredentials (at_time env now) email other w' = (Inl invalid_login, w2)"
    by (rule wrong_password_login[OF r(1) np r(2)[unfolded ids_distinct_def]])
  then have B: "fst (customerLogin (at_time env now) email other ctx w') = Inl invalid_login"
    using s by (simp add: customerLogin_def)
  have mem: "crId ?c \<in> crId ` set (adCredentials (awDb w'))"
    using r(1) unfolding findByEmail_def by (rule find_id_mem)
  show ?thesis
  proof (intro conjI impI)
    assume "now < t + 900000"
    then have "account_state (at_time env now) ?c = Inl (locked_answer (t + 900000 - now))"
      using st lk by (simp add: account_state_def checkLockout_def locked_answer_def del: fold_append)
    then show "customerLogin (at_time env now) email good ctx w' = (Inl (locked_answer (t + 900000 - now)), w')"
      unfolding L by (simp add: completeLogin_def del: fold_append)
  next
    show "fst (customerLogin (at_time env now) email other ctx w') = Inl invalid_login" by (rule B)
  next
    assume "t + 900000 \<le> now"
    then have "account_state (at_time env now) ?c = Inr ()"
      using st lk by (simp add: account_state_def checkLockout_def del: fold_append)
    then show "is_ok (fst (customerLogin (at_time env now) email good ctx w'))"
      unfolding L using mem
      by (simp add: completeLogin_def resetLoginAttempts_def update_credential_def issueSession_def
          issueRefreshToken_def Let_def del: fold_append)
  qed
qed

theorem lockout_witness:
  "customerLogin (at_time jwt_env 60004) ''a@b.c'' ''pw'' storefront
     (guesses jwt_env ''a@b.c'' [(0, ''a''), (1, ''b''), (2, ''c''), (3, ''d''), (4, ''e'')] dual_world) =
   (Inl (locked_answer 840000),
    guesses jwt_env ''a@b.c'' [(0, ''a''), (1, ''b''), (2, ''c''), (3, ''d''), (4, ''e'')] dual_world)"
proof -
  have c: "findByEmail ''a@b.c'' dual_world = Some dual_account" "ids_distinct dual_world"
    by (simp_all add: findByEmail_def dual_world_def dual_account_def ids_distinct_def)
  show ?thesis
    using lockout[OF c, where gs = "[(0, ''a''), (1, ''b''), (2, ''c''), (3, ''d'')]" and t = 4 and pw = "''e''"
        and env = jwt_env and good = "''pw''" and other = "''x''" and ctx = storefront and now = 60004]
    by (simp add: jwt_env_def demo_auth_env_def demo_crypto_def dual_account_def storefront_def)
qed

end
