(* ===== verification/Registration_Claims.thy ===== *)
theory Registration_Claims
  imports Auth_Registration Login_Claims
begin

text \<open>Properties of registration, the role replica, password reset and account restore.\<close>

subsection \<open>Registration\<close>

lemma verifyOtp_db: "awDb (snd (verifyOtp env email otp w)) = awDb w"
  by (auto simp: verifyOtp_def Let_def split: option.splits)

lemma verifyOtp_ok:
  "verifyOtp env email otp w = (Inr x, w') \<Longrightarrow>
     r_get env (registrationOtpKey email) w = Some (Txt otp) \<and> otp \<noteq> [] \<and>
     w' = r_del [registrationOtpKey email, otp_attempts_key email] w"
  by (auto simp: verifyOtp_def Let_def split: option.splits if_splits)

lemma create_credential_ok:
  assumes "create_credential env email pw rs w = (Inr c, w')"
  shows "crId c = aeRowId env \<and> crEmail c = email \<and> crPassword c = pw \<and> crRole c = rs \<and> \<not> crIsDeleted c \<and>
    adCredentials (awDb w') = adCredentials (awDb w) @ [c] \<and> aeRowId env \<notin> crId ` set (adCredentials (awDb w)) \<and>
    email \<notin> crEmail ` set (adCredentials (awDb w)) \<and> awRedis w' = awRedis w"
  using assms by (auto simp: create_credential_def Let_def split: if_splits)

lemma delete_created:
  assumes "create_credential env email pw rs w = (Inr c, w')"
  shows "\<exists>w''. delete_credential (crId c) w' = (Inr (), w'') \<and>
    adCredentials (awDb w'') = adCredentials (awDb w) \<and> awRedis w'' = awRedis w'"
proof -
  have "filter (\<lambda>x. crId x \<noteq> crId c) (adCredentials (awDb w)) = adCredentials (awDb w)"
  proof (rule filter_True, rule ballI, rule notI)
    fix x assume "x \<in> set (adCredentials (awDb w))" "crId x = crId c"
    then have "crId c \<in> crId ` set (adCredentials (awDb w))" by (metis imageI)
    then show False using create_credential_ok[OF assms] by simp
  qed
  then show ?thesis using create_credential_ok[OF assms] by (auto simp: delete_credential_def)
qed

lemma registration_outcome:
  "case completeRegistration env r email otp w of
     (Inr res, w') \<Rightarrow> r_get env (registrationOtpKey email) w = Some (Txt otp) \<and>
       (\<exists>reg c. cached_registration env r email w = Inr reg \<and>
          adCredentials (awDb w') = adCredentials (awDb w) @ [c] \<and>
          crEmail c = rgEmail reg \<and> crPassword c = rgPassword reg \<and> crRole c = [r] \<and>
          rgEmail reg \<notin> crEmail ` set (adCredentials (awDb w)) \<and> session_of env c r res) \<and>
       aeUserService env = Inr ()
   | (Inl e, w') \<Rightarrow> adCredentials (awDb w') = adCredentials (awDb w)"
proof (cases "cached_registration env r email w")
  case (Inl e)
  then show ?thesis by (simp add: completeRegistration_def)
next
  case (Inr reg)
  obtain x w1 where v: "verifyOtp env email otp w = (x, w1)" by force
  have d1: "awDb w1 = awDb w" using verifyOtp_db[of env email otp w] v by simp
  show ?thesis
  proof (cases x)
    case (Inl e)
    then show ?thesis using Inr v d1 by (simp add: completeRegistration_def)
  next
    case (Inr u)
    note reg = \<open>cached_registration env r email w = Inr reg\<close>
    have code: "r_get env (registrationOtpKey email) w = Some (Txt otp)" using verifyOtp_ok v Inr by blast
    obtain y w2 where c: "create_credential env (rgEmail reg) (rgPassword reg) [r] w1 = (y, w2)" by force
    show ?thesis
    proof (cases y)
      case (Inl e)
      then have "w2 = w1" using c by (auto simp: create_credential_def Let_def split: if_splits)
      then show ?thesis using Inl reg v Inr c d1 by (simp add: completeRegistration_def)
    next
      case (Inr cr)
      note C = create_credential_ok[OF c[unfolded Inr]]
      show ?thesis
      proof (cases "aeUserService env")
        case (Inl e)
        obtain w3 where "delete_credential (crId cr) w2 = (Inr (), w3)"
          "adCredentials (awDb w3) = adCredentials (awDb w1)"
          using delete_created[OF c[unfolded Inr]] by blast
        then show ?thesis using reg v \<open>x = Inr u\<close> c Inr Inl d1 by (simp add: completeRegistration_def)
      next
        case (Inr z)
        then show ?thesis using reg v \<open>x = Inr u\<close> c \<open>y = Inr cr\<close> C d1 code
          by (simp add: completeRegistration_def issueSession_def issueRefreshToken_def Let_def session_of_def)
      qed
    qed
  qed
qed

text \<open>
  Registration is all or nothing, and needs the code. When \<open>completeRegistration\<close> answers with
  a session, the given code was the live code of the address and is spent, a registration was
  cached, and exactly one credential was added, with its data and the one role. When it
  answers with an error, the credentials are as before.
\<close>

theorem registration_all_or_nothing:
  "case completeRegistration env r email otp w of
     (Inr res, w') \<Rightarrow> r_get env (registrationOtpKey email) w = Some (Txt otp) \<and>
       (\<exists>reg c. cached_registration env r email w = Inr reg \<and>
          adCredentials (awDb w') = adCredentials (awDb w) @ [c] \<and>
          crEmail c = rgEmail reg \<and> crPassword c = rgPassword reg \<and> crRole c = [r] \<and>
          rgEmail reg \<notin> crEmail ` set (adCredentials (awDb w)) \<and> session_of env c r res) \<and>
       aeUserService env = Inr ()
   | (Inl e, w') \<Rightarrow> adCredentials (awDb w') = adCredentials (awDb w)"
  by (rule registration_outcome)

subsection \<open>The role replica\<close>

definition replica_ok :: "auth_world \<Rightarrow> bool" where
  "replica_ok w \<longleftrightarrow> ids_distinct w \<and> list_all (roles_separate \<circ> crRole) (adCredentials (awDb w))"

lemma set_js_set: "set (js_set xs) = set xs"
  by (induction xs rule: js_set.induct) auto

lemma js_set_append_new: "distinct xs \<Longrightarrow> r \<notin> set xs \<Longrightarrow> js_set (xs @ [r]) = xs @ [r]"
proof (induction xs)
  case (Cons x xs)
  then have "filter (\<lambda>y. y \<noteq> x) (xs @ [r]) = xs @ [r]" by (auto intro!: filter_True)
  with Cons show ?case by simp
qed simp

lemma addRoleToCredential_roles:
  assumes "replica_ok w"
  shows "replica_ok (addRoleToCredential i r w) \<or> admin_role r"
proof (cases "findById i w")
  case None
  then show ?thesis using assms by (simp add: addRoleToCredential_def)
next
  case (Some c)
  show ?thesis
  proof (cases "r \<in> set (crRole c) \<or> list_ex admin_role (crRole c) \<or> admin_role r")
    case True
    then show ?thesis using assms Some by (auto simp: addRoleToCredential_def)
  next
    case False
    let ?p = "\<lambda>x. crId x = i \<and> crRole x = crRole c"
    let ?cs = "update_where ?p (\<lambda>x. x\<lparr>crRole := js_set (crRole c @ [r])\<rparr>) (adCredentials (awDb w))"
    have a: "adCredentials (awDb (addRoleToCredential i r w)) = ?cs"
      using Some False by (auto simp: addRoleToCredential_def addRoleIfUnchanged_def Let_def update_credentials_def
          auth_writeAuditLog_def split: bool.splits)
    have "list_all (roles_separate \<circ> crRole) ?cs"
    proof (rule list_all_update_where)
      show "list_all (roles_separate \<circ> crRole) (adCredentials (awDb w))" using assms by (simp add: replica_ok_def)
      have "list_all (\<lambda>r. \<not> admin_role r) (js_set (crRole c @ [r]))"
        using False by (auto simp: list_all_iff list_ex_iff set_js_set)
      then show "(roles_separate \<circ> crRole) (x\<lparr>crRole := js_set (crRole c @ [r])\<rparr>)" for x
        by (simp add: roles_separate_def)
    qed
    moreover have "List.map crId ?cs = List.map crId (adCredentials (awDb w))"
      by (rule map_update_where_same) simp
    ultimately show ?thesis using assms a by (simp add: replica_ok_def ids_distinct_def)
  qed
qed

lemma update_credentials_replica:
  assumes "replica_ok w" "\<And>c. crId (f c) = crId c" "\<And>c. crRole (f c) = crRole c"
  shows "replica_ok (update_credentials p f w)"
proof -
  have "list_all (roles_separate \<circ> crRole) (update_where p f (adCredentials (awDb w)))"
    by (rule list_all_update_where) (use assms(1,3) in \<open>simp_all add: replica_ok_def\<close>)
  moreover have "List.map crId (update_where p f (adCredentials (awDb w))) = List.map crId (adCredentials (awDb w))"
    by (rule map_update_where_same) (simp add: assms(2))
  ultimately show ?thesis using assms(1) by (simp add: replica_ok_def ids_distinct_def update_credentials_def)
qed

text \<open>
  C27: The consumer of user events never mixes admin and shop roles. Whatever message arrives,
  well-formed or not, credentials keep their identity and every role list stays within one of
  the two groups.
\<close>

theorem role_sync_keeps_roles_separate:
  assumes "replica_ok w"
  shows "replica_ok (snd (handleRoleSyncMessage fm parseDate details ctx raw value w))"
proof -
  have "replica_ok (addRoleToCredential i SELLER w)" for i
    using addRoleToCredential_roles[OF assms, of i SELLER] by simp
  moreover have "replica_ok (markDeleted i t w)" "replica_ok (markRestored i w)" for i t
    unfolding markDeleted_def markRestored_def by (rule update_credentials_replica[OF assms]; simp)+
  moreover have "replica_ok (revokeAllRefreshTokens i v) = replica_ok v" for i v
    by (simp add: replica_ok_def ids_distinct_def revokeAllRefreshTokens_def)
  ultimately show ?thesis
    using assms by (auto simp: handleRoleSyncMessage_def split: option.splits sum.splits)
qed

theorem role_sync_keeps_roles_separate_witness:
  "replica_ok (snd (handleRoleSyncMessage \<lparr>isUuid = \<lambda>s. True, isEmail = \<lambda>s. True, isDatetime = \<lambda>s. True\<rparr>
     (\<lambda>s. 0) (\<lambda>v. '''') \<lparr>mcTopic = ''t'', mcPartition = 0, mcOffset = ''1'', mcTraceparent = None,
       mcCorrelationId = None\<rparr> None
     (Some (Stringified (envelope SELLER_PROFILE_ATTACHED ''c1''
        (JObj [(''userId'', JStr ''c1''), (''email'', JStr ''a@b.c'')])))) dual_world))"
  by (rule role_sync_keeps_roles_separate)
    (simp add: replica_ok_def ids_distinct_def dual_world_def dual_account_def roles_separate_def)

lemma prefix_other_id:
  assumes "CHR '':'' \<notin> set i" "CHR '':'' \<notin> set j" "is_prefix_of (i @ '':'') (j @ CHR '':'' # fam)"
  shows "i = j"
  using assms
proof (induction i arbitrary: j)
  case Nil
  then show ?case by (cases j) auto
next
  case (Cons a i)
  then show ?case by (cases j) auto
qed

lemma refreshKey_prefix: "is_prefix_of (refreshKey i []) (refreshKey i fam)"
  using is_prefix_of_append[of "refreshKey i []" fam] by (simp add: refreshKey_def)

lemma deleted_find:
  assumes "ids_distinct w" "findByEmail email (markDeleted i t w) = Some c" "crId c = i"
  shows "crIsDeleted c \<and> crDeletedAt c = Some t"
proof -
  let ?f = "\<lambda>c. c\<lparr>crIsDeleted := True, crDeletedAt := Some t\<rparr>"
  have t: "adCredentials (awDb (markDeleted i t w)) =
      update_where (\<lambda>c. crId c = i) ?f (adCredentials (awDb w))"
    by (simp add: markDeleted_def update_credentials_def)
  have "c \<in> set (adCredentials (awDb (markDeleted i t w)))"
    using assms(2) unfolding findByEmail_def by (meson find_Some_set)
  then have "c \<in> ?f ` {x \<in> set (adCredentials (awDb w)). crId x = i}"
    using assms(3) unfolding t set_update_where by blast
  then show ?thesis by (elim imageE) simp
qed

text \<open>
  C26: A deletion event ends the account's sessions. After a valid \<open>user.deleted\<close> message every
  refresh token of the user is gone, those of users with another id are kept (ids have no
  colon), and no surface logs the user in again until the account is restored.
\<close>

theorem deletion_ends_sessions:
  fixes w :: auth_world and parseDate details ctx raw
  assumes ids: "ids_distinct w"
    and msg: "UserDeletedEventSchema fm (Some v)" "jfield v ''payload'' ''userId'' = i"
    and nc: "CHR '':'' \<notin> set i" "CHR '':'' \<notin> set j" "j \<noteq> i"
  defines "w' \<equiv> snd (handleRoleSyncMessage fm parseDate details ctx raw (Some (Stringified v)) w)"
  shows "findActiveTokenHash env i fam w' = None \<and>
    findActiveTokenHash env j fam w' = findActiveTokenHash env j fam w \<and>
    (\<forall>c. findByEmail email w' = Some c \<and> crId c = i \<longrightarrow> \<not> is_ok (account_state env c))"
proof -
  have ty: "jget v ''eventType'' = Some (JStr USER_DELETED)"
    using msg(1) unfolding UserDeletedEventSchema_def by (rule event_schema_eventType)
  have w': "w' = revokeAllRefreshTokens i
      (markDeleted i (parseDate (jfield v ''payload'' ''deletedAt'')) w)"
    unfolding w'_def using ty msg by (simp add: handleRoleSyncMessage_def)
  have "findActiveTokenHash env i fam w' = None"
    by (simp add: w' findActiveTokenHash_def r_get_def redis_get_def revokeAllRefreshTokens_def refreshKey_prefix)
  moreover have "\<not> is_prefix_of (refreshKey i []) (refreshKey j fam)"
    using prefix_other_id[OF nc(1,2), of fam] nc(3) by (auto simp: refreshKey_def)
  then have "findActiveTokenHash env j fam w' = findActiveTokenHash env j fam w"
    by (simp add: w' findActiveTokenHash_def r_get_def redis_get_def revokeAllRefreshTokens_def markDeleted_def)
  moreover have "\<not> is_ok (account_state env c)" if "findByEmail email w' = Some c" "crId c = i" for c
  proof -
    have "findByEmail email (markDeleted i (parseDate (jfield v ''payload'' ''deletedAt'')) w) = Some c"
      using that(1) by (simp add: w' findByEmail_def revokeAllRefreshTokens_def)
    from deleted_find[OF ids this that(2)] show ?thesis by (simp add: account_state_def)
  qed
  ultimately show ?thesis by blast
qed

definition any_format :: zod_formats where
  "any_format = \<lparr>isUuid = \<lambda>s. True, isEmail = \<lambda>s. True, isDatetime = \<lambda>s. True\<rparr>"

definition deleted_message :: json where
  "deleted_message = envelope USER_DELETED ''c1'' (JObj [(''userId'', JStr ''c1''), (''email'', JStr ''a@b.c''),
     (''deletedAt'', JStr ''2024-01-01T00:00:00.000Z''), (''deletedBy'', JStr ''SELF'')])"

lemma deleted_message_valid: "UserDeletedEventSchema any_format (Some deleted_message)"
  by (simp add: UserDeletedEventSchema_def deleted_message_def any_format_def envelope_def event_schema_def
      z_object_def z_literal_def z_format_def z_enum_def)

theorem deletion_ends_sessions_witness:
  "findActiveTokenHash jwt_env ''c1'' ''f1'' (snd (handleRoleSyncMessage any_format (\<lambda>s. 0) (\<lambda>v. '''')
     \<lparr>mcTopic = ''t'', mcPartition = 0, mcOffset = ''1'', mcTraceparent = None, mcCorrelationId = None\<rparr> None
     (Some (Stringified deleted_message)) (with_hash jwt_env ''c1'' ''f1'' ''0'' dual_world))) = None"
proof -
  have ids: "ids_distinct (with_hash jwt_env ''c1'' ''f1'' ''0'' dual_world)"
    by (simp add: ids_distinct_def with_hash_def dual_world_def)
  have u: "jfield deleted_message ''payload'' ''userId'' = ''c1''"
    by (simp add: jfield_def deleted_message_def envelope_def)
  show ?thesis using deletion_ends_sessions[OF ids deleted_message_valid u, of "''c2''"] by simp
qed

subsection \<open>Password reset\<close>

text \<open>
  A reset token works once and until it expires. A stored, unused token that has not passed
  its time sets the password of its credential; from then on it is refused. Refresh tokens
  are left as they are: a password reset ends no session.
\<close>

theorem password_reset_once:
  assumes p: "find (\<lambda>p. prToken p = token) (adResets (awDb w)) = Some p" "prUsedAt p = None"
    and c: "findById (prCredentialId p) w = Some c"
  shows "if prExpiresAt p < aeNow env
    then verifyPasswordReset env token pw w = (Inl (bad_request ''Reset token has expired''), w)
    else \<exists>w'. verifyPasswordReset env token pw w = (Inr (), w') \<and>
      findById (prCredentialId p) w' = Some (c\<lparr>crPassword := bcryptHash (aeCrypto env) pw\<rparr>) \<and>
      awRedis w' = awRedis w \<and>
      verifyPasswordReset env2 token pw2 w' = (Inl (bad_request ''Reset token has already been used''), w')"
proof (cases "prExpiresAt p < aeNow env")
  case True
  then show ?thesis using p by (simp add: verifyPasswordReset_def)
next
  case False
  let ?f = "\<lambda>c. c\<lparr>crPassword := bcryptHash (aeCrypto env) pw\<rparr>"
  let ?g = "\<lambda>q. q\<lparr>prUsedAt := Some (aeNow env)\<rparr>"
  let ?cs = "update_where (\<lambda>c. crId c = prCredentialId p) ?f (adCredentials (awDb w))"
  let ?rs = "update_where (\<lambda>q. prId q = prId p) ?g (adResets (awDb w))"
  let ?w = "on_db (\<lambda>db. db\<lparr>adCredentials := ?cs, adResets := ?rs\<rparr>) w"
  have fc: "find (\<lambda>c. crId c = prCredentialId p) (adCredentials (awDb w)) = Some c"
    using c by (simp add: findById_def)
  have "crId c \<in> crId ` set (adCredentials (awDb w))" using find_Some_set[OF fc] by (intro imageI) simp
  then have m: "prCredentialId p \<in> crId ` set (adCredentials (awDb w))" using find_Some_set[OF fc] by simp
  have fr: "find (\<lambda>q. prToken q = token) ?rs = Some (?g p)" by (rule find_update_same[OF p(1)]) simp_all
  have fi: "find (\<lambda>c. crId c = prCredentialId p) ?cs = Some (?f c)"
    by (rule find_update_same[OF fc]) (use find_Some_set[OF fc] in simp_all)
  have v: "verifyPasswordReset env token pw w = (Inr (), ?w)"
    using p False m by (simp add: verifyPasswordReset_def auth_tx_def update_credential_def update_credentials_def on_db_def)
  have "verifyPasswordReset env2 token pw2 ?w = (Inl (bad_request ''Reset token has already been used''), ?w)"
    using fr by (simp add: verifyPasswordReset_def)
  moreover have "findById (prCredentialId p) ?w = Some (?f c)" using fi by (simp add: findById_def)
  ultimately show ?thesis using v False by simp
qed

definition reset_world :: auth_world where
  "reset_world = dual_world\<lparr>awDb := (awDb dual_world)\<lparr>adResets :=
     [\<lparr>prId = ''p1'', prCredentialId = ''c1'', prToken = ''tok'', prExpiresAt = 900000, prUsedAt = None\<rparr>]\<rparr>\<rparr>"

theorem password_reset_once_witness:
  "\<exists>w'. verifyPasswordReset (at_time jwt_env 900000) ''tok'' ''new'' reset_world = (Inr (), w') \<and>
     awRedis w' = awRedis reset_world"
proof -
  let ?p = "\<lparr>prId = ''p1'', prCredentialId = ''c1'', prToken = ''tok'', prExpiresAt = 900000, prUsedAt = None\<rparr>"
  have "find (\<lambda>p. prToken p = ''tok'') (adResets (awDb reset_world)) = Some ?p" by (simp add: reset_world_def)
  moreover have "findById ''c1'' reset_world = Some dual_account"
    by (simp add: findById_def reset_world_def dual_world_def dual_account_def)
  ultimately show ?thesis
    using password_reset_once[of "''tok''" reset_world ?p dual_account "at_time jwt_env 900000" "''new''"] by auto
qed

text \<open>
  The reset route tells accounts apart. With a client type that no surface has, the answer
  is an error exactly when an account with the address exists; the reset row is then stored
  although no link is sent.
\<close>

theorem reset_with_unknown_surface_reveals_accounts:
  assumes "resolveResetPage (aeConfig env) inherited ct = Inl e"
    and "\<And>c. findByEmail email w = Some c \<Longrightarrow>
       generateToken env (reset_claims c) (acResetSecret (aeConfig env)) (acResetExpires (aeConfig env))
         \<notin> prToken ` set (adResets (awDb w))"
  shows "case requestPasswordReset env inherited email ct w of (r, w') \<Rightarrow>
    (is_ok r \<longleftrightarrow> findByEmail email w = None) \<and> adOutbox (awDb w') = adOutbox (awDb w) \<and>
    length (adResets (awDb w')) = length (adResets (awDb w)) + (if is_ok r then 0 else 1)"
  using assms by (auto simp: requestPasswordReset_def create_reset_def Let_def split: option.splits)

theorem reset_with_unknown_surface_reveals_accounts_witness:
  "\<not> is_ok (fst (requestPasswordReset jwt_env (\<lambda>s. None) ''a@b.c'' (Some ''mobile'') dual_world)) \<and>
   is_ok (fst (requestPasswordReset jwt_env (\<lambda>s. None) ''x@b.c'' (Some ''mobile'') dual_world))"
proof -
  have r: "resolveResetPage (aeConfig jwt_env) (\<lambda>s. None) (Some ''mobile'') =
      Inl (bad_request ''Invalid or unrecognized X-Client-Type'')" by (simp add: resolveResetPage_def Let_def)
  have n: "t \<notin> prToken ` set (adResets (awDb dual_world))" for t by (simp add: dual_world_def empty_auth_def)
  have "findByEmail ''a@b.c'' dual_world \<noteq> None" "findByEmail ''x@b.c'' dual_world = None"
    by (simp_all add: findByEmail_def dual_world_def dual_account_def)
  then show ?thesis
    using reset_with_unknown_surface_reveals_accounts[OF r n, of "''a@b.c''"]
      reset_with_unknown_surface_reveals_accounts[OF r n, of "''x@b.c''"] by (auto split: prod.splits)
qed

subsection \<open>Account restore\<close>

fun restore_guesses :: "auth_env \<Rightarrow> string \<Rightarrow> (time \<times> string) list \<Rightarrow> auth_world \<Rightarrow> auth_world" where
  "restore_guesses env email [] w = w"
| "restore_guesses env email ((t, otp) # gs) w =
     restore_guesses env email gs (snd (verifyAccountRestore (at_time env t) email otp w))"

text \<open>
  The restore code has no limit of attempts. Any number of wrong codes leaves everything as
  it was, and the right code is still accepted while it lives; it is then spent, whatever the
  user service answers.
\<close>

theorem restore_code_has_no_attempt_limit:
  assumes c: "findByEmail email w = Some c" "crIsDeleted c"
    and st: "\<And>t. t < expires \<Longrightarrow> redis_get t (restoreKey (crId c)) (awRedis w) = Some (Txt (restore_hash env code))"
      "restore_hash env code \<noteq> []"
    and wrong: "\<forall>(t, otp) \<in> set gs. t < expires \<and> hex_bytes (restore_hash env otp) \<noteq> hex_bytes (restore_hash env code)"
    and now: "now < expires"
  shows "restore_guesses env email gs w = w \<and>
    verifyAccountRestore (at_time env now) email code (restore_guesses env email gs w) =
      (aeUserService env, r_del [restoreKey (crId c)] w)"
proof -
  have "snd (verifyAccountRestore (at_time env t) email otp w) = w"
    if "t < expires" "hex_bytes (restore_hash env otp) \<noteq> hex_bytes (restore_hash env code)" for t otp
    using c st that by (simp add: verifyAccountRestore_def r_get_def restore_hash_def)
  then have "restore_guesses env email gs w = w" using wrong
    by (induction gs) auto
  moreover have "verifyAccountRestore (at_time env now) email code w =
      (aeUserService env, r_del [restoreKey (crId c)] w)"
    using c st now by (simp add: verifyAccountRestore_def r_get_def restore_hash_def)
  ultimately show ?thesis by simp
qed

definition restorable_world :: auth_world where
  "restorable_world = r_setex demo_auth_env (restoreKey ''c1'') 600 (Txt ''12ab'')
     (dual_world\<lparr>awDb := (awDb dual_world)\<lparr>adCredentials :=
        [dual_account\<lparr>crIsDeleted := True, crDeletedAt := Some 0\<rparr>]\<rparr>\<rparr>)"

theorem restore_code_has_no_attempt_limit_witness:
  "restore_guesses demo_auth_env ''a@b.c'' [(1, ''00''), (2, ''01''), (3, ''02''), (4, ''03''), (5, ''04'')]
     restorable_world = restorable_world"
proof -
  have c: "findByEmail ''a@b.c'' restorable_world = Some (dual_account\<lparr>crIsDeleted := True, crDeletedAt := Some 0\<rparr>)"
    "crIsDeleted (dual_account\<lparr>crIsDeleted := True, crDeletedAt := Some 0\<rparr>)"
    by (simp_all add: findByEmail_def restorable_world_def dual_account_def)
  have h: "restore_hash demo_auth_env s = s" for s
    by (simp add: restore_hash_def demo_auth_env_def demo_crypto_def)
  have st: "redis_get t (restoreKey (crId (dual_account\<lparr>crIsDeleted := True, crDeletedAt := Some 0\<rparr>)))
      (awRedis restorable_world) = Some (Txt (restore_hash demo_auth_env ''12ab''))" if "t < 600000" for t
    unfolding h using that by (simp add: restorable_world_def r_setex_def dual_account_def demo_auth_env_def)
  have b: "hex_bytes ''00'' \<noteq> hex_bytes ''12ab''" "hex_bytes ''01'' \<noteq> hex_bytes ''12ab''"
    "hex_bytes ''02'' \<noteq> hex_bytes ''12ab''" "hex_bytes ''03'' \<noteq> hex_bytes ''12ab''"
    "hex_bytes ''04'' \<noteq> hex_bytes ''12ab''" by code_simp+
  show ?thesis
    using restore_code_has_no_attempt_limit[OF c st, where now = 6 and
        gs = "[(1, ''00''), (2, ''01''), (3, ''02''), (4, ''03''), (5, ''04'')]"] b by (simp add: h)
qed

end
