(* ===== verification/Internal_Claims.thy ===== *)
theory Internal_Claims
  imports Internal_Calls Registration_Claims
begin

text \<open>What the signed calls between the auth and the user service amount to.\<close>

text \<open>Different texts have different digests under the key: the assumption HMAC is used for.\<close>

definition collision_free :: "(string \<Rightarrow> string \<Rightarrow> string) \<Rightarrow> string \<Rightarrow> bool" where
  "collision_free hmac secret \<longleftrightarrow>
     (\<forall>x y. hex_bytes (hmac secret x) = hex_bytes (hmac secret y) \<longrightarrow> x = y)"

lemma endpoints_outside_prefix:
  "\<not> is_prefix_of api_prefix (profile_endpoint r)" "\<not> is_prefix_of api_prefix (restore_path i)"
  by (cases r) (simp_all add: api_prefix_def restore_path_def)

lemma signed_text_path:
  "signed_text m (base @ p) b t = signed_text m p b t \<Longrightarrow> base = []"
  by (drule arg_cong[of _ _ length]) (simp add: signed_text_def)

lemma serve_rejects:
  assumes "collision_free hmac secret" "\<not> is_prefix_of api_prefix p"
    "iqPath q = base @ p" "iqSignature q = Some (createInternalSignature hmac (iqMethod q) p (iqBody q) ts secret)"
    "iqTimestamp q = Some ts"
  shows "serve_internal hmac secret now handler q \<in> {401, 404}"
proof (cases "is_prefix_of api_prefix (iqPath q)")
  case True
  then have "base \<noteq> []" using assms(2,3) by auto
  then have "signed_text (iqMethod q) (base @ p) (iqBody q) ts \<noteq> signed_text (iqMethod q) p (iqBody q) ts"
    using signed_text_path by blast
  then have "hex_bytes (hmac secret (signed_text (iqMethod q) p (iqBody q) ts)) \<noteq>
      hex_bytes (hmac secret (signed_text (iqMethod q) (iqPath q) (iqBody q) ts))"
    using assms(1,3) unfolding collision_free_def by metis
  then have "\<exists>msg. verifyInternalCall hmac secret now q = Inl (unauthorized msg)"
    using assms(3-5) by (auto simp: verifyInternalCall_def createInternalSignature_def)
  then show ?thesis using True by (auto simp: serve_internal_def)
qed (simp add: serve_internal_def)

lemma internal_calls_rejected:
  assumes "collision_free hmac secret"
  shows "serve_internal hmac secret now' handler (profile_request hmac secret base now r body) \<in> {401, 404} \<and>
    serve_internal hmac secret now' handler (restore_request hmac secret base now userId) \<in> {401, 404}"
  by (intro conjI; rule serve_rejects[OF assms, where base = base])
    (simp_all add: profile_request_def restore_request_def endpoints_outside_prefix)

text \<open>
  C17: No signed call is ever accepted. The client signs the path of the endpoint, the server the
  path of the request with its mount point, and the routes lie under \<open>/api/v1\<close>: whatever the
  base URL, the role, the body and the clocks, provisioning and restoring are answered with
  404 (no such route) or 401 (signature), and the handler is not reached.
\<close>

theorem internal_calls_are_rejected:
  assumes "collision_free hmac secret"
  shows "serve_internal hmac secret now' handler (profile_request hmac secret base now r body) \<in> {401, 404} \<and>
    serve_internal hmac secret now' handler (restore_request hmac secret base now userId) \<in> {401, 404}"
  by (rule internal_calls_rejected[OF assms])

text \<open>A digest that shows its whole text, key left out.\<close>

definition show_digest :: "string \<Rightarrow> string \<Rightarrow> string" where
  "show_digest k s = concat (List.map (\<lambda>c. let n = of_char c in [hex_digit (n div 16), hex_digit (n mod 16)]) s)"

lemma hex_value_digit: "n < 16 \<Longrightarrow> hex_value (hex_digit n) = Some n"
  by (auto simp: hex_value_def hex_digit_def Let_def of_char_of)

lemma hex_bytes_show: "hex_bytes (show_digest k s) = List.map of_char s"
proof (induction s)
  case (Cons c s)
  have "(of_char c :: nat) < 256" by simp
  then have "(of_char c :: nat) div 16 < 16" using less_mult_imp_div_less[of "of_char c" 16 16] by simp
  then have "hex_value (hex_digit (of_char c div 16)) = Some (of_char c div 16)"
    "hex_value (hex_digit (of_char c mod 16)) = Some (of_char c mod 16)"
    by (auto intro: hex_value_digit)
  with Cons show ?case by (simp add: show_digest_def Let_def)
qed (simp add: show_digest_def)

lemma show_digest_collision_free: "collision_free show_digest k"
  unfolding collision_free_def hex_bytes_show by (auto dest: map_injective simp: inj_def)

theorem internal_calls_are_rejected_witness:
  "serve_internal show_digest ''key'' 5 (\<lambda>q. 201)
     (profile_request show_digest ''key'' ''/api/v1'' 5 CUSTOMER (profile_body ''u1'' ''a@b.c'' [])) \<in> {401, 404}"
  using internal_calls_are_rejected[OF show_digest_collision_free] by blast

text \<open>
  No registration can complete. With the user service answering as it is written, and
  whatever the state of the breaker, the provisioning call of \<open>completeRegistration\<close> fails after
  one request; the credential is rolled back and the answer is an error, although the right
  code was given and is spent.
\<close>

theorem registration_cannot_complete:
  assumes cf: "collision_free hmac secret"
    and answers: "\<And>k. answer k = Status (serve_internal hmac secret now' (handler k)
          (profile_request hmac secret base now r (profile_body (aeRowId env) email profile)))"
    and outcome: "createUserProfile t0 t1 answer b = Some (aeUserService env, b')"
  shows "\<not> is_ok (fst (completeRegistration env r email otp w)) \<and>
    adCredentials (awDb (snd (completeRegistration env r email otp w))) = adCredentials (awDb w)"
proof -
  have a: "answer k = Status 401 \<or> answer k = Status 404" for k
    using internal_calls_rejected[OF cf, of now' "handler k" base now r "profile_body (aeRowId env) email profile"]
    unfolding answers by auto
  have "\<not> retryable (answer 0)" "\<not> http_ok (answer 0)" using a[of 0] by auto
  then have "client_request answer 0 None = Some (answer 0, 1)" "\<not> http_ok (answer 0)"
    using client_request_settles[of answer 0 0 None] by simp_all
  then have "\<exists>e. aeUserService env = Inl e"
    using outcome by (cases "aeUserService env") (auto simp: createUserProfile_def execute_def split: prod.splits sum.splits)
  then obtain e where e: "aeUserService env = Inl e" by blast
  obtain x w' where c: "completeRegistration env r email otp w = (x, w')" by force
  have "case (x, w') of
     (Inr res, w') \<Rightarrow> r_get env (registrationOtpKey email) w = Some (Txt otp) \<and>
       (\<exists>reg c. cached_registration env r email w = Inr reg \<and>
          adCredentials (awDb w') = adCredentials (awDb w) @ [c] \<and>
          crEmail c = rgEmail reg \<and> crPassword c = rgPassword reg \<and> crRole c = [r] \<and>
          rgEmail reg \<notin> crEmail ` set (adCredentials (awDb w)) \<and> session_of env c r res) \<and>
       aeUserService env = Inr ()
   | (Inl e, w') \<Rightarrow> adCredentials (awDb w') = adCredentials (awDb w)"
    using registration_outcome[where env = env and r = r and email = email and otp = otp and w = w] unfolding c by simp
  then show ?thesis using c e by (cases x) auto
qed

text \<open>A registration with its code, waiting to be completed, and the answer of the user service.\<close>

definition waiting_world :: auth_world where
  "waiting_world = r_setex demo_auth_env (registrationOtpKey ''a@b.c'') 300 (Txt ''123456'')
     (r_setex demo_auth_env (registrationKey CUSTOMER ''a@b.c'') 2100 (Stringified (CachedRegistration
        \<lparr>rgEmail = ''a@b.c'', rgPassword = ''pw'', rgFirstName = ''A'', rgProfile = []\<rparr>)) empty_auth)"

theorem registration_cannot_complete_witness:
  "\<not> is_ok (fst (completeRegistration (demo_auth_env\<lparr>aeUserService := Inl user_service_unavailable\<rparr>)
     CUSTOMER ''a@b.c'' ''123456'' waiting_world))"
proof -
  let ?env = "demo_auth_env\<lparr>aeUserService := Inl user_service_unavailable\<rparr>"
  let ?q = "profile_request show_digest ''key'' ''/api/v1'' 5 CUSTOMER (profile_body (aeRowId ?env) ''a@b.c'' [])"
  let ?a = "\<lambda>k :: nat. Status (serve_internal show_digest ''key'' 5 (\<lambda>q. 201) ?q)"
  have "serve_internal show_digest ''key'' 5 (\<lambda>q. 201) ?q \<in> {401, 404}"
    using internal_calls_rejected[OF show_digest_collision_free] by blast
  then have "\<not> retryable (?a 0)" "\<not> http_ok (?a 0)" by auto
  then have "client_request ?a 0 None = Some (?a 0, 1)" using client_request_settles[of ?a 0 0 None] by simp
  then have "\<exists>b'. createUserProfile 0 0 ?a (new_breaker 0) = Some (aeUserService ?env, b')"
    using \<open>\<not> http_ok (?a 0)\<close> by (simp add: createUserProfile_def execute_def new_breaker_def cb_defs)
  then obtain b' where "createUserProfile 0 0 ?a (new_breaker 0) = Some (aeUserService ?env, b')" by blast
  from registration_cannot_complete[OF show_digest_collision_free refl this] show ?thesis by blast
qed

text \<open>
  The client retries for ever. The retry count is kept where the next request erases it, so
  while the user service answers with a retryable error the request never settles; when it
  stops after \<open>n\<close> such answers, \<open>n + 1\<close> requests have been sent, however large \<open>n\<close> is.
\<close>

theorem client_retries_without_limit:
  "((\<forall>k. retryable (answer k)) \<longrightarrow> client_request answer 0 None = None) \<and>
   (\<not> retryable (answer n) \<and> (\<forall>j < n. retryable (answer j)) \<longrightarrow>
      client_request answer 0 None = Some (answer n, n + 1))"
  using client_request_never[of 0 answer None] client_request_settles[of answer 0 n None] by auto

theorem client_retries_without_limit_witness:
  "client_request (\<lambda>k. Status 503) 0 None = None \<and>
   client_request (\<lambda>k. if k < 100 then Status 503 else Status 201) 0 None = Some (Status 201, 101)"
  using client_retries_without_limit[of "\<lambda>k. Status 503" 0]
    client_retries_without_limit[of "\<lambda>k. if k < 100 then Status 503 else Status 201" 100] by simp

end
