(* ===== verification/Notify_Limits.thy ===== *)
theory Notify_Limits
  imports Errors
begin

text \<open>
  \<open>notification-service/src/ratelimit/rateLimiter.ts\<close>: the sliding window over a Redis sorted set,
  with its Lua script, and a reference limiter that keeps the log of all admissions. Redis expires
  keys by the clock of the caller.
\<close>

subsection \<open>Sorted sets\<close>

text \<open>A sorted set: members with their scores, in the order of the scores; the key may expire.\<close>

type_synonym zset = "(time \<times> string) list"

record zset_key =
  zkMembers :: zset
  zkExpires :: "time option"

type_synonym zset_store = "string \<Rightarrow> zset_key option"

definition zset_of :: "time \<Rightarrow> string \<Rightarrow> zset_store \<Rightarrow> zset" where
  "zset_of now k st = (case st k of
     None \<Rightarrow> []
   | Some z \<Rightarrow> (case zkExpires z of None \<Rightarrow> zkMembers z | Some t \<Rightarrow> if now < t then zkMembers z else []))"

definition zremrangebyscore :: "time \<Rightarrow> time \<Rightarrow> zset \<Rightarrow> zset" where
  "zremrangebyscore lo hi z = filter (\<lambda>(s, m). \<not> (lo \<le> s \<and> s \<le> hi)) z"

definition zadd :: "time \<Rightarrow> string \<Rightarrow> zset \<Rightarrow> zset" where
  "zadd s m z = insort_key fst (s, m) (filter (\<lambda>(s', m'). m' \<noteq> m) z)"

text \<open>The script: its reply \<open>{ allowed, count, retryAfter }\<close> and the set after it. Without members
  (a limit of zero) the oldest score is zero.\<close>

definition sliding_window :: "time \<Rightarrow> int \<Rightarrow> nat \<Rightarrow> string \<Rightarrow> zset \<Rightarrow> (nat \<times> nat \<times> int) \<times> zset" where
  "sliding_window now windowMs limit suffix z =
     (let z = zremrangebyscore 0 (now - windowMs) z; count = length z in
      if limit \<le> count then
        let oldest = (case z of [] \<Rightarrow> 0 | (s, m) # _ \<Rightarrow> s); retryAfter = oldest + windowMs - now in
        ((0, count, if retryAfter < 0 then 0 else retryAfter), z)
      else ((1, count + 1, 0), zadd now (show_int now @ '':'' @ suffix) z))"

text \<open>\<open>EVAL\<close>: removing the last member removes the key; the expiry is set when a member is added.\<close>

definition eval_script ::
    "time \<Rightarrow> int \<Rightarrow> nat \<Rightarrow> int \<Rightarrow> string \<Rightarrow> string \<Rightarrow> zset_store \<Rightarrow> (nat \<times> nat \<times> int) \<times> zset_store" where
  "eval_script now windowMs limit ttlMs suffix k st =
     (case sliding_window now windowMs limit suffix (zset_of now k st) of
        ((a, c, r), z) \<Rightarrow>
          ((a, c, r), st(k := if z = [] then None
             else Some \<lparr>zkMembers = z,
                    zkExpires = (if a = 1 then Some (now + ttlMs)
                                 else case st k of None \<Rightarrow> None | Some y \<Rightarrow> zkExpires y)\<rparr>)))"

subsection \<open>The limiter\<close>

record limiter_options =
  loLimit :: nat
  loWindowMs :: int

record rate_result =
  rrAllowed :: bool
  rrRemaining :: int
  rrLimit :: nat
  rrRetryAfterMs :: int

text \<open>What becomes of the call: it works, it is lost, or only its reply is lost.\<close>

datatype eval_outcome = EvalOk | EvalLost | EvalReplyLost

definition RATE_LIMIT_NAMESPACE :: string where
  "RATE_LIMIT_NAMESPACE = ''notification:ratelimit''"

definition check :: "limiter_options \<Rightarrow> eval_outcome \<Rightarrow> time \<Rightarrow> string \<Rightarrow> string \<Rightarrow> zset_store \<Rightarrow> rate_result \<times> zset_store" where
  "check opt out now uuid identifier st =
     (let key = RATE_LIMIT_NAMESPACE @ '':'' @ identifier;
          run = eval_script now (loWindowMs opt) (loLimit opt) (loWindowMs opt + 1000)
                  (show_int now @ '':'' @ uuid) key st;
          free = \<lparr>rrAllowed = True, rrRemaining = int (loLimit opt), rrLimit = loLimit opt, rrRetryAfterMs = 0\<rparr> in
      case out of
        EvalLost \<Rightarrow> (free, st)
      | EvalReplyLost \<Rightarrow> (free, snd run)
      | EvalOk \<Rightarrow> (case run of ((a, c, r), st) \<Rightarrow>
          (\<lparr>rrAllowed = (a = 1), rrRemaining = (if a = 1 then int (loLimit opt) - int c else 0),
            rrLimit = loLimit opt, rrRetryAfterMs = r\<rparr>, st)))"

text \<open>\<open>Math.ceil(ms / 1000)\<close>\<close>

definition ceil_seconds :: "int \<Rightarrow> int" where
  "ceil_seconds ms = - ((- ms) div 1000)"

definition checkOrThrow ::
    "limiter_options \<Rightarrow> eval_outcome \<Rightarrow> time \<Rightarrow> string \<Rightarrow> string \<Rightarrow> zset_store \<Rightarrow> (js_error + rate_result) \<times> zset_store" where
  "checkOrThrow opt out now uuid identifier st =
     (case check opt out now uuid identifier st of (r, st) \<Rightarrow>
        (if rrAllowed r then Inr r
         else Inl (too_many (''Rate limit exceeded. Retry after '' @ show_int (ceil_seconds (rrRetryAfterMs r)) @ ''s.'')), st))"

definition buildRateLimitKey :: "(string \<Rightarrow> string) \<Rightarrow> string \<Rightarrow> string \<Rightarrow> string" where
  "buildRateLimitKey sha256 recipient eventType = ''email:'' @ eventType @ '':'' @ sha256 recipient"

subsection \<open>The reference limiter\<close>

text \<open>It remembers every admission and counts those of the last \<open>windowMs\<close> milliseconds.\<close>

definition in_window :: "int \<Rightarrow> time \<Rightarrow> time list \<Rightarrow> time list" where
  "in_window windowMs now log = filter (\<lambda>t. now - windowMs < t) log"

definition log_check :: "limiter_options \<Rightarrow> time \<Rightarrow> time list \<Rightarrow> rate_result \<times> time list" where
  "log_check opt now log =
     (let recent = in_window (loWindowMs opt) now log; n = length recent in
      if n < loLimit opt
      then (\<lparr>rrAllowed = True, rrRemaining = int (loLimit opt) - int (n + 1), rrLimit = loLimit opt,
             rrRetryAfterMs = 0\<rparr>, log @ [now])
      else (\<lparr>rrAllowed = False, rrRemaining = 0, rrLimit = loLimit opt,
             rrRetryAfterMs = hd recent + loWindowMs opt - now\<rparr>, log))"

text \<open>Runs over a sequence of calls for one identifier.\<close>

fun run_checks :: "limiter_options \<Rightarrow> string \<Rightarrow> (time \<times> string) list \<Rightarrow> zset_store \<Rightarrow> rate_result list" where
  "run_checks opt i [] st = []"
| "run_checks opt i ((t, u) # cs) st = (case check opt EvalOk t u i st of (r, st') \<Rightarrow> r # run_checks opt i cs st')"

fun run_log :: "limiter_options \<Rightarrow> time list \<Rightarrow> time list \<Rightarrow> rate_result list" where
  "run_log opt [] log = []"
| "run_log opt (t # ts) log = (case log_check opt t log of (r, log') \<Rightarrow> r # run_log opt ts log')"

end
