(* ===== verification/Limiter_Claims.thy ===== *)
theory Limiter_Claims
  imports Notify_Limits
begin

text \<open>The sliding-window limiter refines the reference limiter that remembers every admission.\<close>

subsection \<open>Members\<close>

definition member_of :: "time \<Rightarrow> string \<Rightarrow> string" where
  "member_of t u = show_int t @ '':'' @ show_int t @ '':'' @ u"

lemma colon_split:
  assumes "x @ CHR '':'' # r = y @ CHR '':'' # s" "CHR '':'' \<notin> set x" "CHR '':'' \<notin> set y"
  shows "x = y \<and> r = s"
  using assms
proof (induction x arbitrary: y)
  case Nil
  then show ?case by (cases y) auto
next
  case (Cons a x)
  then show ?case by (cases y) auto
qed

lemma digit_no_colon: "d < 10 \<Longrightarrow> digit_char d \<noteq> CHR '':''"
proof
  assume d: "d < 10" and e: "digit_char d = CHR '':''"
  have "char_digit (digit_char d) = Some d" by (rule char_digit_digit_char[OF d])
  moreover have "char_digit (CHR '':'') = None" by (simp add: char_digit_def Let_def)
  ultimately show False using e by simp
qed

lemma show_nat_no_colon: "CHR '':'' \<notin> set (show_nat n)"
proof (induction n rule: less_induct)
  case (less n)
  show ?case
  proof (cases "n < 10")
    case True
    then show ?thesis using digit_no_colon[of n] by (subst show_nat.simps) auto
  next
    case False
    then have "CHR '':'' \<notin> set (show_nat (n div 10))" by (intro less.IH) simp
    then show ?thesis using False digit_no_colon[of "n mod 10"] by (subst show_nat.simps) auto
  qed
qed

lemma show_int_no_colon: "CHR '':'' \<notin> set (show_int i)"
  by (simp add: show_int_def show_nat_no_colon)

lemma member_of_inj: "member_of t u = member_of t' u' \<Longrightarrow> u = u'"
  using colon_split[of "show_int t" "show_int t @ '':'' @ u" "show_int t'" "show_int t' @ '':'' @ u'"]
    colon_split[of "show_int t" u "show_int t'" u'] show_int_no_colon
  by (auto simp: member_of_def)

subsection \<open>The simulation\<close>

definition limiter_key :: "string \<Rightarrow> string" where
  "limiter_key i = RATE_LIMIT_NAMESPACE @ '':'' @ i"

definition raw_members :: "string \<Rightarrow> zset_store \<Rightarrow> zset" where
  "raw_members k st = (case st k of None \<Rightarrow> [] | Some y \<Rightarrow> zkMembers y)"

text \<open>
  The relation at time \<open>now\<close>: scores are in order and not in the future, the key lives longer than
  they count, and within the window set and log agree.
\<close>

definition limiter_rel :: "int \<Rightarrow> string \<Rightarrow> time \<Rightarrow> string set \<Rightarrow> zset_store \<Rightarrow> time list \<Rightarrow> bool" where
  "limiter_rel W k now used st log \<longleftrightarrow>
     sorted (map fst (raw_members k st)) \<and>
     (\<forall>(s, m) \<in> set (raw_members k st). 0 \<le> s \<and> s \<le> now \<and> (\<exists>u \<in> used. m = member_of s u)) \<and>
     (\<forall>y. st k = Some y \<longrightarrow> (\<exists>e. zkExpires y = Some e \<and> (\<forall>(s, m) \<in> set (zkMembers y). s + W + 1000 \<le> e))) \<and>
     in_window W now (map fst (raw_members k st)) = in_window W now log"

lemma in_window_later:
  assumes "in_window W t xs = in_window W t ys" "t \<le> t'"
  shows "in_window W t' xs = in_window W t' ys"
proof -
  have "in_window W t' zs = in_window W t' (in_window W t zs)" for zs
    using assms(2) by (induction zs) (auto simp: in_window_def)
  then show ?thesis using assms(1) by metis
qed

lemma in_window_none: "(\<forall>s \<in> set xs. s \<le> t - W) \<Longrightarrow> in_window W t xs = []"
  by (auto simp: in_window_def filter_empty_conv)

lemma live_window:
  assumes "limiter_rel W k now used st log" "now \<le> t"
  shows "map fst (zremrangebyscore 0 (t - W) (zset_of t k st)) = in_window W t log \<and>
    (zset_of t k st = raw_members k st \<or> zset_of t k st = [])"
proof -
  let ?z = "raw_members k st"
  have w: "in_window W t (map fst ?z) = in_window W t log"
    using assms in_window_later unfolding limiter_rel_def by blast
  have f: "map fst (zremrangebyscore 0 (t - W) z) = in_window W t (map fst z)" if "set z \<subseteq> set ?z" for z
  proof -
    have "(case x of (s, m) \<Rightarrow> \<not> (0 \<le> s \<and> s \<le> t - W)) \<longleftrightarrow> t - W < fst x" if "x \<in> set z" for x
      using \<open>set z \<subseteq> set ?z\<close> that assms(1) unfolding limiter_rel_def by (cases x) fastforce
    then have "filter (\<lambda>(s, m). \<not> (0 \<le> s \<and> s \<le> t - W)) z = filter (\<lambda>x. t - W < fst x) z" by (intro filter_cong) auto
    then show ?thesis by (simp add: zremrangebyscore_def in_window_def filter_map comp_def)
  qed
  show ?thesis
  proof (cases "st k")
    case None
    then show ?thesis using w f[of "[]"] by (simp add: zset_of_def raw_members_def)
  next
    case (Some y)
    then obtain e where e: "zkExpires y = Some e" "\<forall>(s, m) \<in> set (zkMembers y). s + W + 1000 \<le> e"
      using assms(1) unfolding limiter_rel_def by blast
    show ?thesis
    proof (cases "t < e")
      case True
      then show ?thesis using w f[of ?z] Some e(1) by (simp add: zset_of_def raw_members_def)
    next
      case False
      have "\<forall>s \<in> set (map fst ?z). s \<le> t - W" using e(2) False Some by (auto simp: raw_members_def)
      then have "in_window W t log = []" using w in_window_none by metis
      then show ?thesis using Some e(1) False by (simp add: zset_of_def zremrangebyscore_def)
    qed
  qed
qed

lemma map_fst_insort: "map fst (insort_key fst x z) = insort (fst x) (map fst z)"
  by (induction z) auto

lemma map_fst_zadd:
  assumes "sorted (map fst z)" "\<forall>(s, m') \<in> set z. s \<le> t \<and> m' \<noteq> m"
  shows "map fst (zadd t m z) = map fst z @ [t] \<and> set (zadd t m z) = insert (t, m) (set z)"
proof -
  have "filter (\<lambda>(s', m'). m' \<noteq> m) z = z" using assms(2) by (intro filter_True) auto
  moreover have "insort t (map fst z) = map fst z @ [t]"
    using assms by (intro sorted_insort_is_snoc) auto
  ultimately show ?thesis by (simp add: zadd_def map_fst_insort set_insort_key)
qed

lemma zremrange_subset: "set (zremrangebyscore lo hi z) \<subseteq> set z"
  by (auto simp: zremrangebyscore_def)

lemma sorted_zremrange: "sorted (map fst z) \<Longrightarrow> sorted (map fst (zremrangebyscore lo hi z))"
  by (simp add: zremrangebyscore_def sorted_filter)

lemma in_window_snoc: "0 < W \<Longrightarrow> in_window W t (xs @ [t]) = in_window W t xs @ [t]"
  by (simp add: in_window_def)

lemma in_window_idem: "in_window W t (in_window W t xs) = in_window W t xs"
  by (simp add: in_window_def)

lemma limiter_step:
  assumes R: "limiter_rel (loWindowMs opt) (limiter_key i) now used st log"
    and t: "now \<le> t" "0 \<le> t" and o: "0 < loWindowMs opt" "0 < loLimit opt" and u: "u \<notin> used"
  shows "\<exists>st'. check opt EvalOk t u i st = (fst (log_check opt t log), st') \<and>
    limiter_rel (loWindowMs opt) (limiter_key i) t (insert u used) st' (snd (log_check opt t log))"
proof -
  let ?W = "loWindowMs opt" and ?k = "limiter_key i" and ?raw = "raw_members (limiter_key i) st"
  define z where "z = zremrangebyscore 0 (t - ?W) (zset_of t ?k st)"
  have zw: "map fst z = in_window ?W t log" and from_raw: "zset_of t ?k st = ?raw \<or> zset_of t ?k st = []"
    using live_window[OF R t(1)] by (simp_all add: z_def)
  have len: "length z = length (in_window ?W t log)" using zw by (metis length_map)
  have sub: "set z \<subseteq> set ?raw" using from_raw zremrange_subset[of 0 "t - ?W" "zset_of t ?k st"] by (auto simp: z_def)
  have old: "0 \<le> s \<and> s \<le> now \<and> (\<exists>v \<in> used. m = member_of s v)" if "(s, m) \<in> set z" for s m
    using R sub that unfolding limiter_rel_def by fastforce
  have "sorted (map fst (zset_of t ?k st))" using R from_raw unfolding limiter_rel_def by auto
  then have so: "sorted (map fst z)" unfolding z_def by (rule sorted_zremrange)
  have key: "RATE_LIMIT_NAMESPACE @ '':'' @ i = ?k" by (simp add: limiter_key_def)
  show ?thesis
  proof (cases "loLimit opt \<le> length z")
    case True
    then obtain a b zs where zz: "z = (a, b) # zs" using o(2) by (cases z) auto
    have hd: "hd (in_window ?W t log) = a" using zw zz by (metis fst_conv list.sel(1) list.simps(9))
    have "t - ?W < a" using zw zz by (auto simp: in_window_def filter_eq_Cons_iff dest!: sym[of _ "filter _ _"])
    then have s: "sliding_window t ?W (loLimit opt) (show_int t @ '':'' @ u) (zset_of t ?k st) =
        ((0, length z, a + ?W - t), z)"
      using True zz by (simp add: sliding_window_def flip: z_def)
    have c: "log_check opt t log = (\<lparr>rrAllowed = False, rrRemaining = 0, rrLimit = loLimit opt,
             rrRetryAfterMs = a + ?W - t\<rparr>, log)" using True len hd by (simp add: log_check_def)
    let ?st = "st(?k := Some \<lparr>zkMembers = z, zkExpires = (case st ?k of None \<Rightarrow> None | Some y \<Rightarrow> zkExpires y)\<rparr>)"
    have k: "check opt EvalOk t u i st = (fst (log_check opt t log), ?st)"
      unfolding check_def Let_def key eval_script_def s c by (simp add: zz)
    have raw: "raw_members ?k ?st = z" by (simp add: raw_members_def)
    obtain y where y: "st ?k = Some y" using sub zz by (cases "st ?k") (auto simp: raw_members_def)
    then obtain e where e: "zkExpires y = Some e" "\<forall>(s, m) \<in> set (zkMembers y). s + ?W + 1000 \<le> e"
      using R unfolding limiter_rel_def by blast
    have "\<forall>(s, m) \<in> set z. s + ?W + 1000 \<le> e" using e(2) sub y by (auto simp: raw_members_def)
    then have "limiter_rel ?W ?k t (insert u used) ?st log"
      unfolding limiter_rel_def raw using so old t zw in_window_idem y e(1) by fastforce
    then show ?thesis using k by (simp add: c)
  next
    case False
    then have c: "log_check opt t log = (\<lparr>rrAllowed = True, rrRemaining = int (loLimit opt) - int (length z + 1),
         rrLimit = loLimit opt, rrRetryAfterMs = 0\<rparr>, log @ [t])" using len by (simp add: log_check_def)
    have fresh: "\<forall>(s, m) \<in> set z. s \<le> t \<and> m \<noteq> member_of t u"
      using old t(1) u member_of_inj by fastforce
    note A = map_fst_zadd[OF so fresh]
    have s: "sliding_window t ?W (loLimit opt) (show_int t @ '':'' @ u) (zset_of t ?k st) =
        ((1, length z + 1, 0), zadd t (member_of t u) z)"
      using False by (simp add: sliding_window_def member_of_def flip: z_def)
    have ne: "zadd t (member_of t u) z \<noteq> []" using A by auto
    let ?st = "st(?k := Some \<lparr>zkMembers = zadd t (member_of t u) z, zkExpires = Some (t + (?W + 1000))\<rparr>)"
    have k: "check opt EvalOk t u i st = (fst (log_check opt t log), ?st)"
      unfolding check_def Let_def key eval_script_def s c by (simp add: ne)
    have raw: "raw_members ?k ?st = zadd t (member_of t u) z" by (simp add: raw_members_def)
    have "limiter_rel ?W ?k t (insert u used) ?st (log @ [t])"
      unfolding limiter_rel_def raw
    proof (intro conjI)
      show "sorted (map fst (zadd t (member_of t u) z))" using A so fresh by (auto simp: sorted_append)
      show "\<forall>(s, m) \<in> set (zadd t (member_of t u) z). 0 \<le> s \<and> s \<le> t \<and> (\<exists>v \<in> insert u used. m = member_of s v)"
        using A old t by fastforce
      show "\<forall>y. ?st ?k = Some y \<longrightarrow>
          (\<exists>e. zkExpires y = Some e \<and> (\<forall>(s, m) \<in> set (zkMembers y). s + ?W + 1000 \<le> e))"
        using A fresh by fastforce
      show "in_window ?W t (map fst (zadd t (member_of t u) z)) = in_window ?W t (log @ [t])"
        using A zw o(1) by (simp add: in_window_snoc in_window_idem)
    qed
    then show ?thesis using k by (simp add: c)
  qed
qed

definition good_calls :: "limiter_options \<Rightarrow> (time \<times> string) list \<Rightarrow> bool" where
  "good_calls opt cs \<longleftrightarrow> sorted (map fst cs) \<and> list_all (\<lambda>(t, u). 0 \<le> t) cs \<and> distinct (map snd cs) \<and>
     0 < loWindowMs opt \<and> 0 < loLimit opt"

lemma run_checks_sim:
  assumes "good_calls opt cs" "limiter_rel (loWindowMs opt) (limiter_key i) now used st log"
    "\<forall>(t, u) \<in> set cs. now \<le> t \<and> u \<notin> used"
  shows "run_checks opt i cs st = run_log opt (map fst cs) log"
  using assms
proof (induction cs arbitrary: now used st log)
  case (Cons c cs)
  obtain t u where c: "c = (t, u)" by (cases c)
  have o: "0 < loWindowMs opt" "0 < loLimit opt" and t: "now \<le> t" "0 \<le> t" "u \<notin> used"
    using Cons.prems c by (auto simp: good_calls_def)
  obtain st' where st': "check opt EvalOk t u i st = (fst (log_check opt t log), st')"
    "limiter_rel (loWindowMs opt) (limiter_key i) t (insert u used) st' (snd (log_check opt t log))"
    using limiter_step[OF Cons.prems(2) t(1,2) o t(3)] by blast
  have "good_calls opt cs" "\<forall>(t', u') \<in> set cs. t \<le> t' \<and> u' \<notin> insert u used"
    using Cons.prems(1,3) c by (auto simp: good_calls_def image_iff)
  note IH = Cons.IH[OF this(1) st'(2) this(2)]
  show ?case using st'(1) IH by (simp add: c split: prod.splits)
qed simp

lemma limiter_rel_empty: "limiter_rel W k now {} (\<lambda>_. None) []"
  by (simp add: limiter_rel_def raw_members_def in_window_def)

lemma run_checks_log:
  assumes "good_calls opt cs"
  shows "run_checks opt i cs (\<lambda>_. None) = run_log opt (map fst cs) []"
proof (cases cs)
  case (Cons c cs')
  have "\<forall>(t, u) \<in> set cs. fst c \<le> t \<and> u \<notin> {}" using assms Cons by (auto simp: good_calls_def)
  then show ?thesis by (rule run_checks_sim[OF assms limiter_rel_empty])
qed simp

text \<open>
  C11: The Lua limiter answers as the reference limiter that never forgets an admission. For calls in
  the order of their clocks, with distinct member ids and a reachable Redis, every answer (allowed
  or not, remaining slots, time to wait) is the same, although the script drops old entries and
  the key expires.
\<close>

theorem limiter_refines_log:
  assumes "good_calls opt cs"
  shows "run_checks opt i cs (\<lambda>_. None) = run_log opt (map fst cs) []"
  by (rule run_checks_log[OF assms])

definition demo_limiter :: limiter_options where
  "demo_limiter = \<lparr>loLimit = 2, loWindowMs = 1000\<rparr>"

theorem limiter_refines_log_witness:
  "List.map rrAllowed (run_checks demo_limiter ''k'' [(1, ''a''), (2, ''b''), (3, ''c''), (1001, ''d''), (1002, ''e''), (1003, ''f'')]
     (\<lambda>_. None)) = [True, True, False, True, True, False]"
proof -
  have g: "good_calls demo_limiter [(1, ''a''), (2, ''b''), (3, ''c''), (1001, ''d''), (1002, ''e''), (1003, ''f'')]"
    by (simp add: good_calls_def demo_limiter_def)
  show ?thesis unfolding limiter_refines_log[OF g]
    by (simp add: demo_limiter_def log_check_def in_window_def Let_def)
qed

subsection \<open>The bound\<close>

fun final_log :: "limiter_options \<Rightarrow> time list \<Rightarrow> time list \<Rightarrow> time list" where
  "final_log opt [] log = log"
| "final_log opt (t # ts) log = final_log opt ts (snd (log_check opt t log))"

lemma admitted_in_log:
  "length (filter (\<lambda>(t, r). rrAllowed r \<and> P t) (zip ts (run_log opt ts log))) + length (filter P log) =
     length (filter P (final_log opt ts log))"
proof (induction ts arbitrary: log)
  case (Cons t ts)
  show ?case using Cons.IH[of log] Cons.IH[of "log @ [t]"] by (auto simp: log_check_def Let_def)
qed simp

definition in_span :: "int \<Rightarrow> time \<Rightarrow> time \<Rightarrow> bool" where
  "in_span W x t \<longleftrightarrow> x - W < t \<and> t \<le> x"

lemma span_bound_step:
  assumes "\<forall>s \<in> set log. s \<le> now" "\<forall>x. length (filter (in_span W x) log) \<le> n" "length (in_window W now log) < n"
  shows "length (filter (in_span W x) (log @ [now])) \<le> n"
proof (cases "in_span W x now")
  case True
  have "filter (in_span W x) log = filter (\<lambda>s. x - W < s) log"
    using assms(1) True by (intro filter_cong) (auto simp: in_span_def)
  also have "\<dots> = filter (\<lambda>s. x - W < s) (in_window W now log)"
    using True by (induction log) (auto simp: in_window_def in_span_def)
  finally have "length (filter (in_span W x) log) \<le> length (in_window W now log)" by (simp add: length_filter_le)
  then show ?thesis using assms(3) by simp
next
  case False
  then show ?thesis using assms(2) by simp
qed

lemma final_log_bound:
  assumes "sorted ts" "\<forall>s \<in> set log. \<forall>t \<in> set ts. s \<le> t" "\<forall>x. length (filter (in_span (loWindowMs opt) x) log) \<le> loLimit opt"
  shows "length (filter (in_span (loWindowMs opt) x) (final_log opt ts log)) \<le> loLimit opt"
  using assms
proof (induction ts arbitrary: log)
  case (Cons t ts)
  show ?case
  proof (cases "length (in_window (loWindowMs opt) t log) < loLimit opt")
    case True
    have "\<forall>s \<in> set log. s \<le> t" using Cons.prems(2) by simp
    then have "\<forall>x. length (filter (in_span (loWindowMs opt) x) (log @ [t])) \<le> loLimit opt"
      using span_bound_step[OF _ Cons.prems(3) True] by blast
    then show ?thesis using Cons.IH[of "log @ [t]"] Cons.prems True by (simp add: log_check_def Let_def)
  next
    case False
    then show ?thesis using Cons.IH[of log] Cons.prems by (simp add: log_check_def Let_def)
  qed
qed simp

text \<open>
  At most \<open>limit\<close> calls are admitted in any span of \<open>windowMs\<close> milliseconds, wherever the span
  begins: a sliding window, with no boundary at which twice the limit passes.
\<close>

theorem limiter_bounds_every_window:
  assumes "good_calls opt cs"
  shows "length (filter (\<lambda>(t, r). rrAllowed r \<and> in_span (loWindowMs opt) x t)
    (zip (map fst cs) (run_checks opt i cs (\<lambda>_. None)))) \<le> loLimit opt"
proof -
  have "length (filter (in_span (loWindowMs opt) x) (final_log opt (map fst cs) [])) \<le> loLimit opt"
    by (rule final_log_bound) (use assms in \<open>simp_all add: good_calls_def\<close>)
  then show ?thesis using run_checks_log[OF assms] admitted_in_log[of "in_span (loWindowMs opt) x" "map fst cs" opt "[]"]
    by simp
qed

theorem limiter_bounds_every_window_witness:
  "length (filter (\<lambda>(t, r). rrAllowed r \<and> in_span 1000 1000 t)
    (zip [1, 2, 3] (run_checks demo_limiter ''k'' [(1, ''a''), (2, ''b''), (3, ''c'')] (\<lambda>_. None)))) \<le> 2"
proof -
  have g: "good_calls demo_limiter [(1, ''a''), (2, ''b''), (3, ''c'')]"
    by (simp add: good_calls_def demo_limiter_def)
  show ?thesis using limiter_bounds_every_window[OF g, of 1000 "''k''"] by (simp add: demo_limiter_def)
qed

end
