(* ===== verification/Notify_Mail.thy ===== *)
theory Notify_Mail
  imports Breakers Event_Bus Kafka_Outbox Notify_Limits
begin

text \<open>
  Sending mail in the notification service: \<open>resilience/backoff.ts\<close> and the Resend provider of
  \<open>providers/\<close>. The answer of \<open>fetch\<close> is the environment's.
\<close>

subsection \<open>Errors\<close>

record email_error =
  emMessage :: string
  emRetryable :: bool
  emStatusCode :: "int option"
  emProviderCode :: "json option"

datatype notify_error = MailErr email_error | JsErr js_error

fun notify_message :: "notify_error \<Rightarrow> string" where
  "notify_message (MailErr e) = emMessage e"
| "notify_message (JsErr e) = js_error_message e"

fun isRetryableEmailError :: "notify_error \<Rightarrow> bool" where
  "isRetryableEmailError (MailErr e) = emRetryable e"
| "isRetryableEmailError (JsErr e) = False"

subsection \<open>Backoff\<close>

record backoff_options =
  bkBaseDelayMs :: nat
  bkMaxDelayMs :: nat
  bkMaxAttempts :: nat

text \<open>
  The delay in whole milliseconds, as \<open>setTimeout\<close> and \<open>Date\<close> take it; \<open>Math.random()\<close> is
  \<open>r / 2 ^ 53\<close> for a natural number \<open>r\<close> below \<open>2 ^ 53\<close>.
\<close>

definition jitter_backoff :: "nat \<Rightarrow> nat \<Rightarrow> backoff_options \<Rightarrow> nat" where
  "jitter_backoff r attempt opt =
     r * min (bkBaseDelayMs opt * 2 ^ attempt) (bkMaxDelayMs opt) div 2 ^ 53"

text \<open>
  The retry loop, for an operation with effects on a state and a pause between attempts; \<open>n\<close> is
  the number of attempts left.
\<close>

fun retry_loop ::
    "('s \<Rightarrow> (notify_error + 'a) \<times> 's) \<Rightarrow> (notify_error \<Rightarrow> bool) \<Rightarrow> (nat \<Rightarrow> 's \<Rightarrow> 's) \<Rightarrow> nat \<Rightarrow> nat \<Rightarrow> 's \<Rightarrow>
       (notify_error + 'a) \<times> 's" where
  "retry_loop operation shouldRetry pause attempt 0 s =
     (Inl (JsErr (OtherError ''Error'' ''retryWithBackoff: maxAttempts must be at least 1'')), s)"
| "retry_loop operation shouldRetry pause attempt (Suc n) s =
     (case operation s of
        (Inr x, s) \<Rightarrow> (Inr x, s)
      | (Inl e, s) \<Rightarrow>
          if \<not> shouldRetry e \<or> n = 0 then (Inl e, s)
          else retry_loop operation shouldRetry pause (attempt + 1) n (pause attempt s))"

definition retryWithBackoff ::
    "('s \<Rightarrow> (notify_error + 'a) \<times> 's) \<Rightarrow> backoff_options \<Rightarrow> (notify_error \<Rightarrow> bool) \<Rightarrow> (nat \<Rightarrow> 's \<Rightarrow> 's) \<Rightarrow> 's \<Rightarrow>
       (notify_error + 'a) \<times> 's" where
  "retryWithBackoff operation opt shouldRetry pause =
     retry_loop operation shouldRetry pause 0 (bkMaxAttempts opt)"

subsection \<open>The provider\<close>

fun jtruthy :: "json \<Rightarrow> bool" where
  "jtruthy JNull = False"
| "jtruthy (JBool b) = b"
| "jtruthy (JNum n) = (n \<noteq> 0)"
| "jtruthy (JStr s) = (s \<noteq> [])"
| "jtruthy (JArr xs) = True"
| "jtruthy (JObj kvs) = True"

text \<open>\<open>fetch\<close> rejects with an \<open>Error\<close> (name and message), or answers with a status, the status
  text and the body \<open>response.json()\<close> gives (\<open>None\<close>: it rejects).\<close>

datatype fetch_outcome =
    FetchRejects string string
  | FetchAnswers int string "json option"

record send_email_command =
  seTo :: string
  seSubject :: string
  seHtml :: string

record send_email_result =
  srMessageId :: json
  srProvider :: string

definition parseErrorBody :: "string \<Rightarrow> json option \<Rightarrow> json" where
  "parseErrorBody statusText body = (case body of None \<Rightarrow> JObj [(''message'', JStr statusText)] | Some v \<Rightarrow> v)"

definition null_property :: "string \<Rightarrow> js_error" where
  "null_property p = OtherError ''TypeError'' (''Cannot read properties of null (reading '' @ p @ '')'')"

text \<open>\<open>textOf\<close> is the text of a JSON value in a template literal.\<close>

definition error_text :: "(json \<Rightarrow> string) \<Rightarrow> json \<Rightarrow> string" where
  "error_text textOf body = (case jget body ''message'' of
     None \<Rightarrow> ''Unknown error'' | Some JNull \<Rightarrow> ''Unknown error'' | Some (JStr s) \<Rightarrow> s | Some v \<Rightarrow> textOf v)"

definition provider_result :: "(json \<Rightarrow> string) \<Rightarrow> nat \<Rightarrow> fetch_outcome \<Rightarrow> notify_error + send_email_result" where
  "provider_result textOf timeoutMs out =
     (case out of
        FetchRejects name msg \<Rightarrow> Inl (MailErr
          \<lparr>emMessage = (if name = ''AbortError''
              then ''Resend API request timed out after '' @ show_nat timeoutMs @ ''ms''
              else ''Resend API network error: '' @ msg),
           emRetryable = True, emStatusCode = None, emProviderCode = None\<rparr>)
      | FetchAnswers status statusText body \<Rightarrow>
          if \<not> (200 \<le> status \<and> status \<le> 299) then
            let b = parseErrorBody statusText body in
            if b = JNull then Inl (JsErr (null_property ''message''))
            else Inl (MailErr \<lparr>emMessage = ''Resend API returned '' @ show_int status @ '': '' @ error_text textOf b,
                 emRetryable = (status = 429 \<or> 500 \<le> status), emStatusCode = Some status,
                 emProviderCode = jget b ''name''\<rparr>)
          else case body of
            None \<Rightarrow> Inl (JsErr (OtherError ''SyntaxError'' ''Unexpected end of JSON input''))
          | Some JNull \<Rightarrow> Inl (JsErr (null_property ''id''))
          | Some b \<Rightarrow> (case jget b ''id'' of
              Some i \<Rightarrow> if jtruthy i then Inr \<lparr>srMessageId = i, srProvider = ''resend''\<rparr>
                else Inl (MailErr \<lparr>emMessage = ''Resend API returned success but no message ID in response'',
                       emRetryable = True, emStatusCode = None, emProviderCode = None\<rparr>)
            | None \<Rightarrow> Inl (MailErr \<lparr>emMessage = ''Resend API returned success but no message ID in response'',
                       emRetryable = True, emStatusCode = None, emProviderCode = None\<rparr>)))"

text \<open>The constructor checks its options.\<close>

definition new_ResendEmailProvider :: "string \<Rightarrow> string \<Rightarrow> nat option \<Rightarrow> js_error + nat" where
  "new_ResendEmailProvider apiKey fromEmail timeoutMs =
     (if apiKey = [] then Inl (AppErr (AppError ''Error'' 400 ''ResendEmailProvider: apiKey is required'' True None))
      else if fromEmail = [] then Inl (AppErr (AppError ''Error'' 400 ''ResendEmailProvider: fromEmail is required'' True None))
      else Inr (case timeoutMs of None \<Rightarrow> 10000 | Some t \<Rightarrow> t))"

end
