(* ===== verification/Notification_Flow.thy ===== *)
theory Notification_Flow
  imports Notify_Mail
begin

text \<open>
  The notification service: the log table with its claim (\<open>idempotency/\<close>, \<open>services/notificationLog.ts\<close>) and the
  dead letters (\<open>services/dlq.ts\<close>). The environment answers the n-th effect of a run: a database call, a Redis
  script, a request to the mail provider, a publish, a reading of the clock.
\<close>

subsection \<open>State\<close>

datatype notification_status = LOG_PENDING | LOG_SENT | LOG_FAILED | LOG_DLQ

record notification_log =
  nlId :: string
  nlEventId :: string
  nlEventType :: string
  nlRecipient :: string
  nlSubject :: "string option"
  nlPayloadSnapshot :: "json option"
  nlStatus :: notification_status
  nlAttemptCount :: nat
  nlMaxRetries :: nat
  nlLastError :: "string option"
  nlProviderMessageId :: "string option"
  nlLastAttemptAt :: "time option"
  nlNextRetryAt :: "time option"
  nlTraceparent :: "string option"
  nlCorrelationId :: "string option"
  nlProcessedAt :: "time option"

text \<open>A request to the provider, with the log row it was made for and whether it was accepted.\<close>

record mail_post =
  mpLogId :: string
  mpCommand :: send_email_command
  mpAccepted :: bool

record notif_world =
  nwRows :: "notification_log list"
  nwZsets :: zset_store
  nwBreaker :: nb_state
  nwBus :: event_bus
  nwPosts :: "mail_post list"
  nwTick :: nat

record notif_env =
  neClock :: "nat \<Rightarrow> time"
  neDb :: "nat \<Rightarrow> string option"
  neEval :: "nat \<Rightarrow> eval_outcome"
  neFetch :: "nat \<Rightarrow> fetch_outcome"
  neRandom :: "nat \<Rightarrow> nat"
  neUuid :: "nat \<Rightarrow> string"
  neConn :: "nat \<Rightarrow> string option"
  neSend :: "nat \<Rightarrow> send_outcome"
  neRender :: "string \<Rightarrow> json \<Rightarrow> js_error + string"
  neText :: "json \<Rightarrow> string"
  neSha256 :: "string \<Rightarrow> string"

record notif_deps =
  ndLimiter :: "limiter_options option"
  ndBreaker :: nb_options
  ndBackoff :: backoff_options
  ndTimeoutMs :: nat
  ndBusConfigured :: bool

type_synonym 'a nw = "notif_world \<Rightarrow> ('a, notif_world) res"

definition ntick :: "notif_world \<Rightarrow> notif_world" where
  "ntick w = w\<lparr>nwTick := nwTick w + 1\<rparr>"

definition ndb :: "notif_env \<Rightarrow> 'a nw \<Rightarrow> 'a nw" where
  "ndb env f w = (case neDb env (nwTick w) of
     Some m \<Rightarrow> (Inl (db_error m), ntick w) | None \<Rightarrow> f (ntick w))"

definition find_log :: "(notification_log \<Rightarrow> bool) \<Rightarrow> notif_world \<Rightarrow> notification_log option" where
  "find_log p w = find p (nwRows w)"

definition update_log :: "notif_env \<Rightarrow> string \<Rightarrow> (notification_log \<Rightarrow> notification_log) \<Rightarrow> unit nw" where
  "update_log env i f = ndb env (\<lambda>w.
     if i \<in> nlId ` set (nwRows w)
     then (Inr (), w\<lparr>nwRows := update_where (\<lambda>r. nlId r = i) f (nwRows w)\<rparr>)
     else (Inl record_not_found, w))"

subsection \<open>The claim\<close>

record claim_input =
  ciEventId :: string
  ciEventType :: string
  ciRecipient :: string
  ciSubject :: "string option"
  ciPayloadSnapshot :: "json option"
  ciTraceparent :: "string option"
  ciCorrelationId :: "string option"

datatype idempotency_result = Claimed string | Duplicate

definition claim_row :: "string \<Rightarrow> claim_input \<Rightarrow> notification_log" where
  "claim_row uuid c =
     \<lparr>nlId = uuid, nlEventId = ciEventId c, nlEventType = ciEventType c, nlRecipient = ciRecipient c,
      nlSubject = ciSubject c, nlPayloadSnapshot = ciPayloadSnapshot c, nlStatus = LOG_PENDING,
      nlAttemptCount = 0, nlMaxRetries = 3, nlLastError = None, nlProviderMessageId = None,
      nlLastAttemptAt = None, nlNextRetryAt = None, nlTraceparent = ciTraceparent c,
      nlCorrelationId = ciCorrelationId c, nlProcessedAt = None\<rparr>"

definition isUniqueConstraintViolation :: "js_error \<Rightarrow> bool" where
  "isUniqueConstraintViolation e = (case e of PrismaKnown c m t \<Rightarrow> c = ''P2002'' | _ \<Rightarrow> False)"

definition create_log :: "notif_env \<Rightarrow> claim_input \<Rightarrow> string nw" where
  "create_log env c = ndb env (\<lambda>w.
     let uuid = neUuid env (nwTick w) in
     if ciEventId c \<in> nlEventId ` set (nwRows w) then (Inl (unique_violation ''eventId''), w)
     else if uuid \<in> nlId ` set (nwRows w) then (Inl (unique_violation ''id''), w)
     else (Inr uuid, w\<lparr>nwRows := nwRows w @ [claim_row uuid c]\<rparr>))"

definition claimNotification :: "notif_env \<Rightarrow> claim_input \<Rightarrow> idempotency_result nw" where
  "claimNotification env c w =
     (case create_log env c w of
        (Inr i, w) \<Rightarrow> (Inr (Claimed i), w)
      | (Inl e, w) \<Rightarrow>
          if isUniqueConstraintViolation e then
            ndb env (\<lambda>w. case find_log (\<lambda>r. nlEventId r = ciEventId c) w of
                None \<Rightarrow> (Inr Duplicate, w)
              | Some r \<Rightarrow>
                  if nlStatus r \<noteq> LOG_SENT \<and> nlStatus r \<noteq> LOG_DLQ then (Inr (Claimed (nlId r)), w)
                  else (Inr Duplicate, w)) w
          else (Inl e, w))"

subsection \<open>Marking\<close>

text \<open>The provider message id must be text: Prisma refuses another value for the column.\<close>

definition markAsSent :: "notif_env \<Rightarrow> string \<Rightarrow> json \<Rightarrow> unit nw" where
  "markAsSent env i messageId w =
     (let now = neClock env (nwTick w) in
      case messageId of
        JStr m \<Rightarrow> update_log env i (\<lambda>r. r\<lparr>nlStatus := LOG_SENT, nlProviderMessageId := Some m,
           nlProcessedAt := Some now, nlLastAttemptAt := Some now\<rparr>) w
      | _ \<Rightarrow> (Inl (PrismaValidation ''Argument providerMessageId: Invalid value provided.''), ntick w))"

definition markAsFailed :: "notif_env \<Rightarrow> string \<Rightarrow> string \<Rightarrow> backoff_options \<Rightarrow> (nat \<times> nat) nw" where
  "markAsFailed env i msg opt w =
     on_ok (ndb env (\<lambda>w. (Inr (find_log (\<lambda>r. nlId r = i) w), w)) w) (\<lambda>current w.
     let n = (case current of None \<Rightarrow> 0 | Some r \<Rightarrow> nlAttemptCount r) + 1;
         now = neClock env (nwTick w);
         later = now + int (jitter_backoff (neRandom env (nwTick w)) n opt) in
     on_ok (update_log env i (\<lambda>r. r\<lparr>nlStatus := LOG_FAILED, nlLastError := Some msg,
              nlLastAttemptAt := Some now, nlNextRetryAt := Some later,
              nlAttemptCount := nlAttemptCount r + 1\<rparr>) w) (\<lambda>_ w.
     case find_log (\<lambda>r. nlId r = i) w of
       None \<Rightarrow> (Inl record_not_found, w)
     | Some r \<Rightarrow> (Inr (nlAttemptCount r, nlMaxRetries r), w)))"

subsection \<open>Dead letters\<close>

definition notif_publish :: "notif_env \<Rightarrow> publish_options \<Rightarrow> unit nw" where
  "notif_publish env po w =
     (case bus_publish (neConn env (nwTick w)) (neSend env (nwTick w)) po (nwBus w) of
        (r, b) \<Rightarrow> (r, ntick (w\<lparr>nwBus := b\<rparr>)))"

text \<open>\<open>publishDeadLetterEvent\<close> on the bus of the service: a rejected publish is swallowed.\<close>

definition notif_dead_letter :: "notif_env \<Rightarrow> dead_letter_params \<Rightarrow> notif_world \<Rightarrow> notif_world" where
  "notif_dead_letter env p w =
     snd (notif_publish env (dead_letter_options (iso_of (neClock env (nwTick w))) p) w)"

record dlq_input =
  dqLogId :: string
  dqEventId :: string
  dqEventType :: string
  dqPayloadText :: string
  dqFailureReason :: string
  dqTraceparent :: "string option"
  dqCorrelationId :: "string option"

definition dlq_params :: "dlq_input \<Rightarrow> dead_letter_params" where
  "dlq_params d = \<lparr>dlServiceName = ''notification-service'', dlEventId = dqEventId d,
     dlEventType = Some (dqEventType d), dlFailureStage = Some ''consume'', dlErrorMessage = dqFailureReason d,
     dlRawPayload = Some (dqPayloadText d), dlTraceparent = dqTraceparent d, dlCorrelationId = dqCorrelationId d\<rparr>"

definition routeToDlq :: "notif_env \<Rightarrow> notif_deps \<Rightarrow> dlq_input \<Rightarrow> unit nw" where
  "routeToDlq env d q w =
     on_ok (update_log env (dqLogId q) (\<lambda>r. r\<lparr>nlStatus := LOG_DLQ, nlLastError := Some (dqFailureReason q)\<rparr>) w) (\<lambda>_ w.
     (Inr (), if ndBusConfigured d then notif_dead_letter env (dlq_params q) w else w))"

definition poison_params ::
    "string \<Rightarrow> string \<Rightarrow> string \<Rightarrow> string option \<Rightarrow> string option \<Rightarrow> dead_letter_params" where
  "poison_params dedupeKey raw reason tp cid = \<lparr>dlServiceName = ''notification-service'', dlEventId = dedupeKey,
     dlEventType = None, dlFailureStage = Some ''consume'', dlErrorMessage = reason, dlRawPayload = Some raw,
     dlTraceparent = tp, dlCorrelationId = cid\<rparr>"

definition routePoisonMessage :: "notif_env \<Rightarrow> notif_deps \<Rightarrow> dead_letter_params \<Rightarrow> notif_world \<Rightarrow> notif_world" where
  "routePoisonMessage env d p w = (if ndBusConfigured d then notif_dead_letter env p w else w)"

end
