(* ===== verification/Notification_Pipeline.thy ===== *)
theory Notification_Pipeline
  imports Notification_Flow
begin

text \<open>
  The consumer boundary (\<open>types/kafkaMessageTypes.ts\<close>, \<open>events/domainEventSchemas.ts\<close>), the pipeline
  \<open>NotificationService.processEvent\<close> and \<open>handleDomainEventMessage\<close>, which handles one message at a time. React Email renders
  (\<open>neRender\<close>); the text of Zod issues is a parameter.
\<close>

subsection \<open>Events\<close>

definition DomainEventNames :: "string list" where
  "DomainEventNames = [ACCOUNT_RESTORE_REQUESTED, EMAIL_VERIFICATION_OTP_SENT, PASSWORD_RESET_REQUESTED,
     ADMIN_INVITE_CREATED, USER_REGISTERED]"

definition DomainEventSchema :: "zod_formats \<Rightarrow> schema" where
  "DomainEventSchema fm v \<longleftrightarrow> AccountRestoreRequestedEventSchema fm v \<or> EmailVerificationOtpEventSchema fm v \<or>
     PasswordResetRequestedEventSchema fm v \<or> UserRegisteredEventSchema fm v"

record domain_event =
  deEventType :: string
  deAggregateId :: string
  dePayload :: json

definition event_json :: "domain_event \<Rightarrow> json" where
  "event_json ev = envelope (deEventType ev) (deAggregateId ev) (dePayload ev)"

definition payload_text :: "domain_event \<Rightarrow> string \<Rightarrow> string" where
  "payload_text ev k = (case jget (dePayload ev) k of Some (JStr s) \<Rightarrow> s | _ \<Rightarrow> '''')"

text \<open>The registry: template, keys of the payload (those the schema keeps), recipient and subject.\<close>

record registry_entry =
  reTemplateKey :: string
  rePayloadKeys :: "string list"
  reRecipient :: "domain_event \<Rightarrow> string"
  reSubject :: "domain_event \<Rightarrow> string"

definition domainEventRegistry :: "(string \<times> registry_entry) list" where
  "domainEventRegistry =
     [(EMAIL_VERIFICATION_OTP_SENT,
        \<lparr>reTemplateKey = ''email-verification'', rePayloadKeys = [''email'', ''otp''],
         reRecipient = (\<lambda>ev. payload_text ev ''email''),
         reSubject = (\<lambda>ev. ''Your Nexus verification code is '' @ payload_text ev ''otp'')\<rparr>),
      (PASSWORD_RESET_REQUESTED,
        \<lparr>reTemplateKey = ''password-reset'', rePayloadKeys = [''email'', ''resetUiLink''],
         reRecipient = (\<lambda>ev. payload_text ev ''email''),
         reSubject = (\<lambda>ev. ''Reset your Nexus password'')\<rparr>),
      (ACCOUNT_RESTORE_REQUESTED,
        \<lparr>reTemplateKey = ''account-restore'', rePayloadKeys = [''email'', ''otp''],
         reRecipient = (\<lambda>ev. payload_text ev ''email''),
         reSubject = (\<lambda>ev. ''Restore your Nexus account'')\<rparr>),
      (USER_REGISTERED,
        \<lparr>reTemplateKey = ''welcome'',
         rePayloadKeys = [''userId'', ''email'', ''role'', ''firstName'', ''lastName'', ''createdAt''],
         reRecipient = (\<lambda>ev. payload_text ev ''email''),
         reSubject = (\<lambda>ev. ''Welcome to Nexus, '' @ payload_text ev ''firstName'' @ ''!'')\<rparr>)]"

definition isHandledDomainEvent :: "string \<Rightarrow> bool" where
  "isHandledDomainEvent ty \<longleftrightarrow> ty \<in> fst ` set domainEventRegistry"

definition getEventRegistryEntry :: "string \<Rightarrow> registry_entry" where
  "getEventRegistryEntry ty = the (map_of domainEventRegistry ty)"

definition template_keys :: "string list" where
  "template_keys = [''email-verification'', ''password-reset'', ''account-restore'', ''admin-invite'', ''welcome'']"

definition isTemplateKey :: "string \<Rightarrow> bool" where
  "isTemplateKey k \<longleftrightarrow> k \<in> set template_keys"

subsection \<open>Parsing\<close>

record subscribe_context =
  scTopic :: string
  scPartition :: nat
  scOffset :: string
  scHeaders :: "string \<rightharpoonup> string"
  scTraceparent :: "string option"

record incoming_message =
  imEvent :: domain_event
  imTraceparent :: "string option"
  imCorrelationId :: string

text \<open>\<open>EventBus.subscribe\<close> decodes every header value to text.\<close>

definition readHeader :: "(string \<rightharpoonup> string) \<Rightarrow> string \<Rightarrow> string option" where
  "readHeader headers key = headers key"

definition header_correlation :: "(string \<rightharpoonup> string) \<Rightarrow> string option" where
  "header_correlation headers = (case readHeader headers ''correlationid'' of
     Some s \<Rightarrow> Some s | None \<Rightarrow> readHeader headers ''correlation-id'')"

text \<open>The event as \<open>safeParse\<close> returns it: keys the schema does not name are dropped.\<close>

definition parsed_event :: "json \<Rightarrow> domain_event" where
  "parsed_event v =
     (let ty = (case jget v ''eventType'' of Some (JStr s) \<Rightarrow> s | _ \<Rightarrow> '''');
          agg = (case jget v ''aggregateId'' of Some (JStr s) \<Rightarrow> s | _ \<Rightarrow> '''');
          p = (case jget v ''payload'' of Some u \<Rightarrow> u | None \<Rightarrow> JNull) in
      \<lparr>deEventType = ty, deAggregateId = agg,
       dePayload = JObj (List.map_filter (\<lambda>k. map_option (Pair k) (jget p k))
                      (rePayloadKeys (getEventRegistryEntry ty)))\<rparr>)"

definition parseKafkaMessage ::
    "zod_formats \<Rightarrow> (json option \<Rightarrow> string) \<Rightarrow> json js_text option \<Rightarrow> (string \<rightharpoonup> string) \<Rightarrow> js_error + incoming_message" where
  "parseKafkaMessage fm details value headers =
     (case (case value of None \<Rightarrow> Inr None
            | Some t \<Rightarrow> if text_truthy t
                then (case json_parse t of None \<Rightarrow> Inl () | Some v \<Rightarrow> Inr (Some v)) else Inr None) of
        Inl _ \<Rightarrow> Inl (AppErr (ValidationError ''Kafka message is not valid JSON'' None))
      | Inr raw \<Rightarrow>
          if \<not> DomainEventSchema fm raw
          then Inl (AppErr (ValidationError (''Kafka event failed schema validation: '' @ details raw) None))
          else let ev = parsed_event (the raw) in
            Inr \<lparr>imEvent = ev, imTraceparent = readHeader headers ''traceparent'',
                 imCorrelationId = (case header_correlation headers of Some s \<Rightarrow> s | None \<Rightarrow> deAggregateId ev)\<rparr>)"

subsection \<open>The pipeline\<close>

datatype process_result =
    Sent (prLogId: string)
  | SkippedUnhandled
  | SkippedDuplicate
  | FailedWith (prLogId: string) (prError: string) (prRoutedToDlq: bool)

definition claim_of :: "incoming_message \<Rightarrow> claim_input" where
  "claim_of m = (let ev = imEvent m; entry = getEventRegistryEntry (deEventType ev) in
     \<lparr>ciEventId = deAggregateId ev, ciEventType = deEventType ev, ciRecipient = reRecipient entry ev,
      ciSubject = Some (reSubject entry ev), ciPayloadSnapshot = Some (event_json ev),
      ciTraceparent = imTraceparent m, ciCorrelationId = Some (imCorrelationId m)\<rparr>)"

text \<open>Marking a failure, with the dead letter when the row has used up its retries.\<close>

definition fail_log ::
    "notif_env \<Rightarrow> notif_deps \<Rightarrow> incoming_message \<Rightarrow> string \<Rightarrow> string \<Rightarrow> string \<Rightarrow> string \<Rightarrow> process_result nw" where
  "fail_log env d m i markText dlqText resultText w =
     on_ok (markAsFailed env i markText (ndBackoff d) w) (\<lambda>(attempts, mx) w.
     let dead = mx \<le> attempts; ev = imEvent m in
     on_ok (if dead then routeToDlq env d \<lparr>dqLogId = i, dqEventId = deAggregateId ev, dqEventType = deEventType ev,
              dqPayloadText = neText env (event_json ev), dqFailureReason = dlqText,
              dqTraceparent = imTraceparent m, dqCorrelationId = Some (imCorrelationId m)\<rparr> w
            else (Inr (), w)) (\<lambda>_ w.
     (Inr (FailedWith i resultText dead), w)))"

definition lift_err :: "(js_error + 'a) \<times> 's \<Rightarrow> (notify_error + 'a) \<times> 's" where
  "lift_err r = (case r of (Inl e, s) \<Rightarrow> (Inl (JsErr e), s) | (Inr x, s) \<Rightarrow> (Inr x, s))"

text \<open>\<open>ResendEmailProvider.send\<close>: one request.\<close>

definition provider_send ::
    "notif_env \<Rightarrow> notif_deps \<Rightarrow> string \<Rightarrow> send_email_command \<Rightarrow> notif_world \<Rightarrow> (notify_error + send_email_result) \<times> notif_world" where
  "provider_send env d i cmd w =
     (let r = provider_result (neText env) (ndTimeoutMs d) (neFetch env (nwTick w)) in
      (r, ntick (w\<lparr>nwPosts := nwPosts w @ [\<lparr>mpLogId = i, mpCommand = cmd, mpAccepted = is_ok r\<rparr>]\<rparr>)))"

text \<open>Retries inside the breaker; a pause is one effect (the clock has moved on after it).\<close>

definition guarded_send ::
    "notif_env \<Rightarrow> notif_deps \<Rightarrow> string \<Rightarrow> send_email_command \<Rightarrow> notif_world \<Rightarrow> (notify_error + send_email_result) \<times> notif_world" where
  "guarded_send env d i cmd w =
     (case nb_execute_begin (ndBreaker d) (neClock env (nwTick w)) (nwBreaker w) of
        (Inl e, b) \<Rightarrow> (Inl (JsErr e), ntick (w\<lparr>nwBreaker := b\<rparr>))
      | (Inr _, b) \<Rightarrow>
          (case retryWithBackoff (provider_send env d i cmd) (ndBackoff d) isRetryableEmailError
                  (\<lambda>attempt. ntick) (ntick (w\<lparr>nwBreaker := b\<rparr>)) of
             (r, w) \<Rightarrow> (r, ntick (w\<lparr>nwBreaker := nb_settle (ndBreaker d) isRetryableEmailError
                                      (neClock env (nwTick w)) r (nwBreaker w)\<rparr>))))"

text \<open>The \<open>try\<close> block after the claim.\<close>

definition rate_check :: "notif_env \<Rightarrow> notif_deps \<Rightarrow> incoming_message \<Rightarrow> notif_world \<Rightarrow> rate_result option \<times> notif_world" where
  "rate_check env d m w =
     (case ndLimiter d of
        None \<Rightarrow> (None, w)
      | Some opt \<Rightarrow>
          (case check opt (neEval env (nwTick w)) (neClock env (nwTick w)) (neUuid env (nwTick w))
                  (buildRateLimitKey (neSha256 env) (ciRecipient (claim_of m)) (deEventType (imEvent m))) (nwZsets w) of
             (r, z) \<Rightarrow> (Some r, ntick (w\<lparr>nwZsets := z\<rparr>))))"

definition send_mail :: "notif_env \<Rightarrow> notif_deps \<Rightarrow> incoming_message \<Rightarrow> string \<Rightarrow> notif_world \<Rightarrow> (notify_error + process_result) \<times> notif_world" where
  "send_mail env d m i w =
     (let ev = imEvent m; entry = getEventRegistryEntry (deEventType ev); key = reTemplateKey entry in
      if \<not> isTemplateKey key then (Inl (JsErr (OtherError ''Error'' (''Unknown template key: '' @ key))), w)
      else case neRender env key (dePayload ev) of
        Inl e \<Rightarrow> (Inl (JsErr e), w)
      | Inr html \<Rightarrow>
          on_ok (guarded_send env d i \<lparr>seTo = reRecipient entry ev, seSubject = reSubject entry ev, seHtml = html\<rparr> w) (\<lambda>r w.
          on_ok (lift_err (markAsSent env i (srMessageId r) w)) (\<lambda>_ w.
          (Inr (Sent i), w))))"

definition process_claimed :: "notif_env \<Rightarrow> notif_deps \<Rightarrow> incoming_message \<Rightarrow> string \<Rightarrow> notif_world \<Rightarrow> (notify_error + process_result) \<times> notif_world" where
  "process_claimed env d m i w =
     (case rate_check env d m w of
        (Some r, w) \<Rightarrow>
          if \<not> rrAllowed r then
            lift_err (fail_log env d m i
              (''Rate limit exceeded. Retry after '' @ show_int (ceil_seconds (rrRetryAfterMs r)) @ ''s.'')
              ''Rate limit exceeded - max retries exhausted'' ''Rate limit exceeded'' w)
          else send_mail env d m i w
      | (None, w) \<Rightarrow> send_mail env d m i w)"

definition notification_processEvent :: "notif_env \<Rightarrow> notif_deps \<Rightarrow> incoming_message \<Rightarrow> process_result nw" where
  "notification_processEvent env d m w =
     (if \<not> isHandledDomainEvent (deEventType (imEvent m)) then (Inr SkippedUnhandled, w)
      else on_ok (claimNotification env (claim_of m) w) (\<lambda>c w.
        case c of
          Duplicate \<Rightarrow> (Inr SkippedDuplicate, w)
        | Claimed i \<Rightarrow>
            (case process_claimed env d m i w of
               (Inr r, w) \<Rightarrow> (Inr r, w)
             | (Inl e, w) \<Rightarrow> fail_log env d m i (notify_message e) (notify_message e) (notify_message e) w)))"

subsection \<open>The consumer\<close>

text \<open>The message value as text (\<open>raw\<close>) and as \<open>JSON.parse\<close> sees it. An exception makes kafkajs
  deliver the message again; otherwise it is acknowledged.\<close>

definition handleDomainEventMessage ::
    "zod_formats \<Rightarrow> (json option \<Rightarrow> string) \<Rightarrow> notif_env \<Rightarrow> notif_deps \<Rightarrow> subscribe_context \<Rightarrow> string \<Rightarrow>
       json js_text option \<Rightarrow> unit nw" where
  "handleDomainEventMessage fm details env d ctx raw value w =
     (case parseKafkaMessage fm details value (scHeaders ctx) of
        Inl e \<Rightarrow> (Inr (), routePoisonMessage env d
          (poison_params (scTopic ctx @ '':'' @ show_nat (scPartition ctx) @ '':'' @ scOffset ctx) raw
             (js_error_message e) (scTraceparent ctx) (header_correlation (scHeaders ctx))) w)
      | Inr m \<Rightarrow> on_ok (notification_processEvent env d m w) (\<lambda>_ w. (Inr (), w)))"

end
