(* ===== verification/Notification_Steps.thy ===== *)
theory Notification_Steps
  imports Notification_Pipeline
begin

text \<open>What each operation of the notification service changes, and the invariant of the log.\<close>

subsection \<open>Retries\<close>

text \<open>What a run of attempts posts: at most \<open>n\<close> requests, of which at most the last is accepted.\<close>

lemma retry_loop_posts:
  "case retry_loop (provider_send env d i cmd) isRetryableEmailError (\<lambda>a. ntick) a n w of
     (r, w') \<Rightarrow> \<exists>ps. nwPosts w' = nwPosts w @ ps \<and> length ps \<le> n \<and>
       (\<forall>p \<in> set ps. mpLogId p = i \<and> mpCommand p = cmd) \<and>
       length (filter mpAccepted ps) = (if is_ok r then 1 else 0) \<and>
       nwRows w' = nwRows w \<and> nwBus w' = nwBus w \<and> nwZsets w' = nwZsets w \<and> nwBreaker w' = nwBreaker w"
proof (induction n arbitrary: a w)
  case (Suc n)
  obtain r w1 where s: "provider_send env d i cmd w = (r, w1)" by force
  then have w1: "nwPosts w1 = nwPosts w @ [\<lparr>mpLogId = i, mpCommand = cmd, mpAccepted = is_ok r\<rparr>]"
    "nwRows w1 = nwRows w" "nwBus w1 = nwBus w" "nwZsets w1 = nwZsets w" "nwBreaker w1 = nwBreaker w"
    by (auto simp: provider_send_def Let_def ntick_def)
  show ?case
  proof (cases "is_ok r \<or> \<not> isRetryableEmailError (projl r) \<or> n = 0")
    case True
    then have "retry_loop (provider_send env d i cmd) isRetryableEmailError (\<lambda>a. ntick) a (Suc n) w = (r, w1)"
      using s by (cases r) auto
    then show ?thesis using w1 by simp
  next
    case False
    then obtain e where r: "r = Inl e" by (cases r) auto
    have nx: "retry_loop (provider_send env d i cmd) isRetryableEmailError (\<lambda>a. ntick) a (Suc n) w =
        retry_loop (provider_send env d i cmd) isRetryableEmailError (\<lambda>a. ntick) (a + 1) n (ntick w1)"
      using s False r by simp
    obtain r' w' where l: "retry_loop (provider_send env d i cmd) isRetryableEmailError (\<lambda>a. ntick) (a + 1) n (ntick w1) = (r', w')"
      by force
    then obtain ps where ps: "nwPosts w' = nwPosts (ntick w1) @ ps" "length ps \<le> n"
        "\<forall>p \<in> set ps. mpLogId p = i \<and> mpCommand p = cmd" "length (filter mpAccepted ps) = (if is_ok r' then 1 else 0)"
        "nwRows w' = nwRows (ntick w1)" "nwBus w' = nwBus (ntick w1)" "nwZsets w' = nwZsets (ntick w1)"
        "nwBreaker w' = nwBreaker (ntick w1)"
      using Suc.IH[where a = "a + 1" and w = "ntick w1"] by auto
    then show ?thesis unfolding nx l using w1 r
      by (intro case_prodI exI[of _ "\<lparr>mpLogId = i, mpCommand = cmd, mpAccepted = is_ok r\<rparr> # ps"]) (auto simp: ntick_def)
  qed
qed simp

lemma guarded_send_posts:
  assumes "guarded_send env d i cmd w = (r, w')"
  shows "\<exists>ps. nwPosts w' = nwPosts w @ ps \<and> length ps \<le> bkMaxAttempts (ndBackoff d) \<and>
    (\<forall>p \<in> set ps. mpLogId p = i \<and> mpCommand p = cmd) \<and>
    length (filter mpAccepted ps) = (if is_ok r then 1 else 0) \<and> nwRows w' = nwRows w \<and> nwBus w' = nwBus w"
proof (cases "nb_execute_begin (ndBreaker d) (neClock env (nwTick w)) (nwBreaker w)")
  case (Pair x b)
  show ?thesis
  proof (cases x)
    case (Inl e)
    then show ?thesis using assms Pair by (auto simp: guarded_send_def ntick_def)
  next
    case (Inr u)
    obtain r1 w1 where l: "retry_loop (provider_send env d i cmd) isRetryableEmailError (\<lambda>a. ntick) 0
        (bkMaxAttempts (ndBackoff d)) (ntick (w\<lparr>nwBreaker := b\<rparr>)) = (r1, w1)" by force
    have "r = r1" "nwPosts w' = nwPosts w1" "nwRows w' = nwRows w1" "nwBus w' = nwBus w1"
      using assms Pair Inr l by (auto simp: guarded_send_def retryWithBackoff_def ntick_def)
    then show ?thesis
      using retry_loop_posts[where env = env and d = d and i = i and cmd = cmd and a = 0 and n = "bkMaxAttempts (ndBackoff d)" and w = "ntick (w\<lparr>nwBreaker := b\<rparr>)"] l
      by (auto simp: ntick_def)
  qed
qed

subsection \<open>What the other operations change\<close>

text \<open>\<open>touches i w w'\<close>: nothing, or the row \<open>i\<close> was marked failed or dead.\<close>

definition marks_failed :: "(notification_log \<Rightarrow> notification_log) \<Rightarrow> bool" where
  "marks_failed f \<longleftrightarrow> (\<forall>r. nlStatus (f r) \<in> {LOG_FAILED, LOG_DLQ} \<and> nlId (f r) = nlId r \<and> nlEventId (f r) = nlEventId r)"

definition touches :: "string \<Rightarrow> notif_world \<Rightarrow> notif_world \<Rightarrow> bool" where
  "touches i w w' \<longleftrightarrow> nwPosts w' = nwPosts w \<and>
     (nwRows w' = nwRows w \<or> (\<exists>f. marks_failed f \<and> nwRows w' = update_where (\<lambda>r. nlId r = i) f (nwRows w)))"

lemma touches_refl [simp]: "touches i w w"
  by (simp add: touches_def)

lemma touches_trans:
  assumes "touches i w w1" "touches i w1 w2"
  shows "touches i w w2"
proof -
  have c: "update_where (\<lambda>r. nlId r = i) g (update_where (\<lambda>r. nlId r = i) f xs) =
      update_where (\<lambda>r. nlId r = i) (g \<circ> f) xs" if "marks_failed f" for f g xs
    using that by (simp add: update_where_def marks_failed_def comp_def)
  have m: "marks_failed (g \<circ> f)" if "marks_failed f" "marks_failed g" for f g
    using that by (simp add: marks_failed_def)
  show ?thesis using assms c m unfolding touches_def by metis
qed

lemma touches_tick [simp]: "touches i w (ntick w)"
  by (simp add: touches_def ntick_def)

lemma touches_update:
  assumes "update_log env i f w = (r, w')" "marks_failed f"
  shows "touches i w w'"
  using assms by (auto simp: update_log_def ndb_def touches_def ntick_def split: option.splits if_splits)

lemma touches_markAsFailed:
  assumes "markAsFailed env i msg opt w = (r, w')"
  shows "touches i w w'"
proof (cases "neDb env (nwTick w)")
  case None
  define now where "now = neClock env (nwTick (ntick w))"
  define f :: "notification_log \<Rightarrow> notification_log" where "f = (\<lambda>r. r\<lparr>nlStatus := LOG_FAILED, nlLastError := Some msg, nlLastAttemptAt := Some now,
    nlNextRetryAt := Some (now + int (jitter_backoff (neRandom env (nwTick (ntick w)))
      ((case find_log (\<lambda>r. nlId r = i) (ntick w) of None \<Rightarrow> 0 | Some r \<Rightarrow> nlAttemptCount r) + 1) opt)),
    nlAttemptCount := nlAttemptCount r + 1\<rparr>)"
  obtain x w1 where u: "update_log env i f (ntick w) = (x, w1)" by force
  have "w' = w1" using assms None u
    by (cases x) (auto simp: markAsFailed_def ndb_def Let_def f_def now_def split: option.splits)
  moreover have "touches i (ntick w) w1" by (rule touches_update[OF u]) (simp add: f_def marks_failed_def)
  ultimately show ?thesis using touches_trans[OF touches_tick] by blast
next
  case (Some m)
  then show ?thesis using assms by (auto simp: markAsFailed_def ndb_def)
qed

lemma notif_dead_letter_same [simp]:
  "nwPosts (notif_dead_letter env p w) = nwPosts w" "nwRows (notif_dead_letter env p w) = nwRows w"
  by (simp_all add: notif_dead_letter_def notif_publish_def ntick_def split: prod.splits)

lemma touches_routeToDlq:
  assumes "routeToDlq env d q w = (r, w')" "i = dqLogId q"
  shows "touches i w w'"
proof -
  let ?f = "\<lambda>r. r\<lparr>nlStatus := LOG_DLQ, nlLastError := Some (dqFailureReason q)\<rparr>"
  obtain x w1 where u: "update_log env i ?f w = (x, w1)" by force
  have t: "touches i w w1" by (rule touches_update[OF u]) (simp add: marks_failed_def)
  have "touches i w1 w'" using assms u
    by (cases x) (auto simp: routeToDlq_def touches_def)
  then show ?thesis using t touches_trans by blast
qed

lemma touches_fail_log:
  assumes "fail_log env d m i a b c w = (r, w')"
  shows "touches i w w'"
proof -
  obtain x w1 where m: "markAsFailed env i a (ndBackoff d) w = (x, w1)" by force
  have t: "touches i w w1" by (rule touches_markAsFailed[OF m])
  show ?thesis
  proof (cases x)
    case (Inl e)
    then show ?thesis using assms m t by (simp add: fail_log_def)
  next
    case (Inr y)
    obtain n mx where y: "y = (n, mx)" by (cases y)
    let ?q = "\<lparr>dqLogId = i, dqEventId = deAggregateId (imEvent m), dqEventType = deEventType (imEvent m),
              dqPayloadText = neText env (event_json (imEvent m)), dqFailureReason = b,
              dqTraceparent = imTraceparent m, dqCorrelationId = Some (imCorrelationId m)\<rparr>"
    obtain z w2 where q: "routeToDlq env d ?q w1 = (z, w2)" by force
    have "touches i w1 w2" by (rule touches_routeToDlq[OF q]) simp
    then have "touches i w w2" using t touches_trans by blast
    then show ?thesis using assms m Inr y q t
      by (cases z) (auto simp: fail_log_def Let_def split: if_splits)
  qed
qed

subsection \<open>One message\<close>

text \<open>An environment in which the database answers and the provider's ids are text.\<close>

definition healthy :: "notif_env \<Rightarrow> notif_deps \<Rightarrow> bool" where
  "healthy env d \<longleftrightarrow> (\<forall>n. neDb env n = None) \<and>
     (\<forall>n v. provider_result (neText env) (ndTimeoutMs d) (neFetch env n) = Inr v \<longrightarrow> (\<exists>s. srMessageId v = JStr s))"

definition mark_sent :: "string \<Rightarrow> time \<Rightarrow> notification_log \<Rightarrow> notification_log" where
  "mark_sent m now r = r\<lparr>nlStatus := LOG_SENT, nlProviderMessageId := Some m,
     nlProcessedAt := Some now, nlLastAttemptAt := Some now\<rparr>"

definition posted :: "string \<Rightarrow> mail_post list \<Rightarrow> notif_world \<Rightarrow> notif_world \<Rightarrow> bool" where
  "posted i ps w w' \<longleftrightarrow> nwPosts w' = nwPosts w @ ps \<and> (\<forall>p \<in> set ps. mpLogId p = i) \<and> nwRows w' = nwRows w"

definition mails :: "mail_post list \<Rightarrow> nat" where
  "mails ps = length (filter mpAccepted ps)"

lemma markAsSent_text:
  "markAsSent env i (JStr m) w = update_log env i (mark_sent m (neClock env (nwTick w))) w"
  by (simp add: markAsSent_def mark_sent_def[abs_def] Let_def)

lemma markAsSent_cases:
  assumes "markAsSent env i v w = (r, w')"
  shows "nwPosts w' = nwPosts w \<and> (case r of
     Inr _ \<Rightarrow> \<exists>m now. nwRows w' = update_where (\<lambda>r. nlId r = i) (mark_sent m now) (nwRows w)
   | Inl _ \<Rightarrow> nwRows w' = nwRows w)"
  using assms
proof (cases "\<exists>m. v = JStr m")
  case True
  then obtain m where v: "v = JStr m" by blast
  show ?thesis using assms
    by (auto simp: v markAsSent_text update_log_def ndb_def ntick_def split: option.splits if_splits
        intro!: exI[of _ m] exI[of _ "neClock env (nwTick w)"])
next
  case False
  then show ?thesis using assms by (cases v) (auto simp: markAsSent_def Let_def ntick_def)
qed

lemma markAsSent_healthy:
  assumes "healthy env d" "v = JStr m" "i \<in> nlId ` set (nwRows w)"
  shows "is_ok (fst (markAsSent env i v w))"
  using assms by (simp add: markAsSent_text update_log_def ndb_def healthy_def ntick_def)

lemma guarded_send_text:
  assumes "healthy env d" "guarded_send env d i cmd w = (Inr v, w')"
  shows "\<exists>m. srMessageId v = JStr m"
proof -
  have loop: "\<exists>m. srMessageId x = JStr m"
    if "retry_loop (provider_send env d i cmd) isRetryableEmailError (\<lambda>a. ntick) a n w = (Inr x, w')" for a n w w' x
    using that
  proof (induction n arbitrary: a w)
    case (Suc n)
    then show ?case using assms(1)
      by (auto simp: provider_send_def Let_def healthy_def split: sum.splits if_splits)
  qed simp
  show ?thesis using assms(2) loop
    by (auto simp: guarded_send_def retryWithBackoff_def split: prod.splits sum.splits)
qed

lemma send_mail_cases:
  assumes "send_mail env d m i w = (r, w')"
  shows "\<exists>ps w2. posted i ps w w2 \<and> length ps \<le> bkMaxAttempts (ndBackoff d) \<and>
    (r = Inr (Sent i) \<and> mails ps = 1 \<and> nwPosts w' = nwPosts w2 \<and>
       (\<exists>t now. nwRows w' = update_where (\<lambda>r. nlId r = i) (mark_sent t now) (nwRows w)) \<or>
     \<not> is_ok r \<and> touches i w2 w' \<and> mails ps \<le> 1 \<and>
       (healthy env d \<and> i \<in> nlId ` set (nwRows w) \<longrightarrow> mails ps = 0))"
proof -
  let ?ev = "imEvent m"
  let ?entry = "getEventRegistryEntry (deEventType ?ev)"
  have none: "posted i [] w w" by (simp add: posted_def)
  show ?thesis
  proof (cases "isTemplateKey (reTemplateKey ?entry) \<and> is_ok (neRender env (reTemplateKey ?entry) (dePayload ?ev))")
    case False
    then have "w' = w" "\<not> is_ok r" using assms by (auto simp: send_mail_def Let_def split: if_splits sum.splits)
    then show ?thesis using none by (intro exI[of _ "[]"] exI[of _ w]) (simp add: mails_def)
  next
    case True
    then obtain html where html: "neRender env (reTemplateKey ?entry) (dePayload ?ev) = Inr html"
      by (auto simp: is_ok_iff)
    let ?cmd = "\<lparr>seTo = reRecipient ?entry ?ev, seSubject = reSubject ?entry ?ev, seHtml = html\<rparr>"
    obtain x w2 where g: "guarded_send env d i ?cmd w = (x, w2)" by force
    obtain ps where ps: "nwPosts w2 = nwPosts w @ ps" "length ps \<le> bkMaxAttempts (ndBackoff d)"
        "\<forall>p \<in> set ps. mpLogId p = i \<and> mpCommand p = ?cmd" "mails ps = (if is_ok x then 1 else 0)"
        "nwRows w2 = nwRows w" using guarded_send_posts[OF g] by (auto simp: mails_def)
    have P: "posted i ps w w2" using ps by (simp add: posted_def)
    show ?thesis
    proof (cases x)
      case (Inl e)
      then have "r = Inl e" "w' = w2" using assms True html g by (auto simp: send_mail_def Let_def)
      then show ?thesis using P ps Inl by (intro exI[of _ ps] exI[of _ w2]) simp
    next
      case (Inr v)
      obtain y w3 where ms: "markAsSent env i (srMessageId v) w2 = (y, w3)" by force
      note M = markAsSent_cases[OF ms]
      have run: "(r, w') = (case y of Inl e \<Rightarrow> (Inl (JsErr e), w3) | Inr _ \<Rightarrow> (Inr (Sent i), w3))"
        using assms True html g Inr ms by (cases y) (simp_all add: send_mail_def Let_def lift_err_def)
      show ?thesis
      proof (cases y)
        case (Inl e)
        have "\<not> (healthy env d \<and> i \<in> nlId ` set (nwRows w))"
          using guarded_send_text[OF _ g[unfolded Inr]] markAsSent_healthy[of env d "srMessageId v" _ i w2] ms Inl ps(5) by auto
        moreover have "touches i w2 w'" using M run Inl by (simp add: touches_def)
        ultimately show ?thesis using P ps run Inl \<open>x = Inr v\<close> by (intro exI[of _ ps] exI[of _ w2]) auto
      next
        case (Inr u)
        then show ?thesis using P ps run M \<open>x = Inr v\<close> by (intro exI[of _ ps] exI[of _ w2]) simp
      qed
    qed
  qed
qed

lemma rate_check_same:
  "rate_check env d m w = (r, w') \<Longrightarrow> nwPosts w' = nwPosts w \<and> nwRows w' = nwRows w \<and> nwBus w' = nwBus w"
  by (auto simp: rate_check_def ntick_def split: option.splits prod.splits)

text \<open>What may come of a claimed message: the mail went out and the row is \<open>SENT\<close>, or the row was
  at most marked failed.\<close>

definition attempted ::
    "notif_env \<Rightarrow> notif_deps \<Rightarrow> string \<Rightarrow> bool \<Rightarrow> notif_world \<Rightarrow> notif_world \<Rightarrow> bool" where
  "attempted env d i sent w w' \<longleftrightarrow> (\<exists>ps w2. posted i ps w w2 \<and> length ps \<le> bkMaxAttempts (ndBackoff d) \<and>
     (if sent then mails ps = 1 \<and> nwPosts w' = nwPosts w2 \<and>
        (\<exists>t now. nwRows w' = update_where (\<lambda>r. nlId r = i) (mark_sent t now) (nwRows w))
      else touches i w2 w' \<and> mails ps \<le> 1 \<and> (healthy env d \<and> i \<in> nlId ` set (nwRows w) \<longrightarrow> mails ps = 0)))"

lemma attempted_touch: "touches i w w' \<Longrightarrow> attempted env d i False w w'"
  unfolding attempted_def posted_def mails_def by (intro exI[of _ "[]"] exI[of _ w]) simp

lemma attempted_more:
  assumes "attempted env d i False w w1" "touches i w1 w2"
  shows "attempted env d i False w w2"
proof -
  obtain ps u where u: "posted i ps w u" "length ps \<le> bkMaxAttempts (ndBackoff d)" "touches i u w1" "mails ps \<le> 1"
      "healthy env d \<and> i \<in> nlId ` set (nwRows w) \<longrightarrow> mails ps = 0"
    using assms(1) unfolding attempted_def by (simp only: if_False) blast
  have "touches i u w2" by (rule touches_trans[OF u(3) assms(2)])
  then show ?thesis unfolding attempted_def using u by (simp only: if_False) blast
qed

lemma process_claimed_cases:
  assumes "process_claimed env d m i w = (r, w')"
  shows "attempted env d i (r = Inr (Sent i)) w w'"
proof -
  obtain q w1 where rc: "rate_check env d m w = (q, w1)" by force
  note S = rate_check_same[OF rc]
  have t: "touches i w w1" using S by (simp add: touches_def)
  show ?thesis
  proof (cases "\<exists>l. q = Some l \<and> \<not> rrAllowed l")
    case True
    then obtain l where l: "q = Some l" "\<not> rrAllowed l" by blast
    obtain x w2 where f: "fail_log env d m i
        (''Rate limit exceeded. Retry after '' @ show_int (ceil_seconds (rrRetryAfterMs l)) @ ''s.'')
        ''Rate limit exceeded - max retries exhausted'' ''Rate limit exceeded'' w1 = (x, w2)" by force
    have "w' = w2" "r \<noteq> Inr (Sent i)" using assms rc l f
      by (auto simp: process_claimed_def lift_err_def fail_log_def Let_def on_ok_Inr_iff split: sum.splits prod.splits)
    then show ?thesis using touches_trans[OF t touches_fail_log[OF f]] attempted_touch by simp
  next
    case False
    then have run: "send_mail env d m i w1 = (r, w')" using assms rc
      by (auto simp: process_claimed_def split: option.splits if_splits)
    obtain ps w2 where ps: "posted i ps w1 w2" "length ps \<le> bkMaxAttempts (ndBackoff d)"
      "r = Inr (Sent i) \<and> mails ps = 1 \<and> nwPosts w' = nwPosts w2 \<and>
         (\<exists>t now. nwRows w' = update_where (\<lambda>r. nlId r = i) (mark_sent t now) (nwRows w1)) \<or>
       \<not> is_ok r \<and> touches i w2 w' \<and> mails ps \<le> 1 \<and>
         (healthy env d \<and> i \<in> nlId ` set (nwRows w1) \<longrightarrow> mails ps = 0)"
      using send_mail_cases[OF run] by blast
    have "posted i ps w w2" using ps(1) S by (simp add: posted_def)
    then show ?thesis unfolding attempted_def
      using ps(2,3) S by (intro exI[of _ ps] exI[of _ w2]) auto
  qed
qed

definition claimed :: "string \<Rightarrow> string \<Rightarrow> notif_world \<Rightarrow> notif_world \<Rightarrow> bool" where
  "claimed i agg w w1 \<longleftrightarrow> nwPosts w1 = nwPosts w \<and> nwBus w1 = nwBus w \<and>
     ((\<exists>r. nwRows w1 = nwRows w @ [r] \<and> nlId r = i \<and> nlEventId r = agg \<and> nlStatus r = LOG_PENDING \<and>
         nlAttemptCount r = 0 \<and> nlMaxRetries r = 3 \<and>
         i \<notin> nlId ` set (nwRows w) \<and> agg \<notin> nlEventId ` set (nwRows w)) \<or>
      (nwRows w1 = nwRows w \<and> (\<exists>r \<in> set (nwRows w). nlId r = i \<and> nlEventId r = agg \<and>
         nlStatus r \<noteq> LOG_SENT \<and> nlStatus r \<noteq> LOG_DLQ)))"

lemma create_log_cases:
  assumes "create_log env c w = (r, w')"
  shows "(case r of Inr i \<Rightarrow> claimed i (ciEventId c) w w'
    | Inl e \<Rightarrow> nwRows w' = nwRows w \<and> nwPosts w' = nwPosts w \<and> nwBus w' = nwBus w)"
  using assms
  by (auto simp: create_log_def ndb_def Let_def ntick_def claimed_def claim_row_def split: option.splits if_splits)

lemma claim_cases:
  assumes "claimNotification env c w = (r, w')"
  shows "case r of Inr (Claimed i) \<Rightarrow> claimed i (ciEventId c) w w'
    | _ \<Rightarrow> nwRows w' = nwRows w \<and> nwPosts w' = nwPosts w \<and> nwBus w' = nwBus w"
proof -
  obtain x w1 where c: "create_log env c w = (x, w1)" by force
  note C = create_log_cases[OF c]
  show ?thesis
  proof (cases x)
    case (Inr i)
    then show ?thesis using assms c C by (auto simp: claimNotification_def)
  next
    case (Inl e)
    then have same: "nwRows w1 = nwRows w" "nwPosts w1 = nwPosts w" "nwBus w1 = nwBus w" using C by auto
    show ?thesis
    proof (cases "isUniqueConstraintViolation e \<and> neDb env (nwTick w1) = None")
      case False
      then show ?thesis using assms c Inl same
        by (auto simp: claimNotification_def ndb_def ntick_def split: if_splits option.splits)
    next
      case True
      have f: "find_log p (ntick w1) = find p (nwRows w)" for p by (simp add: find_log_def ntick_def same)
      show ?thesis
      proof (cases "find (\<lambda>r. nlEventId r = ciEventId c) (nwRows w)")
        case None
        then show ?thesis using assms c Inl same True f
          by (auto simp: claimNotification_def ndb_def ntick_def find_log_def)
      next
        case (Some l)
        then have l: "l \<in> set (nwRows w)" "nlEventId l = ciEventId c" by (auto dest: find_Some_set)
        have "claimed (nlId l) (ciEventId c) w (ntick w1)" if "nlStatus l \<noteq> LOG_SENT" "nlStatus l \<noteq> LOG_DLQ"
          using that l same by (auto simp: claimed_def ntick_def)
        then show ?thesis using assms c Inl same True f Some
          by (auto simp: claimNotification_def ndb_def ntick_def split: if_splits)
      qed
    qed
  qed
qed

lemma processEvent_cases:
  assumes "notification_processEvent env d m w = (r, w')"
  shows "nwRows w' = nwRows w \<and> nwPosts w' = nwPosts w \<and> nwBus w' = nwBus w \<or>
    (\<exists>i w1 sent. claimed i (deAggregateId (imEvent m)) w w1 \<and> attempted env d i sent w1 w')"
proof (cases "isHandledDomainEvent (deEventType (imEvent m))")
  case False
  then show ?thesis using assms by (simp add: notification_processEvent_def)
next
  case True
  have agg: "ciEventId (claim_of m) = deAggregateId (imEvent m)" by (simp add: claim_of_def Let_def)
  obtain c w1 where cl: "claimNotification env (claim_of m) w = (c, w1)" by force
  note C = claim_cases[OF cl, unfolded agg]
  show ?thesis
  proof (cases "\<exists>i. c = Inr (Claimed i)")
    case False
    then have "nwRows w1 = nwRows w \<and> nwPosts w1 = nwPosts w \<and> nwBus w1 = nwBus w"
      using C by (auto split: sum.splits idempotency_result.splits)
    moreover have "w' = w1" using assms cl True False
      by (auto simp: notification_processEvent_def split: sum.splits idempotency_result.splits)
        (cases c; auto split: idempotency_result.splits)
    ultimately show ?thesis by simp
  next
    case True2: True
    then obtain i where i: "c = Inr (Claimed i)" by blast
    then have cm: "claimed i (deAggregateId (imEvent m)) w w1" using C by simp
    obtain q w2 where pc: "process_claimed env d m i w1 = (q, w2)" by force
    note P = process_claimed_cases[OF pc]
    show ?thesis
    proof (cases q)
      case (Inr y)
      then have "w' = w2" using assms cl True i pc by (simp add: notification_processEvent_def)
      then show ?thesis using cm P by blast
    next
      case (Inl e)
      then have f: "fail_log env d m i (notify_message e) (notify_message e) (notify_message e) w2 = (r, w')"
        using assms cl True i pc by (simp add: notification_processEvent_def)
      have "attempted env d i False w1 w'" using attempted_more[OF _ touches_fail_log[OF f]] P Inl by simp
      then show ?thesis using cm by blast
    qed
  qed
qed

subsection \<open>The invariant of the log\<close>

text \<open>The mails the provider accepted for a row.\<close>

definition mails_of :: "string \<Rightarrow> notif_world \<Rightarrow> nat" where
  "mails_of i w = mails (filter (\<lambda>p. mpLogId p = i) (nwPosts w))"

definition mail_inv :: "bool \<Rightarrow> notif_world \<Rightarrow> bool" where
  "mail_inv strict w \<longleftrightarrow> distinct (map nlId (nwRows w)) \<and> distinct (map nlEventId (nwRows w)) \<and>
     (\<forall>p \<in> set (nwPosts w). mpLogId p \<in> nlId ` set (nwRows w)) \<and>
     (\<forall>r \<in> set (nwRows w). (nlStatus r = LOG_SENT \<longrightarrow> 1 \<le> mails_of (nlId r) w) \<and>
        (strict \<longrightarrow> mails_of (nlId r) w = (if nlStatus r = LOG_SENT then 1 else 0)))"

lemmas mail_inv_ids = mail_inv_def[THEN iffD1, THEN conjunct1]
lemmas mail_inv_events = mail_inv_def[THEN iffD1, THEN conjunct2, THEN conjunct1]
lemmas mail_inv_posts = mail_inv_def[THEN iffD1, THEN conjunct2, THEN conjunct2, THEN conjunct1, THEN bspec]
lemmas mail_inv_rows = mail_inv_def[THEN iffD1, THEN conjunct2, THEN conjunct2, THEN conjunct2, THEN bspec]

lemma mails_of_none:
  assumes "mail_inv strict w" "i \<notin> nlId ` set (nwRows w)"
  shows "mails_of i w = 0"
proof -
  have "filter (\<lambda>p. mpLogId p = i) (nwPosts w) = []"
    using assms by (auto simp: mail_inv_def filter_empty_conv)
  then show ?thesis by (simp add: mails_of_def mails_def)
qed

lemma mails_of_posted:
  assumes "posted i ps w w'"
  shows "mails_of j w' = mails_of j w + (if j = i then mails ps else 0)"
proof -
  have "filter (\<lambda>p. mpLogId p = j) ps = (if j = i then ps else [])"
  proof (cases "j = i")
    case True
    then show ?thesis using assms by (simp add: posted_def)
  next
    case False
    then have "filter (\<lambda>p. mpLogId p = j) ps = []" using assms by (auto simp: posted_def filter_empty_conv)
    then show ?thesis using False by simp
  qed
  then show ?thesis using assms by (simp add: posted_def mails_of_def mails_def)
qed

lemma row_status_unique:
  assumes "distinct (map nlId rs)" "r \<in> set rs" "r' \<in> set rs" "nlId r = nlId r'"
  shows "r = r'"
  using assms by (auto simp: distinct_map inj_on_def)

lemma claimed_inv:
  assumes "claimed i agg w w1" "mail_inv strict w"
  shows "mail_inv strict w1 \<and> (\<exists>r \<in> set (nwRows w1). nlId r = i \<and> nlStatus r \<noteq> LOG_SENT)"
proof -
  have posts: "nwPosts w1 = nwPosts w" using assms(1) by (simp add: claimed_def)
  then have mo: "mails_of j w1 = mails_of j w" for j by (simp add: mails_of_def)
  from assms(1) consider (new) r where "nwRows w1 = nwRows w @ [r]" "nlId r = i" "nlEventId r = agg"
      "nlStatus r = LOG_PENDING" "i \<notin> nlId ` set (nwRows w)" "agg \<notin> nlEventId ` set (nwRows w)"
    | (old) r where "nwRows w1 = nwRows w" "r \<in> set (nwRows w)" "nlId r = i" "nlStatus r \<noteq> LOG_SENT"
    unfolding claimed_def by blast
  then show ?thesis
  proof cases
    case new
    have z: "mails_of i w = 0" by (rule mails_of_none[OF assms(2) new(5)])
    have sub: "nlId ` set (nwRows w) \<subseteq> nlId ` set (nwRows w1)" using new(1) by auto
    note d = mail_inv_ids[OF assms(2)] mail_inv_events[OF assms(2)]
    have "distinct (map nlId (nwRows w1))" unfolding new(1) using d(1) new(2,5) by simp
    moreover have "distinct (map nlEventId (nwRows w1))" unfolding new(1) using d(2) new(3,6) by simp
    moreover have "\<forall>p \<in> set (nwPosts w1). mpLogId p \<in> nlId ` set (nwRows w1)"
      using mail_inv_posts[OF assms(2)] posts sub by (simp add: subset_iff)
    moreover have "\<forall>x \<in> set (nwRows w1). (nlStatus x = LOG_SENT \<longrightarrow> 1 \<le> mails_of (nlId x) w1) \<and>
        (strict \<longrightarrow> mails_of (nlId x) w1 = (if nlStatus x = LOG_SENT then 1 else 0))"
    proof
      fix x assume "x \<in> set (nwRows w1)"
      then consider "x = r" | "x \<in> set (nwRows w)" unfolding new(1) by auto
      then show "(nlStatus x = LOG_SENT \<longrightarrow> 1 \<le> mails_of (nlId x) w1) \<and>
        (strict \<longrightarrow> mails_of (nlId x) w1 = (if nlStatus x = LOG_SENT then 1 else 0))"
      proof cases
        case 1
        then show ?thesis using new(2,4) z mo by simp
      next
        case 2
        then show ?thesis using mail_inv_rows[OF assms(2) 2] mo by simp
      qed
    qed
    ultimately have "mail_inv strict w1" unfolding mail_inv_def by (intro conjI)
    then show ?thesis using new(1,2,4) by auto
  next
    case old
    have "mail_inv strict w1" using assms(2) unfolding mail_inv_def posts old(1) mo .
    then show ?thesis using old by auto
  qed
qed

lemma mail_inv_update:
  assumes inv: "mail_inv strict w" and i: "r0 \<in> set (nwRows w)" "nlId r0 = i" "nlStatus r0 \<noteq> LOG_SENT"
    and P: "posted i ps w w2" and posts: "nwPosts w' = nwPosts w2"
    and rows: "nwRows w' = update_where (\<lambda>r. nlId r = i) f (nwRows w)"
    and f: "\<And>r. nlId (f r) = nlId r \<and> nlEventId (f r) = nlEventId r"
    and ok: "\<And>r. (nlStatus (f r) = LOG_SENT \<longrightarrow> 1 \<le> mails ps) \<and>
      (strict \<longrightarrow> mails ps = (if nlStatus (f r) = LOG_SENT then 1 else 0))"
  shows "mail_inv strict w'"
proof -
  have D: "distinct (map nlId (nwRows w))" using inv by (simp add: mail_inv_def)
  have ids: "map nlId (nwRows w') = map nlId (nwRows w)" "map nlEventId (nwRows w') = map nlEventId (nwRows w)"
    unfolding rows using f by (auto intro!: map_update_where_same)
  then have idset: "nlId ` set (nwRows w') = nlId ` set (nwRows w)" by (metis image_set)
  have mo: "mails_of j w' = mails_of j w + (if j = i then mails ps else 0)" for j
    using mails_of_posted[OF P, of j] posts by (simp add: mails_of_def)
  have p: "mpLogId p \<in> nlId ` set (nwRows w')" if "p \<in> set (nwPosts w')" for p
    using that inv i P posts idset by (auto simp: mail_inv_def posted_def)
  have "(nlStatus r = LOG_SENT \<longrightarrow> 1 \<le> mails_of (nlId r) w') \<and>
      (strict \<longrightarrow> mails_of (nlId r) w' = (if nlStatus r = LOG_SENT then 1 else 0))" if "r \<in> set (nwRows w')" for r
  proof -
    from that[unfolded rows set_update_where] consider (same) "r \<in> set (nwRows w)" "nlId r \<noteq> i"
      | (upd) x where "x \<in> set (nwRows w)" "nlId x = i" "r = f x" by blast
    then show ?thesis
    proof cases
      case same
      then show ?thesis using inv mo[of "nlId r"] by (auto simp: mail_inv_def)
    next
      case upd
      then have "x = r0" using row_status_unique[OF D] i by blast
      then have "strict \<longrightarrow> mails_of i w = 0" using inv i by (auto simp: mail_inv_def)
      then show ?thesis using mo[of i] ok[of x] f[of x] upd by auto
    qed
  qed
  then show ?thesis using inv ids p unfolding mail_inv_def by simp
qed

lemma attempted_inv:
  assumes a: "attempted env d i sent w w'" and inv: "mail_inv strict w" and h: "strict \<longrightarrow> healthy env d"
    and r0: "r0 \<in> set (nwRows w)" "nlId r0 = i" "nlStatus r0 \<noteq> LOG_SENT"
  shows "mail_inv strict w'"
proof -
  obtain ps w2 where ps: "posted i ps w w2"
    "if sent then mails ps = 1 \<and> nwPosts w' = nwPosts w2 \<and>
        (\<exists>t now. nwRows w' = update_where (\<lambda>r. nlId r = i) (mark_sent t now) (nwRows w))
      else touches i w2 w' \<and> mails ps \<le> 1 \<and> (healthy env d \<and> i \<in> nlId ` set (nwRows w) \<longrightarrow> mails ps = 0)"
    using a unfolding attempted_def by blast
  show ?thesis
  proof (cases sent)
    case True
    then obtain t now where u: "nwRows w' = update_where (\<lambda>r. nlId r = i) (mark_sent t now) (nwRows w)"
      "mails ps = 1" "nwPosts w' = nwPosts w2" using ps(2) by auto
    show ?thesis by (rule mail_inv_update[OF inv r0 ps(1) u(3) u(1)]) (use u(2) in \<open>simp_all add: mark_sent_def\<close>)
  next
    case False
    then have t: "touches i w2 w'" "strict \<longrightarrow> mails ps = 0" using ps(2) h r0 by auto
    have rows: "nwRows w2 = nwRows w" using ps(1) by (simp add: posted_def)
    from t(1) rows consider "nwRows w' = nwRows w" "nwPosts w' = nwPosts w2"
      | f where "marks_failed f" "nwRows w' = update_where (\<lambda>r. nlId r = i) f (nwRows w)" "nwPosts w' = nwPosts w2"
      unfolding touches_def by auto
    then show ?thesis
    proof cases
      case 1
      have mo: "mails_of j w' = mails_of j w + (if j = i then mails ps else 0)" for j
        using mails_of_posted[OF ps(1), of j] 1 by (simp add: mails_of_def)
      have "mpLogId p \<in> nlId ` set (nwRows w)" if "p \<in> set (nwPosts w')" for p
        using that inv r0 ps(1) 1 by (auto simp: mail_inv_def posted_def)
      then show ?thesis using inv 1(1) mo t(2) unfolding mail_inv_def by (auto split: if_splits)
    next
      case 2
      have "nlStatus (f r) \<noteq> LOG_SENT" for r
      proof -
        have "nlStatus (f r) \<in> {LOG_FAILED, LOG_DLQ}" using 2(1) unfolding marks_failed_def by blast
        then show ?thesis by auto
      qed
      then show ?thesis using 2(1) t(2)
        by (intro mail_inv_update[OF inv r0 ps(1) 2(3) 2(2)]) (simp_all add: marks_failed_def)
    qed
  qed
qed

lemma processEvent_inv:
  assumes "notification_processEvent env d m w = (r, w')" "mail_inv strict w" "strict \<longrightarrow> healthy env d"
  shows "mail_inv strict w'"
  using processEvent_cases[OF assms(1)]
proof (elim disjE exE conjE)
  assume "nwRows w' = nwRows w" "nwPosts w' = nwPosts w"
  then show ?thesis using assms(2) by (simp add: mail_inv_def mails_of_def)
next
  fix i w1 sent assume c: "claimed i (deAggregateId (imEvent m)) w w1" and a: "attempted env d i sent w1 w'"
  obtain r0 where "mail_inv strict w1" "r0 \<in> set (nwRows w1)" "nlId r0 = i" "nlStatus r0 \<noteq> LOG_SENT"
    using claimed_inv[OF c assms(2)] by blast
  then show ?thesis using attempted_inv[OF a _ assms(3)] by blast
qed

lemma handle_inv:
  assumes "mail_inv strict w" "strict \<longrightarrow> healthy env d"
  shows "mail_inv strict (snd (handleDomainEventMessage fm details env d ctx raw value w))"
proof (cases "parseKafkaMessage fm details value (scHeaders ctx)")
  case (Inl e)
  then show ?thesis using assms(1)
    by (simp add: handleDomainEventMessage_def routePoisonMessage_def mail_inv_def mails_of_def)
next
  case (Inr m)
  obtain r w' where "notification_processEvent env d m w = (r, w')" by force
  then show ?thesis using processEvent_inv[OF _ assms] Inr by (cases r) (auto simp: handleDomainEventMessage_def)
qed

end
