(* ===== verification/Notification_Claims.thy ===== *)
theory Notification_Claims
  imports Notification_Steps
begin

text \<open>Properties of the notification service.\<close>

subsection \<open>Any sequence of deliveries\<close>

text \<open>The messages as they are delivered, redeliveries included, each in its own environment.\<close>

fun deliver_all ::
    "zod_formats \<Rightarrow> (json option \<Rightarrow> string) \<Rightarrow> notif_deps \<Rightarrow>
       (notif_env \<times> subscribe_context \<times> string \<times> json js_text option) list \<Rightarrow> notif_world \<Rightarrow> notif_world" where
  "deliver_all fm details d [] w = w"
| "deliver_all fm details d ((env, ctx, raw, value) # ds) w =
     deliver_all fm details d ds (snd (handleDomainEventMessage fm details env d ctx raw value w))"

lemma deliver_all_inv:
  "mail_inv strict w \<Longrightarrow> strict \<longrightarrow> (\<forall>x \<in> set ds. healthy (fst x) d) \<Longrightarrow> mail_inv strict (deliver_all fm details d ds w)"
  by (induction fm details d ds w rule: deliver_all.induct) (simp_all add: handle_inv)

lemma mail_inv_start: "nwRows w = [] \<Longrightarrow> nwPosts w = [] \<Longrightarrow> mail_inv strict w"
  by (simp add: mail_inv_def)


definition mail_formats :: zod_formats where
  "mail_formats = \<lparr>isUuid = \<lambda>s. True, isEmail = \<lambda>s. True, isDatetime = \<lambda>s. True\<rparr>"

definition demo_notif_env :: notif_env where
  "demo_notif_env = \<lparr>neClock = (\<lambda>n. int n), neDb = (\<lambda>n. None), neEval = (\<lambda>n. EvalOk),
     neFetch = (\<lambda>n. FetchAnswers 200 '''' (Some (JObj [(''id'', JStr ''m1'')]))), neRandom = (\<lambda>n. 0),
     neUuid = (\<lambda>n. ''n1''), neConn = (\<lambda>n. None), neSend = (\<lambda>n. SendOk), neRender = (\<lambda>k v. Inr ''html''),
     neText = (\<lambda>v. ''''), neSha256 = (\<lambda>s. s)\<rparr>"

definition demo_deps :: notif_deps where
  "demo_deps = \<lparr>ndLimiter = None, ndBreaker = \<lparr>nbThreshold = 5, nbResetMs = 30000\<rparr>,
     ndBackoff = \<lparr>bkBaseDelayMs = 1000, bkMaxDelayMs = 30000, bkMaxAttempts = 3\<rparr>, ndTimeoutMs = 10000,
     ndBusConfigured = True\<rparr>"

definition empty_notif :: notif_world where
  "empty_notif = \<lparr>nwRows = [], nwZsets = (\<lambda>k. None), nwBreaker = nb_new, nwBus = createEventBus, nwPosts = [],
     nwTick = 0\<rparr>"

definition demo_ctx :: subscribe_context where
  "demo_ctx = \<lparr>scTopic = ''domain-events'', scPartition = 0, scOffset = ''7'', scHeaders = Map.empty,
     scTraceparent = None\<rparr>"

definition otp_value :: "json js_text option" where
  "otp_value = Some (Stringified (envelope EMAIL_VERIFICATION_OTP_SENT ''u1''
     (JObj [(''email'', JStr ''a@b.c''), (''otp'', JStr ''123456'')])))"

lemma demo_healthy: "healthy demo_notif_env demo_deps"
  by (simp add: healthy_def demo_notif_env_def provider_result_def split: option.splits)

lemma otp_parsed:
  "parseKafkaMessage mail_formats details otp_value (scHeaders demo_ctx) =
     Inr \<lparr>imEvent = \<lparr>deEventType = EMAIL_VERIFICATION_OTP_SENT, deAggregateId = ''u1'',
        dePayload = JObj [(''email'', JStr ''a@b.c''), (''otp'', JStr ''123456'')]\<rparr>,
      imTraceparent = None, imCorrelationId = ''u1''\<rparr>"
  by (simp add: parseKafkaMessage_def otp_value_def envelope_def DomainEventSchema_def EmailVerificationOtpEventSchema_def
      event_schema_def z_object_def z_literal_def z_enum_def z_format_def z_string_def mail_formats_def Let_def
      parsed_event_def getEventRegistryEntry_def domainEventRegistry_def readHeader_def header_correlation_def
      demo_ctx_def List.map_filter_def)

definition otp_delivered :: notif_world where
  "otp_delivered = deliver_all mail_formats (\<lambda>v. '''') demo_deps [(demo_notif_env, demo_ctx, '''', otp_value)] empty_notif"

lemma otp_delivered_rows: "map (\<lambda>r. (nlId r, nlStatus r)) (nwRows otp_delivered) = [(''n1'', LOG_SENT)]"
proof -
  have r: "isHandledDomainEvent EMAIL_VERIFICATION_OTP_SENT" by (simp add: isHandledDomainEvent_def domainEventRegistry_def)
  have k: "isTemplateKey (reTemplateKey (getEventRegistryEntry EMAIL_VERIFICATION_OTP_SENT))"
    by (simp add: isTemplateKey_def template_keys_def getEventRegistryEntry_def domainEventRegistry_def)
  show ?thesis
    by (simp add: otp_delivered_def handleDomainEventMessage_def otp_parsed notification_processEvent_def r k
        claimNotification_def create_log_def ndb_def demo_notif_env_def empty_notif_def claim_row_def claim_of_def
        process_claimed_def rate_check_def demo_deps_def send_mail_def guarded_send_def nb_execute_begin_def nb_new_def
        retryWithBackoff_def provider_send_def provider_result_def ntick_def lift_err_def markAsSent_text update_log_def
        update_where_def mark_sent_def Let_def nb_settle_def onSuccess_def numeral_3_eq_3)
qed


subsection \<open>A failure is final\<close>

definition row_at :: "string \<Rightarrow> notif_world \<Rightarrow> notification_log option" where
  "row_at i w = find_log (\<lambda>r. nlId r = i) w"

lemma row_at_mem: "row_at i w = Some r \<Longrightarrow> r \<in> set (nwRows w) \<and> nlId r = i"
  by (auto simp: row_at_def find_log_def dest: find_Some_set)

lemma update_log_at:
  assumes "neDb env (nwTick w) = None" "row_at i w = Some r" "\<And>r. nlId (f r) = nlId r"
  shows "\<exists>w'. update_log env i f w = (Inr (), w') \<and> row_at i w' = Some (f r) \<and> nwBus w' = nwBus w \<and>
    nwPosts w' = nwPosts w"
proof -
  have "find (\<lambda>r. nlId r = i) (update_where (\<lambda>r. nlId r = i) f (nwRows w)) = Some (f r)"
    by (rule find_update_same) (use assms(2,3) row_at_mem[OF assms(2)] in \<open>simp_all add: row_at_def find_log_def\<close>)
  moreover have "i \<in> nlId ` set (nwRows w)" using row_at_mem[OF assms(2)] by blast
  ultimately show ?thesis using assms(1)
    by (simp add: update_log_def ndb_def ntick_def row_at_def find_log_def)
qed

lemma fail_log_fresh:
  assumes h: "healthy env d" and r: "row_at i w = Some r" "nlAttemptCount r = 0" "nlMaxRetries r = 3"
  shows "\<exists>w' r'. fail_log env d m i a b c w = (Inr (FailedWith i c False), w') \<and> nwBus w' = nwBus w \<and>
    nwPosts w' = nwPosts w \<and> row_at i w' = Some r' \<and> nlStatus r' = LOG_FAILED \<and> nlAttemptCount r' = 1 \<and>
    nlEventId r' = nlEventId r"
proof -
  have db: "neDb env n = None" for n using h by (simp add: healthy_def)
  have rt: "row_at i (ntick w) = Some r" using r(1) by (simp add: row_at_def find_log_def ntick_def)
  define now where "now = neClock env (nwTick (ntick w))"
  define f :: "notification_log \<Rightarrow> notification_log" where "f = (\<lambda>r. r\<lparr>nlStatus := LOG_FAILED, nlLastError := Some a,
    nlLastAttemptAt := Some now,
    nlNextRetryAt := Some (now + int (jitter_backoff (neRandom env (nwTick (ntick w))) 1 (ndBackoff d))),
    nlAttemptCount := nlAttemptCount r + 1\<rparr>)"
  obtain w1 where u: "update_log env i f (ntick w) = (Inr (), w1)" "row_at i w1 = Some (f r)" "nwBus w1 = nwBus (ntick w)"
      "nwPosts w1 = nwPosts (ntick w)"
    using update_log_at[of env "ntick w" i r f] db rt by (auto simp: f_def)
  have "markAsFailed env i a (ndBackoff d) w = (Inr (1, 3), w1)"
    using db rt u r(2,3) by (simp add: markAsFailed_def ndb_def row_at_def Let_def f_def now_def)
  then show ?thesis using u r by (simp add: fail_log_def Let_def f_def ntick_def)
qed

lemma row_at_same: "nwRows w' = nwRows w \<Longrightarrow> row_at i w' = row_at i w"
  by (simp add: row_at_def find_log_def)

lemma send_mail_healthy:
  assumes h: "healthy env d" and r: "row_at i w = Some r"
    and run: "send_mail env d m i w = (q, w')"
  shows "nwBus w' = nwBus w \<and> (if is_ok q then q = Inr (Sent i) \<and> (\<exists>t now. row_at i w' = Some (mark_sent t now r))
    else nwRows w' = nwRows w)"
proof -
  let ?ev = "imEvent m"
  let ?entry = "getEventRegistryEntry (deEventType ?ev)"
  show ?thesis
  proof (cases "isTemplateKey (reTemplateKey ?entry) \<and> is_ok (neRender env (reTemplateKey ?entry) (dePayload ?ev))")
    case False
    then have "w' = w" "\<not> is_ok q" using run by (auto simp: send_mail_def Let_def split: if_splits sum.splits)
    then show ?thesis by simp
  next
    case True
    then obtain html where html: "neRender env (reTemplateKey ?entry) (dePayload ?ev) = Inr html"
      by (auto simp: is_ok_iff)
    let ?cmd = "\<lparr>seTo = reRecipient ?entry ?ev, seSubject = reSubject ?entry ?ev, seHtml = html\<rparr>"
    obtain x w2 where g: "guarded_send env d i ?cmd w = (x, w2)" by force
    have same: "nwRows w2 = nwRows w" "nwBus w2 = nwBus w" using guarded_send_posts[OF g] by auto
    show ?thesis
    proof (cases x)
      case (Inl e)
      then show ?thesis using run True html g same by (auto simp: send_mail_def Let_def)
    next
      case (Inr v)
      obtain t where v: "srMessageId v = JStr t" using guarded_send_text[OF h g[unfolded Inr]] by blast
      have "neDb env n = None" for n using h by (simp add: healthy_def)
      moreover have "row_at i w2 = Some r" using r row_at_same[OF same(1)] by simp
      ultimately obtain w3 where u: "update_log env i (mark_sent t (neClock env (nwTick w2))) w2 = (Inr (), w3)"
          "row_at i w3 = Some (mark_sent t (neClock env (nwTick w2)) r)" "nwBus w3 = nwBus w2"
        using update_log_at[of env w2 i r "mark_sent t (neClock env (nwTick w2))"] by (auto simp: mark_sent_def)
      then have "q = Inr (Sent i)" "w' = w3" using run True html g Inr v
        by (auto simp: send_mail_def Let_def markAsSent_text lift_err_def)
      then show ?thesis using u same by auto
    qed
  qed
qed

lemma handled_schema:
  assumes "DomainEventSchema fm (Some v)"
  shows "\<exists>ty. jget v ''eventType'' = Some (JStr ty) \<and> isHandledDomainEvent ty"
proof -
  have "jget v ''eventType'' = Some (JStr ACCOUNT_RESTORE_REQUESTED) \<or> jget v ''eventType'' = Some (JStr EMAIL_VERIFICATION_OTP_SENT) \<or>
    jget v ''eventType'' = Some (JStr PASSWORD_RESET_REQUESTED) \<or> jget v ''eventType'' = Some (JStr USER_REGISTERED)"
    using assms unfolding DomainEventSchema_def all_event_schemas by (auto dest: event_schema_eventType)
  then show ?thesis by (auto simp: isHandledDomainEvent_def domainEventRegistry_def)
qed

lemma no_schema_undefined: "\<not> DomainEventSchema fm None"
  by (simp add: DomainEventSchema_def all_event_schemas event_schema_def z_object_def)

lemma parsed_is_handled:
  assumes "parseKafkaMessage fm details value h = Inr m"
  shows "isHandledDomainEvent (deEventType (imEvent m))"
proof -
  obtain v where v: "DomainEventSchema fm (Some v)" "imEvent m = parsed_event v"
    using assms no_schema_undefined[of fm]
    by (auto simp: parseKafkaMessage_def Let_def split: option.splits if_splits sum.splits)
  then show ?thesis using handled_schema[OF v(1)] by (auto simp: parsed_event_def Let_def)
qed

lemma process_fresh:
  assumes h: "healthy env d" and handled: "isHandledDomainEvent (deEventType (imEvent m))"
    and fresh: "deAggregateId (imEvent m) \<notin> nlEventId ` set (nwRows w)"
    and uuid: "neUuid env (nwTick w + 1) \<notin> nlId ` set (nwRows w)"
  shows "\<exists>q w' r. notification_processEvent env d m w = (Inr q, w') \<and> nwBus w' = nwBus w \<and>
    row_at (neUuid env (nwTick w + 1)) w' = Some r \<and> nlEventId r = deAggregateId (imEvent m) \<and>
    (nlStatus r = LOG_SENT \<or> nlStatus r = LOG_FAILED \<and> nlAttemptCount r = 1)"
proof -
  let ?i = "neUuid env (nwTick w + 1)" and ?c = "claim_of m"
  have agg: "ciEventId ?c = deAggregateId (imEvent m)" by (simp add: claim_of_def Let_def)
  have db: "neDb env n = None" for n using h by (simp add: healthy_def)
  let ?w = "(ntick w)\<lparr>nwRows := nwRows w @ [claim_row ?i ?c]\<rparr>"
  have cl: "claimNotification env ?c w = (Inr (Claimed ?i), ?w)"
    using db fresh uuid agg by (simp add: claimNotification_def create_log_def ndb_def ntick_def Let_def)
  have "find (\<lambda>r. nlId r = ?i) (nwRows w) = None" 
    unfolding find_None_iff using uuid by (metis imageI)
  then have row: "row_at ?i ?w = Some (claim_row ?i ?c)"
    by (simp add: row_at_def find_log_def find_snoc claim_row_def)
  obtain q w1 where rc: "rate_check env d m ?w = (q, w1)" by force
  note S = rate_check_same[OF rc]
  have row1: "row_at ?i w1 = Some (claim_row ?i ?c)" using row row_at_same[of w1 ?w] S by simp
  have fresh_row: "nlAttemptCount (claim_row ?i ?c) = 0" "nlMaxRetries (claim_row ?i ?c) = 3"
    "nlEventId (claim_row ?i ?c) = deAggregateId (imEvent m)" by (simp_all add: claim_row_def agg)
  have bus: "nwBus w1 = nwBus w" using S by (simp add: ntick_def)
  show ?thesis
  proof (cases "\<exists>l. q = Some l \<and> \<not> rrAllowed l")
    case True
    then obtain l where l: "q = Some l" "\<not> rrAllowed l" by blast
    obtain w' r' where f: "fail_log env d m ?i
        (''Rate limit exceeded. Retry after '' @ show_int (ceil_seconds (rrRetryAfterMs l)) @ ''s.'')
        ''Rate limit exceeded - max retries exhausted'' ''Rate limit exceeded'' w1 =
        (Inr (FailedWith ?i ''Rate limit exceeded'' False), w')" "nwBus w' = nwBus w1" "row_at ?i w' = Some r'"
        "nlStatus r' = LOG_FAILED" "nlAttemptCount r' = 1" "nlEventId r' = deAggregateId (imEvent m)"
      using fail_log_fresh[OF h row1 fresh_row(1,2)] fresh_row(3) by metis
    have "notification_processEvent env d m w = (Inr (FailedWith ?i ''Rate limit exceeded'' False), w')"
      using handled cl rc l f(1) by (simp add: notification_processEvent_def process_claimed_def lift_err_def)
    then show ?thesis using f bus by auto
  next
    case False
    obtain x w2 where sm: "send_mail env d m ?i w1 = (x, w2)" by force
    have pc: "process_claimed env d m ?i ?w = (x, w2)" using False rc sm
      by (auto simp: process_claimed_def split: option.splits)
    note H = send_mail_healthy[OF h row1 sm]
    show ?thesis
    proof (cases x)
      case (Inr y)
      then obtain t now where "row_at ?i w2 = Some (mark_sent t now (claim_row ?i ?c))" "nwBus w2 = nwBus w1"
        using H by auto
      moreover have "notification_processEvent env d m w = (Inr y, w2)" using handled cl pc Inr by (simp add: notification_processEvent_def)
      ultimately show ?thesis using bus fresh_row(3) by (auto simp: mark_sent_def)
    next
      case (Inl e)
      then have row2: "row_at ?i w2 = Some (claim_row ?i ?c)" and bus2: "nwBus w2 = nwBus w1"
        using H row1 row_at_same[of w2 w1] by auto
      obtain w' r' where f: "fail_log env d m ?i (notify_message e) (notify_message e) (notify_message e) w2 =
          (Inr (FailedWith ?i (notify_message e) False), w')" "nwBus w' = nwBus w2" "row_at ?i w' = Some r'"
          "nlStatus r' = LOG_FAILED" "nlAttemptCount r' = 1" "nlEventId r' = deAggregateId (imEvent m)"
        using fail_log_fresh[OF h row2 fresh_row(1,2)] fresh_row(3) by metis
      have "notification_processEvent env d m w = (Inr (FailedWith ?i (notify_message e) False), w')"
        using handled cl pc Inl f(1) by (simp add: notification_processEvent_def)
      then show ?thesis using f bus bus2 by auto
    qed
  qed
qed

text \<open>
  A failure is final. With an answering database a well-formed message with a new event id is
  acknowledged whatever the mail provider, the breaker, the limiter and the renderer do. When
  no mail went out the row is \<open>FAILED\<close> after one attempt, and nothing is published: no dead
  letter, and no redelivery that would use the retry time in the row.
\<close>

theorem failed_notification_is_acknowledged:
  assumes h: "healthy env d" and p: "parseKafkaMessage fm details value (scHeaders ctx) = Inr m"
    and fresh: "deAggregateId (imEvent m) \<notin> nlEventId ` set (nwRows w)"
    and uuid: "neUuid env (nwTick w + 1) \<notin> nlId ` set (nwRows w)"
  shows "\<exists>w' r. handleDomainEventMessage fm details env d ctx raw value w = (Inr (), w') \<and>
    busBroker (nwBus w') = busBroker (nwBus w) \<and> r \<in> set (nwRows w') \<and>
    nlEventId r = deAggregateId (imEvent m) \<and>
    (nlStatus r = LOG_SENT \<or> nlStatus r = LOG_FAILED \<and> nlAttemptCount r = 1)"
proof -
  obtain q w' r where "notification_processEvent env d m w = (Inr q, w')" "nwBus w' = nwBus w"
      "row_at (neUuid env (nwTick w + 1)) w' = Some r" "nlEventId r = deAggregateId (imEvent m)"
      "nlStatus r = LOG_SENT \<or> nlStatus r = LOG_FAILED \<and> nlAttemptCount r = 1"
    using process_fresh[OF h parsed_is_handled[OF p] fresh uuid] by blast
  then show ?thesis using p row_at_mem[of _ w' r] by (auto simp: handleDomainEventMessage_def)
qed

definition down_notif_env :: notif_env where
  "down_notif_env = demo_notif_env\<lparr>neFetch := \<lambda>n. FetchAnswers 503 ''unavailable'' None\<rparr>"

theorem failed_notification_is_acknowledged_witness:
  "\<exists>w' r. handleDomainEventMessage mail_formats (\<lambda>v. '''') down_notif_env demo_deps demo_ctx '''' otp_value empty_notif =
      (Inr (), w') \<and> busBroker (nwBus w') = [] \<and> r \<in> set (nwRows w') \<and> nlEventId r = ''u1'' \<and>
     (nlStatus r = LOG_SENT \<or> nlStatus r = LOG_FAILED \<and> nlAttemptCount r = 1)"
proof -
  have h: "healthy down_notif_env demo_deps"
    by (simp add: healthy_def down_notif_env_def demo_notif_env_def provider_result_def parseErrorBody_def Let_def)
  show ?thesis
    using failed_notification_is_acknowledged[OF h otp_parsed, of empty_notif "\<lambda>v. ''''" "''''"]
    by (simp add: empty_notif_def createEventBus_def)
qed

lemma duplicate_is_skipped:
  assumes h: "\<forall>n. neDb env n = None" and p: "parseKafkaMessage fm details value (scHeaders ctx) = Inr m"
    and d: "distinct (map nlEventId (nwRows w))"
    and r: "r \<in> set (nwRows w)" "nlEventId r = deAggregateId (imEvent m)" "nlStatus r = LOG_SENT \<or> nlStatus r = LOG_DLQ"
  shows "\<exists>w'. handleDomainEventMessage fm details env d' ctx raw value w = (Inr (), w') \<and>
    nwRows w' = nwRows w \<and> nwPosts w' = nwPosts w \<and> nwBus w' = nwBus w"
proof -
  have agg: "ciEventId (claim_of m) = nlEventId r" by (simp add: claim_of_def Let_def r)
  have f: "find (\<lambda>x. nlEventId x = nlEventId r) (nwRows w) = Some r"
  proof -
    have "find (\<lambda>x. nlEventId x = nlEventId r) (nwRows w) \<noteq> None" using r(1) by (auto simp: find_None_iff)
    then obtain x where x: "find (\<lambda>x. nlEventId x = nlEventId r) (nwRows w) = Some x" by blast
    then have "x \<in> set (nwRows w)" "nlEventId x = nlEventId r" by (auto dest: find_Some_set)
    then have "x = r" using d r(1) by (auto simp: distinct_map inj_on_def)
    then show ?thesis using x by simp
  qed
  have mem: "nlEventId r \<in> nlEventId ` set (nwRows w)" using r(1) by (rule imageI)
  have "claimNotification env (claim_of m) w = (Inr Duplicate, ntick (ntick w))"
    using h r(3) f mem by (auto simp: claimNotification_def create_log_def ndb_def ntick_def agg Let_def find_log_def
        isUniqueConstraintViolation_def unique_violation_def)
  then have "notification_processEvent env d' m w = (Inr SkippedDuplicate, ntick (ntick w))"
    using parsed_is_handled[OF p] by (simp add: notification_processEvent_def)
  then show ?thesis using p by (simp add: handleDomainEventMessage_def ntick_def)
qed

definition welcome_row :: notification_log where
  "welcome_row = claim_row ''n0'' \<lparr>ciEventId = ''u1'', ciEventType = USER_REGISTERED, ciRecipient = ''x@y.z'',
     ciSubject = None, ciPayloadSnapshot = None, ciTraceparent = None, ciCorrelationId = None\<rparr>\<lparr>nlStatus := LOG_SENT\<rparr>"

end
