(* ===== verification/User_Cache.thy ===== *)
theory User_Cache
  imports Redis_Store Breakers "HOL-Library.AList"
begin

text \<open>
  \<open>services/user-service/src/cache\<close>: the cache keys, the in-memory cache L1 and the read-through
  \<open>cacheGet\<close> over L1, Redis (behind its circuit breaker) and the database. The world of the cache
  holds a counter of Redis calls; the environment gives each call its time and says whether
  Redis fails it.
\<close>

subsection \<open>Keys\<close>

definition TTL_USER_PROFILE :: int where "TTL_USER_PROFILE = 300"
definition TTL_DEFAULT :: int where "TTL_DEFAULT = 300"
definition TTL_NEGATIVE_CACHE :: int where "TTL_NEGATIVE_CACHE = 60"

definition userProfileKey :: "string \<Rightarrow> string" where
  "userProfileKey userId = ''user-service:user:'' @ userId @ '':profile''"

definition userEmailKey :: "string \<Rightarrow> string" where
  "userEmailKey email = ''user-service:user:email:'' @ str_trim (str_lower email)"

definition negativeCacheKey :: "string \<Rightarrow> string" where
  "negativeCacheKey key = key @ '':notfound''"

lemma negativeCacheKey_inj [simp]: "negativeCacheKey k = negativeCacheKey k' \<longleftrightarrow> k = k'"
  by (simp add: negativeCacheKey_def)

text \<open>A profile key ends in \<open>e\<close>, a negative key in \<open>d\<close>.\<close>

lemma profile_key_not_negative [simp]: "userProfileKey u \<noteq> negativeCacheKey k"
proof
  assume "userProfileKey u = negativeCacheKey k"
  then have "last (userProfileKey u) = last (negativeCacheKey k)" by simp
  then show False by (simp add: userProfileKey_def negativeCacheKey_def)
qed

subsection \<open>L1\<close>

text \<open>The \<open>Map\<close> in insertion order; an entry holds a value or the marker \<open>true\<close> of a negative key.\<close>

datatype 'v l1_value = L1Val 'v | L1True

record 'v l1_cache =
  l1Store :: "(string \<times> 'v l1_value \<times> time) list"
  l1MaxSize :: nat

definition l1_new :: "nat \<Rightarrow> 'v l1_cache" where
  "l1_new n = \<lparr>l1Store = [], l1MaxSize = n\<rparr>"

definition l1_lookup :: "time \<Rightarrow> string \<Rightarrow> 'v l1_cache \<Rightarrow> 'v l1_value option" where
  "l1_lookup now k c = (case map_of (l1Store c) k of
     None \<Rightarrow> None | Some (v, e) \<Rightarrow> if now > e then None else Some v)"

definition l1_del :: "string \<Rightarrow> 'v l1_cache \<Rightarrow> 'v l1_cache" where
  "l1_del k c = c\<lparr>l1Store := AList.delete k (l1Store c)\<rparr>"

definition l1_get :: "time \<Rightarrow> string \<Rightarrow> 'v l1_cache \<Rightarrow> 'v l1_value option \<times> 'v l1_cache" where
  "l1_get now k c = (case map_of (l1Store c) k of
     None \<Rightarrow> (None, c)
   | Some (v, e) \<Rightarrow> if now > e then (None, l1_del k c) else (Some v, c))"

definition l1_evict :: "'v l1_cache \<Rightarrow> 'v l1_cache" where
  "l1_evict c = (case l1Store c of
     [] \<Rightarrow> c
   | (k, e) # es \<Rightarrow> if length (l1Store c) \<ge> l1MaxSize c \<and> k \<noteq> [] then l1_del k c else c)"

definition l1_set :: "time \<Rightarrow> string \<Rightarrow> 'v l1_value \<Rightarrow> int \<Rightarrow> 'v l1_cache \<Rightarrow> 'v l1_cache" where
  "l1_set now k v ttlMs c =
     (let c = l1_evict c in c\<lparr>l1Store := AList.update k (v, now + ttlMs) (l1Store c)\<rparr>)"

definition l1_clear :: "'v l1_cache \<Rightarrow> 'v l1_cache" where
  "l1_clear c = c\<lparr>l1Store := []\<rparr>"

lemma l1_lookup_del: "l1_lookup now k' (l1_del k c) = (if k' = k then None else l1_lookup now k' c)"
  by (simp add: l1_lookup_def l1_del_def delete_conv')

lemma l1_lookup_evict: "l1_lookup now k (l1_evict c) \<in> {l1_lookup now k c, None}"
proof (cases "l1Store c")
  case (Cons x xs)
  then show ?thesis by (cases x) (auto simp: l1_evict_def l1_lookup_del)
qed (simp add: l1_evict_def)

lemma l1_lookup_set:
  "l1_lookup now k (l1_set t k v ttl c) = (if now > t + ttl then None else Some v)"
  "k' \<noteq> k \<Longrightarrow> l1_lookup now k' (l1_set t k v ttl c) = l1_lookup now k' (l1_evict c)"
  by (simp_all add: l1_lookup_def l1_set_def Let_def update_conv')

lemma l1_get_lookup: "fst (l1_get now k c) = l1_lookup now k c"
  by (simp add: l1_get_def l1_lookup_def split: option.splits)

lemma l1_get_state: "l1_lookup t k' (snd (l1_get now k c)) \<in> {l1_lookup t k' c, None}"
  by (auto simp: l1_get_def l1_lookup_del split: option.splits)

interpretation l1_store: cache_store l1_lookup l1_set l1_del
proof
  fix now t ttl k v and s :: "'v l1_cache"
  show "now - t < ttl \<Longrightarrow> l1_lookup now k (l1_set t k v ttl s) = Some v" by (simp add: l1_lookup_set)
  show "ttl < now - t \<Longrightarrow> l1_lookup now k (l1_set t k v ttl s) = None" by (simp add: l1_lookup_set)
  show "l1_lookup now k (l1_set t k v ttl s) \<in> {Some v, None}" by (simp add: l1_lookup_set)
next
  fix k' k :: string and now t v ttl and s :: "'v l1_cache"
  assume n: "k' \<noteq> k"
  show "l1_lookup now k' (l1_set t k v ttl s) \<in> {l1_lookup now k' s, None}"
    unfolding l1_lookup_set(2)[OF n] by (rule l1_lookup_evict)
  show "l1_lookup now k' (l1_del k s) = l1_lookup now k' s" using n by (simp add: l1_lookup_del)
next
  fix now k and s :: "'v l1_cache"
  show "l1_lookup now k (l1_del k s) = None" by (simp add: l1_lookup_del)
qed

text \<open>The size bound: at most \<open>maxSize\<close> entries, when keys are not empty.\<close>

definition l1_ok :: "'v l1_cache \<Rightarrow> bool" where
  "l1_ok c \<longleftrightarrow> length (l1Store c) \<le> l1MaxSize c \<and> distinct (List.map fst (l1Store c)) \<and>
     [] \<notin> fst ` set (l1Store c) \<and> 0 < l1MaxSize c"

lemma l1_del_ok:
  assumes "l1_ok c"
  shows "l1_ok (l1_del k c)"
proof -
  have "length (AList.delete k (l1Store c)) \<le> l1MaxSize c"
    using assms length_delete_le[of k "l1Store c"] by (simp add: l1_ok_def)
  moreover have "distinct (List.map fst (AList.delete k (l1Store c)))"
    using assms by (simp add: l1_ok_def distinct_delete)
  moreover have "[] \<notin> fst ` set (AList.delete k (l1Store c))"
    using assms dom_delete_subset[of k "l1Store c"] by (auto simp: l1_ok_def)
  ultimately show ?thesis using assms by (simp add: l1_ok_def l1_del_def)
qed

lemma AList_update_length: "length (AList.update k v al) \<le> Suc (length al)"
  by (induction al) auto

lemma l1_set_ok:
  assumes "l1_ok c" "k \<noteq> []"
  shows "l1_ok (l1_set now k v ttl c)"
proof -
  have e: "l1_ok (l1_evict c)"
    using assms(1) l1_del_ok by (auto simp: l1_evict_def split: list.splits)
  have m: "l1MaxSize (l1_evict c) = l1MaxSize c"
    by (auto simp: l1_evict_def l1_del_def split: list.splits)
  have "length (l1Store (l1_evict c)) < l1MaxSize c"
  proof (cases "l1Store c")
    case (Cons x xs)
    obtain k0 y where x: "x = (k0, y)" by (cases x)
    have "k0 \<noteq> []" using assms(1) Cons x by (auto simp: l1_ok_def)
    moreover have "length (AList.delete k0 (l1Store c)) < length (l1Store c)"
      using length_delete_le[of k0 xs] Cons x by simp
    ultimately show ?thesis
      using assms(1) Cons x by (auto simp: l1_evict_def l1_del_def l1_ok_def)
  qed (use assms in \<open>simp add: l1_evict_def l1_ok_def\<close>)
  then have "length (AList.update k (v, now + ttl) (l1Store (l1_evict c))) \<le> l1MaxSize c"
    using AList_update_length[of k "(v, now + ttl)" "l1Store (l1_evict c)"] by linarith
  with e m assms(2) show ?thesis
    by (auto simp: l1_ok_def l1_set_def Let_def distinct_update dom_update)
qed

subsection \<open>Redis behind its breaker\<close>

definition redis_breaker_options :: cb_options where
  "redis_breaker_options = \<lparr>cbName = ''redis'', failureThreshold = 5, failureWindowMs = 10000,
     resetTimeoutMs = 30000, halfOpenMaxRetries = 3\<rparr>"

record cache_env =
  ceClock :: "nat \<Rightarrow> time"
  ceRedisFault :: "nat \<Rightarrow> string option"

record 'v cache_world =
  cwL1 :: "'v l1_cache"
  cwBreaker :: cb_state
  cwRedis :: "'v redis"
  cwTick :: nat

definition cw_now :: "cache_env \<Rightarrow> 'v cache_world \<Rightarrow> time" where
  "cw_now env w = ceClock env (cwTick w)"

text \<open>
  \<open>redisCircuitBreaker.execute(op)\<close>: nothing is sent when the breaker rejects; a Redis failure
  counts as a failure of the breaker.
\<close>

definition redis_exec ::
    "cache_env \<Rightarrow> (time \<Rightarrow> 'v redis \<Rightarrow> (js_error + 'a) \<times> 'v redis) \<Rightarrow> 'v cache_world \<Rightarrow> ('a, 'v cache_world) res" where
  "redis_exec env op w =
     (let now = cw_now env w; fault = ceRedisFault env (cwTick w); w = w\<lparr>cwTick := cwTick w + 1\<rparr> in
      case execute_begin redis_breaker_options now (cwBreaker w) of
        (Inl e, b) \<Rightarrow> (Inl e, w\<lparr>cwBreaker := b\<rparr>)
      | (Inr u, b) \<Rightarrow> (case (case fault of Some m \<Rightarrow> (Inl (OtherError ''RedisError'' m), cwRedis w)
                                     | None \<Rightarrow> op now (cwRedis w)) of
            (Inl e, r) \<Rightarrow>
              (Inl e, w\<lparr>cwBreaker := execute_failure redis_breaker_options now b, cwRedis := r\<rparr>)
          | (Inr x, r) \<Rightarrow> (Inr x, w\<lparr>cwBreaker := execute_success now b, cwRedis := r\<rparr>)))"

definition on_l1 :: "('v l1_cache \<Rightarrow> 'v l1_cache) \<Rightarrow> 'v cache_world \<Rightarrow> 'v cache_world" where
  "on_l1 f w = w\<lparr>cwL1 := f (cwL1 w)\<rparr>"

text \<open>\<open>JSON.parse\<close> of a cached text; a text it rejects throws inside the breaker.\<close>

definition redis_read :: "string \<Rightarrow> time \<Rightarrow> 'v redis \<Rightarrow> (js_error + 'v option) \<times> 'v redis" where
  "redis_read key now r =
     ((case redis_get now key r of
         None \<Rightarrow> Inr None
       | Some t \<Rightarrow> if text_truthy t
           then (case json_parse t of
                   Some v \<Rightarrow> Inr (Some v)
                 | None \<Rightarrow> Inl (OtherError ''SyntaxError'' ''Unexpected token''))
           else Inr None), r)"

definition redis_read_negative :: "string \<Rightarrow> time \<Rightarrow> 'v redis \<Rightarrow> (js_error + bool) \<times> 'v redis" where
  "redis_read_negative key now r =
     (Inr (case redis_get now (negativeCacheKey key) r of None \<Rightarrow> False | Some t \<Rightarrow> text_truthy t), r)"

definition redis_write ::
    "string \<Rightarrow> int \<Rightarrow> 'v js_text \<Rightarrow> time \<Rightarrow> 'v redis \<Rightarrow> (js_error + unit) \<times> 'v redis" where
  "redis_write key secs v now r = (Inr (), redis_setex now key secs v r)"

subsection \<open>Reading through\<close>

record cache_options =
  coL2Ttl :: int
  coL1TtlMs :: int
  coUseNegativeCache :: bool

definition DEFAULT_CACHE_OPTIONS :: cache_options where
  "DEFAULT_CACHE_OPTIONS = \<lparr>coL2Ttl = TTL_DEFAULT, coL1TtlMs = 100, coUseNegativeCache = True\<rparr>"

text \<open>The value a cache layer knows: a hit, a known absence, or nothing.\<close>

datatype 'v known = Hit 'v | KnownAbsent | Unknown

text \<open>
  The L1 part. A value key never holds the marker (it is written under negative keys only), so
  that read is left as unknown.
\<close>

definition l1_check ::
    "cache_env \<Rightarrow> string \<Rightarrow> 'v cache_world \<Rightarrow> 'v known \<times> 'v cache_world" where
  "l1_check env key w =
     (case l1_get (cw_now env w) key (cwL1 w) of
        (Some (L1Val v), c) \<Rightarrow> (Hit v, w\<lparr>cwL1 := c\<rparr>)
      | (_, c) \<Rightarrow> (case l1_get (cw_now env w) (negativeCacheKey key) c of
            (Some x, c') \<Rightarrow> (KnownAbsent, w\<lparr>cwL1 := c'\<rparr>)
          | (None, c') \<Rightarrow> (Unknown, w\<lparr>cwL1 := c'\<rparr>)))"

text \<open>The L2 part, with its \<open>try/catch\<close>.\<close>

definition l2_check ::
    "cache_env \<Rightarrow> cache_options \<Rightarrow> string \<Rightarrow> 'v cache_world \<Rightarrow> 'v known \<times> 'v cache_world" where
  "l2_check env opts key w =
     (case redis_exec env (redis_read key) w of
        (Inl e, w) \<Rightarrow> (Unknown, w)
      | (Inr (Some v), w) \<Rightarrow> (Hit v, on_l1 (l1_set (cw_now env w) key (L1Val v) (coL1TtlMs opts)) w)
      | (Inr None, w) \<Rightarrow> (case redis_exec env (redis_read_negative key) w of
            (Inl e, w) \<Rightarrow> (Unknown, w)
          | (Inr True, w) \<Rightarrow>
              (KnownAbsent, on_l1 (l1_set (cw_now env w) (negativeCacheKey key) L1True (coL1TtlMs opts)) w)
          | (Inr False, w) \<Rightarrow> (Unknown, w)))"

text \<open>The way back from the database: Redis first (its failure only logged), then L1.\<close>

definition populate ::
    "cache_env \<Rightarrow> cache_options \<Rightarrow> string \<Rightarrow> 'v option \<Rightarrow> 'v cache_world \<Rightarrow> 'v cache_world" where
  "populate env opts key result w =
     (case result of
        Some v \<Rightarrow>
          (let w = snd (redis_exec env (redis_write key (coL2Ttl opts) (Stringified v)) w)
           in on_l1 (l1_set (cw_now env w) key (L1Val v) (coL1TtlMs opts)) w)
      | None \<Rightarrow>
          if coUseNegativeCache opts then
            (let w = snd (redis_exec env
                       (redis_write (negativeCacheKey key) TTL_NEGATIVE_CACHE (Txt ''1'')) w)
             in on_l1 (l1_set (cw_now env w) (negativeCacheKey key) L1True (coL1TtlMs opts)) w)
          else w)"

definition cacheGet ::
    "cache_env \<Rightarrow> cache_options \<Rightarrow> string \<Rightarrow> (js_error + 'v option) \<Rightarrow> 'v cache_world \<Rightarrow>
       ('v option, 'v cache_world) res" where
  "cacheGet env opts key fetch w =
     (case l1_check env key w of
        (Hit v, w) \<Rightarrow> (Inr (Some v), w)
      | (KnownAbsent, w) \<Rightarrow> (Inr None, w)
      | (Unknown, w) \<Rightarrow> (case l2_check env opts key w of
            (Hit v, w) \<Rightarrow> (Inr (Some v), w)
          | (KnownAbsent, w) \<Rightarrow> (Inr None, w)
          | (Unknown, w) \<Rightarrow> (case fetch of
                Inl e \<Rightarrow> (Inl e, w)
              | Inr result \<Rightarrow> (Inr result, populate env opts key result w))))"

text \<open>The two \<open>DEL\<close> calls are sent one after the other; the second may fail after the first.\<close>

definition redis_del_both :: "cache_env \<Rightarrow> nat \<Rightarrow> string \<Rightarrow> time \<Rightarrow> 'v redis \<Rightarrow> (js_error + unit) \<times> 'v redis" where
  "redis_del_both env i key now r = (case ceRedisFault env i of
     Some m \<Rightarrow> (Inl (OtherError ''RedisError'' m), redis_del key r)
   | None \<Rightarrow> (Inr (), redis_del (negativeCacheKey key) (redis_del key r)))"

definition cacheInvalidate :: "cache_env \<Rightarrow> string \<Rightarrow> 'v cache_world \<Rightarrow> 'v cache_world" where
  "cacheInvalidate env key w =
     (let w = on_l1 (l1_del (negativeCacheKey key)) (on_l1 (l1_del key) w);
          w = snd (redis_exec env (redis_del_both env (cwTick w + 1) key) w)
      in w\<lparr>cwTick := cwTick w + 1\<rparr>)"

end
