(* ===== verification/Cache_Coherence.thy ===== *)
theory Cache_Coherence
  imports User_Cache
begin

text \<open>
  Read-through correctness of the cache: as long as every cached fact agrees with the
  database, \<open>cacheGet\<close> answers what the database holds and keeps the agreement, whatever Redis
  and its breaker do.
\<close>

definition value_keys :: "string set \<Rightarrow> bool" where
  "value_keys K \<longleftrightarrow> (\<forall>k \<in> K. \<forall>k' \<in> K. k \<noteq> negativeCacheKey k')"

definition l1_agrees :: "string set \<Rightarrow> (string \<Rightarrow> 'v option) \<Rightarrow> 'v l1_cache \<Rightarrow> bool" where
  "l1_agrees K db c \<longleftrightarrow> (\<forall>k \<in> K. \<forall>t.
     (\<forall>v. l1_lookup t k c = Some (L1Val v) \<longrightarrow> db k = Some v) \<and>
     (\<forall>x. l1_lookup t (negativeCacheKey k) c = Some x \<longrightarrow> db k = None))"

definition redis_agrees :: "string set \<Rightarrow> (string \<Rightarrow> 'v option) \<Rightarrow> 'v redis \<Rightarrow> bool" where
  "redis_agrees K db r \<longleftrightarrow> (\<forall>k \<in> K. \<forall>t.
     (\<forall>v. redis_get t k r = Some (Stringified v) \<longrightarrow> db k = Some v) \<and>
     (\<forall>x. redis_get t (negativeCacheKey k) r = Some x \<longrightarrow> db k = None))"

definition coherent :: "string set \<Rightarrow> (string \<Rightarrow> 'v option) \<Rightarrow> 'v cache_world \<Rightarrow> bool" where
  "coherent K db w \<longleftrightarrow> l1_agrees K db (cwL1 w) \<and> redis_agrees K db (cwRedis w)"

text \<open>A cache whose entries are among those of an agreeing one agrees.\<close>

lemma l1_agrees_sub:
  assumes "l1_agrees K db c" "\<And>t k. l1_lookup t k c' \<in> {l1_lookup t k c, None}"
  shows "l1_agrees K db c'"
  unfolding l1_agrees_def
proof (intro ballI allI conjI impI)
  fix k t v assume "k \<in> K" "l1_lookup t k c' = Some (L1Val v)"
  then show "db k = Some v" using assms(1) assms(2)[of t k] by (auto simp: l1_agrees_def)
next
  fix k t x assume "k \<in> K" "l1_lookup t (negativeCacheKey k) c' = Some x"
  moreover from this have "l1_lookup t (negativeCacheKey k) c = Some x"
    using assms(2)[of t "negativeCacheKey k"] by auto
  ultimately show "db k = None" using assms(1) unfolding l1_agrees_def by blast
qed

lemma l1_agrees_get [nexus_inv]: "l1_agrees K db c \<Longrightarrow> l1_agrees K db (snd (l1_get now k c))"
  by (erule l1_agrees_sub) (rule l1_get_state)

lemma l1_agrees_evict: "l1_agrees K db c \<Longrightarrow> l1_agrees K db (l1_evict c)"
  by (erule l1_agrees_sub) (rule l1_lookup_evict)

lemma l1_agrees_set_value:
  assumes "l1_agrees K db c" "value_keys K" "key \<in> K" "db key = Some v"
  shows "l1_agrees K db (l1_set now key (L1Val v) ttl c)"
proof -
  note e = l1_agrees_evict[OF assms(1)]
  have n: "negativeCacheKey k \<noteq> key" if "k \<in> K" for k
    using assms(2,3) that unfolding value_keys_def by metis
  have "l1_lookup t k (l1_set now key (L1Val v) ttl c) = Some (L1Val u) \<Longrightarrow> db k = Some u"
    if "k \<in> K" for t k u
    using e assms(4) that by (cases "k = key") (auto simp: l1_lookup_set l1_agrees_def split: if_splits)
  moreover have "l1_lookup t (negativeCacheKey k) (l1_set now key (L1Val v) ttl c) = Some x \<Longrightarrow> db k = None"
    if "k \<in> K" for t k x
    using e that by (auto simp: l1_lookup_set(2)[OF n[OF that]] l1_agrees_def)
  ultimately show ?thesis unfolding l1_agrees_def by blast
qed

lemma l1_agrees_set_absent:
  assumes "l1_agrees K db c" "value_keys K" "key \<in> K" "db key = None"
  shows "l1_agrees K db (l1_set now (negativeCacheKey key) L1True ttl c)"
proof -
  note e = l1_agrees_evict[OF assms(1)]
  have n: "k \<noteq> negativeCacheKey key" if "k \<in> K" for k
    using assms(2,3) that unfolding value_keys_def by metis
  have "l1_lookup t k (l1_set now (negativeCacheKey key) L1True ttl c) = Some (L1Val u) \<Longrightarrow> db k = Some u"
    if "k \<in> K" for t k u
    using e that by (auto simp: l1_lookup_set(2)[OF n[OF that]] l1_agrees_def)
  moreover have "l1_lookup t (negativeCacheKey k) (l1_set now (negativeCacheKey key) L1True ttl c) = Some x \<Longrightarrow> db k = None"
    if "k \<in> K" for t k x
    using e that assms(4) by (cases "k = key") (auto simp: l1_lookup_set l1_agrees_def)
  ultimately show ?thesis unfolding l1_agrees_def by blast
qed

lemma redis_agrees_set_value:
  assumes "redis_agrees K db r" "value_keys K" "key \<in> K" "db key = Some v"
  shows "redis_agrees K db (redis_setex now key secs (Stringified v) r)"
proof -
  have n: "negativeCacheKey k \<noteq> key" if "k \<in> K" for k
    using assms(2,3) that unfolding value_keys_def by metis
  have "redis_get t k (redis_setex now key secs (Stringified v) r) = Some (Stringified u) \<Longrightarrow> db k = Some u"
    if "k \<in> K" for t k u
    using assms(1,4) that by (cases "k = key") (auto simp: redis_agrees_def split: if_splits)
  moreover have "redis_get t (negativeCacheKey k) (redis_setex now key secs (Stringified v) r) = Some x \<Longrightarrow> db k = None"
    if "k \<in> K" for t k x
    using assms(1) that n[OF that] by (auto simp: redis_agrees_def)
  ultimately show ?thesis unfolding redis_agrees_def by blast
qed

lemma redis_agrees_set_absent:
  assumes "redis_agrees K db r" "value_keys K" "key \<in> K" "db key = None"
  shows "redis_agrees K db (redis_setex now (negativeCacheKey key) secs t0 r)"
proof -
  have n: "k \<noteq> negativeCacheKey key" if "k \<in> K" for k
    using assms(2,3) that unfolding value_keys_def by metis
  have "redis_get t k (redis_setex now (negativeCacheKey key) secs t0 r) = Some (Stringified u) \<Longrightarrow> db k = Some u"
    if "k \<in> K" for t k u
    using assms(1) that n[OF that] by (auto simp: redis_agrees_def)
  moreover have "redis_get t (negativeCacheKey k) (redis_setex now (negativeCacheKey key) secs t0 r) = Some x \<Longrightarrow> db k = None"
    if "k \<in> K" for t k x
    using assms(1,4) that by (cases "k = key") (auto simp: redis_agrees_def)
  ultimately show ?thesis unfolding redis_agrees_def by blast
qed

subsection \<open>A call on Redis\<close>

lemma redis_exec_l1 [simp]: "cwL1 (snd (redis_exec env op w)) = cwL1 w"
  by (auto simp: redis_exec_def Let_def split: prod.splits sum.splits)

lemma redis_exec_redis:
  "cwRedis (snd (redis_exec env op w)) = cwRedis w \<or>
   cwRedis (snd (redis_exec env op w)) = snd (op (cw_now env w) (cwRedis w))"
  by (auto simp: redis_exec_def Let_def cw_now_def split: prod.splits sum.splits option.splits)

lemma redis_exec_ok:
  "fst (redis_exec env op w) = Inr x \<Longrightarrow> fst (op (cw_now env w) (cwRedis w)) = Inr x"
  by (auto simp: redis_exec_def Let_def cw_now_def split: prod.splits sum.splits option.splits)

lemma redis_exec_read_redis [simp]:
  "cwRedis (snd (redis_exec env (redis_read key) w)) = cwRedis w"
  "cwRedis (snd (redis_exec env (redis_read_negative key) w)) = cwRedis w"
  using redis_exec_redis[of env "redis_read key" w] redis_exec_redis[of env "redis_read_negative key" w]
  by (simp_all add: redis_read_def redis_read_negative_def)

lemma coherent_exec_read:
  "coherent K db w \<Longrightarrow> coherent K db (snd (redis_exec env (redis_read key) w))"
  "coherent K db w \<Longrightarrow> coherent K db (snd (redis_exec env (redis_read_negative key) w))"
  by (simp_all add: coherent_def)

lemma coherent_on_l1: "\<lbrakk>coherent K db w; l1_agrees K db (f (cwL1 w))\<rbrakk> \<Longrightarrow> coherent K db (on_l1 f w)"
  by (simp add: coherent_def on_l1_def)

lemma coherent_write:
  assumes "coherent K db w" "redis_agrees K db (redis_setex (cw_now env w) k secs t (cwRedis w))"
  shows "coherent K db (snd (redis_exec env (redis_write k secs t) w))"
  using redis_exec_redis[of env "redis_write k secs t" w] assms
  by (auto simp: coherent_def redis_write_def)

subsection \<open>The layers\<close>

lemma l1_check_sound:
  assumes "coherent K db w" "key \<in> K" "l1_check env key w = (x, w')"
  shows "coherent K db w' \<and> (\<forall>v. x = Hit v \<longrightarrow> db key = Some v) \<and> (x = KnownAbsent \<longrightarrow> db key = None)"
proof -
  obtain a c where a: "l1_get (cw_now env w) key (cwL1 w) = (a, c)" by force
  obtain b c' where b: "l1_get (cw_now env w) (negativeCacheKey key) c = (b, c')" by force
  have L: "l1_agrees K db (cwL1 w)" using assms(1) by (simp add: coherent_def)
  have c: "l1_agrees K db c" using l1_agrees_get[OF L, of "cw_now env w" key] a by simp
  have c': "l1_agrees K db c'" using l1_agrees_get[OF c, of "cw_now env w" "negativeCacheKey key"] b by simp
  have la: "a = l1_lookup (cw_now env w) key (cwL1 w)"
    "b = l1_lookup (cw_now env w) (negativeCacheKey key) c"
    using l1_get_lookup[of "cw_now env w" key "cwL1 w"] a l1_get_lookup[of "cw_now env w" "negativeCacheKey key" c] b
    by simp_all
  have hit: "a = Some (L1Val v) \<Longrightarrow> db key = Some v" for v
    using L la(1) assms(2) by (auto simp: l1_agrees_def)
  have absent: "b = Some y \<Longrightarrow> db key = None" for y
    using c la(2) assms(2) by (auto simp: l1_agrees_def)
  show ?thesis
    using assms(1,3) a b c c' hit absent
    by (auto simp: l1_check_def coherent_def split: option.splits l1_value.splits)
qed

lemma redis_read_sound:
  assumes "redis_agrees K db r" "key \<in> K" "fst (redis_read key now r) = Inr (Some v)"
  shows "db key = Some v"
  using assms by (auto simp: redis_read_def redis_agrees_def split: option.splits js_text.splits if_splits)
    (metis js_text.exhaust json_parse.simps option.inject option.distinct(1))

lemma redis_negative_sound:
  assumes "redis_agrees K db r" "key \<in> K" "fst (redis_read_negative key now r) = Inr True"
  shows "db key = None"
  using assms by (auto simp: redis_read_negative_def redis_agrees_def split: option.splits)

lemma l2_check_sound:
  assumes co: "coherent K db w" and vk: "value_keys K" and k: "key \<in> K"
    and l2: "l2_check env opts key w = (x, w')"
  shows "coherent K db w' \<and> (\<forall>v. x = Hit v \<longrightarrow> db key = Some v) \<and> (x = KnownAbsent \<longrightarrow> db key = None)"
proof -
  have R: "redis_agrees K db (cwRedis w)" using co by (simp add: coherent_def)
  obtain a w1 where a: "redis_exec env (redis_read key) w = (a, w1)" by force
  have c1: "coherent K db w1" "cwRedis w1 = cwRedis w"
    using coherent_exec_read(1)[OF co, of env key] redis_exec_read_redis(1)[of env key w] a by simp_all
  obtain b w2 where b: "redis_exec env (redis_read_negative key) w1 = (b, w2)" by force
  have c2: "coherent K db w2" using coherent_exec_read(2)[OF c1(1), of env key] b by simp
  have hit: "db key = Some v" if "a = Inr (Some v)" for v
    using redis_read_sound[OF R k] redis_exec_ok[of env "redis_read key" w] a that by simp
  have absent: "db key = None" if "b = Inr True"
    using redis_negative_sound[OF _ k] redis_exec_ok[of env "redis_read_negative key" w1] b that c1 R
    by (metis fst_conv)
  have s1: "coherent K db (on_l1 (l1_set t key (L1Val v) n) w1)" if "a = Inr (Some v)" for t v n
    using coherent_on_l1[OF c1(1)] l1_agrees_set_value[where db = db, OF _ vk k hit[OF that]] c1(1) by (simp add: coherent_def)
  have s2: "coherent K db (on_l1 (l1_set t (negativeCacheKey key) L1True n) w2)" if "b = Inr True" for t n
    using coherent_on_l1[OF c2] l1_agrees_set_absent[where db = db, OF _ vk k absent[OF that]] c2 by (simp add: coherent_def)
  show ?thesis
    using l2 a b c1 c2 hit absent s1 s2
    by (auto simp: l2_check_def split: sum.splits option.splits bool.splits)
qed

lemma populate_coherent:
  assumes co: "coherent K db w" and vk: "value_keys K" and k: "key \<in> K"
  shows "coherent K db (populate env opts key (db key) w)"
proof (cases "db key")
  case (Some v)
  have R: "redis_agrees K db (cwRedis w)" using co by (simp add: coherent_def)
  let ?w = "snd (redis_exec env (redis_write key (coL2Ttl opts) (Stringified v)) w)"
  have c: "coherent K db ?w"
    by (rule coherent_write[OF co redis_agrees_set_value[where db = db, OF R vk k Some]])
  have "coherent K db (on_l1 (l1_set t key (L1Val v) n) ?w)" for t n
    by (rule coherent_on_l1[OF c l1_agrees_set_value[where db = db, OF _ vk k Some]]) (use c in \<open>simp add: coherent_def\<close>)
  then show ?thesis by (simp add: populate_def Some Let_def)
next
  case None
  have R: "redis_agrees K db (cwRedis w)" using co by (simp add: coherent_def)
  let ?w = "snd (redis_exec env (redis_write (negativeCacheKey key) TTL_NEGATIVE_CACHE (Txt ''1'')) w)"
  have c: "coherent K db ?w"
    by (rule coherent_write[OF co redis_agrees_set_absent[where db = db, OF R vk k None]])
  have "coherent K db (on_l1 (l1_set t (negativeCacheKey key) L1True n) ?w)" for t n
    by (rule coherent_on_l1[OF c l1_agrees_set_absent[where db = db, OF _ vk k None]]) (use c in \<open>simp add: coherent_def\<close>)
  then show ?thesis using co by (simp add: populate_def None Let_def)
qed

lemma cacheGet_sound:
  assumes "coherent K db w" "value_keys K" "key \<in> K"
  shows "fst (cacheGet env opts key (Inr (db key)) w) = Inr (db key) \<and>
    coherent K db (snd (cacheGet env opts key (Inr (db key)) w))"
proof -
  obtain x w1 where l1: "l1_check env key w = (x, w1)" by force
  note S1 = l1_check_sound[OF assms(1,3) l1]
  obtain y w2 where l2: "l2_check env opts key w1 = (y, w2)" by force
  have S2: "coherent K db w2 \<and> (\<forall>v. y = Hit v \<longrightarrow> db key = Some v) \<and> (y = KnownAbsent \<longrightarrow> db key = None)"
    by (rule l2_check_sound[OF _ assms(2,3) l2]) (use S1 in simp)
  have P: "coherent K db (populate env opts key (db key) w2)"
    by (rule populate_coherent[OF _ assms(2,3)]) (use S2 in simp)
  show ?thesis using l1 l2 S1 S2 P by (auto simp: cacheGet_def split: known.splits)
qed

subsection \<open>Invalidation\<close>

text \<open>L1 always forgets the key; Redis does when it answers.\<close>

lemma cacheInvalidate_l1:
  "l1_lookup t k (cwL1 (cacheInvalidate env key w)) =
     (if k = key \<or> k = negativeCacheKey key then None else l1_lookup t k (cwL1 w))"
  by (simp add: cacheInvalidate_def Let_def on_l1_def l1_lookup_del)

lemma cacheInvalidate_up:
  assumes "is_ok (fst (execute_begin redis_breaker_options (cw_now env w) (cwBreaker w)))"
    and "ceRedisFault env (cwTick w) = None" "ceRedisFault env (cwTick w + 1) = None"
  shows "cwRedis (cacheInvalidate env key w) = redis_del (negativeCacheKey key) (redis_del key (cwRedis w))"
  using assms
  by (auto simp: cacheInvalidate_def redis_exec_def redis_del_both_def Let_def cw_now_def on_l1_def
      split: prod.splits sum.splits)

text \<open>So a change of one row followed by the invalidation of its key keeps the agreement.\<close>

lemma invalidate_coherent:
  assumes "coherent K db w" "value_keys K" "key \<in> K" "\<And>k. k \<noteq> key \<Longrightarrow> db' k = db k"
    and "cwRedis (cacheInvalidate env key w) = redis_del (negativeCacheKey key) (redis_del key (cwRedis w))"
  shows "coherent K db' (cacheInvalidate env key w)"
proof -
  have d: "k \<noteq> negativeCacheKey k'" if "k \<in> K" "k' \<in> K" for k k'
    using assms(2) that unfolding value_keys_def by blast
  have "l1_agrees K db' (cwL1 (cacheInvalidate env key w))"
    using assms(1,4) unfolding coherent_def l1_agrees_def cacheInvalidate_l1 by (auto split: if_splits)
  moreover have "redis_get t k (cwRedis (cacheInvalidate env key w)) =
      (if k = key \<or> k = negativeCacheKey key then None else redis_get t k (cwRedis w))" for t k
    unfolding assms(5) by (simp add: redis_get_def redis_del_def)
  then have "redis_agrees K db' (cwRedis (cacheInvalidate env key w))"
    using assms(1,4) unfolding coherent_def redis_agrees_def by (auto split: if_splits)
  ultimately show ?thesis by (simp add: coherent_def)
qed

end
