(* ===== verification/User_Repository.thy ===== *)
theory User_Repository
  imports Cache_Coherence Kafka_Outbox User_Roles
begin

text \<open>
  \<open>modules/user/user.dto.ts\<close> and \<open>user.repository.ts\<close> of the user service. The database holds the
  tables the repository touches; unique keys are enforced as the Prisma schema declares them.
  A world is the database with the cache. \<open>prisma.$transaction\<close> restores the database, and
  only the database, when its callback throws.
\<close>

subsection \<open>Rows and response objects\<close>

datatype deleted_by = BySelf | ByAdmin

fun deleted_by_text :: "deleted_by \<Rightarrow> string" where
  "deleted_by_text BySelf = ''SELF''"
| "deleted_by_text ByAdmin = ''ADMIN''"

record shipping_address =
  saId :: string
  saRecipientName :: string
  saStreet :: string
  saApartment :: "string option"
  saCity :: string
  saState :: string
  saPostalCode :: string
  saCountry :: string
  saIsDefault :: bool
  saLabel :: "string option"

record customer_profile =
  cpUserId :: string
  cpFirstName :: string
  cpLastName :: string
  cpReferralCode :: string
  cpPhone :: "string option"
  cpAvatar :: "string option"
  cpDateOfBirth :: "time option"
  cpShippingAddresses :: "shipping_address list"

record seller_profile =
  spUserId :: string
  spFirstName :: string
  spLastName :: string
  spPhone :: "string option"
  spAvatar :: "string option"
  spBio :: "string option"

record admin_profile =
  apUserId :: string
  apFirstName :: string
  apLastName :: string
  apPhone :: "string option"
  apAvatar :: "string option"

record user_row =
  uId :: string
  uEmail :: string
  uRole :: "role list"
  uIsActive :: bool
  uIsBlocked :: bool
  uIsDeleted :: bool
  uDeletedAt :: "time option"
  uDeletedBy :: "deleted_by option"
  uCreatedAt :: time
  uUpdatedAt :: time

record customer_dto =
  cdFirstName :: string
  cdLastName :: string
  cdPhone :: "string option"
  cdAvatar :: "string option"
  cdDateOfBirth :: "string option"
  cdShippingAddresses :: "shipping_address list"

record seller_dto =
  sdFirstName :: string
  sdLastName :: string
  sdPhone :: "string option"
  sdAvatar :: "string option"
  sdBio :: "string option"

record admin_dto =
  adFirstName :: string
  adLastName :: string
  adPhone :: "string option"
  adAvatar :: "string option"

datatype profile_dto =
    CustomerProfileDTO customer_dto
  | SellerProfileDTO seller_dto
  | AdminProfileDTO admin_dto

record user_dto =
  dtoId :: string
  dtoEmail :: string
  dtoRole :: "role list"
  dtoIsActive :: bool
  dtoIsBlocked :: bool
  dtoCreatedAt :: string
  dtoUpdatedAt :: string
  dtoProfile :: "profile_dto option"

definition mapCustomerProfile :: "customer_profile \<Rightarrow> customer_dto" where
  "mapCustomerProfile p = \<lparr>cdFirstName = cpFirstName p, cdLastName = cpLastName p, cdPhone = cpPhone p,
     cdAvatar = cpAvatar p, cdDateOfBirth = map_option iso_of (cpDateOfBirth p),
     cdShippingAddresses = cpShippingAddresses p\<rparr>"

definition mapSellerProfile :: "seller_profile \<Rightarrow> seller_dto" where
  "mapSellerProfile p = \<lparr>sdFirstName = spFirstName p, sdLastName = spLastName p, sdPhone = spPhone p,
     sdAvatar = spAvatar p, sdBio = spBio p\<rparr>"

definition mapAdminProfile :: "admin_profile \<Rightarrow> admin_dto" where
  "mapAdminProfile p = \<lparr>adFirstName = apFirstName p, adLastName = apLastName p, adPhone = apPhone p,
     adAvatar = apAvatar p\<rparr>"

text \<open>The customer profile wins over the seller profile, that over the admin profile.\<close>

definition toUserResponseDTO ::
    "user_row \<Rightarrow> customer_profile option \<Rightarrow> seller_profile option \<Rightarrow> admin_profile option \<Rightarrow> user_dto" where
  "toUserResponseDTO u c s a =
     \<lparr>dtoId = uId u, dtoEmail = uEmail u, dtoRole = uRole u, dtoIsActive = uIsActive u,
      dtoIsBlocked = uIsBlocked u, dtoCreatedAt = iso_of (uCreatedAt u),
      dtoUpdatedAt = iso_of (uUpdatedAt u),
      dtoProfile = (case c of Some p \<Rightarrow> Some (CustomerProfileDTO (mapCustomerProfile p))
        | None \<Rightarrow> (case s of Some p \<Rightarrow> Some (SellerProfileDTO (mapSellerProfile p))
        | None \<Rightarrow> (case a of Some p \<Rightarrow> Some (AdminProfileDTO (mapAdminProfile p)) | None \<Rightarrow> None)))\<rparr>"

subsection \<open>The database\<close>

record audit_row =
  auActorId :: string
  auActorEmail :: string
  auActorDisplayName :: string
  auAction :: string
  auTargetId :: string
  auTargetType :: string
  auOldValues :: "(string \<times> json) list option"
  auNewValues :: "(string \<times> json) list option"
  auDiff :: "(string \<times> json) list option"
  auIpAddress :: "string option"
  auUserAgent :: "string option"

record user_db =
  udUsers :: "user_row list"
  udCustomers :: "customer_profile list"
  udSellers :: "seller_profile list"
  udAdmins :: "admin_profile list"
  udAudit :: "audit_row list"
  udOutbox :: "outbox_row list"

record user_env =
  ueCache :: cache_env
  ueNow :: time
  ueUuid :: string
  ueRowUuid :: string
  ueParseDate :: "string \<Rightarrow> time"

record user_world =
  uwDb :: user_db
  uwCache :: "user_dto cache_world"

type_synonym 'a uw = "user_world \<Rightarrow> ('a, user_world) res"

definition foreign_key_violation :: js_error where
  "foreign_key_violation = PrismaKnown ''P2003''
     \<lparr>metaTarget = None, metaCause = None, metaFieldName = Some ''userId'', metaConstraint = None,
      metaColumnName = None\<rparr> ''Foreign key constraint failed''"

definition with_db :: "(user_db \<Rightarrow> user_db) \<Rightarrow> user_world \<Rightarrow> user_world" where
  "with_db f w = w\<lparr>uwDb := f (uwDb w)\<rparr>"

definition transaction :: "'a uw \<Rightarrow> 'a uw" where
  "transaction f w = (case f w of
     (Inl e, w') \<Rightarrow> (Inl e, w'\<lparr>uwDb := uwDb w\<rparr>)
   | (Inr x, w') \<Rightarrow> (Inr x, w'))"

definition find_user :: "string \<Rightarrow> user_db \<Rightarrow> user_row option" where
  "find_user i db = find (\<lambda>u. uId u = i) (udUsers db)"

text \<open>\<open>include: userProfileIncludes\<close>\<close>

definition dto_of :: "user_db \<Rightarrow> user_row \<Rightarrow> user_dto" where
  "dto_of db u = toUserResponseDTO u (find (\<lambda>p. cpUserId p = uId u) (udCustomers db))
     (find (\<lambda>p. spUserId p = uId u) (udSellers db)) (find (\<lambda>p. apUserId p = uId u) (udAdmins db))"

definition active_by_id :: "user_db \<Rightarrow> string \<Rightarrow> user_dto option" where
  "active_by_id db i =
     map_option (dto_of db) (find (\<lambda>u. uId u = i \<and> \<not> uIsDeleted u) (udUsers db))"

definition active_by_email :: "user_db \<Rightarrow> string \<Rightarrow> user_dto option" where
  "active_by_email db e =
     map_option (dto_of db) (find (\<lambda>u. uEmail u = e \<and> \<not> uIsDeleted u) (udUsers db))"

subsection \<open>Repository operations\<close>

definition createUser :: "user_env \<Rightarrow> string \<Rightarrow> string \<Rightarrow> role \<Rightarrow> user_dto uw" where
  "createUser env i email r w =
     (let db = uwDb w in
      if i \<in> uId ` set (udUsers db) then (Inl (unique_violation ''id''), w)
      else if email \<in> uEmail ` set (udUsers db) then (Inl (unique_violation ''email''), w)
      else let u = \<lparr>uId = i, uEmail = email, uRole = [r], uIsActive = True, uIsBlocked = False,
                    uIsDeleted = False, uDeletedAt = None, uDeletedBy = None,
                    uCreatedAt = ueNow env, uUpdatedAt = ueNow env\<rparr>;
               w' = with_db (\<lambda>db. db\<lparr>udUsers := udUsers db @ [u]\<rparr>) w
           in (Inr (dto_of (uwDb w') u), w'))"

definition update_user :: "user_env \<Rightarrow> string \<Rightarrow> (user_row \<Rightarrow> user_row) \<Rightarrow> unit uw" where
  "update_user env i f w =
     (if i \<in> uId ` set (udUsers (uwDb w))
      then (Inr (), with_db (\<lambda>db. db\<lparr>udUsers :=
              update_where (\<lambda>u. uId u = i) (\<lambda>u. (f u)\<lparr>uUpdatedAt := ueNow env\<rparr>) (udUsers db)\<rparr>) w)
      else (Inl record_not_found, w))"

definition addRole :: "user_env \<Rightarrow> string \<Rightarrow> role \<Rightarrow> unit uw" where
  "addRole env i r = update_user env i (\<lambda>u. u\<lparr>uRole := uRole u @ [r]\<rparr>)"

definition findUserByIdIncludingDeleted :: "string \<Rightarrow> user_dto option uw" where
  "findUserByIdIncludingDeleted i w =
     (Inr (map_option (dto_of (uwDb w)) (find_user i (uwDb w))), w)"

definition cached_read :: "user_env \<Rightarrow> string \<Rightarrow> user_dto option \<Rightarrow> user_dto option uw" where
  "cached_read env key fetched w =
     (case cacheGet (ueCache env) (DEFAULT_CACHE_OPTIONS\<lparr>coL2Ttl := TTL_USER_PROFILE\<rparr>) key
             (Inr fetched) (uwCache w)
      of (r, c) \<Rightarrow> (r, w\<lparr>uwCache := c\<rparr>))"

definition findUserById :: "user_env \<Rightarrow> string \<Rightarrow> user_dto option uw" where
  "findUserById env i w = cached_read env (userProfileKey i) (active_by_id (uwDb w) i) w"

definition findUserByEmail :: "user_env \<Rightarrow> string \<Rightarrow> user_dto option uw" where
  "findUserByEmail env email w = cached_read env (userEmailKey email) (active_by_email (uwDb w) email) w"

definition existsByEmailIncludingDeleted :: "string \<Rightarrow> bool uw" where
  "existsByEmailIncludingDeleted email w = (Inr (email \<in> uEmail ` set (udUsers (uwDb w))), w)"

definition invalidate :: "user_env \<Rightarrow> string \<Rightarrow> user_world \<Rightarrow> user_world" where
  "invalidate env key w = w\<lparr>uwCache := cacheInvalidate (ueCache env) key (uwCache w)\<rparr>"

definition softDeleteUser :: "user_env \<Rightarrow> string \<Rightarrow> deleted_by \<Rightarrow> unit uw" where
  "softDeleteUser env i by_whom w =
     on_ok (update_user env i (\<lambda>u. u\<lparr>uIsDeleted := True, uIsActive := False,
              uDeletedAt := Some (ueNow env), uDeletedBy := Some by_whom\<rparr>) w)
       (\<lambda>_ w. (Inr (), invalidate env (userProfileKey i) w))"

text \<open>The profiles go with the user (\<open>onDelete: Cascade\<close>).\<close>

definition repo_hardDeleteUser :: "string \<Rightarrow> unit uw" where
  "repo_hardDeleteUser i w =
     (if i \<in> uId ` set (udUsers (uwDb w))
      then (Inr (), with_db (\<lambda>db. db\<lparr>udUsers := filter (\<lambda>u. uId u \<noteq> i) (udUsers db),
              udCustomers := filter (\<lambda>p. cpUserId p \<noteq> i) (udCustomers db),
              udSellers := filter (\<lambda>p. spUserId p \<noteq> i) (udSellers db),
              udAdmins := filter (\<lambda>p. apUserId p \<noteq> i) (udAdmins db)\<rparr>) w)
      else (Inl record_not_found, w))"

definition repo_restoreUser :: "user_env \<Rightarrow> string \<Rightarrow> user_dto uw" where
  "repo_restoreUser env i w =
     on_ok (update_user env i (\<lambda>u. u\<lparr>uIsDeleted := False, uIsActive := True, uDeletedAt := None,
              uDeletedBy := None\<rparr>) w)
       (\<lambda>_ w. (case find_user i (uwDb w) of
            None \<Rightarrow> (Inl record_not_found, w)
          | Some u \<Rightarrow> (Inr (dto_of (uwDb w) u), invalidate env (userProfileKey (uId u)) w)))"

text \<open>\<open>Promise.all\<close> of the two invalidations; the calls of the first are sent first.\<close>

definition invalidateUserCache :: "user_env \<Rightarrow> string \<Rightarrow> string \<Rightarrow> user_world \<Rightarrow> user_world" where
  "invalidateUserCache env i email w =
     invalidate env (userEmailKey email) (invalidate env (userProfileKey i) w)"

definition repo_createCustomerProfile ::
    "user_env \<Rightarrow> string \<Rightarrow> string \<Rightarrow> string \<Rightarrow> string option \<Rightarrow> string option \<Rightarrow> string option \<Rightarrow> unit uw" where
  "repo_createCustomerProfile env userId fn ln phone avatar dob w =
     (let db = uwDb w;
          referralCode = fn @ ''-'' @ ln @ ''-'' @ take 8 (ueRowUuid env) in
      if userId \<notin> uId ` set (udUsers db) then (Inl foreign_key_violation, w)
      else if userId \<in> cpUserId ` set (udCustomers db) then (Inl (unique_violation ''userId''), w)
      else if referralCode \<in> cpReferralCode ` set (udCustomers db)
           then (Inl (unique_violation ''referralCode''), w)
      else (Inr (), with_db (\<lambda>db. db\<lparr>udCustomers := udCustomers db @
              [\<lparr>cpUserId = userId, cpFirstName = fn, cpLastName = ln, cpReferralCode = referralCode,
                cpPhone = phone, cpAvatar = avatar,
                cpDateOfBirth = (if str_truthy dob then map_option (ueParseDate env) dob else None),
                cpShippingAddresses = []\<rparr>]\<rparr>) w))"

definition repo_createSellerProfile ::
    "string \<Rightarrow> string \<Rightarrow> string \<Rightarrow> string option \<Rightarrow> string option \<Rightarrow> unit uw" where
  "repo_createSellerProfile userId fn ln phone bio w =
     (let db = uwDb w in
      if userId \<notin> uId ` set (udUsers db) then (Inl foreign_key_violation, w)
      else if userId \<in> spUserId ` set (udSellers db) then (Inl (unique_violation ''userId''), w)
      else (Inr (), with_db (\<lambda>db. db\<lparr>udSellers := udSellers db @
              [\<lparr>spUserId = userId, spFirstName = fn, spLastName = ln, spPhone = phone,
                spAvatar = None, spBio = bio\<rparr>]\<rparr>) w))"

definition repo_createAdminProfile :: "string \<Rightarrow> string \<Rightarrow> string \<Rightarrow> unit uw" where
  "repo_createAdminProfile userId fn ln w =
     (let db = uwDb w in
      if userId \<notin> uId ` set (udUsers db) then (Inl foreign_key_violation, w)
      else if userId \<in> apUserId ` set (udAdmins db) then (Inl (unique_violation ''userId''), w)
      else (Inr (), with_db (\<lambda>db. db\<lparr>udAdmins := udAdmins db @
              [\<lparr>apUserId = userId, apFirstName = fn, apLastName = ln, apPhone = None,
                apAvatar = None\<rparr>]\<rparr>) w))"

subsection \<open>Audit log\<close>

text \<open>\<open>!==\<close> on JSON data: arrays and objects are compared by identity, and those of the two
  records are never the same object.\<close>

fun strictly_equal :: "json \<Rightarrow> json \<Rightarrow> bool" where
  "strictly_equal (JArr xs) y = False"
| "strictly_equal (JObj kvs) y = False"
| "strictly_equal x y = (x = y)"

definition computeDiff :: "(string \<times> json) list \<Rightarrow> (string \<times> json) list \<Rightarrow> (string \<times> json) list" where
  "computeDiff old new =
     List.map (\<lambda>(k, v). (k, JObj [(''from'', the (map_of old k)), (''to'', v)]))
       (filter (\<lambda>(k, v). case map_of old k of None \<Rightarrow> False | Some u \<Rightarrow> \<not> strictly_equal u v) new)"

record audit_input =
  aiActorId :: string
  aiActorEmail :: string
  aiActorDisplayName :: string
  aiAction :: string
  aiTargetId :: string
  aiTargetType :: string
  aiOldValues :: "(string \<times> json) list option"
  aiNewValues :: "(string \<times> json) list option"
  aiIpAddress :: "string option"
  aiUserAgent :: "string option"

definition audit_of :: "audit_input \<Rightarrow> audit_row" where
  "audit_of p = \<lparr>auActorId = aiActorId p, auActorEmail = aiActorEmail p,
     auActorDisplayName = aiActorDisplayName p, auAction = aiAction p, auTargetId = aiTargetId p,
     auTargetType = aiTargetType p, auOldValues = aiOldValues p, auNewValues = aiNewValues p,
     auDiff = (case (aiOldValues p, aiNewValues p) of
        (Some old, Some new) \<Rightarrow> Some (computeDiff old new) | _ \<Rightarrow> None),
     auIpAddress = aiIpAddress p, auUserAgent = aiUserAgent p\<rparr>"

definition writeAuditLog :: "audit_input \<Rightarrow> unit uw" where
  "writeAuditLog p w = (Inr (), with_db (\<lambda>db. db\<lparr>udAudit := udAudit db @ [audit_of p]\<rparr>) w)"

definition emit :: "user_env \<Rightarrow> string \<Rightarrow> string \<Rightarrow> json \<Rightarrow> unit uw" where
  "emit env ty agg payload w =
     (Inr (), with_db (\<lambda>db. db\<lparr>udOutbox :=
        emitDomainEvent (ueUuid env) (ueNow env) ty agg payload None (udOutbox db)\<rparr>) w)"

end
