(* ===== verification/User_Service.thy ===== *)
theory User_Service
  imports User_Repository
begin

text \<open>
  \<open>modules/user/provisionAccount.ts\<close>, \<open>user.service.ts\<close> and the services of the modules customer,
  seller and admin of the user service.
\<close>

subsection \<open>Account provisioning\<close>

record provision_input =
  piId :: string
  piEmail :: string
  piRole :: role
  piActorId :: string
  piFirstName :: string
  piLastName :: string
  piIpAddress :: "string option"
  piUserAgent :: "string option"

definition system_audit ::
    "string \<Rightarrow> string \<Rightarrow> string \<Rightarrow> (string \<times> json) list option \<Rightarrow> (string \<times> json) list option \<Rightarrow>
       string option \<Rightarrow> string option \<Rightarrow> audit_input" where
  "system_audit actor action target old new ip ua =
     \<lparr>aiActorId = actor, aiActorEmail = ''system@nexus.internal'', aiActorDisplayName = ''user-service'',
      aiAction = action, aiTargetId = target, aiTargetType = ''User'', aiOldValues = old,
      aiNewValues = new, aiIpAddress = ip, aiUserAgent = ua\<rparr>"

definition registered_payload :: "user_env \<Rightarrow> provision_input \<Rightarrow> json" where
  "registered_payload env p = JObj
     [(''userId'', JStr (piId p)), (''email'', JStr (piEmail p)), (''role'', JStr (role_text (piRole p))),
      (''firstName'', JStr (piFirstName p)), (''lastName'', JStr (piLastName p)),
      (''createdAt'', JStr (iso_of (ueNow env)))]"

text \<open>The body of the transaction; \<open>createRoleProfile\<close> is the caller's profile write.\<close>

definition provision_tx :: "user_env \<Rightarrow> provision_input \<Rightarrow> unit uw \<Rightarrow> string uw" where
  "provision_tx env p createRoleProfile w =
     on_ok (createUser env (piId p) (piEmail p) (piRole p) w) (\<lambda>_ w.
     on_ok (createRoleProfile w) (\<lambda>_ w.
     on_ok (writeAuditLog (system_audit (piActorId p) ''USER_CREATED'' (piId p) None
              (Some [(''email'', JStr (piEmail p)), (''role'', JStr (role_text (piRole p))),
                     (''firstName'', JStr (piFirstName p)), (''lastName'', JStr (piLastName p))])
              (piIpAddress p) (piUserAgent p)) w) (\<lambda>_ w.
     on_ok (emit env USER_REGISTERED (piId p) (registered_payload env p) w) (\<lambda>_ w.
     (Inr (piId p), w)))))"

definition provisionAccount :: "user_env \<Rightarrow> provision_input \<Rightarrow> unit uw \<Rightarrow> user_dto uw" where
  "provisionAccount env p createRoleProfile w =
     on_ok (findUserById env (piId p) w) (\<lambda>existing w.
     case existing of
       Some u \<Rightarrow> (Inr u, w)
     | None \<Rightarrow>
       on_ok (existsByEmailIncludingDeleted (piEmail p) w) (\<lambda>emailExists w.
       if emailExists
       then (Inl (AppErr (ConflictError ''A user with this email address already exists'' (Some ''email''))), w)
       else
         on_ok (transaction (provision_tx env p createRoleProfile) w) (\<lambda>userId w.
         on_ok (findUserById env userId w) (\<lambda>user w.
         case user of
           None \<Rightarrow> (Inl (internal_error ''Account provisioning failed''), w)
         | Some u \<Rightarrow> (Inr u, w)))))"

record profile_payload =
  ppId :: string
  ppEmail :: string
  ppFirstName :: string
  ppLastName :: string
  ppPhone :: "string option"
  ppAvatar :: "string option"
  ppDateOfBirth :: "string option"
  ppBio :: "string option"

definition provision_input_of ::
    "role \<Rightarrow> profile_payload \<Rightarrow> string \<Rightarrow> string option \<Rightarrow> string option \<Rightarrow> provision_input" where
  "provision_input_of r p actor ip ua =
     \<lparr>piId = ppId p, piEmail = ppEmail p, piRole = r, piActorId = actor, piFirstName = ppFirstName p,
      piLastName = ppLastName p, piIpAddress = ip, piUserAgent = ua\<rparr>"

definition createCustomerProfile ::
    "user_env \<Rightarrow> profile_payload \<Rightarrow> string \<Rightarrow> string option \<Rightarrow> string option \<Rightarrow> user_dto uw" where
  "createCustomerProfile env p actor ip ua = provisionAccount env (provision_input_of CUSTOMER p actor ip ua)
     (repo_createCustomerProfile env (ppId p) (ppFirstName p) (ppLastName p) (ppPhone p) (ppAvatar p)
        (ppDateOfBirth p))"

definition createSellerProfile ::
    "user_env \<Rightarrow> profile_payload \<Rightarrow> string \<Rightarrow> string option \<Rightarrow> string option \<Rightarrow> user_dto uw" where
  "createSellerProfile env p actor ip ua = provisionAccount env (provision_input_of SELLER p actor ip ua)
     (repo_createSellerProfile (ppId p) (ppFirstName p) (ppLastName p) (ppPhone p) (ppBio p))"

definition createAdminProfile ::
    "user_env \<Rightarrow> profile_payload \<Rightarrow> string \<Rightarrow> string option \<Rightarrow> string option \<Rightarrow> user_dto uw" where
  "createAdminProfile env p actor ip ua = provisionAccount env (provision_input_of ADMIN p actor ip ua)
     (repo_createAdminProfile (ppId p) (ppFirstName p) (ppLastName p))"

definition createSuperAdminProfile ::
    "user_env \<Rightarrow> profile_payload \<Rightarrow> string \<Rightarrow> string option \<Rightarrow> string option \<Rightarrow> user_dto uw" where
  "createSuperAdminProfile env p actor ip ua =
     provisionAccount env (provision_input_of SUPER_ADMIN p actor ip ua)
       (repo_createAdminProfile (ppId p) (ppFirstName p) (ppLastName p))"

subsection \<open>A customer becomes a seller\<close>

definition become_seller_tx ::
    "user_env \<Rightarrow> profile_payload \<Rightarrow> string \<Rightarrow> string \<Rightarrow> role list \<Rightarrow> unit uw" where
  "become_seller_tx env p actorId actorEmail roles w =
     on_ok (repo_createSellerProfile actorId (ppFirstName p) (ppLastName p) (ppPhone p) (ppBio p) w) (\<lambda>_ w.
     on_ok (addRole env actorId SELLER w) (\<lambda>_ w.
     on_ok (writeAuditLog
              \<lparr>aiActorId = actorId, aiActorEmail = actorEmail,
               aiActorDisplayName = ppFirstName p @ '' '' @ ppLastName p,
               aiAction = ''SELLER_PROFILE_ATTACHED'', aiTargetId = actorId, aiTargetType = ''User'',
               aiOldValues = Some [(''role'', roles_json roles)],
               aiNewValues = Some [(''role'', roles_json (roles @ [SELLER]))],
               aiIpAddress = None, aiUserAgent = None\<rparr> w) (\<lambda>_ w.
     emit env SELLER_PROFILE_ATTACHED actorId
       (JObj [(''userId'', JStr actorId), (''email'', JStr actorEmail)]) w)))"

definition becomeSeller :: "user_env \<Rightarrow> profile_payload \<Rightarrow> string \<Rightarrow> string \<Rightarrow> user_dto uw" where
  "becomeSeller env p actorId actorEmail w =
     on_ok (findUserById env actorId w) (\<lambda>found w.
     case found of
       None \<Rightarrow> (Inl (AppErr (NotFoundError ''User not found'' (Some ''id''))), w)
     | Some user \<Rightarrow>
         if list_ex admin_role (dtoRole user)
         then (Inl (forbidden ''Admin identities cannot gain customer or seller roles''), w)
         else if SELLER \<in> set (dtoRole user)
         then (Inl (AppErr (ConflictError ''A seller profile already exists on this account''
                 (Some ''sellerProfile''))), w)
         else
           on_ok (transaction (become_seller_tx env p actorId actorEmail (dtoRole user)) w) (\<lambda>_ w.
           on_ok (findUserById env actorId (invalidateUserCache env actorId actorEmail w)) (\<lambda>updated w.
           case updated of
             None \<Rightarrow> (Inl (internal_error ''Seller profile attachment failed''), w)
           | Some u \<Rightarrow> (Inr u, w))))"

subsection \<open>Reading, deleting, restoring\<close>

definition getUserById :: "user_env \<Rightarrow> string \<Rightarrow> user_dto option uw" where
  "getUserById env i = findUserById env i"

definition getUserByEmail :: "user_env \<Rightarrow> string \<Rightarrow> user_dto option uw" where
  "getUserByEmail env e = findUserByEmail env e"

definition user_not_found :: js_error where
  "user_not_found = AppErr (BadRequestError ''User not found'' (Some ''id''))"

definition identity_values :: "user_dto \<Rightarrow> (string \<times> json) list" where
  "identity_values u = [(''email'', JStr (dtoEmail u)), (''role'', roles_json (dtoRole u))]"

definition delete_tx :: "user_env \<Rightarrow> string \<Rightarrow> string \<Rightarrow> user_dto \<Rightarrow> unit uw" where
  "delete_tx env i actorId user w =
     (let by_whom = (if actorId = i then BySelf else ByAdmin) in
      on_ok (softDeleteUser env i by_whom w) (\<lambda>_ w.
      on_ok (writeAuditLog (system_audit actorId ''USER_DELETED'' i (Some (identity_values user)) None
               None None) w) (\<lambda>_ w.
      emit env USER_DELETED i
        (JObj [(''userId'', JStr i), (''email'', JStr (dtoEmail user)),
               (''deletedAt'', JStr (iso_of (ueNow env))),
               (''deletedBy'', JStr (deleted_by_text by_whom))]) w)))"

definition deleteUser :: "user_env \<Rightarrow> string \<Rightarrow> string \<Rightarrow> unit uw" where
  "deleteUser env i actorId w =
     on_ok (findUserById env i w) (\<lambda>found w.
     case found of
       None \<Rightarrow> (Inl user_not_found, w)
     | Some user \<Rightarrow> transaction (delete_tx env i actorId user) w)"

definition hardDeleteUser :: "user_env \<Rightarrow> string \<Rightarrow> string \<Rightarrow> unit uw" where
  "hardDeleteUser env i actorId w =
     on_ok (findUserById env i w) (\<lambda>found w.
     case found of
       None \<Rightarrow> (Inl user_not_found, w)
     | Some user \<Rightarrow> transaction (\<lambda>w.
         on_ok (repo_hardDeleteUser i w) (\<lambda>_ w.
         writeAuditLog (system_audit actorId ''USER_HARD_DELETED'' i (Some (identity_values user)) None
           None None) w)) w)"

definition OWNER_RESTORE_DAYS :: int where "OWNER_RESTORE_DAYS = 30"
definition ADMIN_RESTORE_DAYS :: int where "ADMIN_RESTORE_DAYS = 60"

definition restore_deadline :: "time \<Rightarrow> deleted_by option \<Rightarrow> time" where
  "restore_deadline deletedAt by_whom = deletedAt +
     (if by_whom = Some ByAdmin then ADMIN_RESTORE_DAYS else OWNER_RESTORE_DAYS) * 24 * 60 * 60 * 1000"

definition restoreUser :: "user_env \<Rightarrow> string \<Rightarrow> string \<Rightarrow> user_dto uw" where
  "restoreUser env i actorId w =
     (case find_user i (uwDb w) of
        None \<Rightarrow> (Inl user_not_found, w)
      | Some raw \<Rightarrow> (case uDeletedAt raw of
          None \<Rightarrow> (Inl (AppErr (BadRequestError ''Account is not restorable'' (Some ''id''))), w)
        | Some t \<Rightarrow>
            if ueNow env > restore_deadline t (uDeletedBy raw)
            then (Inl (AppErr (BadRequestError ''Restore window expired'' (Some ''id''))), w)
            else
              on_ok (repo_restoreUser env i w) (\<lambda>user w.
              on_ok (writeAuditLog (system_audit actorId ''USER_RESTORED'' i None
                       (Some (identity_values user)) None None) w) (\<lambda>_ w.
              on_ok (transaction (emit env USER_RESTORED i
                       (JObj [(''userId'', JStr i), (''email'', JStr (dtoEmail user))])) w) (\<lambda>_ w.
              (Inr user, w))))))"

end
