(* ===== verification/User_Claims.thy ===== *)
theory User_Claims
  imports User_Service
begin

text \<open>Properties of the cache, the provisioning of accounts and the user operations.\<close>

subsection \<open>Redis up, breaker closed\<close>

definition redis_up :: "cache_env \<Rightarrow> bool" where
  "redis_up env \<longleftrightarrow> (\<forall>n. ceRedisFault env n = None)"

definition calm :: "'v cache_world \<Rightarrow> bool" where
  "calm w \<longleftrightarrow> cbState (cwBreaker w) = CLOSED \<and> failureTimestamps (cwBreaker w) = []"

lemma redis_exec_up:
  assumes "redis_up env" "calm w" "op (cw_now env w) (cwRedis w) = (Inr x, r)"
  obtains w' where "redis_exec env op w = (Inr x, w')" "cwRedis w' = r" "cwL1 w' = cwL1 w" "calm w'"
    "cwTick w' = cwTick w + 1"
proof -
  have b: "execute_begin redis_breaker_options t (cwBreaker w) = (Inr (), (cwBreaker w)\<lparr>failureCount := 0\<rparr>)" for t
    using assms(2) by (simp add: calm_def execute_begin_def pruneFailureTimestamps_def enter_half_open_def Let_def)
  define w' where "w' = w\<lparr>cwTick := cwTick w + 1, cwBreaker := (cwBreaker w)\<lparr>failureCount := 0\<rparr>, cwRedis := r\<rparr>"
  have "redis_exec env op w = (Inr x, w')"
    using assms b by (simp add: redis_exec_def redis_up_def cw_now_def Let_def calm_def execute_success_def w'_def)
  then show thesis using assms(2) by (intro that[of w']) (simp_all add: w'_def calm_def)
qed

text \<open>A key that is cached nowhere, and one whose absence Redis remembers at all times the
  environment shows.\<close>

definition uncached :: "string \<Rightarrow> 'v cache_world \<Rightarrow> bool" where
  "uncached key w \<longleftrightarrow>
     (\<forall>t. l1_lookup t key (cwL1 w) = None) \<and> (\<forall>t. redis_get t key (cwRedis w) = None)"

definition absence_known :: "cache_env \<Rightarrow> string \<Rightarrow> 'v cache_world \<Rightarrow> bool" where
  "absence_known env key w \<longleftrightarrow>
     (\<forall>n. redis_get (ceClock env n) (negativeCacheKey key) (cwRedis w) = Some (Txt ''1''))"

lemma negative_ne [simp]: "key \<noteq> negativeCacheKey key" "negativeCacheKey key \<noteq> key"
  by (simp_all add: negativeCacheKey_def)

lemma l1_check_uncached:
  assumes "uncached key w"
  obtains w' where "l1_check env key w = (Unknown, w')" "cwRedis w' = cwRedis w" "cwBreaker w' = cwBreaker w"
      "uncached key w'" "l1_lookup (cw_now env w) (negativeCacheKey key) (cwL1 w) = None"
  | w' where "l1_check env key w = (KnownAbsent, w')" "cwRedis w' = cwRedis w" "cwBreaker w' = cwBreaker w"
      "uncached key w'" "l1_lookup (cw_now env w) (negativeCacheKey key) (cwL1 w) \<noteq> None"
proof -
  obtain a c where a: "l1_get (cw_now env w) key (cwL1 w) = (a, c)" by force
  obtain b c' where b: "l1_get (cw_now env w) (negativeCacheKey key) c = (b, c')" by force
  have an: "a = None" using l1_get_lookup[of "cw_now env w" key "cwL1 w"] a assms by (simp add: uncached_def)
  have c1: "l1_lookup t k c \<in> {l1_lookup t k (cwL1 w), None}" for t k
    using l1_get_state[of t k "cw_now env w" key "cwL1 w"] a by simp
  have c2: "l1_lookup t k c' \<in> {l1_lookup t k c, None}" for t k
    using l1_get_state[of t k "cw_now env w" "negativeCacheKey key" c] b by simp
  have un: "uncached key (w\<lparr>cwL1 := c'\<rparr>)"
  proof -
    have "l1_lookup t key c' = None" for t
      using c1[of t key] c2[of t key] assms unfolding uncached_def by auto
    with assms show ?thesis by (simp add: uncached_def)
  qed
  have c: "c = cwL1 w"
    using a an assms by (auto simp: l1_get_def uncached_def l1_lookup_def split: option.splits if_splits)
  have bl: "b = l1_lookup (cw_now env w) (negativeCacheKey key) (cwL1 w)"
    using l1_get_lookup[of "cw_now env w" "negativeCacheKey key" c] b c by simp
  show thesis
  proof (cases b)
    case None
    then show thesis using a b an un bl that(1)[of "w\<lparr>cwL1 := c'\<rparr>"] by (simp add: l1_check_def)
  next
    case (Some x)
    then show thesis using a b an un bl that(2)[of "w\<lparr>cwL1 := c'\<rparr>"] by (simp add: l1_check_def)
  qed
qed

lemma uncached_evict: "(\<forall>t. l1_lookup t k c = None) \<Longrightarrow> l1_lookup t k (l1_evict c) = None"
  using l1_lookup_evict[of t k c] by auto

lemma uncached_on_l1:
  "uncached key w \<Longrightarrow> uncached key (on_l1 (l1_set t (negativeCacheKey key) x n) w)"
  by (auto simp: uncached_def on_l1_def l1_lookup_set uncached_evict)

text \<open>A known absence is answered from the caches.\<close>

lemma cacheGet_absent:
  assumes "redis_up env" "calm w" "uncached key w" "absence_known env key w"
  shows "fst (cacheGet env opts key fetch w) = Inr None \<and>
    calm (snd (cacheGet env opts key fetch w)) \<and> uncached key (snd (cacheGet env opts key fetch w)) \<and>
    absence_known env key (snd (cacheGet env opts key fetch w))"
proof (cases rule: l1_check_uncached[OF assms(3), of env])
  case (2 w')
  then show ?thesis using assms by (simp add: cacheGet_def calm_def absence_known_def)
next
  case (1 w1)
  have c1: "calm w1" "absence_known env key w1" using 1 assms by (simp_all add: calm_def absence_known_def)
  have "redis_read key (cw_now env w1) (cwRedis w1) = (Inr None, cwRedis w1)"
    using 1(4) by (simp add: redis_read_def uncached_def)
  from redis_exec_up[where op = "redis_read key", OF assms(1) c1(1) this]
  obtain w2 where w2: "redis_exec env (redis_read key) w1 = (Inr None, w2)" "cwRedis w2 = cwRedis w1"
    "cwL1 w2 = cwL1 w1" "calm w2" by metis
  have "redis_read_negative key (cw_now env w2) (cwRedis w2) = (Inr True, cwRedis w2)"
    using c1(2) w2(2) by (simp add: redis_read_negative_def absence_known_def cw_now_def)
  from redis_exec_up[where op = "redis_read_negative key", OF assms(1) w2(4) this]
  obtain w3 where w3: "redis_exec env (redis_read_negative key) w2 = (Inr True, w3)" "cwRedis w3 = cwRedis w2"
    "cwL1 w3 = cwL1 w2" "calm w3" by metis
  let ?w = "on_l1 (l1_set (cw_now env w3) (negativeCacheKey key) L1True (coL1TtlMs opts)) w3"
  have "cacheGet env opts key fetch w = (Inr None, ?w)"
    using 1(1) w2(1) w3(1) by (simp add: cacheGet_def l2_check_def)
  moreover have "uncached key w3" using 1(4) w2(2,3) w3(2,3) by (simp add: uncached_def)
  then have "uncached key ?w" by (rule uncached_on_l1)
  moreover have "calm ?w" using w3(4) by (simp add: calm_def on_l1_def)
  moreover have "absence_known env key ?w"
    using c1(2) w2(2) w3(2) by (simp add: absence_known_def on_l1_def)
  ultimately show ?thesis by simp
qed

text \<open>A miss of an absent row makes the absence known, for a minute.\<close>

definition never_cached :: "string \<Rightarrow> 'v cache_world \<Rightarrow> bool" where
  "never_cached key w \<longleftrightarrow> uncached key w \<and> uncached (negativeCacheKey key) w"

definition within_minute :: "cache_env \<Rightarrow> bool" where
  "within_minute env \<longleftrightarrow> (\<forall>m n. ceClock env m < ceClock env n + 60000)"

lemma cacheGet_learns_absence:
  assumes "redis_up env" "calm w" "never_cached key w" "within_minute env" "coUseNegativeCache opts"
  shows "fst (cacheGet env opts key (Inr None) w) = Inr None \<and>
    calm (snd (cacheGet env opts key (Inr None) w)) \<and> uncached key (snd (cacheGet env opts key (Inr None) w)) \<and>
    absence_known env key (snd (cacheGet env opts key (Inr None) w))"
proof -
  have un: "uncached key w" using assms(3) by (simp add: never_cached_def)
  show ?thesis
  proof (cases rule: l1_check_uncached[OF un, of env])
    case (2 w')
    then show ?thesis using assms(3) by (simp add: never_cached_def uncached_def)
  next
    case (1 w1)
    have c1: "calm w1" using 1 assms(2) by (simp add: calm_def)
    have "redis_read key (cw_now env w1) (cwRedis w1) = (Inr None, cwRedis w1)"
      using 1(4) by (simp add: redis_read_def uncached_def)
    from redis_exec_up[where op = "redis_read key", OF assms(1) c1 this]
    obtain w2 where w2: "redis_exec env (redis_read key) w1 = (Inr None, w2)" "cwRedis w2 = cwRedis w1"
      "cwL1 w2 = cwL1 w1" "calm w2" by metis
    have "redis_read_negative key (cw_now env w2) (cwRedis w2) = (Inr False, cwRedis w2)"
      using assms(3) w2(2) 1(2) by (simp add: redis_read_negative_def never_cached_def uncached_def)
    from redis_exec_up[where op = "redis_read_negative key", OF assms(1) w2(4) this]
    obtain w3 where w3: "redis_exec env (redis_read_negative key) w2 = (Inr False, w3)"
      "cwRedis w3 = cwRedis w2" "cwL1 w3 = cwL1 w2" "calm w3" by metis
    let ?wr = "redis_write (negativeCacheKey key) TTL_NEGATIVE_CACHE (Txt ''1'')"
    have "?wr (cw_now env w3) (cwRedis w3) =
        (Inr (), redis_setex (cw_now env w3) (negativeCacheKey key) TTL_NEGATIVE_CACHE (Txt ''1'') (cwRedis w3))"
      by (simp add: redis_write_def)
    from redis_exec_up[where op = "?wr", OF assms(1) w3(4) this]
    obtain w4 where w4: "redis_exec env ?wr w3 = (Inr (), w4)"
      "cwRedis w4 = redis_setex (cw_now env w3) (negativeCacheKey key) TTL_NEGATIVE_CACHE (Txt ''1'') (cwRedis w3)"
      "cwL1 w4 = cwL1 w3" "calm w4" by metis
    let ?w = "on_l1 (l1_set (cw_now env w4) (negativeCacheKey key) L1True (coL1TtlMs opts)) w4"
    have "cacheGet env opts key (Inr None) w = (Inr None, ?w)"
      using 1(1) w2(1) w3(1) w4(1) assms(5) by (simp add: cacheGet_def l2_check_def populate_def Let_def)
    moreover have "uncached key w4"
      using 1(4) w2(2,3) w3(2,3) w4(2,3) by (simp add: uncached_def)
    then have "uncached key ?w" by (rule uncached_on_l1)
    moreover have "calm ?w" using w4(4) by (simp add: calm_def on_l1_def)
    moreover have "absence_known env key ?w"
      using assms(4) w4(2) by (simp add: absence_known_def on_l1_def within_minute_def cw_now_def TTL_NEGATIVE_CACHE_def)
    ultimately show ?thesis by simp
  qed
qed

subsection \<open>Helper facts on provisioning\<close>

lemma cached_read_db [simp]: "uwDb (snd (cached_read env key f w)) = uwDb w"
  by (simp add: cached_read_def split: prod.splits)

lemma findUserById_db: "findUserById env i w = (r, w') \<Longrightarrow> uwDb w' = uwDb w"
  by (metis cached_read_db findUserById_def snd_conv)

lemma findUserById_ok: "\<exists>u w'. findUserById env i w = (Inr u, w')"
proof -
  have "\<exists>u c. cacheGet e opts key (Inr f) v = (Inr u, c)" for e opts key and f :: "user_dto option" and v
    by (auto simp: cacheGet_def split: prod.splits known.splits)
  then show ?thesis unfolding findUserById_def cached_read_def by (metis (no_types, lifting) case_prod_conv)
qed

definition profile_write :: "unit uw \<Rightarrow> bool" where
  "profile_write f \<longleftrightarrow> (\<forall>w. udUsers (uwDb (snd (f w))) = udUsers (uwDb w) \<and>
     udAudit (uwDb (snd (f w))) = udAudit (uwDb w) \<and> udOutbox (uwDb (snd (f w))) = udOutbox (uwDb w))"

lemma profile_writes:
  "profile_write (repo_createCustomerProfile env i fn ln ph av dob)"
  "profile_write (repo_createSellerProfile i fn ln ph bio)"
  "profile_write (repo_createAdminProfile i fn ln)"
  by (simp_all add: profile_write_def repo_createCustomerProfile_def repo_createSellerProfile_def
      repo_createAdminProfile_def with_db_def Let_def)

text \<open>The four tables a provisioning may touch, before and after: nothing, or one row each.\<close>

definition registers :: "string \<Rightarrow> string \<Rightarrow> role \<Rightarrow> user_db \<Rightarrow> user_db \<Rightarrow> bool" where
  "registers i email r db db' \<longleftrightarrow>
     udUsers db' = udUsers db \<and> udAudit db' = udAudit db \<and> udOutbox db' = udOutbox db \<or>
     (\<exists>u a e. udUsers db' = udUsers db @ [u] \<and> uId u = i \<and> uEmail u = email \<and> uRole u = [r] \<and>
        i \<notin> uId ` set (udUsers db) \<and> email \<notin> uEmail ` set (udUsers db) \<and>
        udAudit db' = udAudit db @ [a] \<and> auAction a = ''USER_CREATED'' \<and> auTargetId a = i \<and>
        udOutbox db' = udOutbox db @ [e] \<and> obEventType e = USER_REGISTERED \<and>
        obAggregateId e = i \<and> obStatus e = PENDING)"

lemma provision_tx_registers:
  assumes "profile_write f"
  shows "registers (piId p) (piEmail p) (piRole p) (uwDb w) (uwDb (snd (transaction (provision_tx env p f) w)))"
proof -
  obtain r1 w1 where c: "createUser env (piId p) (piEmail p) (piRole p) w = (r1, w1)" by force
  obtain r2 w2 where f: "f w1 = (r2, w2)" by force
  have fw: "udUsers (uwDb w2) = udUsers (uwDb w1)" "udAudit (uwDb w2) = udAudit (uwDb w1)"
    "udOutbox (uwDb w2) = udOutbox (uwDb w1)"
    using assms f unfolding profile_write_def by (metis snd_conv)+
  show ?thesis
  proof (cases r1)
    case (Inl e)
    with c show ?thesis by (simp add: transaction_def provision_tx_def registers_def)
  next
    case (Inr d)
    then have cu: "piId p \<notin> uId ` set (udUsers (uwDb w))" "piEmail p \<notin> uEmail ` set (udUsers (uwDb w))"
      using c by (auto simp: createUser_def Let_def split: if_splits)
    show ?thesis
    proof (cases r2)
      case (Inl e)
      with c f Inr show ?thesis by (simp add: transaction_def provision_tx_def registers_def)
    next
      case (Inr x)
      from c \<open>r1 = Inr d\<close> cu have w1: "w1 = with_db (\<lambda>db. db\<lparr>udUsers := udUsers db @
          [\<lparr>uId = piId p, uEmail = piEmail p, uRole = [piRole p], uIsActive = True, uIsBlocked = False,
            uIsDeleted = False, uDeletedAt = None, uDeletedBy = None, uCreatedAt = ueNow env,
            uUpdatedAt = ueNow env\<rparr>]\<rparr>) w"
        by (auto simp: createUser_def Let_def)
      show ?thesis
        using c f \<open>r1 = Inr d\<close> Inr fw cu unfolding w1
        by (auto simp: transaction_def provision_tx_def registers_def writeAuditLog_def emit_def with_db_def
            audit_of_def system_audit_def emitDomainEvent_def writeOutboxEvent_def)
    qed
  qed
qed

lemma registers_refl: "registers i e r db db"
  by (simp add: registers_def)

lemma provisionAccount_registers:
  assumes "profile_write f"
  shows "registers (piId p) (piEmail p) (piRole p) (uwDb w) (uwDb (snd (provisionAccount env p f w)))"
proof -
  obtain u w1 where a: "findUserById env (piId p) w = (Inr u, w1)" using findUserById_ok by blast
  have d1: "uwDb w1 = uwDb w" by (rule findUserById_db[OF a])
  obtain r w2 where t: "transaction (provision_tx env p f) w1 = (r, w2)" by force
  have reg: "registers (piId p) (piEmail p) (piRole p) (uwDb w) (uwDb w2)"
    using provision_tx_registers[OF assms, of p w1 env] t d1 by simp
  show ?thesis
  proof (cases u)
    case (Some x)
    then show ?thesis using a d1 by (simp add: provisionAccount_def registers_refl)
  next
    case None
    show ?thesis
    proof (cases "piEmail p \<in> uEmail ` set (udUsers (uwDb w1)) \<or> \<not> is_ok r")
      case True
      then show ?thesis using a None t reg d1
        by (cases r) (auto simp: provisionAccount_def existsByEmailIncludingDeleted_def registers_refl)
    next
      case False
      then obtain i where r: "r = Inr i" by (auto simp: is_ok_iff)
      obtain v w3 where b: "findUserById env i w2 = (Inr v, w3)" using findUserById_ok by blast
      have "uwDb w3 = uwDb w2" by (rule findUserById_db[OF b])
      then show ?thesis using a None t r b False reg
        by (auto simp: provisionAccount_def existsByEmailIncludingDeleted_def split: option.splits)
    qed
  qed
qed

subsection \<open>Properties\<close>

text \<open>
  C8: Read-through correctness under any outage. When every cached fact agrees with the
  database, \<open>cacheGet\<close> returns what the database holds for the key, absence included, and
  leaves the caches in agreement, whatever Redis calls fail and whatever the breaker does.
\<close>

theorem cacheGet_answers_database:
  assumes "coherent K db w" "value_keys K" "key \<in> K"
  shows "fst (cacheGet env opts key (Inr (db key)) w) = Inr (db key) \<and>
         coherent K db (snd (cacheGet env opts key (Inr (db key)) w))"
  by (rule cacheGet_sound[OF assms])

definition empty_cache :: "'v cache_world" where
  "empty_cache = \<lparr>cwL1 = l1_new 1000, cwBreaker = new_breaker 0, cwRedis = redis_empty, cwTick = 0\<rparr>"

lemma empty_cache_coherent: "coherent K db empty_cache"
  by (simp add: coherent_def l1_agrees_def redis_agrees_def empty_cache_def l1_lookup_def l1_new_def)

theorem cacheGet_answers_database_witness:
  "fst (cacheGet \<lparr>ceClock = \<lambda>n. 5, ceRedisFault = \<lambda>n. Some ''down''\<rparr> DEFAULT_CACHE_OPTIONS
      (userProfileKey ''u1'') (Inr (Some (7 :: nat))) empty_cache) = Inr (Some 7)"
  using cacheGet_answers_database[OF empty_cache_coherent, of "{userProfileKey ''u1''}"
      "userProfileKey ''u1''" "\<lparr>ceClock = \<lambda>n. 5, ceRedisFault = \<lambda>n. Some ''down''\<rparr>"
      DEFAULT_CACHE_OPTIONS "\<lambda>k. Some (7 :: nat)"]
  by (simp add: value_keys_def)

text \<open>
  The in-memory cache never holds more than \<open>maxSize\<close> entries: every \<open>set\<close> and \<open>del\<close> keeps the
  bound, and a \<open>set\<close> evicts at most one entry, the oldest.
\<close>

theorem l1_size_bounded:
  assumes "l1_ok c" "k \<noteq> []"
  shows "length (l1Store (l1_set now k v ttl c)) \<le> l1MaxSize c \<and> l1_ok (l1_set now k v ttl c) \<and>
    l1_ok (l1_del k c) \<and>
    (\<forall>k'. k' \<noteq> k \<and> l1Store c \<noteq> [] \<and> k' \<noteq> fst (hd (l1Store c)) \<longrightarrow>
       l1_lookup t k' (l1_set now k v ttl c) = l1_lookup t k' c)"
proof -
  have m: "l1MaxSize (l1_set now k v ttl c) = l1MaxSize c"
    by (auto simp: l1_set_def l1_evict_def l1_del_def Let_def split: list.splits)
  have "l1_lookup t k' (l1_set now k v ttl c) = l1_lookup t k' c"
    if "k' \<noteq> k" "l1Store c \<noteq> []" "k' \<noteq> fst (hd (l1Store c))" for k'
    using that by (cases "l1Store c") (auto simp: l1_lookup_set l1_evict_def l1_lookup_del)
  then show ?thesis
    using l1_set_ok[OF assms, of now v ttl] l1_del_ok[OF assms(1), of k] m by (auto simp: l1_ok_def)
qed

theorem l1_size_bounded_witness:
  "length (l1Store (l1_set 0 ''b'' (L1Val (1 :: nat)) 100 (l1_set 0 ''a'' (L1Val 2) 100 (l1_new 1)))) \<le> 1"
proof -
  have "l1_ok (l1_set 0 ''a'' (L1Val (2 :: nat)) 100 (l1_new 1))"
    by (simp add: l1_ok_def l1_set_def l1_evict_def l1_new_def Let_def)
  from l1_size_bounded[OF this, of "''b''" 0 "L1Val 1" 100 0] show ?thesis
    by (simp add: l1_set_def l1_evict_def l1_new_def Let_def l1_del_def)
qed

text \<open>
  C7: Provisioning is atomic. Whatever happens, each of the four provisioning operations
  either leaves users, audit log and outbox as they were, or adds exactly one user with the
  given id, email and role (both new), one audit entry and one pending \<open>user.registered\<close> event.
\<close>

theorem provisioning_is_atomic:
  "registers (ppId p) (ppEmail p) CUSTOMER (uwDb w) (uwDb (snd (createCustomerProfile env p actor ip ua w))) \<and>
   registers (ppId p) (ppEmail p) SELLER (uwDb w) (uwDb (snd (createSellerProfile env p actor ip ua w))) \<and>
   registers (ppId p) (ppEmail p) ADMIN (uwDb w) (uwDb (snd (createAdminProfile env p actor ip ua w))) \<and>
   registers (ppId p) (ppEmail p) SUPER_ADMIN (uwDb w)
     (uwDb (snd (createSuperAdminProfile env p actor ip ua w)))"
  using provisionAccount_registers[OF profile_writes(1)] provisionAccount_registers[OF profile_writes(2)]
    provisionAccount_registers[OF profile_writes(3)]
  unfolding createCustomerProfile_def createSellerProfile_def createAdminProfile_def
    createSuperAdminProfile_def
  by (metis provision_input.select_convs(1,2,3) provision_input_of_def)

lemma findUserById_absent_reads:
  assumes "redis_up (ueCache env)" "calm (uwCache w)" "uncached (userProfileKey i) (uwCache w)"
    "absence_known (ueCache env) (userProfileKey i) (uwCache w)"
  obtains w' where "findUserById env i w = (Inr None, w')" "uwDb w' = uwDb w" "calm (uwCache w')"
    "uncached (userProfileKey i) (uwCache w')" "absence_known (ueCache env) (userProfileKey i) (uwCache w')"
proof -
  let ?o = "DEFAULT_CACHE_OPTIONS\<lparr>coL2Ttl := TTL_USER_PROFILE\<rparr>"
  obtain r c where g: "cacheGet (ueCache env) ?o (userProfileKey i) (Inr (active_by_id (uwDb w) i)) (uwCache w) = (r, c)"
    by force
  show thesis
    using cacheGet_absent[OF assms, of ?o "Inr (active_by_id (uwDb w) i)"] g
    by (intro that[of "w\<lparr>uwCache := c\<rparr>"]) (simp_all add: findUserById_def cached_read_def)
qed

lemma findUserById_learns:
  assumes "redis_up (ueCache env)" "calm (uwCache w)" "never_cached (userProfileKey i) (uwCache w)"
    "within_minute (ueCache env)" "i \<notin> uId ` set (udUsers (uwDb w))"
  obtains w' where "findUserById env i w = (Inr None, w')" "uwDb w' = uwDb w" "calm (uwCache w')"
    "uncached (userProfileKey i) (uwCache w')" "absence_known (ueCache env) (userProfileKey i) (uwCache w')"
proof -
  let ?o = "DEFAULT_CACHE_OPTIONS\<lparr>coL2Ttl := TTL_USER_PROFILE\<rparr>"
  have "find (\<lambda>u. uId u = i \<and> \<not> uIsDeleted u) (udUsers (uwDb w)) = None"
    using assms(5) by (auto simp: find_None_iff)
  then have n: "active_by_id (uwDb w) i = None" by (simp add: active_by_id_def)
  have "coUseNegativeCache ?o" by (simp add: DEFAULT_CACHE_OPTIONS_def)
  note L = cacheGet_learns_absence[OF assms(1-4) this]
  obtain r c where g: "cacheGet (ueCache env) ?o (userProfileKey i) (Inr None) (uwCache w) = (r, c)" by force
  show thesis
    using L g n by (intro that[of "w\<lparr>uwCache := c\<rparr>"]) (simp_all add: findUserById_def cached_read_def)
qed

text \<open>The first provisioning of a customer, with Redis up and nothing cached: the row is there, the answer is 500.\<close>

lemma provisioning_fails_late:
  fixes p :: profile_payload
  defines "key \<equiv> userProfileKey (ppId p)"
  assumes up: "redis_up (ueCache env)" "within_minute (ueCache env)"
    and cold: "calm (uwCache w)" "never_cached key (uwCache w)"
    and new: "ppId p \<notin> uId ` set (udUsers (uwDb w))" "ppEmail p \<notin> uEmail ` set (udUsers (uwDb w))"
      "ppId p \<notin> cpUserId ` set (udCustomers (uwDb w))"
      "ppFirstName p @ ''-'' @ ppLastName p @ ''-'' @ take 8 (ueRowUuid env)
         \<notin> cpReferralCode ` set (udCustomers (uwDb w))"
  obtains w' where "createCustomerProfile env p actor ip ua w = (Inl (internal_error ''Account provisioning failed''), w')"
    "\<exists>u \<in> set (udUsers (uwDb w')). uId u = ppId p \<and> uEmail u = ppEmail p \<and> \<not> uIsDeleted u"
    "length (udOutbox (uwDb w')) = Suc (length (udOutbox (uwDb w)))"
    "calm (uwCache w')" "uncached key (uwCache w')" "absence_known (ueCache env) key (uwCache w')"
proof -
  let ?in = "provision_input_of CUSTOMER p actor ip ua"
  let ?f = "repo_createCustomerProfile env (ppId p) (ppFirstName p) (ppLastName p) (ppPhone p) (ppAvatar p)
        (ppDateOfBirth p)"
  have [simp]: "piId ?in = ppId p" "piEmail ?in = ppEmail p" "piRole ?in = CUSTOMER"
    by (simp_all add: provision_input_of_def)
  obtain w1 where w1: "findUserById env (ppId p) w = (Inr None, w1)" "uwDb w1 = uwDb w" "calm (uwCache w1)"
    "uncached key (uwCache w1)" "absence_known (ueCache env) key (uwCache w1)"
    using findUserById_learns[OF up(1) cold(1) cold(2)[unfolded key_def] up(2) new(1)] unfolding key_def by metis
  obtain w2 where w2: "transaction (provision_tx env ?in ?f) w1 = (Inr (ppId p), w2)" "uwCache w2 = uwCache w1"
    "length (udOutbox (uwDb w2)) = Suc (length (udOutbox (uwDb w)))"
    "\<exists>u \<in> set (udUsers (uwDb w2)). uId u = ppId p \<and> uEmail u = ppEmail p \<and> \<not> uIsDeleted u"
    using new w1(2)
    by (simp add: transaction_def provision_tx_def createUser_def Let_def repo_createCustomerProfile_def
        with_db_def writeAuditLog_def emit_def emitDomainEvent_def writeOutboxEvent_def)
  obtain w3 where w3: "findUserById env (ppId p) w2 = (Inr None, w3)" "uwDb w3 = uwDb w2" "calm (uwCache w3)"
    "uncached key (uwCache w3)" "absence_known (ueCache env) key (uwCache w3)"
    using findUserById_absent_reads[OF up(1), of w2 "ppId p"] w1(3-5) w2(2) unfolding key_def by metis
  have "createCustomerProfile env p actor ip ua w = (Inl (internal_error ''Account provisioning failed''), w3)"
    using w1(1,2) w2(1) w3(1) new(2)
    by (simp add: createCustomerProfile_def provisionAccount_def existsByEmailIncludingDeleted_def)
  then show thesis using w2(3,4) w3(2-5) by (intro that) simp_all
qed

text \<open>The retry is answered from the same memory, and finds the address taken.\<close>

lemma provisioning_retry_conflicts:
  assumes "redis_up (ueCache env)" "calm (uwCache w)" "uncached (userProfileKey (ppId p)) (uwCache w)"
    "absence_known (ueCache env) (userProfileKey (ppId p)) (uwCache w)" "ppEmail p \<in> uEmail ` set (udUsers (uwDb w))"
  obtains w' where "createCustomerProfile env p actor ip ua w =
      (Inl (AppErr (ConflictError ''A user with this email address already exists'' (Some ''email''))), w')"
    "uwDb w' = uwDb w"
proof -
  obtain w4 where "findUserById env (ppId p) w = (Inr None, w4)" "uwDb w4 = uwDb w"
    using findUserById_absent_reads[OF assms(1-4)] by metis
  then show thesis using assms(5)
    by (intro that[of w4])
      (simp_all add: createCustomerProfile_def provisionAccount_def existsByEmailIncludingDeleted_def provision_input_of_def)
qed

text \<open>
  Provisioning a new customer reports failure after it has committed. With Redis up and
  nothing cached, the idempotency read remembers that the user is absent; the read after the
  transaction finds that memory instead of the new row, and the caller gets \<open>500 Account
  provisioning failed\<close> although the user exists and its event is pending; and a retry within
  the minute is answered 409, because the email is taken.
\<close>

theorem provisioning_fails_after_commit:
  fixes p :: profile_payload
  defines "key \<equiv> userProfileKey (ppId p)"
  assumes up: "redis_up (ueCache env)" "within_minute (ueCache env)"
    and cold: "calm (uwCache w)" "never_cached key (uwCache w)"
    and new: "ppId p \<notin> uId ` set (udUsers (uwDb w))" "ppEmail p \<notin> uEmail ` set (udUsers (uwDb w))"
      "ppId p \<notin> cpUserId ` set (udCustomers (uwDb w))"
      "ppFirstName p @ ''-'' @ ppLastName p @ ''-'' @ take 8 (ueRowUuid env)
         \<notin> cpReferralCode ` set (udCustomers (uwDb w))"
  shows "fst (createCustomerProfile env p actor ip ua w) = Inl (internal_error ''Account provisioning failed'') \<and>
    (\<exists>u \<in> set (udUsers (uwDb (snd (createCustomerProfile env p actor ip ua w)))).
       uId u = ppId p \<and> uEmail u = ppEmail p \<and> \<not> uIsDeleted u) \<and>
    length (udOutbox (uwDb (snd (createCustomerProfile env p actor ip ua w)))) = Suc (length (udOutbox (uwDb w))) \<and>
    fst (createCustomerProfile env p actor ip ua (snd (createCustomerProfile env p actor ip ua w))) =
      Inl (AppErr (ConflictError ''A user with this email address already exists'' (Some ''email'')))"
proof -
  obtain w' where w': "createCustomerProfile env p actor ip ua w = (Inl (internal_error ''Account provisioning failed''), w')"
    "\<exists>u \<in> set (udUsers (uwDb w')). uId u = ppId p \<and> uEmail u = ppEmail p \<and> \<not> uIsDeleted u"
    "length (udOutbox (uwDb w')) = Suc (length (udOutbox (uwDb w)))"
    "calm (uwCache w')" "uncached key (uwCache w')" "absence_known (ueCache env) key (uwCache w')"
    using provisioning_fails_late[OF up cold(1) cold(2)[unfolded key_def] new, of actor ip ua] unfolding key_def by metis
  have "ppEmail p \<in> uEmail ` set (udUsers (uwDb w'))" using w'(2) by force
  then have "fst (createCustomerProfile env p actor ip ua w') =
      Inl (AppErr (ConflictError ''A user with this email address already exists'' (Some ''email'')))"
    using provisioning_retry_conflicts[OF up(1) w'(4) w'(5,6)[unfolded key_def], of actor ip ua] by (metis fst_conv)
  then show ?thesis using w'(1-3) by simp
qed

definition demo_user_env :: user_env where
  "demo_user_env = \<lparr>ueCache = \<lparr>ceClock = \<lambda>n. int n, ceRedisFault = \<lambda>n. None\<rparr>, ueNow = 0,
     ueUuid = ''o1'', ueRowUuid = ''12345678'', ueParseDate = \<lambda>s. 0\<rparr>"

definition quick_user_env :: user_env where
  "quick_user_env = demo_user_env\<lparr>ueCache := \<lparr>ceClock = \<lambda>n. 0, ceRedisFault = \<lambda>n. None\<rparr>\<rparr>"

definition empty_user_world :: user_world where
  "empty_user_world = \<lparr>uwDb = \<lparr>udUsers = [], udCustomers = [], udSellers = [], udAdmins = [], udAudit = [],
     udOutbox = []\<rparr>, uwCache = empty_cache\<rparr>"

definition demo_profile :: profile_payload where
  "demo_profile = \<lparr>ppId = ''u1'', ppEmail = ''a@b.c'', ppFirstName = ''A'', ppLastName = ''B'',
     ppPhone = None, ppAvatar = None, ppDateOfBirth = None, ppBio = None\<rparr>"

lemma empty_cache_cold: "calm empty_cache" "never_cached k empty_cache"
  by (simp_all add: calm_def empty_cache_def new_breaker_def never_cached_def uncached_def l1_lookup_def l1_new_def)

theorem provisioning_fails_after_commit_witness:
  "fst (createCustomerProfile quick_user_env demo_profile ''auth-service'' None None empty_user_world) =
     Inl (internal_error ''Account provisioning failed'')"
  using provisioning_fails_after_commit[of quick_user_env empty_user_world demo_profile "''auth-service''" None None]
  by (simp add: quick_user_env_def demo_user_env_def redis_up_def within_minute_def empty_user_world_def
      empty_cache_cold)

text \<open>
  C36: The restore window. \<open>restoreUser\<close> succeeds exactly for a soft-deleted account whose window
  has not passed: 60 days when an admin deleted it, 30 days otherwise, the last moment
  included; it then reactivates the account and announces it. In every other case the
  database is unchanged.
\<close>

lemma find_user_some: "find_user i db = Some u \<Longrightarrow> u \<in> set (udUsers db) \<and> uId u = i"
  by (auto simp: find_user_def find_Some_iff)


definition deleted_world :: "time \<Rightarrow> user_world" where
  "deleted_world t = empty_user_world\<lparr>uwDb := (uwDb empty_user_world)\<lparr>udUsers :=
     [\<lparr>uId = ''u1'', uEmail = ''a@b.c'', uRole = [CUSTOMER], uIsActive = False, uIsBlocked = False,
       uIsDeleted = True, uDeletedAt = Some t, uDeletedBy = Some BySelf, uCreatedAt = 0, uUpdatedAt = t\<rparr>]\<rparr>\<rparr>"


text \<open>
  Deleting a user for good leaves its cached view. \<open>hardDeleteUser\<close> removes the row and the
  profiles but invalidates no key, so while Redis still holds the profile the deleted user is
  served by id, and a second hard delete of the same id gets as far as the database.
\<close>

definition held :: "cache_env \<Rightarrow> string \<Rightarrow> 'v \<Rightarrow> 'v cache_world \<Rightarrow> bool" where
  "held env key v w \<longleftrightarrow> calm w \<and>
     (\<forall>t. l1_lookup t key (cwL1 w) \<in> {None, Some (L1Val v)}) \<and>
     (\<forall>t. l1_lookup t (negativeCacheKey key) (cwL1 w) = None) \<and>
     (\<forall>n. redis_get (ceClock env n) key (cwRedis w) = Some (Stringified v))"

lemma held_smaller:
  assumes "held env key v w" "\<And>t k. l1_lookup t k c \<in> {l1_lookup t k (cwL1 w), None}"
  shows "held env key v (w\<lparr>cwL1 := c\<rparr>)"
proof -
  have "l1_lookup t key c \<in> {None, Some (L1Val v)}" for t
  proof -
    have "l1_lookup t key (cwL1 w) \<in> {None, Some (L1Val v)}" using assms(1) unfolding held_def by blast
    then show ?thesis using assms(2)[of t key] by auto
  qed
  moreover have "l1_lookup t (negativeCacheKey key) c = None" for t
  proof -
    have "l1_lookup t (negativeCacheKey key) (cwL1 w) = None" using assms(1) unfolding held_def by blast
    then show ?thesis using assms(2)[of t "negativeCacheKey key"] by auto
  qed
  ultimately show ?thesis using assms(1) by (simp add: held_def calm_def)
qed

lemma fst_cached_read:
  "fst (cached_read env key f w) = fst (cacheGet (ueCache env)
     (DEFAULT_CACHE_OPTIONS\<lparr>coL2Ttl := TTL_USER_PROFILE\<rparr>) key (Inr f) (uwCache w))"
  by (simp add: cached_read_def split_beta)

lemma held_get:
  assumes "redis_up env" "held env key v w"
  shows "fst (cacheGet env opts key fetch w) = Inr (Some v) \<and> held env key v (snd (cacheGet env opts key fetch w))"
proof -
  obtain a c where a: "l1_get (cw_now env w) key (cwL1 w) = (a, c)" by force
  obtain b c' where b: "l1_get (cw_now env w) (negativeCacheKey key) c = (b, c')" by force
  have c1: "l1_lookup t k c \<in> {l1_lookup t k (cwL1 w), None}" for t k
    using l1_get_state[of t k "cw_now env w" key "cwL1 w"] a by simp
  have c2: "l1_lookup t k c' \<in> {l1_lookup t k c, None}" for t k
    using l1_get_state[of t k "cw_now env w" "negativeCacheKey key" c] b by simp
  have hc: "held env key v (w\<lparr>cwL1 := c\<rparr>)" by (rule held_smaller[OF assms(2) c1])
  have hc': "held env key v (w\<lparr>cwL1 := c'\<rparr>)" using held_smaller[OF hc, of c'] c2 by simp
  have av: "a \<in> {None, Some (L1Val v)}"
    using l1_get_lookup[of "cw_now env w" key "cwL1 w"] a assms(2) by (auto simp: held_def)
  show ?thesis
  proof (cases a)
    case (Some x)
    then show ?thesis using a av hc by (simp add: cacheGet_def l1_check_def)
  next
    case None
    have bn: "b = None"
      using l1_get_lookup[of "cw_now env w" "negativeCacheKey key" c] b hc by (simp add: held_def)
    let ?w = "w\<lparr>cwL1 := c'\<rparr>"
    have rd: "redis_read key (cw_now env ?w) (cwRedis ?w) = (Inr (Some v), cwRedis w)"
      using assms(2) by (simp add: redis_read_def cw_now_def held_def)
    have cw: "calm ?w" using hc' by (simp add: held_def)
    obtain w2 where w2: "redis_exec env (redis_read key) ?w = (Inr (Some v), w2)"
      "cwRedis w2 = cwRedis w" "cwL1 w2 = c'" "calm w2"
    proof (rule redis_exec_up[where op = "redis_read key", OF assms(1) cw rd])
      fix w2 assume "redis_exec env (redis_read key) ?w = (Inr (Some v), w2)"
        "cwRedis w2 = cwRedis w" "cwL1 w2 = cwL1 ?w" "calm w2"
      then show thesis by (intro that[of w2]) simp_all
    qed
    let ?w' = "on_l1 (l1_set (cw_now env w2) key (L1Val v) (coL1TtlMs opts)) w2"
    have "cacheGet env opts key fetch w = (Inr (Some v), ?w')"
      using a b None bn w2(1) by (simp add: cacheGet_def l1_check_def l2_check_def)
    moreover have "held env key v ?w'"
    proof -
      have e: "l1_lookup t (negativeCacheKey key) c' = None" for t using hc' by (simp add: held_def)
      have "l1_lookup t (negativeCacheKey key) (l1_set u key (L1Val v) n c') = None" for t u n
        using l1_lookup_set(2)[OF negative_ne(2), of t key u "L1Val v" n c'] uncached_evict e by metis
      then show ?thesis using hc' w2(2,3,4) by (auto simp: held_def on_l1_def calm_def l1_lookup_set(1))
    qed
    ultimately show ?thesis by simp
  qed
qed

theorem hard_delete_leaves_cached_user:
  assumes up: "redis_up (ueCache env)" and h: "held (ueCache env) (userProfileKey i) d (uwCache w)"
    and row: "i \<in> uId ` set (udUsers (uwDb w))"
  shows "fst (hardDeleteUser env i actor w) = Inr () \<and>
    i \<notin> uId ` set (udUsers (uwDb (snd (hardDeleteUser env i actor w)))) \<and>
    fst (getUserById env i (snd (hardDeleteUser env i actor w))) = Inr (Some d)"
proof -
  let ?o = "DEFAULT_CACHE_OPTIONS\<lparr>coL2Ttl := TTL_USER_PROFILE\<rparr>"
  obtain r cw where g: "cacheGet (ueCache env) ?o (userProfileKey i) (Inr (active_by_id (uwDb w) i)) (uwCache w) = (r, cw)"
    by force
  have G: "r = Inr (Some d)" "held (ueCache env) (userProfileKey i) d cw"
    using held_get[OF up h, of ?o "Inr (active_by_id (uwDb w) i)"] g by simp_all
  let ?w = "snd (hardDeleteUser env i actor w)"
  have F: "findUserById env i w = (Inr (Some d), w\<lparr>uwCache := cw\<rparr>)"
    using g G(1) by (simp add: findUserById_def cached_read_def)
  have H: "fst (hardDeleteUser env i actor w) = Inr ()" "uwCache ?w = cw"
    "udUsers (uwDb ?w) = filter (\<lambda>u. uId u \<noteq> i) (udUsers (uwDb w))"
    using F row by (simp_all add: hardDeleteUser_def transaction_def repo_hardDeleteUser_def with_db_def
        writeAuditLog_def)
  have "fst (getUserById env i ?w) = Inr (Some d)"
    using held_get[OF up G(2)] H(2) by (simp add: getUserById_def findUserById_def fst_cached_read)
  then show ?thesis using H by auto
qed

theorem hard_delete_leaves_cached_user_witness:
  "fst (getUserById quick_user_env ''u1'' (snd (hardDeleteUser quick_user_env ''u1'' ''admin''
     ((deleted_world 0)\<lparr>uwCache := empty_cache\<lparr>cwRedis := redis_setex 0 (userProfileKey ''u1'') 300
        (Stringified (toUserResponseDTO (hd (udUsers (uwDb (deleted_world 0)))) None None None)) redis_empty\<rparr>\<rparr>)))) =
   Inr (Some (toUserResponseDTO (hd (udUsers (uwDb (deleted_world 0)))) None None None))"
proof -
  let ?d = "toUserResponseDTO (hd (udUsers (uwDb (deleted_world 0)))) None None None"
  let ?w = "(deleted_world 0)\<lparr>uwCache := empty_cache\<lparr>cwRedis :=
      redis_setex 0 (userProfileKey ''u1'') 300 (Stringified ?d) redis_empty\<rparr>\<rparr>"
  have up: "redis_up (ueCache quick_user_env)" by (simp add: quick_user_env_def redis_up_def)
  have h: "held (ueCache quick_user_env) (userProfileKey ''u1'') ?d (uwCache ?w)"
    by (simp add: held_def calm_def empty_cache_def new_breaker_def l1_lookup_def l1_new_def quick_user_env_def)
  have "''u1'' \<in> uId ` set (udUsers (uwDb ?w))" by (simp add: deleted_world_def)
  from hard_delete_leaves_cached_user[OF up h this, of "''admin''"] show ?thesis by blast
qed

end
