(* ===== verification/Seller_Claims.thy ===== *)
theory Seller_Claims
  imports User_Claims
begin

text \<open>Attaching the seller role to a customer: the separation of admin and shop identities.\<close>

definition add_seller :: "user_env \<Rightarrow> string \<Rightarrow> user_row list \<Rightarrow> user_row list" where
  "add_seller env i = update_where (\<lambda>u. uId u = i)
     (\<lambda>u. (u\<lparr>uRole := uRole u @ [SELLER]\<rparr>)\<lparr>uUpdatedAt := ueNow env\<rparr>)"

lemma become_seller_tx_cases:
  obtains e where "transaction (become_seller_tx env p i email rs) w = (Inl e, w)"
  | w' where "transaction (become_seller_tx env p i email rs) w = (Inr (), w')"
      "udUsers (uwDb w') = add_seller env i (udUsers (uwDb w))"
      "\<exists>sp. udSellers (uwDb w') = udSellers (uwDb w) @ [sp] \<and> spUserId sp = i"
      "\<exists>e. udOutbox (uwDb w') = udOutbox (uwDb w) @ [e] \<and> obEventType e = SELLER_PROFILE_ATTACHED \<and>
         obAggregateId e = i"
proof (cases "i \<in> uId ` set (udUsers (uwDb w)) \<and> i \<notin> spUserId ` set (udSellers (uwDb w))")
  case True
  show thesis
  proof (rule that(2))
    show "transaction (become_seller_tx env p i email rs) w =
       (Inr (), snd (become_seller_tx env p i email rs w))"
      using True by (simp add: transaction_def become_seller_tx_def repo_createSellerProfile_def Let_def
          with_db_def addRole_def update_user_def writeAuditLog_def emit_def)
  qed (use True in \<open>simp_all add: become_seller_tx_def repo_createSellerProfile_def Let_def with_db_def
      addRole_def update_user_def writeAuditLog_def emit_def add_seller_def emitDomainEvent_def writeOutboxEvent_def\<close>)
next
  case False
  let ?e = "if i \<notin> uId ` set (udUsers (uwDb w)) then foreign_key_violation else unique_violation ''userId''"
  have "transaction (become_seller_tx env p i email rs) w = (Inl ?e, w)"
    using False by (simp add: transaction_def become_seller_tx_def repo_createSellerProfile_def Let_def)
  then show thesis by (rule that(1))
qed

lemma findUserById_sound:
  assumes "coherent {userProfileKey i} (\<lambda>k. active_by_id (uwDb w) i) (uwCache w)"
  obtains w' where "findUserById env i w = (Inr (active_by_id (uwDb w) i), w')" "uwDb w' = uwDb w"
proof -
  have v: "value_keys {userProfileKey i}" by (simp add: value_keys_def)
  obtain r c where g: "cacheGet (ueCache env) (DEFAULT_CACHE_OPTIONS\<lparr>coL2Ttl := TTL_USER_PROFILE\<rparr>)
      (userProfileKey i) (Inr (active_by_id (uwDb w) i)) (uwCache w) = (r, c)" by force
  have "r = Inr (active_by_id (uwDb w) i)" using cacheGet_sound[OF assms v] g by (metis fst_conv singletonI)
  with g show thesis by (intro that[of "w\<lparr>uwCache := c\<rparr>"]) (simp_all add: findUserById_def cached_read_def)
qed

lemma active_by_id_some:
  "active_by_id db i = Some d \<Longrightarrow>
     \<exists>u \<in> set (udUsers db). uId u = i \<and> \<not> uIsDeleted u \<and> dtoRole d = uRole u"
  by (auto simp: active_by_id_def find_Some_iff dto_of_def toUserResponseDTO_def)

lemma add_seller_separate:
  assumes "list_all (roles_separate \<circ> uRole) us" "distinct (List.map uId us)"
    "u \<in> set us" "uId u = i" "\<not> list_ex admin_role (uRole u)"
  shows "list_all (roles_separate \<circ> uRole) (add_seller env i us)"
  unfolding add_seller_def
proof (rule list_all_update_where[OF assms(1)])
  fix x assume x: "x \<in> set us" "uId x = i"
  then have "x = u" using assms(2-4) by (metis distinct_map inj_on_def)
  then show "(roles_separate \<circ> uRole) ((x\<lparr>uRole := uRole x @ [SELLER]\<rparr>)\<lparr>uUpdatedAt := ueNow env\<rparr>)"
    using assms(5) by (auto simp: roles_separate_def list_ex_iff list_all_iff)
qed

text \<open>
  C28: Becoming a seller. While the cached profile agrees with the database, \<open>becomeSeller\<close> keeps
  admin roles and shop roles on separate identities. It refuses a missing, an admin and a
  seller account without touching the database; otherwise either nothing is written or the
  account gains the role, the profile and the event together.
\<close>

theorem becomeSeller_keeps_roles_separate:
  fixes w :: user_world and env p email i
  assumes co: "coherent {userProfileKey i} (\<lambda>k. active_by_id (uwDb w) i) (uwCache w)"
    and ids: "distinct (List.map uId (udUsers (uwDb w)))"
    and sep: "list_all (roles_separate \<circ> uRole) (udUsers (uwDb w))"
  defines "out \<equiv> becomeSeller env p i email w"
  shows "list_all (roles_separate \<circ> uRole) (udUsers (uwDb (snd out))) \<and>
    (uwDb (snd out) = uwDb w \<and> \<not> is_ok (fst out) \<or>
     (\<exists>u \<in> set (udUsers (uwDb w)). uId u = i \<and> \<not> uIsDeleted u \<and> SELLER \<notin> set (uRole u) \<and>
        \<not> list_ex admin_role (uRole u)) \<and>
     udUsers (uwDb (snd out)) = add_seller env i (udUsers (uwDb w)) \<and>
     (\<exists>sp. udSellers (uwDb (snd out)) = udSellers (uwDb w) @ [sp] \<and> spUserId sp = i) \<and>
     (\<exists>e. udOutbox (uwDb (snd out)) = udOutbox (uwDb w) @ [e] \<and>
        obEventType e = SELLER_PROFILE_ATTACHED \<and> obAggregateId e = i))"
proof -
  obtain w1 where f: "findUserById env i w = (Inr (active_by_id (uwDb w) i), w1)" "uwDb w1 = uwDb w"
    by (rule findUserById_sound[OF co])
  show ?thesis
  proof (cases "active_by_id (uwDb w) i")
    case None
    then show ?thesis using f sep by (simp add: out_def becomeSeller_def)
  next
    case (Some d)
    obtain u where u: "u \<in> set (udUsers (uwDb w))" "uId u = i" "\<not> uIsDeleted u" "dtoRole d = uRole u"
      using active_by_id_some[OF Some] by blast
    show ?thesis
    proof (cases "list_ex admin_role (uRole u) \<or> SELLER \<in> set (uRole u)")
      case True
      then show ?thesis using f Some u sep by (auto simp: out_def becomeSeller_def)
    next
      case False
      have S: "list_all (roles_separate \<circ> uRole) (add_seller env i (udUsers (uwDb w1)))"
        using add_seller_separate[OF sep ids u(1,2)] False f(2) by simp
      show ?thesis
      proof (cases rule: become_seller_tx_cases[of env p i email "uRole u" w1])
        case (1 e)
        then show ?thesis using f Some u False sep by (simp add: out_def becomeSeller_def)
      next
        case (2 w2)
        obtain r w3 where g: "findUserById env i (invalidateUserCache env i email w2) = (Inr r, w3)"
          using findUserById_ok by blast
        have "uwDb w3 = uwDb w2"
          using findUserById_db[OF g] by (simp add: invalidateUserCache_def invalidate_def)
        moreover have "uwDb (snd out) = uwDb w3"
          using f Some u False 2(1) g by (simp add: out_def becomeSeller_def split: option.splits)
        moreover have "\<exists>x \<in> set (udUsers (uwDb w)). uId x = i \<and> \<not> uIsDeleted x \<and>
            SELLER \<notin> set (uRole x) \<and> \<not> list_ex admin_role (uRole x)" using u False by blast
        ultimately show ?thesis using 2(2-4) S f(2) by simp
      qed
    qed
  qed
qed

definition customer_world :: user_world where
  "customer_world = empty_user_world\<lparr>uwDb := (uwDb empty_user_world)\<lparr>udUsers :=
     [\<lparr>uId = ''u1'', uEmail = ''a@b.c'', uRole = [CUSTOMER], uIsActive = True, uIsBlocked = False,
       uIsDeleted = False, uDeletedAt = None, uDeletedBy = None, uCreatedAt = 0, uUpdatedAt = 0\<rparr>]\<rparr>\<rparr>"

theorem becomeSeller_keeps_roles_separate_witness:
  "list_all (roles_separate \<circ> uRole)
     (udUsers (uwDb (snd (becomeSeller quick_user_env demo_profile ''u1'' ''a@b.c'' customer_world))))"
proof -
  have c: "coherent {userProfileKey ''u1''} (\<lambda>k. active_by_id (uwDb customer_world) ''u1'') (uwCache customer_world)"
    by (simp add: customer_world_def empty_user_world_def empty_cache_coherent)
  have d: "distinct (List.map uId (udUsers (uwDb customer_world)))" by (simp add: customer_world_def)
  have s: "list_all (roles_separate \<circ> uRole) (udUsers (uwDb customer_world))"
    by (simp add: customer_world_def roles_separate_def)
  show ?thesis using becomeSeller_keeps_roles_separate[OF c d s, of quick_user_env demo_profile "''a@b.c''"] by blast
qed

end
