(* ===== verification/Event_Claims.thy ===== *)
theory Event_Claims
  imports Registration_Claims Seller_Claims
begin

text \<open>
  What becomes of the events the user service writes: the rows of its outbox hold the payload
  alone, the poller publishes the row's payload, and the consumer of the auth service looks
  for an \<open>eventType\<close> inside the message.
\<close>

subsection \<open>Operations that keep a property of the database\<close>

definition keeps :: "(user_db \<Rightarrow> bool) \<Rightarrow> 'a uw \<Rightarrow> bool" where
  "keeps P f \<longleftrightarrow> (\<forall>w. P (uwDb w) \<longrightarrow> P (uwDb (snd (f w))))"

lemma keeps_on_ok [nexus_inv]:
  "\<lbrakk>keeps P f; \<And>x. keeps P (k x)\<rbrakk> \<Longrightarrow> keeps P (\<lambda>w. on_ok (f w) (\<lambda>x w. k x w))"
  unfolding keeps_def by (intro allI impI snd_on_ok[where P = "\<lambda>w. P (uwDb w)"]) auto

lemma keeps_pure [nexus_inv]: "keeps P (\<lambda>w. (r, w))"
  by (simp add: keeps_def)

lemma keeps_transaction [nexus_inv]: "keeps P f \<Longrightarrow> keeps P (transaction f)"
  by (auto simp: keeps_def transaction_def split: prod.splits sum.splits)

lemma keeps_case_option [nexus_inv]:
  "\<lbrakk>keeps P f; \<And>x. keeps P (g x)\<rbrakk> \<Longrightarrow> keeps P (\<lambda>w. case v of None \<Rightarrow> f w | Some x \<Rightarrow> g x w)"
  by (cases v) simp_all

lemma keeps_if [nexus_inv]:
  "\<lbrakk>keeps P f; keeps P g\<rbrakk> \<Longrightarrow> keeps P (\<lambda>w. if b then f w else g w)"
  by (cases b) simp_all

text \<open>A body that reads the state it starts in.\<close>

lemma keeps_reading: "(\<And>v. keeps P (\<lambda>w. f v w)) \<Longrightarrow> keeps P (\<lambda>w. f w w)"
  by (simp add: keeps_def)

lemma keeps_same_db: "(\<And>w. uwDb (snd (f w)) = uwDb w) \<Longrightarrow> keeps P f"
  by (simp add: keeps_def)

definition typed_row :: "outbox_row \<Rightarrow> bool" where
  "typed_row r \<longleftrightarrow> jget (obPayload r) ''eventType'' \<noteq> None"

definition untyped :: "user_db \<Rightarrow> bool" where
  "untyped db \<longleftrightarrow> (\<forall>r \<in> set (udOutbox db). \<not> typed_row r)"

lemma keeps_untyped_outbox:
  "(\<And>w. udOutbox (uwDb (snd (f w))) = udOutbox (uwDb w)) \<Longrightarrow> keeps untyped f"
  by (simp add: keeps_def untyped_def)

lemma keeps_emit: "jget p ''eventType'' = None \<Longrightarrow> keeps untyped (emit env ty agg p)"
  by (auto simp: keeps_def untyped_def emit_def with_db_def emitDomainEvent_def writeOutboxEvent_def typed_row_def)

lemma repo_outbox [simp]:
  "udOutbox (uwDb (snd (createUser env i e r w))) = udOutbox (uwDb w)"
  "udOutbox (uwDb (snd (update_user env i f w))) = udOutbox (uwDb w)"
  "udOutbox (uwDb (snd (repo_createCustomerProfile env i fn ln ph av dob w))) = udOutbox (uwDb w)"
  "udOutbox (uwDb (snd (repo_createSellerProfile i fn ln ph bio w))) = udOutbox (uwDb w)"
  "udOutbox (uwDb (snd (repo_createAdminProfile i fn ln w))) = udOutbox (uwDb w)"
  "udOutbox (uwDb (snd (repo_hardDeleteUser i w))) = udOutbox (uwDb w)"
  "udOutbox (uwDb (snd (writeAuditLog a w))) = udOutbox (uwDb w)"
  "udOutbox (uwDb (snd (findUserById env i w))) = udOutbox (uwDb w)"
  "udOutbox (uwDb (snd (existsByEmailIncludingDeleted e w))) = udOutbox (uwDb w)"
  by (simp_all add: createUser_def update_user_def repo_createCustomerProfile_def repo_createSellerProfile_def
      repo_createAdminProfile_def repo_hardDeleteUser_def writeAuditLog_def findUserById_def
      existsByEmailIncludingDeleted_def with_db_def Let_def)


text \<open>The four families of operations that write events, each with a payload of its own.\<close>

lemma keeps_find: "keeps untyped (findUserById env i)"
  by (rule keeps_untyped_outbox) simp

lemma keeps_update: "keeps untyped (update_user env i f)"
  by (rule keeps_untyped_outbox) simp

lemma keeps_exists: "keeps untyped (existsByEmailIncludingDeleted e)"
  by (rule keeps_untyped_outbox) simp

lemma keeps_provision:
  assumes "keeps untyped f"
  shows "keeps untyped (provisionAccount env p f)"
proof -
  have tx: "keeps untyped (provision_tx env p f)"
    unfolding provision_tx_def
    by (intro keeps_on_ok keeps_pure keeps_untyped_outbox keeps_emit assms) (simp_all add: registered_payload_def)
  show ?thesis
    unfolding provisionAccount_def
    by (intro nexus_inv keeps_find keeps_exists tx)
qed

lemma keeps_delete: "keeps untyped (deleteUser env i actor)"
proof -
  have tx: "keeps untyped (delete_tx env i actor u)" for u
    unfolding delete_tx_def softDeleteUser_def Let_def
    by (intro nexus_inv keeps_untyped_outbox keeps_emit) (simp_all add: invalidate_def)
  show ?thesis unfolding deleteUser_def by (intro nexus_inv keeps_find tx)
qed

lemma keeps_restore: "keeps untyped (restoreUser env i actor)"
proof -
  have r: "keeps untyped (repo_restoreUser env i)"
  proof -
    have "keeps untyped (\<lambda>w. case find_user i (uwDb v) of None \<Rightarrow> (Inl record_not_found, w)
        | Some u \<Rightarrow> (Inr (dto_of (uwDb v) u), invalidate env (userProfileKey (uId u)) w))" for v
      by (intro nexus_inv keeps_same_db) (simp add: invalidate_def)
    then have "keeps untyped (\<lambda>w. case find_user i (uwDb w) of None \<Rightarrow> (Inl record_not_found, w)
        | Some u \<Rightarrow> (Inr (dto_of (uwDb w) u), invalidate env (userProfileKey (uId u)) w))" by (rule keeps_reading)
    then show ?thesis
      unfolding repo_restoreUser_def by (rule keeps_on_ok[OF keeps_update])
  qed
  have "keeps untyped (\<lambda>w. case find_user i (uwDb v) of
        None \<Rightarrow> (Inl user_not_found, w)
      | Some raw \<Rightarrow> (case uDeletedAt raw of
          None \<Rightarrow> (Inl (AppErr (BadRequestError ''Account is not restorable'' (Some ''id''))), w)
        | Some t \<Rightarrow>
            if ueNow env > restore_deadline t (uDeletedBy raw)
            then (Inl (AppErr (BadRequestError ''Restore window expired'' (Some ''id''))), w)
            else
              on_ok (repo_restoreUser env i w) (\<lambda>user w.
              on_ok (writeAuditLog (system_audit actor ''USER_RESTORED'' i None
                       (Some (identity_values user)) None None) w) (\<lambda>_ w.
              on_ok (transaction (emit env USER_RESTORED i
                       (JObj [(''userId'', JStr i), (''email'', JStr (dtoEmail user))])) w) (\<lambda>_ w.
              (Inr user, w))))))" for v
    by (intro nexus_inv r keeps_emit) (auto intro: keeps_untyped_outbox)
  then show ?thesis unfolding restoreUser_def by (rule keeps_reading)
qed

lemma keeps_become_seller: "keeps untyped (becomeSeller env p i email)"
proof -
  have tx: "keeps untyped (become_seller_tx env p i email rs)" for rs
    unfolding become_seller_tx_def addRole_def
    by (intro nexus_inv keeps_untyped_outbox keeps_emit) simp_all
  have f: "keeps untyped (\<lambda>w. findUserById env i (invalidateUserCache env i email w))"
    by (rule keeps_untyped_outbox) (simp add: invalidateUserCache_def invalidate_def)
  show ?thesis unfolding becomeSeller_def by (intro nexus_inv keeps_find tx f)
qed

subsection \<open>On the wire\<close>

lemma untyped_message:
  assumes "jget v ''eventType'' = None"
  shows "\<not> DomainEventEnvelopeSchema fm (Some v)" "\<not> UserDomainEventSchema fm (Some v)"
    "handleRoleSyncMessage fm parseDate details ctx raw (Some (Stringified v)) w = ([], w)"
  using envelope_has_type[of fm v] user_event_has_type[of fm v] assms
  by (auto simp: handleRoleSyncMessage_def)

text \<open>The message a poller makes of a row, as the consumer parses it.\<close>

definition wire_value :: "outbox_row \<Rightarrow> json js_text" where
  "wire_value r = kmValue (message_of (event_options r))"

lemma wire_value_payload: "wire_value r = Stringified (obPayload r)"
  by (simp add: wire_value_def message_of_def event_options_def)

definition ignored_everywhere :: "user_db \<Rightarrow> bool" where
  "ignored_everywhere db \<longleftrightarrow> (\<forall>r \<in> set (udOutbox db). \<forall>fm parseDate details ctx raw.
     (\<forall>v. json_parse (wire_value r) = Some v \<longrightarrow>
        \<not> DomainEventEnvelopeSchema fm (Some v) \<and> \<not> UserDomainEventSchema fm (Some v)) \<and>
     (\<forall>w. handleRoleSyncMessage fm parseDate details ctx raw (Some (wire_value r)) w = ([], w)))"

lemma untyped_ignored: "untyped db \<Longrightarrow> ignored_everywhere db"
  by (auto simp: ignored_everywhere_def untyped_def typed_row_def wire_value_payload untyped_message)

text \<open>
  C19: The events of the user service are not understood. Whatever sequence of provisioning,
  becoming a seller, deleting and restoring runs on an outbox without typed rows, every
  message the poller makes of a row lacks its \<open>eventType\<close>: it satisfies neither the envelope
  nor the event contracts, and the consumer of the auth service skips it, so a deletion never
  reaches the credentials and the seller role is never replicated.
\<close>

theorem user_events_are_ignored:
  assumes "untyped (uwDb w)"
  shows "ignored_everywhere (uwDb (snd (deleteUser env i actor w))) \<and>
    ignored_everywhere (uwDb (snd (restoreUser env i actor w))) \<and>
    ignored_everywhere (uwDb (snd (becomeSeller env p i email w))) \<and>
    ignored_everywhere (uwDb (snd (createCustomerProfile env p actor ip ua w))) \<and>
    untyped (uwDb (snd (deleteUser env i actor w))) \<and> untyped (uwDb (snd (restoreUser env i actor w))) \<and>
    untyped (uwDb (snd (becomeSeller env p i email w))) \<and>
    untyped (uwDb (snd (createCustomerProfile env p actor ip ua w)))"
proof -
  have "keeps untyped (createCustomerProfile env p actor ip ua)"
    unfolding createCustomerProfile_def by (intro keeps_provision keeps_untyped_outbox) simp
  then show ?thesis
    using assms keeps_delete keeps_restore keeps_become_seller untyped_ignored unfolding keeps_def by blast
qed

theorem user_events_are_ignored_witness:
  "ignored_everywhere (uwDb (snd (deleteUser quick_user_env ''u1'' ''u1'' customer_world)))"
  using user_events_are_ignored[of customer_world quick_user_env "''u1''" "''u1''"]
  by (simp add: untyped_def customer_world_def empty_user_world_def)

end
