(* ===== verification/Http_Requests.thy ===== *)
theory Http_Requests
  imports Event_Contracts
begin

text \<open>
  What the HTTP surfaces of auth and user service share: the parts of a request the handlers read, and the
  formats of body fields. Lengths are counted in characters.
\<close>

subsection \<open>Requests\<close>

record http_request =
  hqMethod :: string
  hqPath :: string
  hqOriginalUrl :: string
  hqBody :: "json option"
  hqQuery :: "(string \<times> json) list"
  hqAccessCookie :: "string option"
  hqRefreshCookie :: "string option"
  hqAuthorization :: "string option"
  hqClientType :: "string option"
  hqForwardedFor :: "string option"
  hqRemoteAddress :: "string option"
  hqUserAgent :: "string option"

definition char_in :: "nat \<Rightarrow> nat \<Rightarrow> char \<Rightarrow> bool" where
  "char_in lo hi c = (let n = of_char c :: nat in lo \<le> n \<and> n \<le> hi)"

definition required_text :: schema where
  "required_text = z_format (\<lambda>s. s \<noteq> [])"

definition digit :: "char \<Rightarrow> bool" where
  "digit = char_in 48 57"

text \<open>\<open>/^\\+?[1-9]\\d{6,14}$/\<close>\<close>

definition phone_text :: "string \<Rightarrow> bool" where
  "phone_text s \<longleftrightarrow> (let d = (if take 1 s = ''+'' then drop 1 s else s) in
     d \<noteq> [] \<and> char_in 49 57 (hd d) \<and> 6 \<le> length (tl d) \<and> length (tl d) \<le> 14 \<and> list_all digit (tl d))"

subsection \<open>Body fields\<close>

definition body_text :: "json option \<Rightarrow> string \<Rightarrow> string" where
  "body_text b k = (case b of Some v \<Rightarrow> (case jget v k of Some (JStr s) \<Rightarrow> s | _ \<Rightarrow> '''') | None \<Rightarrow> '''')"

definition body_opt :: "json option \<Rightarrow> string \<Rightarrow> string option" where
  "body_opt b k = (case b of Some v \<Rightarrow> (case jget v k of Some (JStr s) \<Rightarrow> Some s | _ \<Rightarrow> None) | None \<Rightarrow> None)"

end
