(* ===== verification/Auth_Admin.thy ===== *)
theory Auth_Admin
  imports Auth_Registration Http_Requests
begin

text \<open>
  Admin identities: the invites of \<open>modules/admin/admin.service.ts\<close> with
  \<open>repositories/adminInvite.ts\<close>, and the first super admin of \<open>bootstrap/superAdmin.ts\<close>. Accepting an
  invite is cut at its awaits, so that two requests with one link may run side by side.
\<close>

subsection \<open>Invite rows\<close>

definition INVITE_TTL_MS :: int where "INVITE_TTL_MS = 24 * 60 * 60 * 1000"

definition hashInviteToken :: "auth_env \<Rightarrow> string \<Rightarrow> string" where
  "hashInviteToken env raw = sha256 (aeCrypto env) raw"

definition findByTokenHash :: "string \<Rightarrow> auth_world \<Rightarrow> admin_invite option" where
  "findByTokenHash h w = find (\<lambda>i. inTokenHash i = h) (adInvites (awDb w))"

definition invite_create :: "auth_env \<Rightarrow> string \<Rightarrow> string \<Rightarrow> string \<Rightarrow> time \<Rightarrow> string aw" where
  "invite_create env email tokenHash invitedById expiresAt w =
     (if tokenHash \<in> inTokenHash ` set (adInvites (awDb w)) then (Inl (unique_violation ''tokenHash''), w)
      else if aeRowId env \<in> inId ` set (adInvites (awDb w)) then (Inl (unique_violation ''id''), w)
      else (Inr (aeRowId env), on_db (\<lambda>db. db\<lparr>adInvites := adInvites db @
              [\<lparr>inId = aeRowId env, inEmail = email, inTokenHash = tokenHash, inStatus = INVITE_PENDING,
                inInvitedById = invitedById, inExpiresAt = expiresAt, inConsumedAt = None,
                inConsumedById = None\<rparr>]\<rparr>) w))"

definition update_invites ::
    "(admin_invite \<Rightarrow> bool) \<Rightarrow> (admin_invite \<Rightarrow> admin_invite) \<Rightarrow> auth_world \<Rightarrow> bool \<times> auth_world" where
  "update_invites p f w =
     (length (filter p (adInvites (awDb w))) = 1,
      on_db (\<lambda>db. db\<lparr>adInvites := update_where p f (adInvites db)\<rparr>) w)"

definition markConsumed :: "auth_env \<Rightarrow> string \<Rightarrow> string \<Rightarrow> auth_world \<Rightarrow> bool \<times> auth_world" where
  "markConsumed env i consumedById = update_invites (\<lambda>v. inId v = i \<and> inStatus v = INVITE_PENDING)
     (\<lambda>v. v\<lparr>inStatus := INVITE_CONSUMED, inConsumedAt := Some (aeNow env), inConsumedById := Some consumedById\<rparr>)"

definition reopen :: "string \<Rightarrow> string \<Rightarrow> auth_world \<Rightarrow> bool \<times> auth_world" where
  "reopen i consumedById = update_invites
     (\<lambda>v. inId v = i \<and> inStatus v = INVITE_CONSUMED \<and> inConsumedById v = Some consumedById)
     (\<lambda>v. v\<lparr>inStatus := INVITE_PENDING, inConsumedAt := None, inConsumedById := None\<rparr>)"

definition markExpired :: "string \<Rightarrow> auth_world \<Rightarrow> auth_world" where
  "markExpired i w = snd (update_invites (\<lambda>v. inId v = i \<and> inStatus v = INVITE_PENDING)
     (\<lambda>v. v\<lparr>inStatus := INVITE_EXPIRED\<rparr>) w)"

subsection \<open>Creating and validating\<close>

definition invite_audit :: "string \<Rightarrow> string \<Rightarrow> string \<Rightarrow> json option \<Rightarrow> json option \<Rightarrow> audit_log_input" where
  "invite_audit actor action target old new =
     \<lparr>alActorId = actor, alAction = action, alTargetId = target, alTargetType = ''AdminInvite'',
      alOldValues = old, alNewValues = new, alMetadata = None, alIpAddress = None, alUserAgent = None\<rparr>"

definition account_exists :: js_error where
  "account_exists = AppErr (ConflictError ''An account with this email address already exists'' (Some ''email''))"

definition createInvite :: "auth_env \<Rightarrow> string \<Rightarrow> string \<Rightarrow> (string \<times> string \<times> string) aw" where
  "createInvite env email invitedById w =
     (case findByEmail email w of
        Some c \<Rightarrow> (Inl account_exists, w)
      | None \<Rightarrow>
          let expiresAt = aeNow env + INVITE_TTL_MS;
              link = acAdminUrl (aeConfig env) @ ''/accept-invite?token='' @ aeInviteToken env in
          auth_tx (\<lambda>w.
            on_ok (invite_create env email (hashInviteToken env (aeInviteToken env)) invitedById expiresAt w) (\<lambda>i w.
            (Inr (i, email, iso_of expiresAt),
             auth_emit env ADMIN_INVITE_CREATED i
               (JObj [(''email'', JStr email), (''inviteLink'', JStr link), (''expiresAt'', JStr (iso_of expiresAt))])
               (auth_writeAuditLog (invite_audit invitedById ''ADMIN_INVITE_CREATED'' i None
                  (Some (JObj [(''email'', JStr email), (''expiresAt'', JStr (iso_of expiresAt))]))) w)))) w)"

datatype invite_validation =
    InviteInvalid | InviteConsumed | InviteExpired
  | InviteValid (ivEmail: string) (ivExpiresAt: string)

definition validateInvite :: "auth_env \<Rightarrow> string \<Rightarrow> auth_world \<Rightarrow> invite_validation \<times> auth_world" where
  "validateInvite env raw w =
     (case findByTokenHash (hashInviteToken env raw) w of
        None \<Rightarrow> (InviteInvalid, w)
      | Some v \<Rightarrow> (case inStatus v of
            INVITE_CONSUMED \<Rightarrow> (InviteConsumed, w)
          | INVITE_EXPIRED \<Rightarrow> (InviteExpired, w)
          | INVITE_PENDING \<Rightarrow>
              if inExpiresAt v \<le> aeNow env then (InviteExpired, markExpired (inId v) w)
              else (InviteValid (inEmail v) (iso_of (inExpiresAt v)), w)))"

subsection \<open>Accepting\<close>

record invite_accept =
  iaPassword :: string
  iaFirstName :: string
  iaLastName :: string
  iaPhone :: "string option"

text \<open>The checks before the transaction.\<close>

definition accept_check :: "auth_env \<Rightarrow> string \<Rightarrow> admin_invite aw" where
  "accept_check env raw w =
     (let gone = (Inl (AppErr (BadRequestError ''This admin invite is no longer valid'' (Some ''INVITE_INVALID''))), w) in
      case findByTokenHash (hashInviteToken env raw) w of
        None \<Rightarrow> gone
      | Some v \<Rightarrow>
          if inStatus v \<noteq> INVITE_PENDING then gone
          else if inExpiresAt v \<le> aeNow env
          then (Inl (AppErr (BadRequestError ''This admin invite has expired'' (Some ''INVITE_EXPIRED''))),
                markExpired (inId v) w)
          else case findByEmail (inEmail v) w of
            Some c \<Rightarrow> (Inl account_exists, w)
          | None \<Rightarrow> (Inr v, w))"

definition accept_tx :: "auth_env \<Rightarrow> admin_invite \<Rightarrow> string \<Rightarrow> credential aw" where
  "accept_tx env v password = auth_tx (\<lambda>w.
     on_ok (create_credential env (inEmail v) (bcryptHash (aeCrypto env) password) [ADMIN] w) (\<lambda>c w.
     case markConsumed env (inId v) (crId c) w of
       (False, w) \<Rightarrow> (Inl (AppErr (ConflictError ''This admin invite has already been used''
                              (Some ''INVITE_CONSUMED''))), w)
     | (True, w) \<Rightarrow> (Inr c, auth_writeAuditLog (invite_audit (crId c) ''ADMIN_INVITE_CONSUMED'' (inId v)
           (Some (JObj [(''status'', JStr ''PENDING'')]))
           (Some (JObj [(''status'', JStr ''CONSUMED''), (''email'', JStr (inEmail v))]))) w)))"

text \<open>The compensation when provisioning fails.\<close>

definition accept_rollback :: "string \<Rightarrow> string \<Rightarrow> unit aw" where
  "accept_rollback inviteId credentialId = auth_tx (\<lambda>w.
     on_ok (delete_credential credentialId w) (\<lambda>_ w.
     (Inr (), auth_writeAuditLog (invite_audit credentialId ''ADMIN_INVITE_ACCEPT_ROLLED_BACK'' inviteId
        (Some (JObj [(''status'', JStr ''CONSUMED'')])) (Some (JObj [(''status'', JStr ''PENDING'')])))
        (snd (reopen inviteId credentialId w)))))"

definition acceptInvite :: "auth_env \<Rightarrow> string \<Rightarrow> invite_accept \<Rightarrow> (string \<times> string) aw" where
  "acceptInvite env raw p w =
     on_ok (accept_check env raw w) (\<lambda>v w.
     on_ok (accept_tx env v (iaPassword p) w) (\<lambda>c w.
     case aeUserService env of
       Inr _ \<Rightarrow> (Inr (crId c, crEmail c), w)
     | Inl e \<Rightarrow> on_ok (accept_rollback (inId v) (crId c) w) (\<lambda>_ w.
         (Inl (internal_error ''Admin account setup failed. Please try again.''), w))))"

subsection \<open>The first super admin\<close>

record super_admin_env =
  saeEmail :: string
  saePassword :: string
  saeFirstName :: string
  saeLastName :: string

text \<open>\<open>passwordSchema\<close>: the checks look at the text as given, the result is trimmed.\<close>

definition passwordSchema :: "string \<Rightarrow> bool" where
  "passwordSchema s \<longleftrightarrow> 8 \<le> length s \<and> length s \<le> 128 \<and> list_ex (char_in 65 90) s \<and>
     list_ex (char_in 97 122) s \<and> list_ex (char_in 48 57) s \<and>
     list_ex (\<lambda>c. \<not> char_in 65 90 c \<and> \<not> char_in 97 122 c \<and> \<not> char_in 48 57 c) s"

definition validateSuperAdminEnv ::
    "(string \<Rightarrow> bool) \<Rightarrow> string option \<Rightarrow> string option \<Rightarrow> string option \<Rightarrow> string option \<Rightarrow> js_error + super_admin_env" where
  "validateSuperAdminEnv emailOk email password fn ln =
     (let invalid = Inl (OtherError ''Error'' ''No SUPER_ADMIN exists and SUPER_ADMIN_EMAIL / SUPER_ADMIN_PASSWORD are not set or invalid'');
          f = (case fn of None \<Rightarrow> ''Super'' | Some s \<Rightarrow> s);
          l = (case ln of None \<Rightarrow> ''Admin'' | Some s \<Rightarrow> s) in
      case (email, password) of
        (Some e, Some p) \<Rightarrow>
          if emailOk e \<and> passwordSchema p \<and> f \<noteq> [] \<and> l \<noteq> []
          then Inr \<lparr>saeEmail = str_lower (str_trim e), saePassword = str_trim p, saeFirstName = f, saeLastName = l\<rparr>
          else invalid
      | _ \<Rightarrow> invalid)"

definition super_admin_taken :: "role list \<Rightarrow> js_error" where
  "super_admin_taken roles = OtherError ''Error'' (''SUPER_ADMIN_EMAIL belongs to an existing '' @
     concat (case List.map role_text roles of [] \<Rightarrow> [] | r # rs \<Rightarrow> r # List.map (\<lambda>s. '','' @ s) rs) @
     '' credential; aborting (admin identities never hold customer/seller/plain-ADMIN roles)'')"

text \<open>
  One attempt. For a super admin who exists already the code calls the user service once more and
  ignores what it answers, so the answer does not show in the result. A race with another instance
  shows as a broken unique key of the create.
\<close>

definition createSuperAdmin :: "auth_env \<Rightarrow> super_admin_env \<Rightarrow> unit aw" where
  "createSuperAdmin env s w =
     (case findByEmail (saeEmail s) w of
        Some c \<Rightarrow> if SUPER_ADMIN \<in> set (crRole c) then (Inr (), w) else (Inl (super_admin_taken (crRole c)), w)
      | None \<Rightarrow>
          (case create_credential env (saeEmail s) (bcryptHash (aeCrypto env) (saePassword s)) [SUPER_ADMIN] w of
             (Inl e, w) \<Rightarrow>
               (case findByEmail (saeEmail s) w of
                  Some c \<Rightarrow> if SUPER_ADMIN \<in> set (crRole c) then (Inr (), w) else (Inl e, w)
                | None \<Rightarrow> (Inl e, w))
           | (Inr c, w) \<Rightarrow>
               (case aeUserService env of
                  Inl e \<Rightarrow> (Inl e, snd (delete_credential (crId c) w))
                | Inr _ \<Rightarrow> (Inr (), auth_writeAuditLog
                    \<lparr>alActorId = ''system'', alAction = ''SUPER_ADMIN_BOOTSTRAPPED'', alTargetId = crId c,
                     alTargetType = ''Credential'', alOldValues = None,
                     alNewValues = Some (JObj [(''email'', JStr (saeEmail s)), (''role'', JStr ''SUPER_ADMIN'')]),
                     alMetadata = None, alIpAddress = None, alUserAgent = None\<rparr> w))))"

definition bootstrap_delays :: "int list" where
  "bootstrap_delays = [1000, 2000, 4000, 8000, 16000]"

text \<open>The retry loop: attempt \<open>k\<close> runs in the environment \<open>envs k\<close>; the sleeps between attempts are
  in the clock of the next one. The result counts the attempts made.\<close>

fun bootstrap_loop ::
    "(nat \<Rightarrow> auth_env) \<Rightarrow> super_admin_env \<Rightarrow> nat \<Rightarrow> int list \<Rightarrow> js_error \<Rightarrow> auth_world \<Rightarrow> ((js_error + unit) \<times> nat) \<times> auth_world" where
  "bootstrap_loop envs s k [] lastErr w = ((Inl lastErr, k), w)"
| "bootstrap_loop envs s k (d # ds) lastErr w =
     (case createSuperAdmin (envs k) s w of
        (Inr _, w') \<Rightarrow> ((Inr (), k + 1), w')
      | (Inl e, w') \<Rightarrow> bootstrap_loop envs s (k + 1) ds e w')"

definition bootstrapSuperAdminWithRetry ::
    "(nat \<Rightarrow> auth_env) \<Rightarrow> (js_error + super_admin_env) \<Rightarrow> auth_world \<Rightarrow> ((js_error + unit) \<times> nat) \<times> auth_world" where
  "bootstrapSuperAdminWithRetry envs s w =
     (case s of Inl e \<Rightarrow> ((Inl e, 0), w)
      | Inr s \<Rightarrow> bootstrap_loop envs s 0 bootstrap_delays NonError w)"

end
