(* ===== verification/Invite_Flow.thy ===== *)
theory Invite_Flow
  imports Auth_Admin Registration_Claims
begin

text \<open>
  The invites as a state machine. Any number of requests create, validate and accept invites;
  an accept is three steps (the checks, the transaction, the answer of the user service), and
  the steps of different requests interleave in any order. A request that stops in between is a
  request that takes no further step.
\<close>

subsection \<open>Steps\<close>

record accept_state =
  asWorld :: auth_world
  asChecked :: "admin_invite set"
  asCommitted :: "(string \<times> string) set"

inductive invite_step :: "accept_state \<Rightarrow> accept_state \<Rightarrow> bool" where
  creates: "invite_step s (s\<lparr>asWorld := snd (createInvite env email invitedBy (asWorld s))\<rparr>)"
| validates: "invite_step s (s\<lparr>asWorld := snd (validateInvite env raw (asWorld s))\<rparr>)"
| checked: "accept_check env raw (asWorld s) = (Inr v, w) \<Longrightarrow>
     invite_step s (s\<lparr>asWorld := w, asChecked := insert v (asChecked s)\<rparr>)"
| refused: "accept_check env raw (asWorld s) = (Inl e, w) \<Longrightarrow> invite_step s (s\<lparr>asWorld := w\<rparr>)"
| committed: "\<lbrakk>v \<in> asChecked s; accept_tx env v pw (asWorld s) = (Inr c, w)\<rbrakk> \<Longrightarrow>
     invite_step s (s\<lparr>asWorld := w, asCommitted := insert (inId v, crId c) (asCommitted s)\<rparr>)"
| conflict: "\<lbrakk>v \<in> asChecked s; accept_tx env v pw (asWorld s) = (Inl e, w)\<rbrakk> \<Longrightarrow>
     invite_step s (s\<lparr>asWorld := w\<rparr>)"
| provisioned: "m \<in> asCommitted s \<Longrightarrow> invite_step s (s\<lparr>asCommitted := asCommitted s - {m}\<rparr>)"
| rolled_back: "\<lbrakk>(i, k) \<in> asCommitted s; accept_rollback i k (asWorld s) = (r, w)\<rbrakk> \<Longrightarrow>
     invite_step s (s\<lparr>asWorld := w, asCommitted := asCommitted s - {(i, k)}\<rparr>)"

inductive_cases invite_stepE: "invite_step s t"

subsection \<open>What each operation does to the tables\<close>

abbreviation invites :: "auth_world \<Rightarrow> admin_invite list" where
  "invites w \<equiv> adInvites (awDb w)"

abbreviation credentials :: "auth_world \<Rightarrow> credential list" where
  "credentials w \<equiv> adCredentials (awDb w)"

definition consume_row :: "auth_env \<Rightarrow> string \<Rightarrow> admin_invite \<Rightarrow> admin_invite" where
  "consume_row env k v =
     v\<lparr>inStatus := INVITE_CONSUMED, inConsumedAt := Some (aeNow env), inConsumedById := Some k\<rparr>"

definition reopen_row :: "admin_invite \<Rightarrow> admin_invite" where
  "reopen_row v = v\<lparr>inStatus := INVITE_PENDING, inConsumedAt := None, inConsumedById := None\<rparr>"

definition is_pending :: "string \<Rightarrow> admin_invite \<Rightarrow> bool" where
  "is_pending i v \<longleftrightarrow> inId v = i \<and> inStatus v = INVITE_PENDING"

definition consumed_by :: "string \<Rightarrow> string \<Rightarrow> admin_invite \<Rightarrow> bool" where
  "consumed_by i k v \<longleftrightarrow> inId v = i \<and> inStatus v = INVITE_CONSUMED \<and> inConsumedById v = Some k"

definition expire_row :: "admin_invite \<Rightarrow> admin_invite" where
  "expire_row v = v\<lparr>inStatus := INVITE_EXPIRED\<rparr>"

lemma markConsumed_eq:
  "markConsumed env i k w = (length (filter (is_pending i) (invites w)) = 1,
     on_db (\<lambda>db. db\<lparr>adInvites := update_where (is_pending i) (consume_row env k) (adInvites db)\<rparr>) w)"
  by (simp add: markConsumed_def update_invites_def is_pending_def[abs_def] consume_row_def[abs_def])

lemma markExpired_eq:
  "markExpired i w = on_db (\<lambda>db. db\<lparr>adInvites := update_where (is_pending i) expire_row (adInvites db)\<rparr>) w"
  by (simp add: markExpired_def update_invites_def is_pending_def[abs_def] expire_row_def[abs_def])

lemma reopen_eq:
  "snd (reopen i k w) =
     on_db (\<lambda>db. db\<lparr>adInvites := update_where (consumed_by i k) reopen_row (adInvites db)\<rparr>) w"
  by (simp add: reopen_def update_invites_def consumed_by_def[abs_def] reopen_row_def[abs_def])

lemma createInvite_tables:
  "credentials (snd (createInvite env email inviter w)) = credentials w \<and>
   (invites (snd (createInvite env email inviter w)) = invites w \<or>
    (\<exists>v. invites (snd (createInvite env email inviter w)) = invites w @ [v] \<and>
       inStatus v = INVITE_PENDING \<and> inConsumedById v = None \<and> inId v \<notin> inId ` set (invites w)))"
  by (auto simp: createInvite_def auth_tx_def invite_create_def Let_def auth_emit_def auth_writeAuditLog_def
      split: option.splits)

lemma validateInvite_tables:
  "snd (validateInvite env raw w) = w \<or> (\<exists>i. snd (validateInvite env raw w) = markExpired i w)"
  by (auto simp: validateInvite_def split: option.splits invite_status.splits)

lemma accept_check_ok:
  "accept_check env raw w = (Inr v, w') \<Longrightarrow>
     w' = w \<and> v \<in> set (invites w) \<and> inStatus v = INVITE_PENDING \<and> aeNow env < inExpiresAt v \<and>
     inTokenHash v = hashInviteToken env raw \<and> findByEmail (inEmail v) w = None"
  by (auto simp: accept_check_def findByTokenHash_def Let_def split: option.splits if_splits dest: find_Some_set)

lemma accept_check_err:
  "accept_check env raw w = (Inl e, w') \<Longrightarrow> w' = w \<or> (\<exists>i. w' = markExpired i w)"
  by (auto simp: accept_check_def Let_def split: option.splits if_splits)

lemma accept_tx_ok:
  assumes "accept_tx env v pw w = (Inr c, w')"
  shows "crId c \<notin> crId ` set (credentials w) \<and> crEmail c = inEmail v \<and> crRole c = [ADMIN] \<and>
    crEmail c \<notin> crEmail ` set (credentials w) \<and> crId c = aeRowId env \<and>
    credentials w' = credentials w @ [c] \<and> length (filter (is_pending (inId v)) (invites w)) = 1 \<and>
    invites w' = update_where (is_pending (inId v)) (consume_row env (crId c)) (invites w)"
  using assms
  by (auto simp: accept_tx_def auth_tx_def create_credential_def markConsumed_eq Let_def auth_writeAuditLog_def
      on_ok_Inr_iff split: if_splits prod.splits sum.splits bool.splits)

lemma accept_tx_err:
  assumes "accept_tx env v pw w = (Inl e, w')"
  shows "w' = w"
  using assms
  by (auto simp: accept_tx_def auth_tx_def create_credential_def markConsumed_eq Let_def on_db_def
      split: if_splits prod.splits sum.splits bool.splits)

lemma accept_rollback_tables:
  assumes "accept_rollback i k w = (r, w')" "k \<in> crId ` set (credentials w)"
  shows "r = Inr () \<and> credentials w' = filter (\<lambda>c. crId c \<noteq> k) (credentials w) \<and>
    invites w' = update_where (consumed_by i k) reopen_row (invites w)"
  using assms
  by (auto simp: accept_rollback_def auth_tx_def delete_credential_def reopen_eq auth_writeAuditLog_def)

end
