(* ===== verification/Admin_Claims.thy ===== *)
theory Admin_Claims
  imports Invite_Flow
begin

text \<open>Properties of admin invites and of the bootstrap of the first super admin.\<close>

subsection \<open>The invariant of the invite machine\<close>

text \<open>The consumed invites: id, address, and the credential they made.\<close>

definition consumed :: "admin_invite list \<Rightarrow> (string \<times> string \<times> string) set" where
  "consumed vs = (\<lambda>v. (inId v, inEmail v, the (inConsumedById v))) ` {v \<in> set vs. inStatus v = INVITE_CONSUMED}"

definition id_email :: "admin_invite list \<Rightarrow> (string \<times> string) set" where
  "id_email vs = (\<lambda>v. (inId v, inEmail v)) ` set vs"

lemma consumed_append:
  "inStatus v \<noteq> INVITE_CONSUMED \<Longrightarrow> consumed (vs @ [v]) = consumed vs"
  by (auto simp: consumed_def)

definition consumed_row :: "string \<Rightarrow> string \<Rightarrow> string \<Rightarrow> admin_invite \<Rightarrow> bool" where
  "consumed_row i e k v \<longleftrightarrow>
     inStatus v = INVITE_CONSUMED \<and> i = inId v \<and> e = inEmail v \<and> k = the (inConsumedById v)"

lemma in_consumed: "(i, e, k) \<in> consumed vs \<longleftrightarrow> (\<exists>v \<in> set vs. consumed_row i e k v)"
  by (auto simp: consumed_def consumed_row_def)

lemma in_consumed_update:
  "(i, e, k) \<in> consumed (update_where p f vs) \<longleftrightarrow>
     (\<exists>v \<in> set vs. consumed_row i e k (if p v then f v else v))"
  by (simp only: in_consumed update_where_def set_map bex_simps)

lemma consumed_expire: "consumed (update_where (is_pending i) expire_row vs) = consumed vs"
proof -
  have "consumed_row j e k (if is_pending i v then expire_row v else v) \<longleftrightarrow> consumed_row j e k v" for j e k v
    by (auto simp: is_pending_def expire_row_def consumed_row_def)
  then have "(j, e, k) \<in> consumed (update_where (is_pending i) expire_row vs) \<longleftrightarrow> (j, e, k) \<in> consumed vs" for j e k
    by (simp only: in_consumed_update in_consumed[of j e k vs])
  then show ?thesis by auto
qed

lemma consumed_reopen:
  assumes "\<forall>v \<in> set vs. inStatus v = INVITE_CONSUMED \<longleftrightarrow> inConsumedById v \<noteq> None"
  shows "consumed (update_where (consumed_by i k) reopen_row vs) = {t \<in> consumed vs. fst t \<noteq> i \<or> snd (snd t) \<noteq> k}"
proof -
  have row: "consumed_row j e l (if consumed_by i k v then reopen_row v else v) \<longleftrightarrow>
      consumed_row j e l v \<and> (j \<noteq> i \<or> l \<noteq> k)" if "v \<in> set vs" for j e l v
    using assms[rule_format, OF that] by (auto simp: consumed_by_def reopen_row_def consumed_row_def)
  have "(j, e, l) \<in> consumed (update_where (consumed_by i k) reopen_row vs) \<longleftrightarrow>
      (j, e, l) \<in> consumed vs \<and> (j \<noteq> i \<or> l \<noteq> k)" for j e l
    by (simp only: in_consumed_update in_consumed[of j e l vs] row cong: bex_cong) blast
  then show ?thesis by auto
qed

lemma the_pending_row:
  assumes "length (filter (is_pending i) vs) = 1" "distinct (map inId vs)" "(i, e) \<in> id_email vs"
  shows "\<exists>v \<in> set vs. is_pending i v \<and> inEmail v = e"
proof -
  obtain v where v: "filter (is_pending i) vs = [v]"
    using assms(1) by (auto simp: length_Suc_conv)
  then have "v \<in> set (filter (is_pending i) vs)" by simp
  then have m: "v \<in> set vs" "is_pending i v" by simp_all
  obtain u where u: "u \<in> set vs" "inId u = i" "inEmail u = e" using assms(3) by (auto simp: id_email_def)
  have "u = v" using assms(2) u m by (auto simp: is_pending_def distinct_map inj_on_def)
  then show ?thesis using u m by blast
qed

lemma consumed_consume:
  assumes "length (filter (is_pending i) vs) = 1" "distinct (map inId vs)" "(i, e) \<in> id_email vs"
  shows "consumed (update_where (is_pending i) (consume_row env k) vs) = insert (i, e, k) (consumed vs)"
proof -
  obtain v where v: "v \<in> set vs" "is_pending i v" "inEmail v = e" using the_pending_row[OF assms] by blast
  have same: "u = v" if "u \<in> set vs" "is_pending i u" for u
    using assms(2) that v by (auto simp: is_pending_def distinct_map inj_on_def)
  have row: "consumed_row j e' l (if is_pending i u then consume_row env k u else u) \<longleftrightarrow>
      (u = v \<and> (j, e', l) = (i, e, k)) \<or> consumed_row j e' l u" if "u \<in> set vs" for j e' l u
  proof (cases "is_pending i u")
    case True
    then have "u = v" using same[OF that] by simp
    with True v(3) show ?thesis by (auto simp: is_pending_def consume_row_def consumed_row_def)
  next
    case False
    then show ?thesis using v(2) by auto
  qed
  have "(j, e', l) \<in> consumed (update_where (is_pending i) (consume_row env k) vs) \<longleftrightarrow>
      (j, e', l) = (i, e, k) \<or> (j, e', l) \<in> consumed vs" for j e' l
    by (simp only: in_consumed_update in_consumed[of j e' l vs] row cong: bex_cong) (use v(1) in blast)
  then show ?thesis by auto
qed

lemma id_email_update:
  assumes "\<And>v. inId (f v) = inId v \<and> inEmail (f v) = inEmail v"
  shows "id_email (update_where p f vs) = id_email vs"
  unfolding id_email_def update_where_def set_map image_image
  by (rule image_cong[OF refl]) (simp add: assms)

lemma rows_keep_id [simp]:
  "inId (expire_row v) = inId v" "inId (reopen_row v) = inId v" "inId (consume_row env k v) = inId v"
  "inEmail (expire_row v) = inEmail v" "inEmail (reopen_row v) = inEmail v"
  "inEmail (consume_row env k v) = inEmail v"
  by (simp_all add: expire_row_def reopen_row_def consume_row_def)

lemma ids_update:
  assumes "\<And>v. inId (f v) = inId v"
  shows "map inId (update_where p f vs) = map inId vs"
  by (rule map_update_where_same) (rule assms)

text \<open>
  The invariant, over the credentials \<open>C0\<close> that were there before: a credential that is new is
  an admin made by a consumed invite with its address, a consumed invite has made one that is
  still there, and no two have made the same one.
\<close>

definition status_ok :: "admin_invite \<Rightarrow> bool" where
  "status_ok v \<longleftrightarrow> (inStatus v = INVITE_CONSUMED \<longleftrightarrow> inConsumedById v \<noteq> None)"

definition made :: "credential set \<Rightarrow> (string \<times> string \<times> string) set \<Rightarrow> credential set \<Rightarrow> bool" where
  "made C0 X cs \<longleftrightarrow>
     (\<forall>c \<in> cs - C0. crRole c = [ADMIN] \<and> (\<exists>i. (i, crEmail c, crId c) \<in> X)) \<and>
     (\<forall>i e k. (i, e, k) \<in> X \<longrightarrow> (\<exists>c \<in> cs - C0. crId c = k \<and> crEmail c = e)) \<and>
     (\<forall>i e k i' e'. (i, e, k) \<in> X \<longrightarrow> (i', e', k) \<in> X \<longrightarrow> i = i')"

definition invite_inv ::
    "credential set \<Rightarrow> admin_invite list \<Rightarrow> credential list \<Rightarrow> (string \<times> string) set \<Rightarrow> admin_invite set \<Rightarrow> bool" where
  "invite_inv C0 vs cs M K \<longleftrightarrow>
     distinct (map inId vs) \<and> distinct (map crId cs) \<and> C0 \<subseteq> set cs \<and> (\<forall>v \<in> set vs. status_ok v) \<and>
     made C0 (consumed vs) (set cs) \<and>
     (\<forall>(i, k) \<in> M. \<exists>e. (i, e, k) \<in> consumed vs) \<and>
     (\<forall>v \<in> K. (inId v, inEmail v) \<in> id_email vs)"

lemma invite_inv_append:
  assumes "invite_inv C0 vs cs M K" "inStatus v = INVITE_PENDING" "inConsumedById v = None"
    "inId v \<notin> inId ` set vs"
  shows "invite_inv C0 (vs @ [v]) cs M K"
proof -
  have "consumed (vs @ [v]) = consumed vs" using assms(2) by (intro consumed_append) simp
  moreover have "id_email vs \<subseteq> id_email (vs @ [v])" by (auto simp: id_email_def)
  ultimately show ?thesis using assms by (auto simp: invite_inv_def status_ok_def)
qed

lemma status_ok_update:
  assumes "\<forall>v \<in> set vs. status_ok v" "\<And>v. p v \<Longrightarrow> status_ok v \<Longrightarrow> status_ok (f v)"
  shows "\<forall>v \<in> set (update_where p f vs). status_ok v"
  using assms by (auto simp: update_where_def)

lemma invite_inv_expire:
  assumes "invite_inv C0 vs cs M K"
  shows "invite_inv C0 (update_where (is_pending i) expire_row vs) cs M K"
proof -
  have "\<forall>v \<in> set (update_where (is_pending i) expire_row vs). status_ok v"
    by (rule status_ok_update) (use assms in \<open>auto simp: invite_inv_def status_ok_def is_pending_def expire_row_def\<close>)
  then show ?thesis using assms unfolding invite_inv_def
    by (simp add: consumed_expire id_email_update ids_update)
qed

lemma made_insert:
  assumes "made C0 X (set cs)" "C0 \<subseteq> set cs" "crId c \<notin> crId ` set cs" "crRole c = [ADMIN]" "crEmail c = e"
  shows "made C0 (insert (i, e, crId c) X) (set (cs @ [c]))"
proof -
  have new: "c \<notin> C0" using assms(2,3) by auto
  have no: "(j, e', crId c) \<notin> X" for j e' using assms(1,3) unfolding made_def by (metis DiffD1 image_eqI)
  show ?thesis unfolding made_def
  proof (intro conjI allI impI ballI)
    fix x assume "x \<in> set (cs @ [c]) - C0"
    then show "crRole x = [ADMIN]" using assms(1,4) unfolding made_def by auto
  next
    fix x assume "x \<in> set (cs @ [c]) - C0"
    then show "\<exists>j. (j, crEmail x, crId x) \<in> insert (i, e, crId c) X"
      using assms(1,5) unfolding made_def by auto
  next
    fix j e' k assume "(j, e', k) \<in> insert (i, e, crId c) X"
    then show "\<exists>x \<in> set (cs @ [c]) - C0. crId x = k \<and> crEmail x = e'"
    proof (elim insertE)
      assume "(j, e', k) = (i, e, crId c)"
      then show ?thesis using new assms(5) by (intro bexI[of _ c]) auto
    next
      assume "(j, e', k) \<in> X"
      then obtain x where "x \<in> set cs - C0" "crId x = k \<and> crEmail x = e'"
        using assms(1) unfolding made_def by blast
      then show ?thesis by (intro bexI[of _ x]) auto
    qed
  next
    fix j e' k j' e'' assume "(j, e', k) \<in> insert (i, e, crId c) X" "(j', e'', k) \<in> insert (i, e, crId c) X"
    then show "j = j'" using assms(1) no unfolding made_def by blast
  qed
qed

lemma invite_inv_consume:
  assumes I: "invite_inv C0 vs cs M K" and K: "v \<in> K"
    and c: "crId c \<notin> crId ` set cs" "crRole c = [ADMIN]" "crEmail c = inEmail v"
    and one: "length (filter (is_pending (inId v)) vs) = 1"
  shows "invite_inv C0 (update_where (is_pending (inId v)) (consume_row env (crId c)) vs) (cs @ [c])
    (insert (inId v, crId c) M) K"
proof -
  let ?vs = "update_where (is_pending (inId v)) (consume_row env (crId c)) vs"
  have d: "distinct (map inId vs)" and m: "(inId v, inEmail v) \<in> id_email vs"
    and mk: "made C0 (consumed vs) (set cs)" "C0 \<subseteq> set cs"
    using I K unfolding invite_inv_def by blast+
  have x: "consumed ?vs = insert (inId v, inEmail v, crId c) (consumed vs)"
    by (rule consumed_consume[OF one d m])
  have "\<forall>v \<in> set ?vs. status_ok v"
    by (rule status_ok_update) (use I in \<open>auto simp: invite_inv_def status_ok_def consume_row_def\<close>)
  moreover have "made C0 (consumed ?vs) (set (cs @ [c]))"
    unfolding x by (rule made_insert[OF mk c(1,2,3)])
  moreover have "distinct (map crId (cs @ [c]))" using I c(1) by (auto simp: invite_inv_def)
  ultimately show ?thesis using I unfolding invite_inv_def x
    by (auto simp: id_email_update ids_update)
qed

lemma made_remove:
  assumes "made C0 X (set cs)" "(i, e, k) \<in> X" "distinct (map crId cs)"
  shows "made C0 {t \<in> X. fst t \<noteq> i \<or> snd (snd t) \<noteq> k} (set (filter (\<lambda>c. crId c \<noteq> k) cs))"
proof -
  let ?X = "{t \<in> X. fst t \<noteq> i \<or> snd (snd t) \<noteq> k}" and ?cs = "filter (\<lambda>c. crId c \<noteq> k) cs"
  have one: "j = j'" if "(j, a, l) \<in> X" "(j', b, l) \<in> X" for j j' a b l
    using assms(1) that unfolding made_def by blast
  have keep: "l \<noteq> k" if "(j, a, l) \<in> ?X" for j a l
    using that one[OF _ assms(2), of j a] by auto
  show ?thesis unfolding made_def
  proof (intro conjI allI impI ballI)
    fix x assume x: "x \<in> set ?cs - C0"
    then show "crRole x = [ADMIN]" using assms(1) unfolding made_def by auto
    from x have "x \<in> set cs - C0" by simp
    then obtain j where "(j, crEmail x, crId x) \<in> X" using assms(1) unfolding made_def by blast
    then show "\<exists>j. (j, crEmail x, crId x) \<in> ?X" using x by (intro exI[of _ j]) auto
  next
    fix j a l assume t: "(j, a, l) \<in> ?X"
    then obtain x where "x \<in> set cs - C0" "crId x = l \<and> crEmail x = a"
      using assms(1) unfolding made_def by blast
    then show "\<exists>x \<in> set ?cs - C0. crId x = l \<and> crEmail x = a" using keep[OF t] by (intro bexI[of _ x]) auto
  next
    fix j a l j' b assume "(j, a, l) \<in> ?X" "(j', b, l) \<in> ?X"
    then show "j = j'" using one by blast
  qed
qed

lemma invite_inv_reopen:
  assumes I: "invite_inv C0 vs cs M K" and m: "(i, k) \<in> M"
  shows "invite_inv C0 (update_where (consumed_by i k) reopen_row vs) (filter (\<lambda>c. crId c \<noteq> k) cs) (M - {(i, k)}) K"
proof -
  let ?vs = "update_where (consumed_by i k) reopen_row vs"
  have st: "\<forall>v \<in> set vs. status_ok v" and d: "distinct (map crId cs)"
    and mk: "made C0 (consumed vs) (set cs)" and sub: "C0 \<subseteq> set cs" using I unfolding invite_inv_def by blast+
  obtain e where e: "(i, e, k) \<in> consumed vs" using I m unfolding invite_inv_def by blast
  obtain c where c: "c \<in> set cs" "c \<notin> C0" "crId c = k" using mk e unfolding made_def by blast
  have x: "consumed ?vs = {t \<in> consumed vs. fst t \<noteq> i \<or> snd (snd t) \<noteq> k}"
    by (rule consumed_reopen) (use st in \<open>simp add: status_ok_def\<close>)
  have "\<forall>v \<in> set ?vs. status_ok v"
    by (rule status_ok_update) (use st in \<open>auto simp: status_ok_def reopen_row_def\<close>)
  moreover have "C0 \<subseteq> set (filter (\<lambda>c. crId c \<noteq> k) cs)"
  proof
    fix y assume y: "y \<in> C0"
    then have "y \<noteq> c" "y \<in> set cs" using c sub by auto
    then have "crId y \<noteq> crId c" using d c(1) by (auto simp: distinct_map inj_on_def)
    then show "y \<in> set (filter (\<lambda>c. crId c \<noteq> k) cs)" using c(3) \<open>y \<in> set cs\<close> by simp
  qed
  moreover have "made C0 (consumed ?vs) (set (filter (\<lambda>c. crId c \<noteq> k) cs))"
    unfolding x by (rule made_remove[OF mk e d])
  moreover have "distinct (map crId (filter (\<lambda>c. crId c \<noteq> k) cs))" using d by (rule distinct_map_filter)
  ultimately show ?thesis using I unfolding invite_inv_def x
    by (auto simp: id_email_update ids_update)
qed

abbreviation state_inv :: "credential set \<Rightarrow> accept_state \<Rightarrow> bool" where
  "state_inv C0 s \<equiv> invite_inv C0 (invites (asWorld s)) (credentials (asWorld s)) (asCommitted s) (asChecked s)"

lemma markExpired_tables:
  "invites (markExpired i w) = update_where (is_pending i) expire_row (invites w) \<and>
   credentials (markExpired i w) = credentials w"
  by (simp add: markExpired_eq)

lemma inv_markExpired:
  "invite_inv C0 (invites w) (credentials w) M K \<Longrightarrow>
     invite_inv C0 (invites (markExpired i w)) (credentials (markExpired i w)) M K"
  by (simp add: markExpired_tables invite_inv_expire)

lemma inv_check:
  "invite_inv C0 vs cs M K \<Longrightarrow> v \<in> set vs \<Longrightarrow> invite_inv C0 vs cs M (insert v K)"
  by (auto simp: invite_inv_def id_email_def)

lemma invite_step_inv:
  assumes "invite_step s t" "state_inv C0 s"
  shows "state_inv C0 t"
  using assms
proof (cases rule: invite_step.cases)
  case (creates env email inviter)
  then show ?thesis using assms(2) createInvite_tables[of env email inviter "asWorld s"]
    by (auto intro: invite_inv_append)
next
  case (validates env raw)
  then show ?thesis using assms(2) validateInvite_tables[of env raw "asWorld s"]
    by (auto intro: inv_markExpired)
next
  case (checked env raw v w)
  then show ?thesis using assms(2) accept_check_ok[of env raw "asWorld s" v w]
    by (auto intro: inv_check)
next
  case (refused env raw e w)
  then show ?thesis using assms(2) accept_check_err[of env raw "asWorld s" e w]
    by (auto intro: inv_markExpired)
next
  case (committed v env pw c w)
  note T = accept_tx_ok[OF committed(3)]
  have "invite_inv C0 (update_where (is_pending (inId v)) (consume_row env (crId c)) (invites (asWorld s)))
      (credentials (asWorld s) @ [c]) (insert (inId v, crId c) (asCommitted s)) (asChecked s)"
    by (rule invite_inv_consume[OF assms(2) committed(2)]) (use T in blast)+
  then show ?thesis using T by (simp add: committed(1))
next
  case (conflict v env pw e w)
  then show ?thesis using assms(2) accept_tx_err[OF conflict(3)] by simp
next
  case (provisioned m)
  then show ?thesis using assms(2) by (auto simp: invite_inv_def)
next
  case (rolled_back i k r w)
  obtain e where "(i, e, k) \<in> consumed (invites (asWorld s))"
    using assms(2) rolled_back(2) unfolding invite_inv_def by blast
  then obtain c where "c \<in> set (credentials (asWorld s))" "crId c = k"
    using assms(2) unfolding invite_inv_def made_def by blast
  then have "k \<in> crId ` set (credentials (asWorld s))" by blast
  then show ?thesis using assms(2) rolled_back(2) accept_rollback_tables[OF rolled_back(3)]
    by (simp add: rolled_back(1) invite_inv_reopen)
qed

lemma invite_steps_inv: "invite_step\<^sup>*\<^sup>* s t \<Longrightarrow> state_inv C0 s \<Longrightarrow> state_inv C0 t"
  by (induction rule: rtranclp_induct) (simp, metis invite_step_inv)

text \<open>A start: rows with distinct ids, no invite consumed yet, no accept under way.\<close>

definition invite_start :: "auth_world \<Rightarrow> bool" where
  "invite_start w \<longleftrightarrow> distinct (map inId (invites w)) \<and> distinct (map crId (credentials w)) \<and>
     list_all (\<lambda>v. inStatus v \<noteq> INVITE_CONSUMED \<and> inConsumedById v = None) (invites w)"

definition idle :: "auth_world \<Rightarrow> accept_state" where
  "idle w = \<lparr>asWorld = w, asChecked = {}, asCommitted = {}\<rparr>"

lemma invite_start_inv: "invite_start w \<Longrightarrow> state_inv (set (credentials w)) (idle w)"
  by (auto simp: invite_start_def idle_def invite_inv_def made_def consumed_def status_ok_def list_all_iff)

lemma consumed_row_of:
  assumes "status_ok v" "consumed_row i e k v"
  shows "inStatus v = INVITE_CONSUMED \<and> inId v = i \<and> inEmail v = e \<and> inConsumedById v = Some k"
  using assms by (auto simp: status_ok_def consumed_row_def)

text \<open>
  C3: An admin invite works once. However the requests that create, validate and accept invites
  interleave, and whichever provisioning calls fail, every credential that was not there at the
  start is a plain admin made by exactly one consumed invite, with the invited address, and
  every consumed invite points to a credential that is there.
\<close>

theorem invites_make_one_admin_each:
  assumes "invite_start w" "invite_step\<^sup>*\<^sup>* (idle w) s"
  shows "(\<forall>c \<in> set (credentials (asWorld s)) - set (credentials w). crRole c = [ADMIN] \<and>
      (\<exists>!v. v \<in> set (invites (asWorld s)) \<and> inStatus v = INVITE_CONSUMED \<and>
         inConsumedById v = Some (crId c) \<and> inEmail v = crEmail c)) \<and>
    (\<forall>v \<in> set (invites (asWorld s)). inStatus v = INVITE_CONSUMED \<longrightarrow>
      (\<exists>c \<in> set (credentials (asWorld s)) - set (credentials w). inConsumedById v = Some (crId c)))"
proof -
  let ?vs = "invites (asWorld s)" and ?cs = "credentials (asWorld s)" and ?C0 = "set (credentials w)"
  have I: "state_inv ?C0 s" by (rule invite_steps_inv[OF assms(2) invite_start_inv[OF assms(1)]])
  then have st: "\<And>v. v \<in> set ?vs \<Longrightarrow> status_ok v" and mk: "made ?C0 (consumed ?vs) (set ?cs)"
    and d: "inj_on inId (set ?vs)" unfolding invite_inv_def distinct_map by blast+
  have row: "(inId v, inEmail v, k) \<in> consumed ?vs"
    if "v \<in> set ?vs" "inStatus v = INVITE_CONSUMED" "inConsumedById v = Some k" for v k
    using that by (auto simp: in_consumed consumed_row_def)
  have "crRole c = [ADMIN] \<and> (\<exists>!v. v \<in> set ?vs \<and> inStatus v = INVITE_CONSUMED \<and>
         inConsumedById v = Some (crId c) \<and> inEmail v = crEmail c)" if c: "c \<in> set ?cs - ?C0" for c
  proof -
    obtain i where "crRole c = [ADMIN]" "(i, crEmail c, crId c) \<in> consumed ?vs" using mk c unfolding made_def by blast
    then obtain v where v: "v \<in> set ?vs" "consumed_row i (crEmail c) (crId c) v" by (auto simp: in_consumed)
    show ?thesis
    proof (intro conjI ex1I[of _ v])
      fix u assume u: "u \<in> set ?vs \<and> inStatus u = INVITE_CONSUMED \<and>
        inConsumedById u = Some (crId c) \<and> inEmail u = crEmail c"
      then have "inId u = i"
        using row[of u "crId c"] mk \<open>(i, crEmail c, crId c) \<in> consumed ?vs\<close> unfolding made_def by blast
      then show "u = v" using d v u consumed_row_of[OF st[OF v(1)] v(2)] unfolding inj_on_def by blast
    qed (use v consumed_row_of[OF st[OF v(1)] v(2)] \<open>crRole c = [ADMIN]\<close> in simp_all)
  qed
  moreover have "\<exists>c \<in> set ?cs - ?C0. inConsumedById v = Some (crId c)"
    if v: "v \<in> set ?vs" "inStatus v = INVITE_CONSUMED" for v
  proof -
    obtain k where k: "inConsumedById v = Some k" using st[OF v(1)] v(2) by (auto simp: status_ok_def)
    obtain c where "c \<in> set ?cs - ?C0" "crId c = k" using row[OF v k] mk unfolding made_def by blast
    then show ?thesis using k by blast
  qed
  ultimately show ?thesis by blast
qed

definition invited_world :: auth_world where
  "invited_world = snd (createInvite (demo_auth_env\<lparr>aeRowId := ''i1''\<rparr>) ''a@b.c'' ''root'' empty_auth)"

lemma invited_accept:
  "\<exists>v c w. accept_check demo_auth_env ''tok'' invited_world = (Inr v, invited_world) \<and>
     accept_tx demo_auth_env v ''pw'' invited_world = (Inr c, w) \<and> credentials w = [c] \<and> crId c = ''c1''"
  by (simp add: invited_world_def createInvite_def findByEmail_def empty_auth_def auth_tx_def invite_create_def
      demo_auth_env_def demo_config_def demo_crypto_def hashInviteToken_def auth_emit_def auth_writeAuditLog_def
      accept_check_def findByTokenHash_def INVITE_TTL_MS_def accept_tx_def create_credential_def markConsumed_eq
      is_pending_def on_db_def Let_def invite_audit_def emitDomainEvent_def)

theorem invites_make_one_admin_each_witness:
  "\<exists>s c. invite_step\<^sup>*\<^sup>* (idle empty_auth) s \<and> credentials (asWorld s) = [c] \<and> crRole c = [ADMIN]"
proof -
  obtain v c w where a: "accept_check demo_auth_env ''tok'' invited_world = (Inr v, invited_world)"
    "accept_tx demo_auth_env v ''pw'' invited_world = (Inr c, w)" "credentials w = [c]"
    using invited_accept by blast
  let ?r = "(idle empty_auth)\<lparr>asWorld := invited_world\<rparr>"
  let ?s = "?r\<lparr>asWorld := invited_world, asChecked := insert v (asChecked ?r)\<rparr>"
  let ?t = "?s\<lparr>asWorld := w, asCommitted := insert (inId v, crId c) (asCommitted ?s)\<rparr>"
  have 1: "invite_step (idle empty_auth) ?r"
    using creates[of "idle empty_auth"] by (simp add: invited_world_def idle_def)
  have 2: "invite_step ?r ?s" by (rule checked) (use a(1) in simp)
  have 3: "invite_step ?s ?t" by (rule committed) (use a(2) in simp_all)
  have steps: "invite_step\<^sup>*\<^sup>* (idle empty_auth) ?t" using 1 2 3 by (meson r_into_rtranclp rtranclp_trans)
  have start: "invite_start empty_auth" by (simp add: invite_start_def empty_auth_def)
  have "crRole c = [ADMIN]" using invites_make_one_admin_each[OF start steps] a(3) by (simp add: empty_auth_def)
  then show ?thesis using steps a(3) by (intro exI[of _ ?t] exI[of _ c]) simp
qed

subsection \<open>Compensation\<close>

lemma reopen_consume:
  assumes "distinct (map inId vs)" "v \<in> set vs" "inStatus v = INVITE_PENDING" "inConsumedAt v = None"
    "inConsumedById v = None"
  shows "update_where (consumed_by (inId v) k) reopen_row
      (update_where (is_pending (inId v)) (consume_row env k) vs) = vs"
proof -
  have "(\<lambda>u. if consumed_by (inId v) k u then reopen_row u else u)
      (if is_pending (inId v) u then consume_row env k u else u) = u" if "u \<in> set vs" for u
  proof (cases "inId u = inId v")
    case True
    then have "u = v" using assms(1,2) that by (auto simp: distinct_map inj_on_def)
    then show ?thesis using assms(3-5)
      by (simp add: consumed_by_def is_pending_def consume_row_def reopen_row_def)
  next
    case False
    then show ?thesis by (simp add: consumed_by_def is_pending_def)
  qed
  then show ?thesis by (simp add: update_where_def map_idI)
qed

lemma one_pending:
  assumes "distinct (map inId vs)" "v \<in> set vs" "inStatus v = INVITE_PENDING"
  shows "length (filter (is_pending (inId v)) vs) = 1"
proof -
  have "filter (is_pending (inId v)) vs = filter (\<lambda>u. u = v) vs"
    by (rule filter_cong[OF refl]) (use assms in \<open>auto simp: is_pending_def distinct_map inj_on_def\<close>)
  moreover have "distinct vs" using assms(1) by (simp add: distinct_map)
  ultimately show ?thesis using assms(2) by (simp add: distinct_length_filter Int_absorb2)
qed

text \<open>A link that can be accepted now.\<close>

definition usable_link :: "auth_env \<Rightarrow> string \<Rightarrow> admin_invite \<Rightarrow> auth_world \<Rightarrow> bool" where
  "usable_link env raw v w \<longleftrightarrow> findByTokenHash (hashInviteToken env raw) w = Some v \<and>
     inStatus v = INVITE_PENDING \<and> inConsumedAt v = None \<and> inConsumedById v = None \<and>
     aeNow env < inExpiresAt v \<and> findByEmail (inEmail v) w = None \<and>
     aeRowId env \<notin> crId ` set (credentials w) \<and> distinct (map inId (invites w))"

lemma usable_link_check: "usable_link env raw v w \<Longrightarrow> accept_check env raw w = (Inr v, w)"
  by (simp add: usable_link_def accept_check_def Let_def)

lemma usable_link_tx:
  assumes "usable_link env raw v w"
  shows "\<exists>c w'. accept_tx env v pw w = (Inr c, w')"
proof -
  have "v \<in> set (invites w)" using assms by (auto simp: usable_link_def findByTokenHash_def dest: find_Some_set)
  then have "length (filter (is_pending (inId v)) (invites w)) = 1"
    using assms by (intro one_pending) (auto simp: usable_link_def)
  moreover have "inEmail v \<notin> crEmail ` set (credentials w)"
    using assms by (auto simp: usable_link_def findByEmail_def find_None_iff)
  ultimately show ?thesis using assms
    by (simp add: usable_link_def accept_tx_def auth_tx_def create_credential_def markConsumed_eq Let_def)
qed

text \<open>
  A failed accept gives the link back. When the user service does not create the profile,
  the invitee gets an error, credentials and invites are exactly as before, and a later accept
  with the same link, at any time before it expires, makes the admin.
\<close>

theorem failed_accept_gives_the_link_back:
  assumes "usable_link env raw v w" "aeUserService env = Inl e"
    and "aeCrypto later = aeCrypto env" "aeNow later < inExpiresAt v"
      "aeRowId later \<notin> crId ` set (credentials w)" "aeUserService later = Inr ()"
  shows "\<exists>w'. acceptInvite env raw p w = (Inl (internal_error ''Admin account setup failed. Please try again.''), w') \<and>
    credentials w' = credentials w \<and> invites w' = invites w \<and>
    fst (acceptInvite later raw q w') = Inr (aeRowId later, inEmail v)"
proof -
  obtain c w1 where tx: "accept_tx env v (iaPassword p) w = (Inr c, w1)" using usable_link_tx[OF assms(1)] by blast
  note T = accept_tx_ok[OF tx]
  obtain r w2 where rb: "accept_rollback (inId v) (crId c) w1 = (r, w2)" by force
  have "crId c \<in> crId ` set (credentials w1)" using T by simp
  note R = accept_rollback_tables[OF rb this]
  have v: "v \<in> set (invites w)" using assms(1) by (auto simp: usable_link_def findByTokenHash_def dest: find_Some_set)
  have "filter (\<lambda>x. crId x \<noteq> crId c) (credentials w) = credentials w"
    using T by (intro filter_True ballI notI) (metis imageI)
  then have cs: "credentials w2 = credentials w" using R T by simp
  have vs: "invites w2 = invites w" using R T reopen_consume[OF _ v] assms(1) by (simp add: usable_link_def)
  have run: "acceptInvite env raw p w = (Inl (internal_error ''Admin account setup failed. Please try again.''), w2)"
    using usable_link_check[OF assms(1)] tx rb R assms(2) by (simp add: acceptInvite_def)
  have u2: "usable_link later raw v w2" using assms cs vs
    by (simp add: usable_link_def findByTokenHash_def findByEmail_def hashInviteToken_def)
  obtain c2 w3 where tx2: "accept_tx later v (iaPassword q) w2 = (Inr c2, w3)" using usable_link_tx[OF u2] by blast
  have "fst (acceptInvite later raw q w2) = Inr (aeRowId later, inEmail v)"
    using usable_link_check[OF u2] tx2 accept_tx_ok[OF tx2] assms(6) by (simp add: acceptInvite_def)
  with run cs vs show ?thesis by blast
qed

definition demo_accept :: invite_accept where
  "demo_accept = \<lparr>iaPassword = ''pw'', iaFirstName = ''A'', iaLastName = ''B'', iaPhone = None\<rparr>"

theorem failed_accept_gives_the_link_back_witness:
  "\<exists>w'. acceptInvite (demo_auth_env\<lparr>aeUserService := Inl NonError\<rparr>) ''tok'' demo_accept invited_world =
      (Inl (internal_error ''Admin account setup failed. Please try again.''), w') \<and>
    fst (acceptInvite demo_auth_env ''tok'' demo_accept w') = Inr (''c1'', ''a@b.c'')"
proof -
  let ?v = "\<lparr>inId = ''i1'', inEmail = ''a@b.c'', inTokenHash = ''tok'', inStatus = INVITE_PENDING,
    inInvitedById = ''root'', inExpiresAt = 86400000, inConsumedAt = None, inConsumedById = None\<rparr>"
  have u: "usable_link (demo_auth_env\<lparr>aeUserService := Inl NonError\<rparr>) ''tok'' ?v invited_world"
    by (simp add: usable_link_def invited_world_def createInvite_def findByEmail_def empty_auth_def auth_tx_def
      invite_create_def demo_auth_env_def demo_config_def demo_crypto_def hashInviteToken_def auth_emit_def
      auth_writeAuditLog_def findByTokenHash_def INVITE_TTL_MS_def on_db_def Let_def)
  show ?thesis
    using failed_accept_gives_the_link_back[OF u, where later = demo_auth_env and p = demo_accept and q = demo_accept] u
    by (auto simp: demo_auth_env_def usable_link_def)
qed

subsection \<open>The first super admin\<close>

lemma createSuperAdmin_outcome:
  "case createSuperAdmin env s w of
     (Inr _, w') \<Rightarrow> (\<exists>c. findByEmail (saeEmail s) w' = Some c \<and> SUPER_ADMIN \<in> set (crRole c)) \<and>
        (credentials w' = credentials w \<or> (\<exists>c. credentials w' = credentials w @ [c] \<and> crRole c = [SUPER_ADMIN]))
   | (Inl e, w') \<Rightarrow> credentials w' = credentials w"
proof (cases "findByEmail (saeEmail s) w")
  case (Some c)
  then show ?thesis by (simp add: createSuperAdmin_def)
next
  case None
  then have no: "find (\<lambda>c. crEmail c = saeEmail s) (credentials w) = None" by (simp add: findByEmail_def)
  obtain r w1 where c: "create_credential env (saeEmail s) (bcryptHash (aeCrypto env) (saePassword s)) [SUPER_ADMIN] w = (r, w1)"
    by force
  show ?thesis
  proof (cases r)
    case (Inl e)
    then have "w1 = w" using c by (auto simp: create_credential_def Let_def split: if_splits)
    then show ?thesis using None Inl c by (simp add: createSuperAdmin_def)
  next
    case (Inr cr)
    note C = create_credential_ok[OF c[unfolded Inr]]
    show ?thesis
    proof (cases "aeUserService env")
      case (Inl e)
      then show ?thesis using delete_created[OF c[unfolded Inr]] None c Inr by (auto simp: createSuperAdmin_def)
    next
      case Inr2: (Inr u)
      have "find (\<lambda>c. crEmail c = saeEmail s) (credentials w @ [cr]) = Some cr"
        using find_snoc[OF no] C by simp
      then show ?thesis using None c Inr Inr2 C
        by (simp add: createSuperAdmin_def findByEmail_def auth_writeAuditLog_def)
    qed
  qed
qed

lemma bootstrap_loop_outcome:
  "case bootstrap_loop envs s k ds e w of
     ((Inr _, n), w') \<Rightarrow> k < n \<and> n \<le> k + length ds \<and>
        (\<exists>c. findByEmail (saeEmail s) w' = Some c \<and> SUPER_ADMIN \<in> set (crRole c)) \<and>
        (credentials w' = credentials w \<or> (\<exists>c. credentials w' = credentials w @ [c] \<and> crRole c = [SUPER_ADMIN]))
   | ((Inl _, n), w') \<Rightarrow> n = k + length ds \<and> credentials w' = credentials w"
proof (induction ds arbitrary: k e w)
  case (Cons d ds)
  obtain r w1 where c: "createSuperAdmin (envs k) s w = (r, w1)" by force
  show ?case
  proof (cases r)
    case (Inl e')
    have cr: "credentials w1 = credentials w" using createSuperAdmin_outcome[where env = "envs k" and s = s and w = w] c Inl by simp
    show ?thesis using Cons.IH[where k = "k + 1" and e = e' and w = w1] c Inl cr by (auto split: prod.splits sum.splits)
  next
    case (Inr u)
    then show ?thesis using createSuperAdmin_outcome[where env = "envs k" and s = s and w = w] c by simp
  qed
qed simp

text \<open>
  The bootstrap of the super admin converges or changes nothing. It makes at most five
  attempts, in whatever environments they run. On success the configured address belongs to a
  super admin and at most one credential was added; on failure all five attempts were made and the
  credentials are as before, so the next start of the service can try again.
\<close>

theorem bootstrap_converges_or_changes_nothing:
  "case bootstrapSuperAdminWithRetry envs (Inr s) w of
     ((Inr _, n), w') \<Rightarrow> 0 < n \<and> n \<le> 5 \<and>
        (\<exists>c. findByEmail (saeEmail s) w' = Some c \<and> SUPER_ADMIN \<in> set (crRole c)) \<and>
        (credentials w' = credentials w \<or> (\<exists>c. credentials w' = credentials w @ [c] \<and> crRole c = [SUPER_ADMIN]))
   | ((Inl _, n), w') \<Rightarrow> n = 5 \<and> credentials w' = credentials w"
proof -
  have n: "0 + length bootstrap_delays = 5" by (simp add: bootstrap_delays_def)
  show ?thesis
    using bootstrap_loop_outcome[where envs = envs and s = s and k = 0 and ds = bootstrap_delays and e = NonError and w = w]
    unfolding n bootstrapSuperAdminWithRetry_def by simp
qed

end
