(* ===== verification/Wire_Claims.thy ===== *)
theory Wire_Claims
  imports Notification_Claims Event_Claims Admin_Claims
begin

text \<open>From the auth service to the mail: what the notification service makes of the outbox rows of
  the auth service.\<close>

subsection \<open>The rows the auth service writes\<close>

definition auth_untyped :: "auth_world \<Rightarrow> bool" where
  "auth_untyped w \<longleftrightarrow> (\<forall>r \<in> set (adOutbox (awDb w)). \<not> typed_row r)"

lemma untyped_emit:
  "jget p ''eventType'' = None \<Longrightarrow> auth_untyped w \<Longrightarrow> auth_untyped (auth_emit env ty agg p w)"
  by (auto simp: auth_untyped_def auth_emit_def emitDomainEvent_def writeOutboxEvent_def typed_row_def)

lemma untyped_redis [simp]:
  "auth_untyped (r_setex env k s v w) = auth_untyped w" "auth_untyped (auth_writeAuditLog a w) = auth_untyped w"
  by (simp_all add: auth_untyped_def auth_writeAuditLog_def)

lemma untyped_on_db: "(\<And>db. adOutbox (f db) = adOutbox db) \<Longrightarrow> auth_untyped (on_db f w) = auth_untyped w"
  by (simp add: auth_untyped_def)

lemma otp_guards_outbox [simp]:
  "awDb (snd (checkOtpRestrictions env e w)) = awDb w" "awDb (snd (trackOtpRequests env e w)) = awDb w"
  by (simp_all add: checkOtpRestrictions_def trackOtpRequests_def Let_def)

lemma untyped_tx_emit:
  assumes "jget p ''eventType'' = None" "auth_untyped w"
  shows "auth_untyped (snd (auth_tx (\<lambda>w. (Inr (), auth_emit env ty agg p w)) w))"
  using untyped_emit[OF assms] by (simp add: auth_tx_def)

lemma untyped_otp_mail: "auth_untyped w \<Longrightarrow> auth_untyped (snd (emitOtpEmail env e fn otp w))"
  unfolding emitOtpEmail_def by (rule untyped_tx_emit) simp_all

lemma untyped_guarded:
  assumes "auth_untyped w" "\<And>w. auth_untyped w \<Longrightarrow> auth_untyped (snd (k w))"
  shows "auth_untyped (snd (on_ok (checkOtpRestrictions env e w) (\<lambda>_ w. on_ok (trackOtpRequests env e w) (\<lambda>_. k))))"
proof (rule snd_on_ok)
  show "auth_untyped (snd (checkOtpRestrictions env e w))"
    using assms(1) by (simp add: auth_untyped_def)
  show "auth_untyped (snd (on_ok (trackOtpRequests env e s) (\<lambda>_. k)))" if "auth_untyped s" for x s
    by (rule snd_on_ok) (use that assms(2) in \<open>auto simp: auth_untyped_def\<close>)
qed

lemma untyped_startRegistration: "auth_untyped w \<Longrightarrow> auth_untyped (snd (startRegistration env i w))"
  unfolding startRegistration_def
  by (cases "findByEmail (riEmail i) w") (auto intro!: untyped_guarded untyped_otp_mail simp: Let_def)

lemma untyped_resend: "auth_untyped w \<Longrightarrow> auth_untyped (snd (resendRegistrationOtp env e r w))"
  unfolding resendRegistrationOtp_def
  by (cases "cached_registration env r e w") (auto intro!: untyped_guarded untyped_otp_mail)

lemma untyped_reset: "auth_untyped w \<Longrightarrow> auth_untyped (snd (requestPasswordReset env inh e ct w))"
  unfolding requestPasswordReset_def Let_def
  by (auto split: option.splits sum.splits simp: create_reset_def untyped_on_db intro!: untyped_tx_emit)

lemma untyped_restore: "auth_untyped w \<Longrightarrow> auth_untyped (snd (requestAccountRestore env e w))"
  unfolding requestAccountRestore_def by (auto split: option.splits intro!: untyped_tx_emit)

lemma untyped_invite: "auth_untyped w \<Longrightarrow> auth_untyped (snd (createInvite env e inviter w))"
  unfolding createInvite_def Let_def
  by (auto split: option.splits simp: auth_tx_def invite_create_def untyped_on_db intro!: untyped_emit)

subsection \<open>Poison\<close>

definition poisoned :: "outbox_row \<Rightarrow> bool" where
  "poisoned r \<longleftrightarrow> (\<forall>fm details env d ctx raw nw.
     case handleDomainEventMessage fm details env d ctx raw (Some (wire_value r)) nw of
       (res, nw') \<Rightarrow> res = Inr () \<and> nwRows nw' = nwRows nw \<and> nwPosts nw' = nwPosts nw \<and>
         (ndBusConfigured d \<and> neConn env (nwTick nw) = None \<and> neSend env (nwTick nw) = SendOk \<longrightarrow>
            (\<exists>k. busBroker (nwBus nw') = busBroker (nwBus nw) @ [k] \<and> kmTopic k = DLQ)))"

lemma dead_letter_sent:
  assumes "neConn env (nwTick w) = None" "neSend env (nwTick w) = SendOk"
  shows "busBroker (nwBus (notif_dead_letter env p w)) =
    busBroker (nwBus w) @ [message_of (dead_letter_options (iso_of (neClock env (nwTick w))) p)]"
  using assms by (simp add: notif_dead_letter_def notif_publish_def bus_publish_good ntick_def)

lemma untyped_poisoned:
  assumes "\<not> typed_row r"
  shows "poisoned r"
proof -
  have "\<not> DomainEventSchema fm (Some (obPayload r))" for fm
    using handled_schema[of fm "obPayload r"] assms by (auto simp: typed_row_def)
  then have "\<exists>e. parseKafkaMessage fm details (Some (wire_value r)) h = Inl e" for fm details h
    by (simp add: parseKafkaMessage_def wire_value_payload)
  then show ?thesis unfolding poisoned_def handleDomainEventMessage_def
    by (auto simp: routePoisonMessage_def dead_letter_sent message_of_def dead_letter_options_def split: sum.splits) (metis Inl_Inr_False)+
qed

text \<open>
  C16: No mail of the auth service is ever sent. Registration codes, password reset links, restore
  codes and admin invites are written to the outbox without their event type; the message the
  poller makes of such a row is poison to the notification service: it is acknowledged, no log
  row and no mail come of it, and a working broker gets one dead letter.
\<close>

theorem auth_mails_are_poison:
  assumes "auth_untyped w"
    and "w' \<in> {snd (startRegistration env i w), snd (resendRegistrationOtp env e r w),
           snd (requestPasswordReset env inh e ct w), snd (requestAccountRestore env e w),
           snd (createInvite env e inviter w)}"
  shows "auth_untyped w' \<and> (\<forall>ob \<in> set (adOutbox (awDb w')). poisoned ob)"
proof -
  have "auth_untyped w'" using assms untyped_startRegistration untyped_resend untyped_reset untyped_restore
      untyped_invite by blast
  then show ?thesis using untyped_poisoned unfolding auth_untyped_def by blast
qed

theorem auth_mails_are_poison_witness:
  "adOutbox (awDb (snd (requestPasswordReset jwt_env (\<lambda>s. None) ''a@b.c'' None dual_world))) \<noteq> [] \<and>
   poisoned (hd (adOutbox (awDb (snd (requestPasswordReset jwt_env (\<lambda>s. None) ''a@b.c'' None dual_world)))))"
proof -
  have u: "auth_untyped dual_world" by (simp add: auth_untyped_def dual_world_def empty_auth_def)
  have "adOutbox (awDb (snd (requestPasswordReset jwt_env (\<lambda>s. None) ''a@b.c'' None dual_world))) \<noteq> []"
    by (simp add: requestPasswordReset_def findByEmail_def dual_world_def dual_account_def empty_auth_def create_reset_def
        resolveResetPage_def Let_def auth_tx_def auth_emit_def emitDomainEvent_def writeOutboxEvent_def)
  then show ?thesis
    using auth_mails_are_poison[OF u, where env = jwt_env and e = "''a@b.c''" and ct = None and inh = "\<lambda>s. None"
        and w' = "snd (requestPasswordReset jwt_env (\<lambda>s. None) ''a@b.c'' None dual_world)"] by simp
qed

subsection \<open>One mail per account\<close>

text \<open>The message the event contracts describe for a row.\<close>

definition contract_value :: "outbox_row \<Rightarrow> json js_text option" where
  "contract_value r = Some (Stringified (envelope (obEventType r) (obAggregateId r) (obPayload r)))"

definition new_rows :: "auth_world \<Rightarrow> auth_world \<Rightarrow> outbox_row list" where
  "new_rows w w' = drop (length (adOutbox (awDb w))) (adOutbox (awDb w'))"

lemma reset_rows:
  "findByEmail e w = Some c \<Longrightarrow> ob \<in> set (new_rows w (snd (requestPasswordReset env inh e ct w))) \<Longrightarrow> obAggregateId ob = crId c"
  by (auto simp: requestPasswordReset_def new_rows_def create_reset_def Let_def auth_tx_def auth_emit_def
      emitDomainEvent_def writeOutboxEvent_def split: sum.splits if_splits)

lemma restore_rows:
  "findByEmail e w = Some c \<Longrightarrow> ob \<in> set (new_rows w (snd (requestAccountRestore env e w))) \<Longrightarrow> obAggregateId ob = crId c"
  by (auto simp: requestAccountRestore_def new_rows_def auth_tx_def auth_emit_def
      emitDomainEvent_def writeOutboxEvent_def split: option.splits if_splits)

lemma parsed_aggregate:
  assumes "parseKafkaMessage fm details (contract_value r) h = Inr m"
  shows "deAggregateId (imEvent m) = obAggregateId r"
  using assms by (auto simp: parseKafkaMessage_def contract_value_def parsed_event_def envelope_def Let_def split: if_splits)

text \<open>
  One account gets one mail. Even with messages as the event contracts describe them: the
  aggregate id of a password reset and of an account restore is the account's id, and it is the
  idempotency key of the log. After any mail with that key was sent, neither a later reset link
  nor a restore code is mailed; the message is acknowledged as a duplicate.
\<close>

theorem one_mail_per_account:
  assumes c: "findByEmail e w = Some c"
    and ob: "ob \<in> set (new_rows w (snd (requestPasswordReset env inh e ct w))) \<union>
        set (new_rows w (snd (requestAccountRestore env e w)))"
    and p: "parseKafkaMessage fm details (contract_value ob) (scHeaders ctx) = Inr m"
    and sent: "l \<in> set (nwRows nw)" "nlEventId l = crId c" "nlStatus l = LOG_SENT" "distinct (map nlEventId (nwRows nw))"
    and db: "\<forall>n. neDb nenv n = None"
  shows "\<exists>nw'. handleDomainEventMessage fm details nenv d ctx raw (contract_value ob) nw = (Inr (), nw') \<and>
    nwPosts nw' = nwPosts nw \<and> nwRows nw' = nwRows nw"
proof -
  have "obAggregateId ob = crId c" using ob reset_rows[OF c] restore_rows[OF c] by blast
  then have "nlEventId l = deAggregateId (imEvent m)" using sent(2) parsed_aggregate[OF p] by simp
  then show ?thesis using duplicate_is_skipped[OF db p sent(4) sent(1)] sent(3) by blast
qed

definition reset_world_after :: auth_world where
  "reset_world_after = snd (requestPasswordReset jwt_env (\<lambda>s. None) ''a@b.c'' None dual_world)"

theorem one_mail_per_account_witness:
  "\<exists>ob \<in> set (new_rows dual_world reset_world_after). \<exists>nw'. handleDomainEventMessage mail_formats (\<lambda>v. '''') demo_notif_env
      demo_deps demo_ctx '''' (contract_value ob) (empty_notif\<lparr>nwRows := [welcome_row\<lparr>nlEventId := ''c1''\<rparr>]\<rparr>) = (Inr (), nw') \<and>
      nwPosts nw' = []"
proof -
  have c: "findByEmail ''a@b.c'' dual_world = Some dual_account" by (simp add: findByEmail_def dual_world_def dual_account_def)
  have "\<exists>ob t l. new_rows dual_world reset_world_after = [ob] \<and> obEventType ob = PASSWORD_RESET_REQUESTED \<and>
      obPayload ob = JObj [(''email'', JStr t), (''resetUiLink'', JStr l)]"
    by (simp add: reset_world_after_def requestPasswordReset_def findByEmail_def dual_world_def dual_account_def empty_auth_def
        create_reset_def resolveResetPage_def Let_def auth_tx_def auth_emit_def emitDomainEvent_def writeOutboxEvent_def new_rows_def)
  then obtain ob t l where ob: "new_rows dual_world reset_world_after = [ob]" "obEventType ob = PASSWORD_RESET_REQUESTED"
      "obPayload ob = JObj [(''email'', JStr t), (''resetUiLink'', JStr l)]" by blast
  have "\<exists>m. parseKafkaMessage mail_formats (\<lambda>v. '''') (contract_value ob) (scHeaders demo_ctx) = Inr m"
    using ob(2,3) by (simp add: parseKafkaMessage_def contract_value_def envelope_def DomainEventSchema_def
        PasswordResetRequestedEventSchema_def event_schema_def z_object_def z_literal_def z_enum_def z_format_def
        z_string_def mail_formats_def Let_def)
  then obtain m where p: "parseKafkaMessage mail_formats (\<lambda>v. '''') (contract_value ob) (scHeaders demo_ctx) = Inr m" by blast
  have o': "ob \<in> set (new_rows dual_world (snd (requestPasswordReset jwt_env (\<lambda>s. None) ''a@b.c'' None dual_world))) \<union>
        set (new_rows dual_world (snd (requestAccountRestore jwt_env ''a@b.c'' dual_world)))"
    using ob(1) by (simp add: reset_world_after_def)
  let ?l = "welcome_row\<lparr>nlEventId := ''c1''\<rparr>"
  let ?nw = "empty_notif\<lparr>nwRows := [?l]\<rparr>"
  have s: "?l \<in> set (nwRows ?nw)" "nlEventId ?l = crId dual_account" "nlStatus ?l = LOG_SENT" "distinct (map nlEventId (nwRows ?nw))"
    by (simp_all add: dual_account_def welcome_row_def claim_row_def)
  have db: "\<forall>n. neDb demo_notif_env n = None" by (simp add: demo_notif_env_def)
  show ?thesis
    using one_mail_per_account[OF c o' p s db, where d = demo_deps and raw = "''''"] ob(1) by (auto simp: empty_notif_def)
qed

end
