(* ===== verification/Json_Text.thy ===== *)
theory Json_Text
  imports Nexus_Prelude
begin

text \<open>
  \<open>JSON.stringify\<close> of strings, \<open>JSON.parse\<close> and the \<open>base64url\<close> encoding of \<open>Buffer\<close>, as the cursors
  of the user service use them. A string is the list of its UTF-8 bytes; a number keeps its lexeme.
\<close>

subsection \<open>Values\<close>

datatype jtext =
    TNull
  | TBool bool
  | TNum string
  | TStr string
  | TArr "jtext list"
  | TObj "(string \<times> jtext) list"

text \<open>Property access; of two members with one name the last counts.\<close>

fun tget :: "jtext \<Rightarrow> string \<Rightarrow> jtext option" where
  "tget (TObj kvs) k = map_of (rev kvs) k"
| "tget _ k = None"

text \<open>Truthiness. A number is zero when the digits before its exponent are.\<close>

definition zero_lexeme :: "string \<Rightarrow> bool" where
  "zero_lexeme s \<longleftrightarrow> list_all (\<lambda>c. c \<in> set ''-0.'') (takeWhile (\<lambda>c. c \<notin> set ''eE'') s)"

fun ttruthy :: "jtext option \<Rightarrow> bool" where
  "ttruthy None = False"
| "ttruthy (Some TNull) = False"
| "ttruthy (Some (TBool b)) = b"
| "ttruthy (Some (TNum s)) = (\<not> zero_lexeme s)"
| "ttruthy (Some (TStr s)) = (s \<noteq> [])"
| "ttruthy (Some (TArr xs)) = True"
| "ttruthy (Some (TObj kvs)) = True"

subsection \<open>Strings\<close>

abbreviation quote :: char where "quote \<equiv> CHR 0x22"
abbreviation bslash :: char where "bslash \<equiv> CHR 0x5C"

definition hex_char :: "nat \<Rightarrow> char" where
  "hex_char d = char_of (if d < 10 then 48 + d else 87 + d)"

definition char_hex :: "char \<Rightarrow> nat option" where
  "char_hex c = (let n = of_char c :: nat in
     if 48 \<le> n \<and> n \<le> 57 then Some (n - 48)
     else if 97 \<le> n \<and> n \<le> 102 then Some (n - 87)
     else if 65 \<le> n \<and> n \<le> 70 then Some (n - 55) else None)"

definition escape_char :: "char \<Rightarrow> string" where
  "escape_char c = (let n = of_char c :: nat in
     if n = 34 then [bslash, quote] else if n = 92 then [bslash, bslash]
     else if n = 8 then bslash # ''b'' else if n = 9 then bslash # ''t'' else if n = 10 then bslash # ''n''
     else if n = 12 then bslash # ''f'' else if n = 13 then bslash # ''r''
     else if n < 32 then bslash # ''u00'' @ [hex_char (n div 16), hex_char (n mod 16)]
     else [c])"

definition json_quote :: "string \<Rightarrow> string" where
  "json_quote s = quote # concat (map escape_char s) @ [quote]"

text \<open>\<open>JSON.stringify\<close> of an object whose members are strings.\<close>

fun members_text :: "(string \<times> string) list \<Rightarrow> string" where
  "members_text [] = ''''"
| "members_text [(k, v)] = json_quote k @ '':'' @ json_quote v"
| "members_text ((k, v) # kvs) = json_quote k @ '':'' @ json_quote v @ '','' @ members_text kvs"

definition json_strings :: "(string \<times> string) list \<Rightarrow> string" where
  "json_strings kvs = ''{'' @ members_text kvs @ ''}''"

text \<open>The UTF-8 bytes of a code point.\<close>

definition utf8 :: "nat \<Rightarrow> string" where
  "utf8 n = map char_of (if n < 128 then [n]
     else if n < 2048 then [192 + n div 64, 128 + n mod 64]
     else if n < 65536 then [224 + n div 4096, 128 + n div 64 mod 64, 128 + n mod 64]
     else [240 + n div 262144, 128 + n div 4096 mod 64, 128 + n div 64 mod 64, 128 + n mod 64])"

fun hex4 :: "string \<Rightarrow> nat option" where
  "hex4 (a # b # c # d # r) = (case (char_hex a, char_hex b, char_hex c, char_hex d) of
     (Some x, Some y, Some z, Some w) \<Rightarrow> Some (4096 * x + 256 * y + 16 * z + w) | _ \<Rightarrow> None)"
| "hex4 _ = None"

definition unescape :: "char \<Rightarrow> char option" where
  "unescape e = map_of [(quote, quote), (bslash, bslash), (CHR ''/'', CHR ''/''), (CHR ''b'', CHR 0x08),
     (CHR ''f'', CHR 0x0C), (CHR ''n'', CHR 0x0A), (CHR ''r'', CHR 0x0D), (CHR ''t'', CHR 0x09)] e"

definition low_surrogate :: "string \<Rightarrow> nat option" where
  "low_surrogate r = (if take 2 r = bslash # ''u'' then
     (case hex4 (drop 2 r) of Some m \<Rightarrow> if 56320 \<le> m \<and> m \<le> 57343 then Some m else None | None \<Rightarrow> None)
     else None)"

definition before :: "string \<Rightarrow> (string \<times> string) option \<Rightarrow> (string \<times> string) option" where
  "before p r = map_option (\<lambda>(t, rest). (p @ t, rest)) r"

text \<open>The text after the opening quote: the string and what follows it.\<close>

function scan_string :: "string \<Rightarrow> (string \<times> string) option" where
  "scan_string [] = None"
| "scan_string (c # cs) =
     (if c = quote then Some ([], cs)
      else if c = bslash then
        (case cs of [] \<Rightarrow> None
         | e # r \<Rightarrow>
             if e = CHR ''u'' then
               (case hex4 r of None \<Rightarrow> None
                | Some n \<Rightarrow>
                    (case (if 55296 \<le> n \<and> n \<le> 56319 then low_surrogate (drop 4 r) else None) of
                       Some m \<Rightarrow> before (utf8 (65536 + 1024 * (n - 55296) + (m - 56320))) (scan_string (drop 10 r))
                     | None \<Rightarrow> before (utf8 n) (scan_string (drop 4 r))))
             else (case unescape e of None \<Rightarrow> None | Some x \<Rightarrow> before [x] (scan_string r)))
      else if (of_char c :: nat) < 32 then None
      else before [c] (scan_string cs))"
  by pat_completeness auto
termination by (relation "measure length") auto

subsection \<open>The parser\<close>

definition json_ws :: "char \<Rightarrow> bool" where
  "json_ws c \<longleftrightarrow> (of_char c :: nat) \<in> {32, 9, 10, 13}"

definition skip_ws :: "string \<Rightarrow> string" where
  "skip_ws s = dropWhile json_ws s"

definition is_digit :: "char \<Rightarrow> bool" where
  "is_digit c \<longleftrightarrow> char_digit c \<noteq> None"

text \<open>The lexeme of a number and what follows it.\<close>

definition scan_number :: "string \<Rightarrow> (string \<times> string) option" where
  "scan_number s =
     (let (sign, s1) = (case s of CHR ''-'' # r \<Rightarrow> (''-'', r) | _ \<Rightarrow> ('''', s));
          whole = (case s1 of CHR ''0'' # _ \<Rightarrow> ''0'' | _ \<Rightarrow> takeWhile is_digit s1);
          s2 = drop (length whole) s1;
          frac = (case s2 of CHR ''.'' # r \<Rightarrow> if takeWhile is_digit r = [] then '''' else CHR ''.'' # takeWhile is_digit r
                  | _ \<Rightarrow> '''');
          s3 = drop (length frac) s2;
          expo = (case s3 of e # r \<Rightarrow> if e \<in> set ''eE'' then
                    let sg = (case r of x # _ \<Rightarrow> if x \<in> set ''+-'' then [x] else '''' | _ \<Rightarrow> '''');
                        ds = takeWhile is_digit (drop (length sg) r)
                    in if ds = [] then '''' else e # sg @ ds
                  else '''' | _ \<Rightarrow> '''')
      in if whole = [] then None else Some (sign @ whole @ frac @ expo, drop (length expo) s3))"

text \<open>One unit of fuel per value and per member; a text of length \<open>n\<close> has at most \<open>n\<close> of them.\<close>

fun scan_value :: "nat \<Rightarrow> string \<Rightarrow> (jtext \<times> string) option"
and scan_members :: "nat \<Rightarrow> string \<Rightarrow> (string \<times> jtext) list \<Rightarrow> (jtext \<times> string) option"
and scan_elements :: "nat \<Rightarrow> string \<Rightarrow> jtext list \<Rightarrow> (jtext \<times> string) option" where
  "scan_value 0 s = None"
| "scan_value (Suc n) s =
     (case skip_ws s of [] \<Rightarrow> None
      | c # cs \<Rightarrow>
          if c = quote then map_option (\<lambda>(t, r). (TStr t, r)) (scan_string cs)
          else if c = CHR ''{'' then
            (if take 1 (skip_ws cs) = ''}'' then Some (TObj [], drop 1 (skip_ws cs)) else scan_members n cs [])
          else if c = CHR ''['' then
            (if take 1 (skip_ws cs) = '']'' then Some (TArr [], drop 1 (skip_ws cs)) else scan_elements n cs [])
          else if take 4 (c # cs) = ''null'' then Some (TNull, drop 3 cs)
          else if take 4 (c # cs) = ''true'' then Some (TBool True, drop 3 cs)
          else if take 5 (c # cs) = ''false'' then Some (TBool False, drop 4 cs)
          else map_option (\<lambda>(t, r). (TNum t, r)) (scan_number (c # cs)))"
| "scan_members 0 s acc = None"
| "scan_members (Suc n) s acc =
     (case skip_ws s of [] \<Rightarrow> None
      | q # cs \<Rightarrow>
          if q \<noteq> quote then None
          else (case scan_string cs of None \<Rightarrow> None
            | Some (k, r) \<Rightarrow>
                if take 1 (skip_ws r) \<noteq> '':'' then None
                else (case scan_value n (drop 1 (skip_ws r)) of None \<Rightarrow> None
                  | Some (v, r) \<Rightarrow>
                      if take 1 (skip_ws r) = ''}'' then Some (TObj (acc @ [(k, v)]), drop 1 (skip_ws r))
                      else if take 1 (skip_ws r) = '','' then scan_members n (drop 1 (skip_ws r)) (acc @ [(k, v)])
                      else None)))"
| "scan_elements 0 s acc = None"
| "scan_elements (Suc n) s acc =
     (case scan_value n s of None \<Rightarrow> None
      | Some (v, r) \<Rightarrow>
          if take 1 (skip_ws r) = '']'' then Some (TArr (acc @ [v]), drop 1 (skip_ws r))
          else if take 1 (skip_ws r) = '','' then scan_elements n (drop 1 (skip_ws r)) (acc @ [v])
          else None)"

definition parse_text :: "string \<Rightarrow> jtext option" where
  "parse_text s = (case scan_value (length s + 1) s of
     Some (v, r) \<Rightarrow> if skip_ws r = [] then Some v else None | None \<Rightarrow> None)"

subsection \<open>\<open>base64url\<close>\<close>

definition b64_char :: "nat \<Rightarrow> char" where
  "b64_char d = (if d < 26 then char_of (65 + d) else if d < 52 then char_of (71 + d)
     else if d < 62 then char_of (d - 4) else if d = 62 then CHR ''-'' else CHR ''_'')"

text \<open>Decoding also takes the characters of plain base64 and skips all others.\<close>

definition b64_value :: "char \<Rightarrow> nat option" where
  "b64_value c = (let n = of_char c :: nat in
     if 65 \<le> n \<and> n \<le> 90 then Some (n - 65)
     else if 97 \<le> n \<and> n \<le> 122 then Some (n - 71)
     else if 48 \<le> n \<and> n \<le> 57 then Some (n + 4)
     else if n = 45 \<or> n = 43 then Some 62 else if n = 95 \<or> n = 47 then Some 63 else None)"

fun b64_digits :: "nat list \<Rightarrow> nat list" where
  "b64_digits (a # b # c # r) =
     [a div 4, a mod 4 * 16 + b div 16, b mod 16 * 4 + c div 64, c mod 64] @ b64_digits r"
| "b64_digits [a, b] = [a div 4, a mod 4 * 16 + b div 16, b mod 16 * 4]"
| "b64_digits [a] = [a div 4, a mod 4 * 16]"
| "b64_digits [] = []"

fun b64_bytes :: "nat list \<Rightarrow> nat list" where
  "b64_bytes (x # y # z # w # r) =
     [x * 4 + y div 16, y mod 16 * 16 + z div 4, z mod 4 * 64 + w] @ b64_bytes r"
| "b64_bytes [x, y, z] = [x * 4 + y div 16, y mod 16 * 16 + z div 4]"
| "b64_bytes [x, y] = [x * 4 + y div 16]"
| "b64_bytes _ = []"

definition base64url :: "string \<Rightarrow> string" where
  "base64url s = map b64_char (b64_digits (map of_char s))"

definition from_base64url :: "string \<Rightarrow> string" where
  "from_base64url s = map char_of (b64_bytes (List.map_filter b64_value s))"

end
