(* ===== verification/Json_Roundtrip.thy ===== *)
theory Json_Roundtrip
  imports Json_Text
begin

text \<open>What is printed is read back: base64url, strings, and objects with two string members.\<close>

subsection \<open>\<open>base64url\<close>\<close>

lemma b64_value_char:
  assumes "d < 64"
  shows "b64_value (b64_char d) = Some d"
proof -
  consider "d < 26" | "26 \<le> d" "d < 52" | "52 \<le> d" "d < 62" | "d = 62" | "d = 63" using assms by linarith
  then show ?thesis by cases (auto simp: b64_value_def b64_char_def Let_def of_char_of)
qed

lemma b64_digits_small: "\<forall>x \<in> set xs. x < 256 \<Longrightarrow> \<forall>d \<in> set (b64_digits xs). d < 64"
  by (induction xs rule: b64_digits.induct) auto

lemma b64_bytes_digits: "\<forall>x \<in> set xs. x < 256 \<Longrightarrow> b64_bytes (b64_digits xs) = xs"
proof (induction xs rule: b64_digits.induct)
  case (1 a b c r)
  have "(a mod 4 * 16 + b div 16) div 16 = a mod 4" "(a mod 4 * 16 + b div 16) mod 16 = b div 16"
    "(b mod 16 * 4 + c div 64) div 4 = b mod 16" "(b mod 16 * 4 + c div 64) mod 4 = c div 64"
    using 1(2) by auto
  then show ?case using 1 by simp
next
  case (2 a b)
  have "(a mod 4 * 16 + b div 16) div 16 = a mod 4" "(a mod 4 * 16 + b div 16) mod 16 = b div 16"
    using 2 by auto
  then show ?case by simp
qed auto

lemma map_filter_all: "\<forall>x \<in> set xs. f x = Some (g x) \<Longrightarrow> List.map_filter f xs = map g xs"
  by (induction xs) (auto simp: List.map_filter_def)

lemma from_to_base64url: "from_base64url (base64url s) = s"
proof -
  have small: "\<forall>x \<in> set (map of_char s). x < (256 :: nat)" by (auto simp: of_char_def intro: less_le_trans)
  have "List.map_filter b64_value (map b64_char (b64_digits (map of_char s))) =
      List.map_filter (\<lambda>d. b64_value (b64_char d)) (b64_digits (map of_char s))"
    by (simp add: List.map_filter_def comp_def filter_map)
  also have "\<dots> = map id (b64_digits (map of_char s))"
    using b64_digits_small[OF small] by (intro map_filter_all) (simp add: b64_value_char)
  finally show ?thesis using b64_bytes_digits[OF small]
    by (simp add: from_base64url_def base64url_def comp_def)
qed

subsection \<open>Strings\<close>

lemma char_hex_hex: "d < 16 \<Longrightarrow> char_hex (hex_char d) = Some d"
  by (simp add: char_hex_def hex_char_def Let_def of_char_of)

lemma char_as_nat: "char_of (of_char c :: nat) = c"
  by simp

lemma char_eqI: "(of_char c :: nat) = of_char d \<Longrightarrow> c = d"
  by (metis char_of_char)

lemma scan_simple_escape:
  assumes "escape_char c = [bslash, e]" "unescape e = Some c" "e \<noteq> CHR ''u''"
  shows "scan_string (escape_char c @ r) = before [c] (scan_string r)"
  using assms by simp

lemma simple_escapes:
  assumes "(of_char c :: nat) \<in> {34, 92, 8, 9, 10, 12, 13}"
  shows "\<exists>e. escape_char c = [bslash, e] \<and> unescape e = Some c \<and> e \<noteq> CHR ''u''"
proof -
  have "c \<in> {CHR 0x22, CHR 0x5C, CHR 0x08, CHR 0x09, CHR 0x0A, CHR 0x0C, CHR 0x0D}"
    using assms char_eqI[of c "CHR 0x22"] char_eqI[of c "CHR 0x5C"] char_eqI[of c "CHR 0x08"]
      char_eqI[of c "CHR 0x09"] char_eqI[of c "CHR 0x0A"] char_eqI[of c "CHR 0x0C"] char_eqI[of c "CHR 0x0D"] by auto
  then show ?thesis
    by (elim insertE emptyE) (simp_all add: escape_char_def unescape_def Let_def)
qed

lemma scan_escaped: "scan_string (escape_char c @ r) = before [c] (scan_string r)"
proof -
  let ?n = "of_char c :: nat"
  consider (simple) "?n \<in> {34, 92, 8, 9, 10, 12, 13}"
    | (ctl) "?n < 32" "?n \<notin> {34, 92, 8, 9, 10, 12, 13}" | (plain) "32 \<le> ?n" "?n \<noteq> 34" "?n \<noteq> 92" by force
  then show ?thesis
  proof cases
    case simple
    then show ?thesis using simple_escapes scan_simple_escape by blast
  next
    case ctl
    have x: "hex4 (CHR ''0'' # CHR ''0'' # hex_char (?n div 16) # hex_char (?n mod 16) # r) = Some ?n"
    proof -
      have "char_hex (CHR ''0'') = Some 0" by (simp add: char_hex_def Let_def)
      moreover have "char_hex (hex_char (?n div 16)) = Some (?n div 16)" "char_hex (hex_char (?n mod 16)) = Some (?n mod 16)"
        using ctl(1) by (intro char_hex_hex; simp)+
      ultimately show ?thesis by simp
    qed
    have u: "utf8 ?n = [c]" using ctl(1) by (simp add: utf8_def)
    have e: "escape_char c = bslash # ''u00'' @ [hex_char (?n div 16), hex_char (?n mod 16)]"
      using ctl by (simp add: escape_char_def Let_def)
    show ?thesis unfolding e using ctl(1) x u by simp
  next
    case plain
    then have "c \<noteq> quote" "c \<noteq> bslash" "escape_char c = [c]" by (auto simp: escape_char_def Let_def)
    then show ?thesis using plain by simp
  qed
qed

lemma before_append: "before p (before q r) = before (p @ q) r"
  by (cases r) (auto simp: before_def)

lemma scan_quoted: "scan_string (concat (map escape_char s) @ quote # r) = Some (s, r)"
proof (induction s)
  case (Cons c s)
  then show ?case by (simp add: scan_escaped before_def)
qed simp

subsection \<open>Objects\<close>

lemma skip_ws_char: "\<not> json_ws c \<Longrightarrow> skip_ws (c # s) = c # s"
  by (simp add: skip_ws_def)

lemma no_ws [simp]: "\<not> json_ws quote" "\<not> json_ws CHR '':''" "\<not> json_ws CHR '',''" "\<not> json_ws CHR ''{''" "\<not> json_ws CHR ''}''"
  by (simp_all add: json_ws_def)

lemma json_quote_cons: "json_quote s @ r = quote # (concat (map escape_char s) @ quote # r)"
  by (simp add: json_quote_def)

lemma scan_value_quoted: "scan_value (Suc n) (json_quote s @ r) = Some (TStr s, r)"
  by (simp add: json_quote_cons skip_ws_char scan_quoted)

lemma scan_member:
  "scan_members (Suc (Suc n)) (json_quote k @ CHR '':'' # json_quote v @ r) acc =
     (if take 1 (skip_ws r) = ''}'' then Some (TObj (acc @ [(k, TStr v)]), drop 1 (skip_ws r))
      else if take 1 (skip_ws r) = '','' then scan_members (Suc n) (drop 1 (skip_ws r)) (acc @ [(k, TStr v)])
      else None)"
  by (simp add: json_quote_cons[of k] skip_ws_char scan_quoted scan_value_quoted del: scan_value.simps)

lemma scan_members_text:
  "kvs \<noteq> [] \<Longrightarrow> scan_members (length kvs + Suc n) (members_text kvs @ CHR ''}'' # r) acc =
     Some (TObj (acc @ map (\<lambda>(k, v). (k, TStr v)) kvs), r)"
proof (induction kvs arbitrary: acc rule: members_text.induct)
  case (2 k v)
  then show ?case using scan_member[of n k v "CHR ''}'' # r" acc] by (simp add: skip_ws_char del: scan_members.simps)
next
  case (3 k v kv kvs)
  then show ?case
    using scan_member[of "length kvs + Suc n" k v "CHR '','' # members_text (kv # kvs) @ CHR ''}'' # r" acc]
    by (simp add: skip_ws_char del: scan_members.simps)
qed simp

lemma members_text_start: "kvs \<noteq> [] \<Longrightarrow> \<exists>cs. members_text kvs = quote # cs"
  by (cases kvs rule: members_text.cases) (auto simp: json_quote_def)

lemma members_text_length: "length kvs \<le> length (members_text kvs)"
  by (induction kvs rule: members_text.induct) (auto simp: json_quote_def)

lemma parse_json_strings:
  assumes "kvs \<noteq> []"
  shows "parse_text (json_strings kvs) = Some (TObj (map (\<lambda>(k, v). (k, TStr v)) kvs))"
proof -
  let ?t = "members_text kvs @ CHR ''}'' # []"
  obtain m where m: "length ?t + 1 = length kvs + Suc m"
    using members_text_length[of kvs] by (metis Suc_eq_plus1 add_Suc_right le_Suc_ex length_append add_leD1 le_add1 order_trans)
  obtain cs where "members_text kvs = quote # cs" using members_text_start[OF assms] by blast
  then have "take 1 (skip_ws ?t) \<noteq> ''}''" by (simp add: skip_ws_char)
  then have "scan_value (Suc (length ?t + 1)) (CHR ''{'' # ?t) = scan_members (length ?t + 1) ?t []"
    by (simp add: skip_ws_char del: scan_members.simps)
  then show ?thesis using scan_members_text[OF assms, of m "[]" "[]"] m
    by (simp add: parse_text_def json_strings_def skip_ws_def del: scan_members.simps scan_value.simps)
qed

end
