(* ===== verification/Dead_Letters.thy ===== *)
theory Dead_Letters
  imports Complex_Main "HOL-Library.List_Lexorder" "HOL-Library.Char_ord" "HOL-Library.Product_Lexorder"
    Json_Roundtrip Kafka_Outbox
begin

text \<open>
  The dead-letter table of the user service: cursor pagination (\<open>pagination/cursorPagination.ts\<close>), the
  consumer of the dead-letter topic, the repository and the two routes of
  \<open>modules/dead-letter-event/\<close>. Ids are compared bytewise. \<open>new Date(v)\<close> and \<open>Number(s)\<close> are
  arguments; \<open>None\<close> is an invalid date.
\<close>

subsection \<open>Cursors\<close>

definition encodeCursor :: "time \<Rightarrow> string \<Rightarrow> string" where
  "encodeCursor createdAt i = base64url (json_strings [(''createdAt'', iso_of createdAt), (''id'', i)])"

definition cursor_error :: js_error where
  "cursor_error = OtherError ''Error'' ''Invalid cursor format. Cursor must be a valid base64url-encoded JSON object with 'createdAt' and 'id' fields.''"

record cursor =
  cuCreatedAt :: "time option"
  cuId :: jtext

definition decodeCursor :: "(jtext \<Rightarrow> time option) \<Rightarrow> string \<Rightarrow> js_error + cursor" where
  "decodeCursor toDate c =
     (case parse_text (from_base64url c) of
        None \<Rightarrow> Inl cursor_error
      | Some v \<Rightarrow>
          if \<not> ttruthy (tget v ''createdAt'') \<or> \<not> ttruthy (tget v ''id'') then Inl cursor_error
          else Inr \<lparr>cuCreatedAt = toDate (the (tget v ''createdAt'')), cuId = the (tget v ''id'')\<rparr>)"

text \<open>The rows \<open>buildCursorWhere\<close> selects; Prisma refuses an invalid date and an id that is no text.\<close>

definition after_cursor :: "time \<Rightarrow> string \<Rightarrow> time \<Rightarrow> string \<Rightarrow> bool" where
  "after_cursor t i createdAt rowId \<longleftrightarrow> t < createdAt \<or> createdAt = t \<and> i < rowId"

definition buildCursorWhere :: "cursor \<Rightarrow> js_error + (time \<Rightarrow> string \<Rightarrow> bool)" where
  "buildCursorWhere c = (case (cuCreatedAt c, cuId c) of
     (Some t, TStr i) \<Rightarrow> Inr (after_cursor t i)
   | _ \<Rightarrow> Inl (PrismaValidation ''Invalid value for argument''))"

definition paginateResult ::
    "('r \<Rightarrow> time) \<Rightarrow> ('r \<Rightarrow> string) \<Rightarrow> 'r list \<Rightarrow> nat \<Rightarrow> 'r list \<times> string option \<times> bool" where
  "paginateResult createdAt rowId results limit =
     (let hasMore = limit < length results;
          data = (if hasMore then take limit results else results)
      in (data, if data = [] then None else Some (encodeCursor (createdAt (last data)) (rowId (last data))), hasMore))"

datatype js_number = NaN | PosInf | NegInf | Fin rat

definition clamp_limit :: "js_number \<Rightarrow> js_number" where
  "clamp_limit n = (case n of NaN \<Rightarrow> NaN | PosInf \<Rightarrow> Fin 100 | NegInf \<Rightarrow> Fin 1 | Fin r \<Rightarrow> Fin (min (max r 1) 100))"

definition parsePaginationParams :: "string option \<Rightarrow> js_number \<Rightarrow> string \<times> js_number" where
  "parsePaginationParams c limit = (case c of None \<Rightarrow> '''' | Some s \<Rightarrow> s, clamp_limit limit)"

subsection \<open>The table\<close>

record dead_letter_row =
  drId :: string
  drSourceService :: string
  drEventId :: string
  drEventType :: "string option"
  drFailureStage :: string
  drErrorMessage :: string
  drPayload :: "string option"
  drTraceparent :: "string option"
  drCorrelationId :: "string option"
  drCreatedAt :: time

record dead_letter_world =
  dwRows :: "dead_letter_row list"
  dwBus :: event_bus

text \<open>One call: its clock, the new id, and the faults of database and broker.\<close>

record dead_letter_env =
  deNow :: time
  deUuid :: string
  deDb :: "string option"
  deConn :: "string option"
  deSend :: send_outcome

type_synonym 'a dw = "dead_letter_world \<Rightarrow> ('a, dead_letter_world) res"

record dead_letter_data =
  ddSourceService :: string
  ddEventId :: string
  ddEventType :: "string option"
  ddFailureStage :: string
  ddErrorMessage :: string
  ddPayload :: "string option"
  ddTraceparent :: "string option"
  ddCorrelationId :: "string option"

definition dl_create :: "dead_letter_env \<Rightarrow> dead_letter_data \<Rightarrow> dead_letter_row dw" where
  "dl_create env d w =
     (case deDb env of Some m \<Rightarrow> (Inl (db_error m), w)
      | None \<Rightarrow>
          if (ddSourceService d, ddEventId d) \<in> (\<lambda>r. (drSourceService r, drEventId r)) ` set (dwRows w)
          then (Inl (unique_violation ''sourceService,eventId''), w)
          else if deUuid env \<in> drId ` set (dwRows w) then (Inl (unique_violation ''id''), w)
          else let r = \<lparr>drId = deUuid env, drSourceService = ddSourceService d, drEventId = ddEventId d,
                 drEventType = ddEventType d, drFailureStage = ddFailureStage d,
                 drErrorMessage = ddErrorMessage d, drPayload = ddPayload d, drTraceparent = ddTraceparent d,
                 drCorrelationId = ddCorrelationId d, drCreatedAt = deNow env\<rparr>
               in (Inr r, w\<lparr>dwRows := dwRows w @ [r]\<rparr>))"

definition dl_findById :: "string \<Rightarrow> dead_letter_world \<Rightarrow> dead_letter_row option" where
  "dl_findById i w = find (\<lambda>r. drId r = i) (dwRows w)"

record dead_letter_filter =
  dfSourceService :: "string option"
  dfEventType :: "string option"

definition matches :: "dead_letter_filter \<Rightarrow> dead_letter_row \<Rightarrow> bool" where
  "matches f r \<longleftrightarrow> (str_truthy (dfSourceService f) \<longrightarrow> drSourceService r = the (dfSourceService f)) \<and>
     (str_truthy (dfEventType f) \<longrightarrow> drEventType r = dfEventType f)"

definition row_key :: "dead_letter_row \<Rightarrow> time \<times> string" where
  "row_key r = (drCreatedAt r, drId r)"

text \<open>\<open>take: limit + 1\<close> must be a whole number.\<close>

definition dl_list ::
    "(jtext \<Rightarrow> time option) \<Rightarrow> dead_letter_filter \<Rightarrow> string option \<Rightarrow> js_number \<Rightarrow> dead_letter_row list \<Rightarrow>
       js_error + (dead_letter_row list \<times> string option \<times> bool)" where
  "dl_list toDate f c limit rows =
     (case decodeCursor toDate (case c of None \<Rightarrow> '''' | Some s \<Rightarrow> s) of
        Inl e \<Rightarrow> Inl e
      | Inr cur \<Rightarrow>
          (case buildCursorWhere cur of
             Inl e \<Rightarrow> Inl e
           | Inr p \<Rightarrow>
               (case limit of
                  Fin r \<Rightarrow>
                    if r \<in> \<int> then
                      let n = nat \<lfloor>r\<rfloor> in
                      Inr (paginateResult drCreatedAt drId (take (n + 1)
                        (filter (\<lambda>x. matches f x \<and> p (drCreatedAt x) (drId x)) (sort_key row_key rows))) n)
                    else Inl (PrismaValidation ''Invalid value for argument take'')
                | _ \<Rightarrow> Inl (PrismaValidation ''Invalid value for argument take''))))"

subsection \<open>The consumer\<close>

definition dl_text :: "json option \<Rightarrow> string option" where
  "dl_text v = (case v of Some (JStr s) \<Rightarrow> Some s | _ \<Rightarrow> None)"

definition dl_field :: "json \<Rightarrow> string \<Rightarrow> string option" where
  "dl_field v k = dl_text (jget v k)"

definition dl_payload_field :: "json \<Rightarrow> string \<Rightarrow> string option" where
  "dl_payload_field v k = dl_text (case jget v ''payload'' of None \<Rightarrow> None | Some p \<Rightarrow> jget p k)"

definition dl_data :: "json \<Rightarrow> dead_letter_data" where
  "dl_data v = \<lparr>ddSourceService = the (dl_payload_field v ''sourceService''),
     ddEventId = the (dl_payload_field v ''originalEventId''), ddEventType = dl_payload_field v ''originalEventType'',
     ddFailureStage = the (dl_payload_field v ''failureStage''), ddErrorMessage = the (dl_payload_field v ''error''),
     ddPayload = dl_payload_field v ''rawPayload'', ddTraceparent = dl_field v ''traceparent'',
     ddCorrelationId = dl_field v ''correlationId''\<rparr>"

text \<open>\<open>parseJsonMessage\<close> may throw; a value that is no dead letter is dropped.\<close>

definition handleDeadLetterMessage :: "dead_letter_env \<Rightarrow> json js_text option \<Rightarrow> unit dw" where
  "handleDeadLetterMessage env raw w =
     (case parseJsonMessage raw of
        None \<Rightarrow> (Inl (OtherError ''SyntaxError'' ''Unexpected token''), w)
      | Some v \<Rightarrow>
          if \<not> DeadLetterEventSchema (Some v) then (Inr (), w)
          else (case dl_create env (dl_data v) w of
              (Inr r, w) \<Rightarrow> (Inr (), w)
            | (Inl e, w) \<Rightarrow>
                (case e of PrismaKnown c m t \<Rightarrow> if c = ''P2002'' then (Inr (), w) else (Inl e, w) | _ \<Rightarrow> (Inl e, w))))"

subsection \<open>The routes\<close>

datatype query_value = QText string | QOther

definition query_text :: "query_value option \<Rightarrow> string option" where
  "query_text q = (case q of Some (QText s) \<Rightarrow> if s = [] then None else Some s | _ \<Rightarrow> None)"

definition listDeadLetters ::
    "(jtext \<Rightarrow> time option) \<Rightarrow> (string \<Rightarrow> js_number) \<Rightarrow> (string \<Rightarrow> query_value option) \<Rightarrow> dead_letter_row list \<Rightarrow>
       js_error + (dead_letter_row list \<times> string option \<times> bool)" where
  "listDeadLetters toDate toNumber query rows =
     (let limit = snd (parsePaginationParams None
            (case query ''limit'' of Some (QText s) \<Rightarrow> toNumber s | _ \<Rightarrow> Fin 20));
          c = (case query ''cursor'' of Some (QText s) \<Rightarrow> Some s | _ \<Rightarrow> None)
      in dl_list toDate \<lparr>dfSourceService = query_text (query ''sourceService''),
           dfEventType = query_text (query ''eventType'')\<rparr> c limit rows)"

text \<open>\<open>parse\<close> is \<open>JSON.parse\<close> of the stored text; a text it rejects is sent as a string. \<open>bus\<close> says
  whether Kafka is configured.\<close>

definition redriveDeadLetter ::
    "dead_letter_env \<Rightarrow> (string \<Rightarrow> json option) \<Rightarrow> bool \<Rightarrow> string \<Rightarrow> string dw" where
  "redriveDeadLetter env parse bus i w =
     (case dl_findById i w of
        None \<Rightarrow> (Inl (AppErr (NotFoundError ''Dead-letter event not found'' (Some ''id''))), w)
      | Some r \<Rightarrow>
          if \<not> str_truthy (drPayload r) then
            (Inl (AppErr (NotFoundError ''No payload snapshot preserved for this event - manual replay impossible''
                    (Some ''payload''))), w)
          else if \<not> bus then (Inl (OtherError ''Error'' ''Kafka not configured - cannot redrive''), w)
          else let t = the (drPayload r) in
            (case bus_publish (deConn env) (deSend env)
                \<lparr>poTopic = DOMAIN_EVENTS, poKey = drEventId r,
                 poValue = (case parse t of Some v \<Rightarrow> v | None \<Rightarrow> JStr t),
                 poTraceparent = (if str_truthy (drTraceparent r) then drTraceparent r else None)\<rparr> (dwBus w) of
               (Inl e, b) \<Rightarrow> (Inl e, w\<lparr>dwBus := b\<rparr>)
             | (Inr _, b) \<Rightarrow> (Inr (drId r), w\<lparr>dwBus := b\<rparr>)))"

end
