(* ===== verification/Dead_Letter_Claims.thy ===== *)
theory Dead_Letter_Claims
  imports Dead_Letters
begin

text \<open>
  Cursor pagination visits every dead letter once and in order; a dead letter that was published is
  stored once; and what of the dead-letter routes cannot work.
\<close>

subsection \<open>Cursors\<close>

lemma iso_of_not_empty [simp]: "iso_of t \<noteq> []"
  by (simp add: iso_of_def Let_def split: prod.splits)

lemma decode_encode:
  assumes "toDate (TStr (iso_of t)) = Some t" "i \<noteq> []"
  shows "decodeCursor toDate (encodeCursor t i) = Inr \<lparr>cuCreatedAt = Some t, cuId = TStr i\<rparr>"
  using assms
  by (simp add: decodeCursor_def encodeCursor_def from_to_base64url parse_json_strings)

lemma after_cursor_less: "after_cursor t i a b \<longleftrightarrow> (t, i) < (a, b)"
  by (auto simp: after_cursor_def less_prod_def')

subsection \<open>Pages\<close>

lemma strictly_after_last:
  fixes key :: "'r \<Rightarrow> 'k::linorder"
  assumes "sorted_wrt (\<lambda>x y. key x < key y) b" "0 < n" "n \<le> length b"
  shows "filter (\<lambda>r. key (last (take n b)) < key r) b = drop n b"
  using assms
proof (induction b arbitrary: n)
  case (Cons x b)
  then obtain m where n: "n = Suc m" by (cases n) auto
  show ?case
  proof (cases m)
    case 0
    then show ?thesis using Cons.prems(1) by (auto simp: n intro!: filter_True)
  next
    case (Suc k)
    then have m: "0 < m" "m \<le> length b" using Cons.prems(3) n by auto
    then have "take m b \<noteq> []" by auto
    then have "last (take m b) \<in> set b" by (metis in_set_takeD last_in_set)
    then have "key x < key (last (take m b))" using Cons.prems(1) by simp
    then show ?thesis using Cons.IH[OF _ m] Cons.prems(1) \<open>take m b \<noteq> []\<close> by (simp add: n)
  qed
qed simp

lemma next_page:
  fixes key :: "'r \<Rightarrow> 'k::linorder"
  assumes "sorted_wrt (\<lambda>x y. key x < key y) xs" "0 < n" "n \<le> length b" "b = filter (\<lambda>r. k < key r) xs"
  shows "filter (\<lambda>r. key (last (take n b)) < key r) xs = drop n b"
proof -
  have "take n b \<noteq> []" using assms(2,3) by auto
  then have "last (take n b) \<in> set b" by (metis in_set_takeD last_in_set)
  then have "k < key (last (take n b))" using assms(4) by simp
  then have "filter (\<lambda>r. key (last (take n b)) < key r) xs = filter (\<lambda>r. key (last (take n b)) < key r) b"
    unfolding assms(4) filter_filter by (intro filter_cong) auto
  also have "\<dots> = drop n b"
    using assms by (intro strictly_after_last) (auto intro: sorted_wrt_filter)
  finally show ?thesis .
qed

lemma rows_strictly_sorted:
  assumes "distinct (map drId rows)"
  shows "sorted_wrt (\<lambda>x y. row_key x < row_key y) (sort_key row_key rows)"
proof -
  have "inj_on row_key (set rows)" using assms by (auto simp: inj_on_def row_key_def distinct_map)
  moreover have "distinct rows" using assms by (simp add: distinct_map)
  ultimately have "distinct (map row_key (sort_key row_key rows))" by (simp add: distinct_map)
  moreover have "sorted (map row_key (sort_key row_key rows))" by simp
  ultimately have "sorted_wrt (<) (map row_key (sort_key row_key rows))" by (simp add: strict_sorted_iff)
  then show ?thesis by (simp add: sorted_wrt_map)
qed

text \<open>What a client does that follows \<open>nextCursor\<close> while \<open>hasMore\<close>, for at most \<open>fuel\<close> requests.\<close>

fun all_pages ::
    "nat \<Rightarrow> (string \<Rightarrow> js_error + ('r list \<times> string option \<times> bool)) \<Rightarrow> string \<Rightarrow> 'r list list option" where
  "all_pages 0 fetch c = None"
| "all_pages (Suc fuel) fetch c = (case fetch c of
     Inl e \<Rightarrow> None
   | Inr (d, nx, hasMore) \<Rightarrow>
       (if hasMore then (case nx of None \<Rightarrow> None | Some c' \<Rightarrow> map_option ((#) d) (all_pages fuel fetch c'))
        else Some [d]))"

text \<open>The rows a list request with filter \<open>f\<close> may show after the position \<open>(t, i)\<close>.\<close>

definition rest_of :: "dead_letter_filter \<Rightarrow> dead_letter_row list \<Rightarrow> time \<times> string \<Rightarrow> dead_letter_row list" where
  "rest_of f rows k = filter (\<lambda>r. k < row_key r) (filter (matches f) (sort_key row_key rows))"

lemma rest_of_length: "length (rest_of f rows k) \<le> length rows"
  using length_filter_le[of "\<lambda>r. k < row_key r" "filter (matches f) (sort_key row_key rows)"]
    length_filter_le[of "matches f" "sort_key row_key rows"] by (simp add: rest_of_def del: length_filter_le)

lemma dl_list_page:
  assumes "toDate (TStr (iso_of t)) = Some t" "i \<noteq> []"
  shows "dl_list toDate f (Some (encodeCursor t i)) (Fin (of_nat n)) rows =
    Inr (paginateResult drCreatedAt drId (take (n + 1) (rest_of f rows (t, i))) n)"
  using assms
  by (simp add: dl_list_def decode_encode buildCursorWhere_def after_cursor_less rest_of_def row_key_def Let_def conj_commute)

lemma paginate_page:
  assumes "0 < n"
  shows "paginateResult ct ri (take (n + 1) b) n =
    (if n < length b then (take n b, Some (encodeCursor (ct (last (take n b))) (ri (last (take n b)))), True)
     else (b, if b = [] then None else Some (encodeCursor (ct (last b)) (ri (last b))), False))"
  using assms by (auto simp: paginateResult_def Let_def min_def)

lemma all_pages_cover:
  assumes "distinct (map drId rows)" "0 < n"
    "\<forall>r \<in> set rows. drId r \<noteq> [] \<and> toDate (TStr (iso_of (drCreatedAt r))) = Some (drCreatedAt r)"
    "toDate (TStr (iso_of t)) = Some t" "i \<noteq> []" "length (rest_of f rows (t, i)) < fuel"
  shows "\<exists>pages. all_pages fuel (\<lambda>c. dl_list toDate f (Some c) (Fin (of_nat n)) rows) (encodeCursor t i) = Some pages \<and>
    concat pages = rest_of f rows (t, i) \<and> list_all (\<lambda>p. length p \<le> n) pages"
  using assms(4-6)
proof (induction fuel arbitrary: t i)
  case (Suc fuel)
  let ?b = "rest_of f rows (t, i)"
  note page = dl_list_page[where toDate = toDate and t = t, OF Suc.prems(1,2), of f n rows] paginate_page[OF assms(2), of drCreatedAt drId ?b]
  show ?case
  proof (cases "n < length ?b")
    case True
    let ?l = "last (take n ?b)"
    have "take n ?b \<noteq> []" using True assms(2) by auto
    then have "?l \<in> set ?b" by (metis in_set_takeD last_in_set)
    then have l: "?l \<in> set rows" by (simp add: rest_of_def)
    have "sorted_wrt (\<lambda>x y. row_key x < row_key y) (filter (matches f) (sort_key row_key rows))"
      using rows_strictly_sorted[OF assms(1)] by (rule sorted_wrt_filter)
    then have rest: "rest_of f rows (drCreatedAt ?l, drId ?l) = drop n ?b"
      using next_page[of row_key "filter (matches f) (sort_key row_key rows)" n ?b "(t, i)"] assms(2) True
      by (simp add: rest_of_def row_key_def)
    then have "length (rest_of f rows (drCreatedAt ?l, drId ?l)) < fuel" using Suc.prems(3) assms(2) True by simp
    from Suc.IH[OF _ _ this] assms(3) l obtain pages where
      "all_pages fuel (\<lambda>c. dl_list toDate f (Some c) (Fin (of_nat n)) rows) (encodeCursor (drCreatedAt ?l) (drId ?l)) = Some pages"
      "concat pages = drop n ?b" "list_all (\<lambda>p. length p \<le> n) pages" unfolding rest by blast
    then show ?thesis using page True by (intro exI[of _ "take n ?b # pages"]) simp
  qed (use page in simp)
qed simp

text \<open>The limit of the route for a whole number \<open>k\<close>.\<close>

lemma clamp_whole: "clamp_limit (Fin (of_int k)) = Fin (of_nat (nat (min (max k 1) 100)))"
proof -
  have "(of_nat (nat (min (max k 1) 100)) :: rat) = of_int (min (max k 1) 100)" by (simp add: of_nat_nat)
  also have "\<dots> = min (max (of_int k) 1) 100" by (auto simp: min_def max_def)
  finally show ?thesis by (simp add: clamp_limit_def)
qed

text \<open>
  A cursor the service issued is read back as the position it was made of: the time and the id of
  the last row of a page.
\<close>

theorem cursor_roundtrip:
  assumes "toDate (TStr (iso_of t)) = Some t" "i \<noteq> []"
  shows "decodeCursor toDate (encodeCursor t i) = Inr \<lparr>cuCreatedAt = Some t, cuId = TStr i\<rparr>"
  using assms by (rule decode_encode)

lemma cursor_roundtrip_witness:
  "decodeCursor (\<lambda>v. if v = TStr ''1970-01-01T00:00:00.000Z'' then Some 0 else None) (encodeCursor 0 ''a\"b'') =
     Inr \<lparr>cuCreatedAt = Some 0, cuId = TStr ''a\"b''\<rparr>"
  by (rule cursor_roundtrip) (simp_all add: iso_of_epoch)

text \<open>
  C39: From any position, a client of the list route that follows \<open>nextCursor\<close> while \<open>hasMore\<close> gets, after
  at most one request more than there are rows, every dead letter after that position that passes the
  filters, once and in the order of time and id, in pages no longer than the limit brought into 1 to 100.
\<close>

theorem pagination_is_complete:
  assumes "distinct (map drId rows)"
    "\<forall>r \<in> set rows. drId r \<noteq> [] \<and> toDate (TStr (iso_of (drCreatedAt r))) = Some (drCreatedAt r)"
    "query ''limit'' = Some (QText s)" "toNumber s = Fin (of_int k)"
    "toDate (TStr (iso_of t)) = Some t" "i \<noteq> []"
  shows "\<exists>pages. all_pages (length rows + 1)
      (\<lambda>c. listDeadLetters toDate toNumber (query(''cursor'' := Some (QText c))) rows) (encodeCursor t i) = Some pages \<and>
    concat pages = filter (\<lambda>r. matches \<lparr>dfSourceService = query_text (query ''sourceService''),
        dfEventType = query_text (query ''eventType'')\<rparr> r \<and> after_cursor t i (drCreatedAt r) (drId r))
      (sort_key row_key rows) \<and>
    list_all (\<lambda>p. int (length p) \<le> min (max k 1) 100) pages"
proof -
  let ?f = "\<lparr>dfSourceService = query_text (query ''sourceService''), dfEventType = query_text (query ''eventType'')\<rparr>"
  define n where "n = nat (min (max k 1) 100)"
  have fetch: "(\<lambda>c. listDeadLetters toDate toNumber (query(''cursor'' := Some (QText c))) rows) =
      (\<lambda>c. dl_list toDate ?f (Some c) (Fin (of_nat n)) rows)"
    using assms(3,4) by (simp add: n_def listDeadLetters_def parsePaginationParams_def clamp_whole Let_def fun_eq_iff)
  have "length (rest_of ?f rows (t, i)) < length rows + 1"
    using rest_of_length[of ?f rows "(t, i)"] by simp
  moreover have "rest_of ?f rows (t, i) = filter (\<lambda>r. matches ?f r \<and> after_cursor t i (drCreatedAt r) (drId r)) (sort_key row_key rows)"
    by (simp add: rest_of_def after_cursor_less row_key_def)
  moreover have "0 < n" "int n = min (max k 1) 100" by (auto simp: n_def)
  then have "0 < n" "(\<lambda>p :: dead_letter_row list. int (length p) \<le> min (max k 1) 100) = (\<lambda>p. length p \<le> n)"
    by (auto simp: fun_eq_iff simp flip: \<open>int n = _\<close>)
  ultimately show ?thesis
    using all_pages_cover[OF assms(1) _ assms(2,5,6), of n ?f "length rows + 1"] unfolding fetch
    by (simp only:)
qed

definition sample_letter :: "string \<Rightarrow> dead_letter_row" where
  "sample_letter i = \<lparr>drId = i, drSourceService = ''auth'', drEventId = i, drEventType = None,
     drFailureStage = ''publish'', drErrorMessage = ''x'', drPayload = None, drTraceparent = None,
     drCorrelationId = None, drCreatedAt = 0\<rparr>"

lemma sample_letter_sel [simp]: "drId (sample_letter i) = i" "drCreatedAt (sample_letter i) = 0"
  by (simp_all add: sample_letter_def)

lemma pagination_is_complete_witness:
  "\<exists>pages. all_pages (length [sample_letter ''c'', sample_letter ''b''] + 1)
      (\<lambda>c. listDeadLetters (\<lambda>v. if v = TStr (iso_of 0) then Some 0 else None) (\<lambda>s. Fin (of_int 0))
        ([''limit'' \<mapsto> QText ''0''](''cursor'' := Some (QText c)))
      [sample_letter ''c'', sample_letter ''b'']) (encodeCursor 0 ''a'') = Some pages \<and>
    concat pages = [sample_letter ''b'', sample_letter ''c''] \<and>
    list_all (\<lambda>p. int (length p) \<le> min (max 0 1) 100) pages"
proof -
  have sorted: "filter (\<lambda>r. matches \<lparr>dfSourceService = query_text ([''limit'' \<mapsto> QText ''0''] ''sourceService''),
        dfEventType = query_text ([''limit'' \<mapsto> QText ''0''] ''eventType'')\<rparr> r \<and> after_cursor 0 ''a'' (drCreatedAt r) (drId r))
      (sort_key row_key [sample_letter ''c'', sample_letter ''b'']) = [sample_letter ''b'', sample_letter ''c'']"
    by (simp add: row_key_def matches_def query_text_def str_truthy_def after_cursor_less less_char_def)
  show ?thesis unfolding sorted[symmetric]
    by (rule pagination_is_complete[where s = "''0''"]) simp_all
qed

subsection \<open>Storing and redriving\<close>

definition stage_of :: "dead_letter_params \<Rightarrow> string" where
  "stage_of p = (case dlFailureStage p of None \<Rightarrow> ''publish'' | Some s \<Rightarrow> s)"

definition data_of :: "dead_letter_params \<Rightarrow> dead_letter_data" where
  "data_of p = \<lparr>ddSourceService = dlServiceName p, ddEventId = dlEventId p, ddEventType = dlEventType p,
     ddFailureStage = stage_of p, ddErrorMessage = dlErrorMessage p, ddPayload = dlRawPayload p,
     ddTraceparent = dlTraceparent p, ddCorrelationId = dlCorrelationId p\<rparr>"

lemma map_of_opt_key [simp]:
  "map_of (opt_key k v @ xs) k' = (if k = k' \<and> v \<noteq> None then Some (JStr (the v)) else map_of xs k')"
  "map_of (opt_key k v) k' = (if k = k' \<and> v \<noteq> None then Some (JStr (the v)) else None)"
  by (auto simp: opt_key_def split: option.splits)

lemma optional_text: "z_optional z_string (Some (JStr s))" "z_optional z_string None"
  by (simp_all add: z_optional_def z_string_iff)

lemma nullable_text: "z_nullable z_string (Some (case v of None \<Rightarrow> JNull | Some t \<Rightarrow> JStr t))"
  by (cases v) (simp_all add: z_nullable_def z_string_iff)

lemma dead_letter_value_ok:
  assumes "stage_of p \<in> {''publish'', ''consume''}"
  shows "DeadLetterEventSchema (Some (dead_letter_value failedAt p))"
proof -
  have "z_enum [''publish'', ''consume''] (Some (JStr (stage_of p)))"
    using assms by (auto simp: z_enum_def z_format_def)
  then show ?thesis
    by (simp add: DeadLetterEventSchema_def dead_letter_value_def z_object_def optional_text nullable_text z_string_iff
      z_literal_iff stage_of_def del: map_of_append)
qed

lemma dl_data_value: "dl_data (dead_letter_value failedAt p) = data_of p"
  by (cases "dlEventType p") (simp_all add: dl_data_def dead_letter_value_def data_of_def dl_payload_field_def dl_field_def
    dl_text_def stage_of_def del: map_of_append)

text \<open>The row made of the parameters of a dead letter, and a table that has room for it.\<close>

definition letter_row :: "dead_letter_env \<Rightarrow> dead_letter_params \<Rightarrow> dead_letter_row" where
  "letter_row env p = \<lparr>drId = deUuid env, drSourceService = dlServiceName p, drEventId = dlEventId p,
     drEventType = dlEventType p, drFailureStage = stage_of p, drErrorMessage = dlErrorMessage p,
     drPayload = dlRawPayload p, drTraceparent = dlTraceparent p, drCorrelationId = dlCorrelationId p,
     drCreatedAt = deNow env\<rparr>"

definition room_for :: "dead_letter_env \<Rightarrow> dead_letter_params \<Rightarrow> dead_letter_world \<Rightarrow> bool" where
  "room_for env p w \<longleftrightarrow> deDb env = None \<and> stage_of p \<in> {''publish'', ''consume''} \<and>
     list_all (\<lambda>r. drId r \<noteq> deUuid env \<and> (drSourceService r, drEventId r) \<noteq> (dlServiceName p, dlEventId p)) (dwRows w)"

lemma dl_create_room:
  "room_for env p w \<Longrightarrow> dl_create env (data_of p) w = (Inr (letter_row env p), w\<lparr>dwRows := dwRows w @ [letter_row env p]\<rparr>)"
  by (auto simp: dl_create_def data_of_def room_for_def letter_row_def list_all_iff Let_def)

lemma handle_dead_letter:
  "stage_of p \<in> {''publish'', ''consume''} \<Longrightarrow>
     handleDeadLetterMessage env (Some (kmValue (message_of (dead_letter_options failedAt p)))) w =
       (case dl_create env (data_of p) w of
          (Inr r, w) \<Rightarrow> (Inr (), w)
        | (Inl e, w) \<Rightarrow>
            (case e of PrismaKnown c m t \<Rightarrow> if c = ''P2002'' then (Inr (), w) else (Inl e, w) | _ \<Rightarrow> (Inl e, w)))"
  by (simp add: handleDeadLetterMessage_def parseJsonMessage_def dead_letter_options_def dead_letter_value_ok dl_data_value)

lemma dead_letter_stored:
  "room_for env p w \<Longrightarrow> handleDeadLetterMessage env (Some (kmValue (message_of (dead_letter_options failedAt p)))) w =
     (Inr (), w\<lparr>dwRows := dwRows w @ [letter_row env p]\<rparr>)"
  by (subst handle_dead_letter) (simp_all add: dl_create_room room_for_def)

lemma dead_letter_repeated:
  assumes "room_for env p w" "deDb again = None"
  shows "handleDeadLetterMessage again (Some (kmValue (message_of (dead_letter_options failedAt p))))
      (w\<lparr>dwRows := dwRows w @ [letter_row env p]\<rparr>) = (Inr (), w\<lparr>dwRows := dwRows w @ [letter_row env p]\<rparr>)"
proof -
  have "stage_of p \<in> {''publish'', ''consume''}" using assms(1) by (simp add: room_for_def)
  then show ?thesis using assms(2)
    by (subst handle_dead_letter) (simp_all add: dl_create_def data_of_def letter_row_def unique_violation_def)
qed

lemma dl_findById_stored:
  "room_for env p w \<Longrightarrow> dl_findById (deUuid env) (w\<lparr>dwRows := dwRows w @ [letter_row env p]\<rparr>) = Some (letter_row env p)"
  by (auto simp: dl_findById_def room_for_def letter_row_def find_snoc find_None_iff list_all_iff)


definition sample_params :: "string option \<Rightarrow> dead_letter_params" where
  "sample_params raw = \<lparr>dlServiceName = ''auth-service'', dlEventId = ''e1'', dlEventType = Some ''user.deleted'',
     dlFailureStage = None, dlErrorMessage = ''x'', dlRawPayload = raw, dlTraceparent = None, dlCorrelationId = None\<rparr>"

definition sample_env :: dead_letter_env where
  "sample_env = \<lparr>deNow = 5, deUuid = ''d1'', deDb = None, deConn = None, deSend = SendOk\<rparr>"

definition empty_letters :: dead_letter_world where
  "empty_letters = \<lparr>dwRows = [], dwBus = createEventBus\<rparr>"


text \<open>
  The dead letter of an outbox event that ran out of retries carries no payload: once stored, every redrive
  of it is answered 404, whatever broker, clock and configuration, and nothing is published.
\<close>

theorem outbox_letters_cannot_be_redriven:
  fixes failedAt :: string
  assumes "room_for env (outbox_dead_params d ev msg) w"
  defines "stored \<equiv> snd (handleDeadLetterMessage env
      (Some (kmValue (message_of (dead_letter_options failedAt (outbox_dead_params d ev msg))))) w)"
  shows "dl_findById (deUuid env) stored \<noteq> None \<and>
    redriveDeadLetter re parse bus (deUuid env) stored =
      (Inl (AppErr (NotFoundError ''No payload snapshot preserved for this event - manual replay impossible''
         (Some ''payload''))), stored)"
proof -
  have stored: "stored = w\<lparr>dwRows := dwRows w @ [letter_row env (outbox_dead_params d ev msg)]\<rparr>"
    using dead_letter_stored[OF assms(1)] by (simp add: stored_def)
  show ?thesis using dl_findById_stored[OF assms(1)]
    by (simp add: stored redriveDeadLetter_def) (simp add: letter_row_def outbox_dead_params_def str_truthy_def)
qed

lemma outbox_letters_cannot_be_redriven_witness:
  "fst (redriveDeadLetter sample_env (\<lambda>s. None) True ''d1'' (snd (handleDeadLetterMessage sample_env
      (Some (kmValue (message_of (dead_letter_options ''now'' (outbox_dead_params
        \<lparr>pdServiceName = ''auth-service'', pdPid = 1, pdOptions = DEFAULT_OUTBOX_POLLER_OPTIONS\<rparr>
        \<lparr>obId = ''e1'', obAggregateId = ''u'', obEventType = ''user.deleted'', obPayload = JObj [], obTraceparent = None,
          obStatus = PROCESSING, obRetryCount = 4, obMaxRetries = 5, obLastError = None, obLockedAt = None,
          obLockedBy = None, obProcessedAt = None, obCreatedAt = 0\<rparr> ''down''))))) empty_letters))) =
    Inl (AppErr (NotFoundError ''No payload snapshot preserved for this event - manual replay impossible'' (Some ''payload'')))"
  using outbox_letters_cannot_be_redriven[where failedAt = "''now''" and env = sample_env and d = "\<lparr>pdServiceName = ''auth-service'', pdPid = 1, pdOptions = DEFAULT_OUTBOX_POLLER_OPTIONS\<rparr>"
        and ev = "\<lparr>obId = ''e1'', obAggregateId = ''u'', obEventType = ''user.deleted'', obPayload = JObj [], obTraceparent = None,
          obStatus = PROCESSING, obRetryCount = 4, obMaxRetries = 5, obLastError = None, obLockedAt = None,
          obLockedBy = None, obProcessedAt = None, obCreatedAt = 0\<rparr>" and msg = "''down''" and w = empty_letters and re = sample_env
        and parse = "\<lambda>s. None" and bus = True]
  by (simp add: room_for_def stage_of_def empty_letters_def sample_env_def outbox_dead_params_def)

lemma parse_empty: "parse_text [] = None"
  by code_simp

lemma from_empty: "from_base64url [] = []"
  by code_simp

lemma decode_empty: "decodeCursor toDate [] = Inl cursor_error"
  by (simp add: decodeCursor_def parse_empty from_empty)

text \<open>
  The list route answers with an error whenever the request names no cursor (or an empty one), and the only
  cursors the service hands out are those of its own answers.
\<close>

theorem dead_letters_need_a_cursor:
  "query ''cursor'' \<in> {None, Some QOther, Some (QText [])} \<Longrightarrow>
     listDeadLetters toDate toNumber query rows = Inl cursor_error"
  by (auto simp: listDeadLetters_def dl_list_def decode_empty Let_def)

lemma dead_letters_need_a_cursor_witness:
  "listDeadLetters (\<lambda>v. Some 0) (\<lambda>s. Fin 20) (\<lambda>k. None) [sample_letter ''a''] = Inl cursor_error"
  by (rule dead_letters_need_a_cursor) simp

text \<open>A message whose text is no JSON is thrown back at every delivery.\<close>

lemma malformed_text_is_thrown:
  "handleDeadLetterMessage env (Some (Txt s)) w = (Inl (OtherError ''SyntaxError'' ''Unexpected token''), w)"
  by (simp add: handleDeadLetterMessage_def parseJsonMessage_def)

end
