(* ===== verification/Sanitizer.thy ===== *)
theory Sanitizer
  imports Nexus_Prelude
begin

text \<open>
  \<open>middlewares/sanitize.ts\<close> of the auth and the user service. A global regular expression keeps
  the position where its last match ended and goes on from there at the next \<open>test\<close>: the four
  expressions are module constants, so the positions are state shared by all requests. Characters
  are code units below 256; the members of an object stand in the order of \<open>Object.entries\<close>.
\<close>

subsection \<open>The expressions\<close>

text \<open>A matcher gives the length of the match at the front of a text.\<close>

type_synonym matcher = "string \<Rightarrow> nat option"

definition starts_ci :: "string \<Rightarrow> string \<Rightarrow> bool" where
  "starts_ci p s = is_prefix_of p (str_lower s)"

definition literal :: "string \<Rightarrow> matcher" where
  "literal p s = (if starts_ci p s then Some (length p) else None)"

definition word_char :: "char \<Rightarrow> bool" where
  "word_char c \<longleftrightarrow> (let n = of_char c :: nat in
     48 \<le> n \<and> n \<le> 57 \<or> 65 \<le> n \<and> n \<le> 90 \<or> 97 \<le> n \<and> n \<le> 122 \<or> n = 95)"

definition js_space :: "char \<Rightarrow> bool" where
  "js_space c \<longleftrightarrow> white_char c \<or> (of_char c :: nat) = 160"

text \<open>The end of the first \<open></script>\<close>: what the inner loop steps over is everything before it.\<close>

fun script_end :: matcher where
  "script_end [] = None"
| "script_end (c # s) = (if starts_ci ''</script>'' (c # s) then Some 9 else map_option Suc (script_end s))"

definition script_element :: matcher where
  "script_element s =
     (let r = drop 7 s in
      if starts_ci ''<script'' s \<and> (r = [] \<or> \<not> word_char (hd r)) then map_option ((+) 7) (script_end r) else None)"

text \<open>Word characters, blanks and \<open>=\<close> are disjoint, so the greedy choices are the only ones.\<close>

definition event_handler :: matcher where
  "event_handler s =
     (let r = drop 2 s; w = takeWhile word_char r; b = takeWhile js_space (dropWhile word_char r);
          rest = dropWhile js_space (dropWhile word_char r)
      in if starts_ci ''on'' s \<and> w \<noteq> [] \<and> take 1 rest = ''='' then Some (2 + length w + length b + 1) else None)"

definition DANGEROUS_PATTERNS :: "matcher list" where
  "DANGEROUS_PATTERNS = [script_element, literal ''javascript:'', event_handler, literal ''data:text/html'']"

text \<open>The end of the first match at or after a position, as an index into the text.\<close>

fun find_match :: "matcher \<Rightarrow> string \<Rightarrow> nat \<Rightarrow> nat option" where
  "find_match m [] i = None"
| "find_match m (c # s) i = (case m (c # s) of Some n \<Rightarrow> Some (i + n) | None \<Rightarrow> find_match m s (i + 1))"

text \<open>\<open>pattern.test(s)\<close> with \<open>lastIndex\<close> before and after.\<close>

definition regex_test :: "matcher \<Rightarrow> nat \<Rightarrow> string \<Rightarrow> bool \<times> nat" where
  "regex_test m pos s = (case find_match m (drop pos s) pos of Some e \<Rightarrow> (True, e) | None \<Rightarrow> (False, 0))"

fun test_all :: "matcher list \<Rightarrow> nat list \<Rightarrow> string \<Rightarrow> bool \<times> nat list" where
  "test_all (m # ms) (l # ls) s =
     (case regex_test m l s of
        (True, l') \<Rightarrow> (True, l' # ls)
      | (False, l') \<Rightarrow> (case test_all ms ls s of (b, ls') \<Rightarrow> (b, l' # ls')))"
| "test_all _ ls s = (False, ls)"

definition fresh_positions :: "nat list" where
  "fresh_positions = [0, 0, 0, 0]"

subsection \<open>Values\<close>

definition replace_all :: "char \<Rightarrow> string \<Rightarrow> string \<Rightarrow> string" where
  "replace_all c t s = concat (List.map (\<lambda>x. if x = c then t else [x]) s)"

definition apostrophe :: char where "apostrophe = CHR 0x27"
definition double_quote :: char where "double_quote = CHR 0x22"

definition escapeHtml :: "string \<Rightarrow> string" where
  "escapeHtml s =
     replace_all apostrophe ''&#x27;'' (replace_all double_quote ''&quot;'' (replace_all CHR ''>'' ''&gt;''
       (replace_all CHR ''<'' ''&lt;'' (replace_all CHR ''&'' ''&amp;'' s))))"

definition sanitize_text :: "string \<Rightarrow> nat list \<Rightarrow> string \<times> nat list" where
  "sanitize_text s ls = (case test_all DANGEROUS_PATTERNS ls s of (b, ls') \<Rightarrow> (if b then escapeHtml s else s, ls'))"

text \<open>Assigning the member \<open>__proto__\<close> of the new object sets its prototype: it is no member of it.\<close>

fun sanitizeValue :: "json \<Rightarrow> nat list \<Rightarrow> json \<times> nat list"
and sanitize_list :: "json list \<Rightarrow> nat list \<Rightarrow> json list \<times> nat list"
and sanitize_members :: "(string \<times> json) list \<Rightarrow> nat list \<Rightarrow> (string \<times> json) list \<times> nat list" where
  "sanitizeValue (JStr s) ls = (case sanitize_text s ls of (t, ls) \<Rightarrow> (JStr t, ls))"
| "sanitizeValue (JArr vs) ls = (case sanitize_list vs ls of (vs, ls) \<Rightarrow> (JArr vs, ls))"
| "sanitizeValue (JObj kvs) ls = (case sanitize_members kvs ls of (kvs, ls) \<Rightarrow> (JObj kvs, ls))"
| "sanitizeValue JNull ls = (JNull, ls)"
| "sanitizeValue (JBool b) ls = (JBool b, ls)"
| "sanitizeValue (JNum n) ls = (JNum n, ls)"
| "sanitize_list [] ls = ([], ls)"
| "sanitize_list (v # vs) ls = (case sanitizeValue v ls of (v, ls) \<Rightarrow> (case sanitize_list vs ls of (vs, ls) \<Rightarrow> (v # vs, ls)))"
| "sanitize_members [] ls = ([], ls)"
| "sanitize_members ((k, v) # kvs) ls =
     (case sanitizeValue v ls of (v, ls) \<Rightarrow> (case sanitize_members kvs ls of (kvs, ls) \<Rightarrow>
        (if k = ''__proto__'' then kvs else (k, v) # kvs, ls)))"

subsection \<open>The middleware\<close>

fun sanitize_body :: "json option \<Rightarrow> nat list \<Rightarrow> json option \<times> nat list" where
  "sanitize_body (Some (JObj kvs)) ls = (case sanitizeValue (JObj kvs) ls of (v, ls) \<Rightarrow> (Some v, ls))"
| "sanitize_body (Some (JArr vs)) ls = (case sanitizeValue (JArr vs) ls of (v, ls) \<Rightarrow> (Some v, ls))"
| "sanitize_body b ls = (b, ls)"

text \<open>Only a text is written back to the query.\<close>

fun sanitize_query :: "(string \<times> json) list \<Rightarrow> nat list \<Rightarrow> (string \<times> json) list \<times> nat list" where
  "sanitize_query [] ls = ([], ls)"
| "sanitize_query ((k, v) # kvs) ls =
     (case sanitizeValue v ls of (v', ls) \<Rightarrow> (case sanitize_query kvs ls of (kvs, ls) \<Rightarrow>
        ((k, case v' of JStr t \<Rightarrow> JStr t | _ \<Rightarrow> v) # kvs, ls)))"

text \<open>\<open>reparsed\<close>: the framework builds \<open>req.query\<close> anew at every access, so what is written to it is lost.\<close>

definition sanitizationMiddleware ::
    "bool \<Rightarrow> json option \<times> (string \<times> json) list \<Rightarrow> nat list \<Rightarrow> (json option \<times> (string \<times> json) list) \<times> nat list" where
  "sanitizationMiddleware reparsed r ls =
     (case sanitize_body (fst r) ls of (b, ls) \<Rightarrow> (case sanitize_query (snd r) ls of (q, ls) \<Rightarrow>
        ((b, if reparsed then snd r else q), ls)))"

lemma sanitizer_runs:
  "sanitizeValue (JObj [(''bio'', JStr ''<b>''), (''link'', JStr ''JavaScript:x'')]) fresh_positions =
     (JObj [(''bio'', JStr ''<b>''), (''link'', JStr ''JavaScript:x'')], [0, 11, 0, 0])"
  "sanitizeValue (JStr ''<p onclick ='') fresh_positions = (JStr ''&lt;p onclick ='', [0, 0, 12, 0])"
  by code_simp+

end
