(* ===== verification/Sanitizer_Claims.thy ===== *)
theory Sanitizer_Claims
  imports Sanitizer
begin

text \<open>
  What the sanitizer guarantees (it alters nothing but texts, and a text only by escaping it) and what the
  positions kept by the global expressions spoil: of equal dangerous texts every second one passes.
\<close>

subsection \<open>Matching\<close>

lemma find_match_None_iff: "find_match m s i = None \<longleftrightarrow> (\<forall>k < length s. m (drop k s) = None)"
proof (induction s arbitrary: i)
  case (Cons c s)
  have "(\<forall>k < length (c # s). m (drop k (c # s)) = None) \<longleftrightarrow>
      m (c # s) = None \<and> (\<forall>k < length s. m (drop k s) = None)"
    using All_less_Suc2[of "length s" "\<lambda>k. m (drop k (c # s)) = None"] by simp
  then show ?case using Cons by (simp split: option.splits)
qed simp

lemma find_match_drop:
  assumes "find_match m s 0 = None"
  shows "find_match m (drop k s) i = None"
  unfolding find_match_None_iff
proof (intro allI impI)
  fix j assume "j < length (drop k s)"
  then show "m (drop j (drop k s)) = None"
    using assms unfolding find_match_None_iff by (auto simp: add.commute)
qed

lemma regex_test_none: "find_match m s 0 = None \<Longrightarrow> regex_test m pos s = (False, 0)"
  by (simp add: regex_test_def find_match_drop)

text \<open>No expression matches anywhere in the text.\<close>

definition harmless :: "string \<Rightarrow> bool" where
  "harmless s \<longleftrightarrow> list_all (\<lambda>m. find_match m s 0 = None) DANGEROUS_PATTERNS"

lemma test_all_none:
  "\<lbrakk>list_all (\<lambda>m. find_match m s 0 = None) ms; length ls = length ms\<rbrakk> \<Longrightarrow> test_all ms ls s = (False, replicate (length ms) 0)"
proof (induction ms arbitrary: ls)
  case (Cons m ms)
  then obtain l ls' where "ls = l # ls'" by (cases ls) auto
  then show ?case using Cons by (simp add: regex_test_none)
qed simp

lemma test_all_some:
  assumes "list_all (\<lambda>m. find_match m s 0 = None) ms"
  shows "\<not> fst (test_all ms ls s)"
  using assms
proof (induction ms arbitrary: ls)
  case (Cons m ms)
  then show ?case by (cases ls) (simp_all add: regex_test_none split_beta)
qed simp

lemma sanitize_text_harmless: "harmless s \<Longrightarrow> fst (sanitize_text s ls) = s"
  by (simp add: sanitize_text_def harmless_def split_beta test_all_some)

lemma test_all_fresh:
  "length ls = length ms \<Longrightarrow> list_all (\<lambda>l. l = 0) ls \<Longrightarrow>
     fst (test_all ms ls s) \<longleftrightarrow> \<not> list_all (\<lambda>m. find_match m s 0 = None) ms"
proof (induction ms arbitrary: ls)
  case (Cons m ms)
  then obtain l ls' where "ls = 0 # ls'" by (cases ls) auto
  then show ?case using Cons by (simp add: regex_test_def split_beta split: option.split)
qed simp

lemma sanitize_text_fresh: "fst (sanitize_text s fresh_positions) = (if harmless s then s else escapeHtml s)"
proof -
  have "fst (test_all DANGEROUS_PATTERNS fresh_positions s) \<longleftrightarrow> \<not> harmless s"
    unfolding harmless_def by (rule test_all_fresh) (simp_all add: fresh_positions_def DANGEROUS_PATTERNS_def)
  then show ?thesis by (simp add: sanitize_text_def split_beta)
qed

subsection \<open>Escaping\<close>

lemma replace_all_set:
  "set (replace_all c t s) \<subseteq> (set s - {c}) \<union> set t"
  by (auto simp: replace_all_def)

lemma replace_all_keeps:
  "\<lbrakk>d \<notin> set s \<or> d = c; d \<notin> set t\<rbrakk> \<Longrightarrow> d \<notin> set (replace_all c t s)"
  using replace_all_set[of c t s] by auto

lemma escapeHtml_safe:
  "d \<in> {CHR ''<'', CHR ''>'', double_quote, apostrophe} \<Longrightarrow> d \<notin> set (escapeHtml s)"
  unfolding escapeHtml_def
  by (elim insertE emptyE; hypsubst; intro replace_all_keeps; simp add: double_quote_def apostrophe_def replace_all_keeps)

text \<open>What one simultaneous replacement of the five characters would give.\<close>

definition html_entity :: "char \<Rightarrow> string" where
  "html_entity c =
     (if c = CHR ''&'' then ''&amp;'' else if c = CHR ''<'' then ''&lt;'' else if c = CHR ''>'' then ''&gt;''
      else if c = double_quote then ''&quot;'' else if c = apostrophe then ''&#x27;'' else [c])"

lemma replace_all_Cons: "replace_all c t (x # s) = (if x = c then t else [x]) @ replace_all c t s"
  by (simp add: replace_all_def)

lemma replace_all_append: "replace_all c t (r @ s) = replace_all c t r @ replace_all c t s"
  by (simp add: replace_all_def)

lemma escapeHtml_append: "escapeHtml (r @ s) = escapeHtml r @ escapeHtml s"
  by (simp add: escapeHtml_def replace_all_append)

lemma escapeHtml_char: "escapeHtml [c] = html_entity c"
proof (cases "c \<in> {CHR ''&'', CHR ''<'', CHR ''>'', double_quote, apostrophe}")
  case True
  then show ?thesis by (elim insertE emptyE; hypsubst; code_simp)
next
  case False
  then show ?thesis by (simp add: escapeHtml_def html_entity_def replace_all_def)
qed

lemma escapeHtml_one_pass: "escapeHtml s = concat (List.map html_entity s)"
proof (induction s)
  case (Cons c s)
  then show ?case using escapeHtml_append[of "[c]" s] by (simp add: escapeHtml_char)
qed (simp add: escapeHtml_def replace_all_def)
subsection \<open>What is altered\<close>

text \<open>\<open>w\<close> is \<open>v\<close> with some of the texts that are not harmless escaped, and without members \<open>__proto__\<close>.\<close>

fun escaped_only :: "json \<Rightarrow> json \<Rightarrow> bool"
and escaped_list :: "json list \<Rightarrow> json list \<Rightarrow> bool"
and escaped_members :: "(string \<times> json) list \<Rightarrow> (string \<times> json) list \<Rightarrow> bool" where
  "escaped_only (JStr s) w = (w = JStr s \<or> \<not> harmless s \<and> w = JStr (escapeHtml s))"
| "escaped_only (JArr vs) w = (case w of JArr ws \<Rightarrow> escaped_list vs ws | _ \<Rightarrow> False)"
| "escaped_only (JObj kvs) w = (case w of JObj kws \<Rightarrow> escaped_members kvs kws | _ \<Rightarrow> False)"
| "escaped_only v w = (w = v)"
| "escaped_list [] ws = (ws = [])"
| "escaped_list (v # vs) ws = (case ws of [] \<Rightarrow> False | w # ws \<Rightarrow> escaped_only v w \<and> escaped_list vs ws)"
| "escaped_members [] kws = (kws = [])"
| "escaped_members ((k, v) # kvs) kws =
     (if k = ''__proto__'' then escaped_members kvs kws
      else case kws of [] \<Rightarrow> False | (k', w) # kws \<Rightarrow> k' = k \<and> escaped_only v w \<and> escaped_members kvs kws)"

lemma sanitize_text_escapes: "fst (sanitize_text s ls) = s \<or> \<not> harmless s \<and> fst (sanitize_text s ls) = escapeHtml s"
proof (cases "harmless s")
  case False
  then show ?thesis by (simp add: sanitize_text_def split_beta)
qed (simp add: sanitize_text_harmless)

lemma sanitize_escapes:
  "escaped_only v (fst (sanitizeValue v ls))"
  "escaped_list vs (fst (sanitize_list vs ls))"
  "escaped_members kvs (fst (sanitize_members kvs ls))"
proof (induction v ls and vs ls and kvs ls rule: sanitizeValue_sanitize_list_sanitize_members.induct)
  case (1 s ls)
  then show ?case using sanitize_text_escapes[of s ls] by (simp add: split_beta)
qed (simp_all add: split_beta prod_eq_iff)

text \<open>
  C33: Whatever positions earlier requests left, the sanitizer alters a value only by escaping texts in which an
  expression matches (and by dropping members \<open>__proto__\<close>): numbers, keys, order and all other texts stay.
  With fresh positions a text is escaped exactly when one of the expressions matches in it. The five replacements
  in a row are one simultaneous replacement (no entity is escaped again), and an escaped text holds no character
  that opens or closes a tag or an attribute.
\<close>

theorem sanitizer_escapes_only_attacks:
  "escaped_only v (fst (sanitizeValue v ls)) \<and>
   fst (sanitizeValue (JStr s) fresh_positions) = JStr (if harmless s then s else escapeHtml s) \<and>
   escapeHtml s = concat (List.map html_entity s) \<and>
   set (escapeHtml s) \<inter> {CHR ''<'', CHR ''>'', double_quote, apostrophe} = {}"
proof (intro conjI)
  show "escapeHtml s = concat (List.map html_entity s)" by (rule escapeHtml_one_pass)
next
  show "fst (sanitizeValue (JStr s) fresh_positions) = JStr (if harmless s then s else escapeHtml s)"
    by (simp add: split_beta sanitize_text_fresh)
qed (use sanitize_escapes(1) escapeHtml_safe in blast)+

subsection \<open>What the positions spoil\<close>

text \<open>Exactly one of the expressions matches in the text, and after its first match no more.\<close>

fun once :: "matcher list \<Rightarrow> string \<Rightarrow> bool" where
  "once [] s = False"
| "once (m # ms) s = (case find_match m s 0 of
     None \<Rightarrow> once ms s
   | Some e \<Rightarrow> find_match m (drop e s) e = None \<and> list_all (\<lambda>m. find_match m s 0 = None) ms)"

lemma once_alternates:
  "once ms s \<Longrightarrow> \<exists>ls. test_all ms (replicate (length ms) 0) s = (True, ls) \<and>
     test_all ms ls s = (False, replicate (length ms) 0)"
proof (induction ms)
  case (Cons m ms)
  show ?case
  proof (cases "find_match m s 0")
    case None
    then show ?thesis using Cons by (auto simp: regex_test_none)
  next
    case (Some e)
    then have "regex_test m 0 s = (True, e)" "regex_test m e s = (False, 0)"
      "list_all (\<lambda>m. find_match m s 0 = None) ms" using Cons.prems by (simp_all add: regex_test_def)
    then show ?thesis using test_all_none[of s ms "replicate (length ms) 0"] by simp
  qed
qed simp

lemma fresh_positions_replicate: "fresh_positions = replicate (length DANGEROUS_PATTERNS) 0"
  by (simp add: fresh_positions_def DANGEROUS_PATTERNS_def eval_nat_numeral)

lemma sanitize_text_alternates:
  assumes "once DANGEROUS_PATTERNS s"
  obtains ls where "sanitize_text s fresh_positions = (escapeHtml s, ls)" "sanitize_text s ls = (s, fresh_positions)"
  using once_alternates[OF assms] unfolding sanitize_text_def fresh_positions_replicate by auto

lemma sanitize_list_append:
  "sanitize_list (xs @ ys) ls = (case sanitize_list xs ls of (xs', ls) \<Rightarrow> (case sanitize_list ys ls of (ys', ls) \<Rightarrow> (xs' @ ys', ls)))"
  by (induction xs arbitrary: ls) (simp_all add: split_beta)

text \<open>
  Of equal dangerous texts every second one passes unaltered. When one expression matches in a text, once, then
  in a list of copies of it every other copy keeps its form, and of two equal requests that follow each other the
  second one arrives as it was sent; then the positions are fresh again.
\<close>

theorem every_second_attack_passes:
  assumes "once DANGEROUS_PATTERNS s" "k \<noteq> ''__proto__''"
  shows "sanitizeValue (JArr (concat (replicate n [JStr s, JStr s]))) fresh_positions =
      (JArr (concat (replicate n [JStr (escapeHtml s), JStr s])), fresh_positions) \<and>
    (\<exists>ls. sanitizationMiddleware reparsed (Some (JObj [(k, JStr s)]), []) fresh_positions =
        ((Some (JObj [(k, JStr (escapeHtml s))]), []), ls) \<and>
      sanitizationMiddleware reparsed (Some (JObj [(k, JStr s)]), []) ls =
        ((Some (JObj [(k, JStr s)]), []), fresh_positions))"
proof -
  from sanitize_text_alternates[OF assms(1)] obtain ls where
    ls: "sanitize_text s fresh_positions = (escapeHtml s, ls)" "sanitize_text s ls = (s, fresh_positions)" .
  have "sanitize_list (concat (replicate n [JStr s, JStr s])) fresh_positions =
      (concat (replicate n [JStr (escapeHtml s), JStr s]), fresh_positions)"
    by (induction n) (simp_all add: ls sanitize_list_append)
  then show ?thesis using assms(2) by (simp add: sanitizationMiddleware_def ls)
qed

lemma every_second_attack_passes_witness:
  "sanitizeValue (JArr (concat (replicate 1 [JStr ''<script>x</script>'', JStr ''<script>x</script>'']))) fresh_positions =
     (JArr (concat (replicate 1 [JStr ''&lt;script&gt;x&lt;/script&gt;'', JStr ''<script>x</script>''])), fresh_positions)"
proof -
  have esc: "escapeHtml ''<script>x</script>'' = ''&lt;script&gt;x&lt;/script&gt;''" by code_simp
  have "once DANGEROUS_PATTERNS ''<script>x</script>''" by code_simp
  then show ?thesis using every_second_attack_passes[of "''<script>x</script>''" "''a''" 1] unfolding esc by simp
qed

text \<open>A link is dangerous without any of the five characters: escaping leaves it as it is.\<close>

lemma javascript_link_stays:
  "\<not> harmless ''javascript:alert(1)''" "escapeHtml ''javascript:alert(1)'' = ''javascript:alert(1)''"
  by code_simp+

end
