(* ===== verification/Auth_Limiter.thy ===== *)
theory Auth_Limiter
  imports Redis_Store Errors
begin

text \<open>
  \<open>middlewares/rateLimiter.ts\<close> of the auth service: a counter per route and client in Redis, and a
  counter in the process while Redis does not answer. The two Redis calls of a request are separate
  steps, each with its own clock reading and fault.
\<close>

record limiter_opts =
  loWindowSeconds :: int
  loMaxRequests :: nat
  loPrefix :: string
  loRoute :: string

definition limiter_defaults :: "string \<Rightarrow> limiter_opts" where
  "limiter_defaults route = \<lparr>loWindowSeconds = 60, loMaxRequests = 10, loPrefix = ''auth:rl'', loRoute = route\<rparr>"

record memory_entry =
  meCount :: nat
  meResetAt :: time

record 'v limiter_world =
  lwRedis :: "'v redis"
  lwMemory :: "string \<Rightarrow> memory_entry option"

text \<open>One request: the header, \<open>Date.now()\<close>, and clock and fault of the two calls.\<close>

record limiter_request =
  lrForwardedFor :: "string option"
  lrNow :: time
  lrReadAt :: time
  lrReadFault :: bool
  lrWriteAt :: time
  lrWriteFault :: bool

text \<open>\<open>next()\<close> and \<open>next(err)\<close>.\<close>

datatype verdict = Next | NextError js_error

definition auth_limiter_key :: "limiter_opts \<Rightarrow> string option \<Rightarrow> string" where
  "auth_limiter_key o' f = loPrefix o' @ '':'' @ loRoute o' @ '':'' @ (case f of None \<Rightarrow> ''unknown'' | Some s \<Rightarrow> s)"

text \<open>\<open>current ? Number(current) : 0\<close>; \<open>None\<close> is \<open>NaN\<close>.\<close>

definition current_count :: "'v js_text option \<Rightarrow> nat option" where
  "current_count v = (case v of
     None \<Rightarrow> Some 0
   | Some (Txt s) \<Rightarrow> if s = [] then Some 0 else parse_nat s
   | Some (Stringified x) \<Rightarrow> None)"

text \<open>The first call: \<open>None\<close> when it rejects.\<close>

definition limiter_read :: "limiter_opts \<Rightarrow> limiter_request \<Rightarrow> 'v redis \<Rightarrow> nat option option" where
  "limiter_read o' q r =
     (if lrReadFault q then None
      else Some (current_count (redis_get (lrReadAt q) (auth_limiter_key o' (lrForwardedFor q)) r)))"

text \<open>The second call; it rejects also when the value is no number.\<close>

definition limiter_write :: "limiter_opts \<Rightarrow> limiter_request \<Rightarrow> nat option \<Rightarrow> 'v redis \<Rightarrow> bool \<times> 'v redis" where
  "limiter_write o' q count r =
     (let k = auth_limiter_key o' (lrForwardedFor q) in
      if lrWriteFault q then (False, r)
      else if count = Some 0 then (True, redis_setex (lrWriteAt q) k (loWindowSeconds o') (Txt ''1'') r)
      else (case redis_incr (lrWriteAt q) k r of (None, r) \<Rightarrow> (False, r) | (Some n, r) \<Rightarrow> (True, r)))"

definition too_many_requests :: js_error where
  "too_many_requests = AppErr (AppError ''Error'' 429 ''Too many requests. Try again later.'' True None)"

definition limiter_fallback ::
    "limiter_opts \<Rightarrow> limiter_request \<Rightarrow> (string \<Rightarrow> memory_entry option) \<Rightarrow> verdict \<times> (string \<Rightarrow> memory_entry option)" where
  "limiter_fallback o' q m =
     (let k = auth_limiter_key o' (lrForwardedFor q);
          start = (Next, m(k \<mapsto> \<lparr>meCount = 1, meResetAt = lrNow q + loWindowSeconds o' * 1000\<rparr>))
      in case m k of
           None \<Rightarrow> start
         | Some e \<Rightarrow>
             if lrNow q < meResetAt e
             then (if loMaxRequests o' < meCount e + 1 then NextError too_many_requests else Next, m(k \<mapsto> e\<lparr>meCount := meCount e + 1\<rparr>))
             else start)"

text \<open>What follows the read; a rejected call leads to the counter of the process.\<close>

definition limiter_decide ::
    "limiter_opts \<Rightarrow> limiter_request \<Rightarrow> nat option option \<Rightarrow> 'v limiter_world \<Rightarrow> verdict \<times> 'v limiter_world" where
  "limiter_decide o' q seen w =
     (let fallback = (\<lambda>w. case limiter_fallback o' q (lwMemory w) of (v, m) \<Rightarrow> (v, w\<lparr>lwMemory := m\<rparr>)) in
      case seen of
        None \<Rightarrow> fallback w
      | Some count \<Rightarrow>
          if (case count of None \<Rightarrow> False | Some n \<Rightarrow> loMaxRequests o' \<le> n) then (NextError too_many_requests, w)
          else (case limiter_write o' q count (lwRedis w) of
              (True, r) \<Rightarrow> (Next, w\<lparr>lwRedis := r\<rparr>)
            | (False, r) \<Rightarrow> fallback (w\<lparr>lwRedis := r\<rparr>)))"

definition auth_rateLimiter :: "limiter_opts \<Rightarrow> limiter_request \<Rightarrow> 'v limiter_world \<Rightarrow> verdict \<times> 'v limiter_world" where
  "auth_rateLimiter o' q w = limiter_decide o' q (limiter_read o' q (lwRedis w)) w"

text \<open>Requests that follow each other.\<close>

fun limiter_run :: "limiter_opts \<Rightarrow> limiter_request list \<Rightarrow> 'v limiter_world \<Rightarrow> verdict list \<times> 'v limiter_world" where
  "limiter_run o' [] w = ([], w)"
| "limiter_run o' (q # qs) w =
     (case auth_rateLimiter o' q w of (v, w) \<Rightarrow> (case limiter_run o' qs w of (vs, w) \<Rightarrow> (v # vs, w)))"

end
