(* ===== verification/Auth_Limiter_Claims.thy ===== *)
theory Auth_Limiter_Claims
  imports Auth_Limiter
begin

text \<open>
  How many requests the limiter of the auth service lets pass: the limit per counter, in Redis or in the
  process; and the counter without expiry that a badly timed request leaves behind.
\<close>

text \<open>A counter of value \<open>n\<close> with expiry \<open>e\<close> under the key.\<close>

definition counts :: "string \<Rightarrow> nat \<Rightarrow> time option \<Rightarrow> 'v redis \<Rightarrow> bool" where
  "counts k n e r \<longleftrightarrow> 0 < n \<and> rdMap r k = Some (Txt (show_nat n), e)"

text \<open>A request of the client \<open>f\<close> whose two calls are answered, at one time while the counter lives.\<close>

definition clean :: "string option \<Rightarrow> time option \<Rightarrow> limiter_request \<Rightarrow> bool" where
  "clean f e q \<longleftrightarrow> lrForwardedFor q = f \<and> \<not> lrReadFault q \<and> \<not> lrWriteFault q \<and>
     live (lrReadAt q) e \<and> live (lrWriteAt q) e"

definition passes :: "nat \<Rightarrow> nat \<Rightarrow> verdict list" where
  "passes m n = replicate (min m n) Next @ replicate (n - m) (NextError too_many_requests)"

lemma passes_simps [simp]:
  "passes m 0 = []"
  "passes 0 (Suc n) = NextError too_many_requests # passes 0 n"
  "passes (Suc m) (Suc n) = Next # passes m n"
  by (simp_all add: passes_def)

lemma count_positive: "parse_nat (show_nat n) = Some n"
  by simp

lemma limiter_full:
  assumes "counts (auth_limiter_key o' f) n e (lwRedis w)" "clean f e q" "loMaxRequests o' \<le> n"
  shows "auth_rateLimiter o' q w = (NextError too_many_requests, w)"
  using assms by (simp add: auth_rateLimiter_def limiter_read_def limiter_decide_def clean_def counts_def redis_get_def current_count_def)

lemma limiter_counts:
  assumes "counts (auth_limiter_key o' f) n e (lwRedis w)" "clean f e q" "n < loMaxRequests o'"
  shows "fst (auth_rateLimiter o' q w) = Next"
    "counts (auth_limiter_key o' f) (Suc n) e (lwRedis (snd (auth_rateLimiter o' q w)))"
  using assms
  by (simp_all add: auth_rateLimiter_def limiter_read_def limiter_decide_def limiter_write_def clean_def counts_def redis_get_def
      redis_incr_def current_count_def Let_def)

text \<open>From a counter of value \<open>n\<close>, what is left of the limit passes and no more.\<close>

lemma limiter_run_counts:
  assumes "counts (auth_limiter_key o' f) n e (lwRedis w)" "list_all (clean f e) qs"
  shows "fst (limiter_run o' qs w) = passes (loMaxRequests o' - n) (length qs)"
  using assms
proof (induction qs arbitrary: n w)
  case (Cons q qs)
  show ?case
  proof (cases "n < loMaxRequests o'")
    case True
    then have m: "loMaxRequests o' - n = Suc (loMaxRequests o' - Suc n)" by simp
    have q: "clean f e q" using Cons.prems by simp
    note one = limiter_counts[OF Cons.prems(1) q True]
    show ?thesis using Cons.IH[OF one(2)] Cons.prems(2) one(1) unfolding m by (simp add: split_beta)
  next
    case False
    then have m: "loMaxRequests o' - n = 0" by simp
    have "auth_rateLimiter o' q w = (NextError too_many_requests, w)"
      using limiter_full[OF Cons.prems(1)] Cons.prems(2) False by simp
    then show ?thesis using Cons.IH[OF Cons.prems(1)] Cons.prems(2) unfolding m by (simp add: split_beta)
  qed
qed simp

lemma show_one: "show_nat (Suc 0) = ''1''"
  by code_simp

lemma limiter_starts:
  assumes "redis_get (lrReadAt q) (auth_limiter_key o' f) (lwRedis w) = None" "clean f None q" "0 < loMaxRequests o'"
  shows "fst (auth_rateLimiter o' q w) = Next"
    "counts (auth_limiter_key o' f) 1 (Some (lrWriteAt q + 1000 * loWindowSeconds o')) (lwRedis (snd (auth_rateLimiter o' q w)))"
  using assms
  by (simp_all add: auth_rateLimiter_def limiter_read_def limiter_decide_def limiter_write_def clean_def counts_def
      current_count_def Let_def redis_setex_def show_one)

text \<open>The counter of the process.\<close>

definition down :: "string option \<Rightarrow> time \<Rightarrow> limiter_request \<Rightarrow> bool" where
  "down f reset q \<longleftrightarrow> lrForwardedFor q = f \<and> lrReadFault q \<and> lrNow q < reset"

lemma fallback_run:
  assumes "lwMemory w (auth_limiter_key o' f) = Some \<lparr>meCount = n, meResetAt = reset\<rparr>" "list_all (down f reset) qs"
  shows "fst (limiter_run o' qs w) = passes (loMaxRequests o' - n) (length qs)"
  using assms
proof (induction qs arbitrary: n w)
  case (Cons q qs)
  let ?w = "w\<lparr>lwMemory := (lwMemory w)(auth_limiter_key o' f \<mapsto> \<lparr>meCount = Suc n, meResetAt = reset\<rparr>)\<rparr>"
  have "auth_rateLimiter o' q w = (if loMaxRequests o' < Suc n then NextError too_many_requests else Next, ?w)"
    using Cons.prems by (simp add: auth_rateLimiter_def limiter_read_def limiter_decide_def limiter_fallback_def down_def Let_def)
  moreover have "fst (limiter_run o' qs ?w) = passes (loMaxRequests o' - Suc n) (length qs)"
    using Cons.prems by (intro Cons.IH) simp_all
  ultimately show ?case
    by (cases "n < loMaxRequests o'") (simp_all add: split_beta Suc_diff_Suc[symmetric])
qed simp


definition demo_opts :: limiter_opts where
  "demo_opts = (limiter_defaults ''login'')\<lparr>loMaxRequests := 1\<rparr>"

definition limiter_demo_request :: "time \<Rightarrow> bool \<Rightarrow> limiter_request" where
  "limiter_demo_request t fault = \<lparr>lrForwardedFor = Some ''10.0.0.1'', lrNow = t, lrReadAt = t, lrReadFault = fault,
     lrWriteAt = t, lrWriteFault = fault\<rparr>"

definition fresh_limiter :: "unit limiter_world" where
  "fresh_limiter = \<lparr>lwRedis = redis_empty, lwMemory = Map.empty\<rparr>"


subsection \<open>The lost expiry\<close>

lemma limiter_race:
  assumes "counts (auth_limiter_key o' f) n (Some t) (lwRedis w)" "n < loMaxRequests o'"
    "lrForwardedFor q = f" "\<not> lrReadFault q" "\<not> lrWriteFault q" "lrReadAt q < t" "t \<le> lrWriteAt q"
  shows "fst (auth_rateLimiter o' q w) = Next"
    "counts (auth_limiter_key o' f) 1 None (lwRedis (snd (auth_rateLimiter o' q w)))"
  using assms
  by (simp_all add: auth_rateLimiter_def limiter_read_def limiter_decide_def limiter_write_def counts_def redis_get_def
      redis_incr_def live_def current_count_def Let_def)

text \<open>
  A request that reads the counter before it expires and increments it afterwards leaves a counter without
  expiry. From then on the client gets what the limit leaves once, and is refused for ever, however far apart
  its requests are.
\<close>

theorem lost_expiry_locks_out:
  assumes "counts (auth_limiter_key o' f) n (Some t) (lwRedis w)" "n < loMaxRequests o'"
    "lrForwardedFor q = f" "\<not> lrReadFault q" "\<not> lrWriteFault q" "lrReadAt q < t" "t \<le> lrWriteAt q"
    "list_all (\<lambda>q. lrForwardedFor q = f \<and> \<not> lrReadFault q \<and> \<not> lrWriteFault q) qs"
  shows "fst (auth_rateLimiter o' q w) = Next \<and>
    fst (limiter_run o' qs (snd (auth_rateLimiter o' q w))) = passes (loMaxRequests o' - 1) (length qs)"
proof -
  have "list_all (clean f None) qs" using assms(8) by (simp add: list_all_iff clean_def live_def)
  then show ?thesis
    using limiter_race[OF assms(1-7)] limiter_run_counts[of o' f 1 None "snd (auth_rateLimiter o' q w)" qs] by simp
qed

definition racing_request :: limiter_request where
  "racing_request = (limiter_demo_request 59999 False)\<lparr>lrWriteAt := 60001\<rparr>"

definition counting_limiter :: "unit limiter_world" where
  "counting_limiter = fresh_limiter\<lparr>lwRedis := redis_setex 0 (auth_limiter_key (limiter_defaults ''login'') (Some ''10.0.0.1'')) 60
     (Txt (show_nat 1)) redis_empty\<rparr>"

lemma lost_expiry_locks_out_witness:
  "fst (limiter_run (limiter_defaults ''login'') (replicate 10 (limiter_demo_request 99999999999 False))
      (snd (auth_rateLimiter (limiter_defaults ''login'') racing_request counting_limiter))) =
    passes 9 10 \<and> last (passes 9 10) = NextError too_many_requests"
  using lost_expiry_locks_out[of "limiter_defaults ''login''" "Some ''10.0.0.1''" 1 60000 counting_limiter racing_request
      "replicate 10 (limiter_demo_request 99999999999 False)"]
  by (simp add: counting_limiter_def racing_request_def limiter_demo_request_def counts_def redis_setex_def limiter_defaults_def
      passes_def list_all_iff)

end
