(* ===== verification/Gateway.thy ===== *)
theory Gateway
  imports Breakers Error_Handlers Json_Text
begin

text \<open>
  The API gateway: the chain of middlewares of \<open>services/api-gateway/src/app.ts\<close> in its order, from the
  security checks to the proxies. What Express, \<open>cors\<close> and \<open>express-rate-limit\<close> decide by themselves
  (mount matching, preflight answers, the count of requests) and what the services answer is the environment.
\<close>

subsection \<open>\<open>decodeURIComponent\<close>\<close>

definition escape_byte :: "string \<Rightarrow> nat option" where
  "escape_byte s = (case s of
     c # a # b # r \<Rightarrow>
       if c = CHR ''%'' then (case (char_hex a, char_hex b) of (Some x, Some y) \<Rightarrow> Some (16 * x + y) | _ \<Rightarrow> None)
       else None
   | _ \<Rightarrow> None)"

fun escape_bytes :: "nat \<Rightarrow> string \<Rightarrow> nat list option" where
  "escape_bytes 0 s = Some []"
| "escape_bytes (Suc n) s = (case escape_byte s of
     None \<Rightarrow> None | Some b \<Rightarrow> map_option ((#) b) (escape_bytes n (drop 3 s)))"

definition utf8_length :: "nat \<Rightarrow> nat" where
  "utf8_length b = (if b < 128 then 1 else if 194 \<le> b \<and> b < 224 then 2 else if 224 \<le> b \<and> b < 240 then 3
     else if 240 \<le> b \<and> b < 245 then 4 else 0)"

definition utf8_valid :: "nat list \<Rightarrow> bool" where
  "utf8_valid bs = (list_all (\<lambda>b. 128 \<le> b \<and> b < 192) (tl bs) \<and>
     (case bs of
        [a, b, c] \<Rightarrow> (a = 224 \<longrightarrow> 160 \<le> b) \<and> (a = 237 \<longrightarrow> b < 160)
      | [a, b, c, d] \<Rightarrow> (a = 240 \<longrightarrow> 144 \<le> b) \<and> (a = 244 \<longrightarrow> b < 144)
      | _ \<Rightarrow> True))"

text \<open>The decoded text as UTF-8 bytes; \<open>None\<close> is the \<open>URIError\<close>. Every step takes a character.\<close>

fun decode_uri :: "nat \<Rightarrow> string \<Rightarrow> string option" where
  "decode_uri fuel [] = Some []"
| "decode_uri 0 (c # s) = None"
| "decode_uri (Suc fuel) (c # s) =
     (if c \<noteq> CHR ''%'' then map_option ((#) c) (decode_uri fuel s)
      else case escape_byte (c # s) of
        None \<Rightarrow> None
      | Some b \<Rightarrow>
          let n = utf8_length b in
          if n = 0 then None
          else (case escape_bytes n (c # s) of
              None \<Rightarrow> None
            | Some bs \<Rightarrow>
                if utf8_valid bs then map_option ((@) (List.map char_of bs)) (decode_uri fuel (drop (3 * n) (c # s)))
                else None))"

definition decodeURIComponent :: "string \<Rightarrow> string option" where
  "decodeURIComponent s = decode_uri (length s) s"

subsection \<open>Requests and the environment\<close>

record gw_request =
  gqMethod :: string
  gqPath :: string
  gqOriginalUrl :: string
  gqIp :: "string option"
  gqRequestId :: "string option"
  gqOrigin :: "string option"

text \<open>What a service does with a forwarded request; \<open>Silent\<close> outlasts the request timeout.\<close>

datatype upstream = Answers int | Fails string | Silent

record gw_env =
  geNodeEnv :: string
  geConfig :: gw_config
  geAllowedOrigins :: "string list"
  geNow :: time
  geDone :: time
  geUuid :: string
  gePreflight :: "bool \<Rightarrow> gw_request \<Rightarrow> bool"
  geLimited :: "gw_request \<Rightarrow> bool"
  geMount :: "string \<Rightarrow> string \<Rightarrow> string option"
  geRoute :: "string \<Rightarrow> string \<Rightarrow> bool"
  geUpstream :: "string \<Rightarrow> upstream"

record proxied_request =
  pqService :: string
  pqMethod :: string
  pqPath :: string
  pqRequestId :: string
  pqForwardedFor :: string

text \<open>How the response is written: with \<open>res.json\<close>, piped by the proxy, or by the preflight handler.\<close>

datatype gw_response = Json int | Piped int | Preflight

subsection \<open>Middlewares\<close>

definition allowedMethods :: "string list" where
  "allowedMethods = [''GET'', ''POST'', ''PUT'', ''PATCH'', ''DELETE'', ''OPTIONS'']"

definition str_upper :: "string \<Rightarrow> string" where
  "str_upper s = List.map (\<lambda>c. let n = of_char c :: nat in if 97 \<le> n \<and> n \<le> 122 then char_of (n - 32) else c) s"

definition uri_error :: js_error where
  "uri_error = OtherError ''URIError'' ''URI malformed''"

text \<open>The checks of \<open>setupSecurityMiddleware\<close>: go on, answer, or throw.\<close>

definition security_check :: "gw_request \<Rightarrow> js_error + gw_response option" where
  "security_check q =
     (if str_upper (gqMethod q) \<notin> set allowedMethods then Inr (Some (Json 405))
      else case decodeURIComponent (gqPath q) of
        None \<Rightarrow> Inl uri_error
      | Some p \<Rightarrow> if str_includes p ''..'' \<or> str_includes p [char_of (0 :: nat)] then Inr (Some (Json 400)) else Inr None)"

definition requestIdMiddleware :: "gw_env \<Rightarrow> gw_request \<Rightarrow> gw_request" where
  "requestIdMiddleware env q = q\<lparr>gqRequestId :=
     Some (if str_truthy (gqRequestId q) then the (gqRequestId q) else geUuid env)\<rparr>"

definition originValidator :: "string list \<Rightarrow> string option \<Rightarrow> bool" where
  "originValidator allowed origin = (if \<not> str_truthy origin then True else the origin \<in> set allowed)"

definition onLimitReached :: js_error where
  "onLimitReached = too_many ''Too many requests. Please slow down and try again later.''"

definition request_timed_out :: js_error where
  "request_timed_out = AppErr (GatewayTimeoutError ''Request timed out'' None)"

definition INTERNAL_ONLY_PATHS :: "string list" where
  "INTERNAL_ONLY_PATHS = [''/customers/profile'', ''/sellers/profile'', ''/admins/profile'', ''/admins/super-admin-profile'']"

definition blockInternalOnlyPaths :: "gw_request \<Rightarrow> string \<Rightarrow> js_error option" where
  "blockInternalOnlyPaths q rest =
     (if rest \<notin> set INTERNAL_ONLY_PATHS then None
      else Some (notFoundHandler (gqMethod q) (gqOriginalUrl q)))"

definition proxy_request :: "string \<Rightarrow> gw_request \<Rightarrow> string \<Rightarrow> proxied_request" where
  "proxy_request service q rest =
     \<lparr>pqService = service, pqMethod = gqMethod q, pqPath = rest,
      pqRequestId = (case gqRequestId q of None \<Rightarrow> '''' | Some i \<Rightarrow> i),
      pqForwardedFor = (case gqIp q of None \<Rightarrow> '''' | Some i \<Rightarrow> i)\<rparr>"

text \<open>An error reaches the error handler, which answers with \<open>res.json\<close>.\<close>

definition handled :: "js_error \<Rightarrow> gw_response" where
  "handled e = Json (sStatus (gateway_classify e))"

text \<open>The proxy pipes the answer of the service; its error callback answers 503 with \<open>res.json\<close>.\<close>

definition buildProxy :: "gw_env \<Rightarrow> string \<Rightarrow> gw_request \<Rightarrow> string \<Rightarrow> gw_response \<times> proxied_request list" where
  "buildProxy env service q rest =
     ((case geUpstream env service of
         Answers code \<Rightarrow> Piped code
       | Fails m \<Rightarrow> Json 503
       | Silent \<Rightarrow> handled request_timed_out), [proxy_request service q rest])"

definition registerProxies :: "gw_env \<Rightarrow> gw_request \<Rightarrow> (gw_response \<times> proxied_request list) option" where
  "registerProxies env q =
     (case geMount env ''/auth-service'' (gqPath q) of
        Some rest \<Rightarrow> Some (buildProxy env ''auth-service'' q rest)
      | None \<Rightarrow>
          (case geMount env ''/user-service'' (gqPath q) of
             Some rest \<Rightarrow>
               (case blockInternalOnlyPaths q rest of
                  Some e \<Rightarrow> Some (handled e, [])
                | None \<Rightarrow> Some (buildProxy env ''user-service'' q rest))
           | None \<Rightarrow> None))"

definition gateway_routes :: "gw_env \<Rightarrow> gw_request \<Rightarrow> gw_response" where
  "gateway_routes env q =
     (if gqMethod q = ''GET'' \<and> (geRoute env ''/'' (gqPath q) \<or> geRoute env ''/health'' (gqPath q)) then Json 200
      else handled (notFoundHandler (gqMethod q) (gqOriginalUrl q)))"

definition dispatch :: "gw_env \<Rightarrow> gw_request \<Rightarrow> gw_response \<times> proxied_request list" where
  "dispatch env q = (case registerProxies env q of Some r \<Rightarrow> r | None \<Rightarrow> (gateway_routes env q, []))"

text \<open>The breaker and what lies behind it: a response written with \<open>res.json\<close> is recorded.\<close>

definition behind_breaker ::
    "gw_env \<Rightarrow> gw_request \<Rightarrow> gw_services \<Rightarrow> (gw_response \<times> proxied_request list) \<times> gw_services" where
  "behind_breaker env q m =
     (case circuitBreakerMiddleware (geConfig env) (geNow env) (gqPath q) m of
        (Blocked e, m) \<Rightarrow> ((handled e, []), m)
      | (PassUnwatched, m) \<Rightarrow> (dispatch env q, m)
      | (PassWatched service, m) \<Rightarrow>
          (dispatch env q,
           case fst (dispatch env q) of
             Json code \<Rightarrow> watched_json (geConfig env) (geDone env) service code m
           | _ \<Rightarrow> m))"

definition gateway_handle ::
    "gw_env \<Rightarrow> gw_request \<Rightarrow> gw_services \<Rightarrow> (gw_response \<times> proxied_request list) \<times> gw_services" where
  "gateway_handle env q m =
     (case security_check q of
        Inl e \<Rightarrow> ((handled e, []), m)
      | Inr (Some r) \<Rightarrow> ((r, []), m)
      | Inr None \<Rightarrow>
          let q = requestIdMiddleware env q in
          if gePreflight env (originValidator (geAllowedOrigins env) (gqOrigin q)) q then ((Preflight, []), m)
          else if geLimited env q then ((handled onLimitReached, []), m)
          else behind_breaker env q m)"

fun gateway_run ::
    "(gw_env \<times> gw_request) list \<Rightarrow> gw_services \<Rightarrow> (gw_response \<times> proxied_request list) list \<times> gw_services" where
  "gateway_run [] m = ([], m)"
| "gateway_run ((env, q) # qs) m =
     (case gateway_handle env q m of (r, m) \<Rightarrow> (case gateway_run qs m of (rs, m) \<Rightarrow> (r # rs, m)))"

text \<open>The command the store of the limiter sends to Redis: a failing call counts as no hit.\<close>

datatype redis_reply = ReplyText string | ReplyNumbers "int list"

definition sendCommand :: "redis_reply option \<Rightarrow> string \<Rightarrow> redis_reply" where
  "sendCommand answer command = (case answer of
     Some r \<Rightarrow> r
   | None \<Rightarrow> if str_lower command = ''script'' then ReplyText '''' else ReplyNumbers [0, 60000])"

definition response_headers :: "gw_env \<Rightarrow> gw_request \<Rightarrow> (string \<times> string) list" where
  "response_headers env q =
     [(''X-Gateway'', ''Nexus-API-Gateway'')] @
     (if geNodeEnv env = ''production'' then [(''Permissions-Policy'', ''geolocation=(), microphone=(), camera=()'')] else []) @
     (if security_check q = Inr None then [(''X-Request-ID'', the (gqRequestId (requestIdMiddleware env q)))] else [])"

lemma decode_examples:
  "decodeURIComponent ''/a%2e%2E/b'' = Some ''/a../b''"
  "decodeURIComponent ''/%C3%A9'' = Some [CHR ''/'', char_of (195 :: nat), char_of (169 :: nat)]"
  "decodeURIComponent ''/%E0%A4'' = None"
  "decodeURIComponent ''/%c0%ae'' = None"
  "decodeURIComponent ''/%zz'' = None"
  by code_simp+

end
