(* ===== verification/Gateway_Claims.thy ===== *)
theory Gateway_Claims
  imports Gateway
begin

text \<open>
  What the gateway forwards, and what its breaker learns of the services: an answer that is piped through is
  neither a success nor a failure to it.
\<close>

subsection \<open>Forwarding\<close>

lemma security_check_passes:
  "security_check q = Inr None \<Longrightarrow>
     str_upper (gqMethod q) \<in> set allowedMethods \<and>
     (\<exists>p. decodeURIComponent (gqPath q) = Some p \<and> \<not> str_includes p ''..'' \<and> \<not> str_includes p [char_of (0 :: nat)])"
  by (auto simp: security_check_def split: if_splits option.splits)

text \<open>What a forwarded request looks like.\<close>

definition forwarded_to :: "gw_env \<Rightarrow> gw_request \<Rightarrow> string \<Rightarrow> proxied_request \<Rightarrow> bool" where
  "forwarded_to env q service p \<longleftrightarrow>
     (\<exists>rest. geMount env (''/'' @ service) (gqPath q) = Some rest \<and> p = proxy_request service q rest \<and>
       (service = ''user-service'' \<longrightarrow> rest \<notin> set INTERNAL_ONLY_PATHS))"

lemma dispatch_forwards:
  "p \<in> set (snd (dispatch env q)) \<Longrightarrow>
     snd (dispatch env q) = [p] \<and> (\<exists>service \<in> {''auth-service'', ''user-service''}. forwarded_to env q service p)"
  by (auto simp: dispatch_def registerProxies_def buildProxy_def blockInternalOnlyPaths_def forwarded_to_def
      split: option.splits if_splits)

lemma behind_breaker_forwards:
  assumes "p \<in> set (snd (fst (behind_breaker env q m)))"
  shows "p \<in> set (snd (dispatch env q)) \<and> fst (fst (behind_breaker env q m)) = fst (dispatch env q) \<and>
    snd (fst (behind_breaker env q m)) = snd (dispatch env q) \<and>
    (\<forall>s. service_match (gqPath q) = Some s \<longrightarrow> \<not> fst (isOpen (geConfig env) (geNow env) s m))"
  using assms by (auto simp: behind_breaker_def circuitBreakerMiddleware_def split: option.splits prod.splits if_splits)

lemma request_id_sel [simp]:
  "gqPath (requestIdMiddleware env q) = gqPath q" "gqMethod (requestIdMiddleware env q) = gqMethod q"
  "gqOriginalUrl (requestIdMiddleware env q) = gqOriginalUrl q" "gqIp (requestIdMiddleware env q) = gqIp q"
  by (simp_all add: requestIdMiddleware_def)


subsection \<open>What the breaker learns\<close>

definition service_state :: "string \<Rightarrow> gw_services \<Rightarrow> circuit_state" where
  "service_state s m = gwState (getOrCreate s m)"

lemma isOpen_state:
  "service_state s m \<in> {CLOSED, HALF_OPEN} \<Longrightarrow>
     \<not> fst (isOpen c now s m) \<and> service_state s (snd (isOpen c now s m)) = service_state s m"
  by (auto simp: service_state_def isOpen_def refreshState_def getOrCreate_def Let_def)

text \<open>A request for the service \<open>s\<close> whose answer, of whatever status, is piped through.\<close>

definition answered_for :: "string \<Rightarrow> gw_env \<times> gw_request \<Rightarrow> bool" where
  "answered_for s eq = (service_match (gqPath (snd eq)) = Some s \<and>
     (case fst (dispatch (fst eq) (requestIdMiddleware (fst eq) (snd eq))) of Piped code \<Rightarrow> True | _ \<Rightarrow> False))"

lemma answered_keeps_state:
  assumes "answered_for s (env, q)" "service_state s m \<in> {CLOSED, HALF_OPEN}"
  shows "service_state s (snd (gateway_handle env q m)) = service_state s m"
proof -
  let ?q = "requestIdMiddleware env q"
  have "snd (behind_breaker env ?q m) = snd (isOpen (geConfig env) (geNow env) s m)"
    using assms(1) isOpen_state[OF assms(2), of "geConfig env" "geNow env"]
    by (auto simp: answered_for_def behind_breaker_def circuitBreakerMiddleware_def split: gw_response.splits prod.splits)
  then have "snd (gateway_handle env q m) \<in> {m, snd (isOpen (geConfig env) (geNow env) s m)}"
    by (auto simp: gateway_handle_def Let_def split: sum.splits option.splits)
  then show ?thesis using isOpen_state[OF assms(2)] by auto
qed

lemma answered_run_keeps_state:
  "\<lbrakk>list_all (answered_for s) qs; service_state s m \<in> {CLOSED, HALF_OPEN}\<rbrakk> \<Longrightarrow>
     service_state s (snd (gateway_run qs m)) = service_state s m"
proof (induction qs arbitrary: m)
  case (Cons eq qs)
  obtain env q where "eq = (env, q)" by (cases eq)
  then show ?case using Cons answered_keeps_state[of s env q m] by (simp add: split_beta)
qed simp

text \<open>A request that gets to the breaker and beyond.\<close>

definition reaches_breaker :: "gw_env \<Rightarrow> gw_request \<Rightarrow> bool" where
  "reaches_breaker env q \<longleftrightarrow> security_check q = Inr None \<and>
     \<not> gePreflight env (originValidator (geAllowedOrigins env) (gqOrigin (requestIdMiddleware env q))) (requestIdMiddleware env q) \<and>
     \<not> geLimited env (requestIdMiddleware env q)"

lemma half_open_step:
  assumes "reaches_breaker env q" "service_match (gqPath q) = Some s" "service_state s m = HALF_OPEN"
    "dispatch env (requestIdMiddleware env q) = (Json code, ps)"
  shows "gateway_handle env q m = ((Json code, ps), snd (gateway_handle env q m))"
    "service_state s (snd (gateway_handle env q m)) = (if 500 \<le> code then OPEN else CLOSED)"
proof -
  obtain m' where m': "isOpen (geConfig env) (geNow env) s m = (False, m')" "service_state s m' = HALF_OPEN"
    using isOpen_state[of s m "geConfig env" "geNow env"] assms(3) by (cases "isOpen (geConfig env) (geNow env) s m") auto
  have "gateway_handle env q m = ((Json code, ps), watched_json (geConfig env) (geDone env) s code m')"
    using assms m'(1) by (auto simp: reaches_breaker_def gateway_handle_def Let_def behind_breaker_def circuitBreakerMiddleware_def)
  then show "gateway_handle env q m = ((Json code, ps), snd (gateway_handle env q m))"
    "service_state s (snd (gateway_handle env q m)) = (if 500 \<le> code then OPEN else CLOSED)"
    using m'(2) by (simp_all add: watched_json_def service_state_def gw_recordFailure_def gw_recordSuccess_def failure_of_def
        success_of_def getOrCreate_def Let_def)
qed

text \<open>
  C23: The breaker of the gateway judges by its own answers only. Requests a service answers, all of them with
  errors or all of them well, leave a closed breaker closed and a half-open one half-open: it is not opened by
  failing answers and not closed by good ones. A half-open breaker is closed by a request for an internal path,
  which is refused without asking the service, and one failed connection opens it, whatever the threshold.
\<close>

theorem gateway_breaker_ignores_answers:
  assumes "list_all (answered_for s) qs" "service_state s m \<in> {CLOSED, HALF_OPEN}"
    and "reaches_breaker env q" "service_match (gqPath q) = Some s" "service_state s m' = HALF_OPEN"
    and "geMount env ''/auth-service'' (gqPath q) = None" "geMount env ''/user-service'' (gqPath q) = Some rest"
  shows "service_state s (snd (gateway_run qs m)) = service_state s m \<and>
    (if rest \<in> set INTERNAL_ONLY_PATHS
     then fst (gateway_handle env q m') = (Json 404, []) \<and> service_state s (snd (gateway_handle env q m')) = CLOSED
     else geUpstream env ''user-service'' = Fails e \<longrightarrow>
       fst (fst (gateway_handle env q m')) = Json 503 \<and> service_state s (snd (gateway_handle env q m')) = OPEN)"
proof -
  let ?q = "requestIdMiddleware env q"
  have internal: "dispatch env ?q = (Json 404, [])" if "rest \<in> set INTERNAL_ONLY_PATHS"
    using that assms(6,7)
    by (simp add: dispatch_def registerProxies_def blockInternalOnlyPaths_def handled_def notFoundHandler_def gateway_classify_def
        app_error_response_def)
  have failed: "dispatch env ?q = (Json 503, [proxy_request ''user-service'' ?q rest])"
    if "rest \<notin> set INTERNAL_ONLY_PATHS" "geUpstream env ''user-service'' = Fails e"
    using that assms(6,7) by (simp add: dispatch_def registerProxies_def blockInternalOnlyPaths_def buildProxy_def)
  show ?thesis
    using answered_run_keeps_state[OF assms(1,2)]
      half_open_step[OF assms(3-5) internal] half_open_step[OF assms(3-5) failed] by (auto simp: prod_eq_iff)
qed

subsection \<open>A gateway before the user service\<close>

definition demo_gateway :: "upstream \<Rightarrow> gw_env" where
  "demo_gateway u = \<lparr>geNodeEnv = ''production'', geConfig = \<lparr>gwThreshold = 5, gwTimeout = 60000, gwResetTimeout = 30000\<rparr>,
     geAllowedOrigins = [], geNow = 100000, geDone = 100001, geUuid = ''r1'', gePreflight = (\<lambda>ok q. False),
     geLimited = (\<lambda>q. False),
     geMount = (\<lambda>p path. if is_prefix_of p path then Some (drop (length p) path) else None),
     geRoute = (\<lambda>p path. p = path), geUpstream = (\<lambda>s. u)\<rparr>"

definition demo_request :: "string \<Rightarrow> string \<Rightarrow> gw_request" where
  "demo_request meth path = \<lparr>gqMethod = meth, gqPath = path, gqOriginalUrl = path, gqIp = Some ''10.0.0.1'',
     gqRequestId = None, gqOrigin = None\<rparr>"

definition half_open_services :: gw_services where
  "half_open_services = [''user'' \<mapsto> \<lparr>gwFailures = 0, gwLastFailureTime = 0, gwState = HALF_OPEN\<rparr>]"

lemma demo_forwards:
  "fst (gateway_handle (demo_gateway (Answers 200)) (demo_request ''GET'' ''/user-service/users/me'') Map.empty) =
     (Piped 200, [\<lparr>pqService = ''user-service'', pqMethod = ''GET'', pqPath = ''/users/me'', pqRequestId = ''r1'',
        pqForwardedFor = ''10.0.0.1''\<rparr>])"
  by code_simp


lemma demo_reaches:
  "reaches_breaker (demo_gateway u) (demo_request ''POST'' ''/user-service/customers/profile'')"
proof -
  have "security_check (demo_request ''POST'' ''/user-service/customers/profile'') = Inr None" by code_simp
  then show ?thesis by (simp add: reaches_breaker_def demo_gateway_def)
qed

lemma gateway_breaker_ignores_answers_witness:
  "service_state ''user'' (snd (gateway_run [(demo_gateway (Answers 500), demo_request ''GET'' ''/user-service/users/me'')]
      half_open_services)) = HALF_OPEN \<and>
   service_state ''user'' (snd (gateway_handle (demo_gateway (Answers 500))
      (demo_request ''POST'' ''/user-service/customers/profile'') half_open_services)) = CLOSED"
proof -
  have "answered_for ''user'' (demo_gateway (Answers 500), demo_request ''GET'' ''/user-service/users/me'')" by code_simp
  moreover have "service_state ''user'' half_open_services = HALF_OPEN" by code_simp
  moreover have "service_match (gqPath (demo_request ''POST'' ''/user-service/customers/profile'')) = Some ''user''" by code_simp
  moreover have "geMount (demo_gateway (Answers 500)) ''/auth-service'' (gqPath (demo_request ''POST'' ''/user-service/customers/profile'')) = None"
    "geMount (demo_gateway (Answers 500)) ''/user-service'' (gqPath (demo_request ''POST'' ''/user-service/customers/profile'')) =
      Some ''/customers/profile''" by code_simp+
  moreover have "''/customers/profile'' \<in> set INTERNAL_ONLY_PATHS" by code_simp
  ultimately show ?thesis
    using gateway_breaker_ignores_answers[of "''user''" "[(demo_gateway (Answers 500), demo_request ''GET'' ''/user-service/users/me'')]"
        half_open_services, OF _ _ demo_reaches] by simp
qed

text \<open>
  The two internal endpoints the list does not name (account restore and the lookup by address) are forwarded, and so
  is a listed one with a trailing slash.
\<close>

lemma internal_paths_forwarded:
  "map (\<lambda>path. snd (fst (gateway_handle (demo_gateway (Answers 200)) (demo_request ''POST'' path) Map.empty)) = [])
     [''/user-service/users/u1/restore'', ''/user-service/users/email/a@b.c'', ''/user-service/customers/profile/'',
      ''/user-service/customers/profile''] = [False, False, False, True]"
  by code_simp

text \<open>A path with a broken escape is answered 500.\<close>

lemma broken_escape_is_500:
  "fst (fst (gateway_handle (demo_gateway (Answers 200)) (demo_request ''GET'' ''/user-service/%zz'') Map.empty)) = Json 500"
  by code_simp

end
