(* ===== verification/Auth_Http.thy ===== *)
theory Auth_Http
  imports Auth_Admin Auth_Limiter Sanitizer Error_Handlers Http_Requests
begin

text \<open>
  The HTTP surface of the auth service: the body schemas, the gates and routes of
  \<open>modules/*/*.route.ts\<close> under \<open>routes/index.ts\<close>, the controllers, and how a session is handed over
  (\<open>utils/sendSessionResponse.ts\<close>, \<open>utils/cookieHandler.ts\<close>). The matching of a path against a route
  pattern and the text of a Zod error are parameters.
\<close>

subsection \<open>Requests\<close>

record http_env =
  heAuth :: auth_env
  heProd :: bool
  heFormats :: zod_formats
  heMatch :: "string \<Rightarrow> string \<Rightarrow> (string \<Rightarrow> string option) option"
  heZodError :: "json option \<Rightarrow> js_error"
  heInherited :: "string \<Rightarrow> string option"

definition auth_readRequestContext :: "http_request \<Rightarrow> request_context" where
  "auth_readRequestContext q =
     \<lparr>rcClientType = hqClientType q,
      rcIpAddress = (case hqForwardedFor q of Some f \<Rightarrow> Some f | None \<Rightarrow> hqRemoteAddress q),
      rcUserAgent = hqUserAgent q\<rparr>"

subsection \<open>Schemas of the bodies\<close>

definition emailSchema :: "zod_formats \<Rightarrow> schema" where
  "emailSchema fm = z_format (isEmail fm)"

definition phoneSchema :: schema where
  "phoneSchema = z_format phone_text"

definition loginValidationSchema :: "zod_formats \<Rightarrow> schema" where
  "loginValidationSchema fm = z_object [(''email'', emailSchema fm), (''password'', required_text)]"

definition requestPasswordResetValidationSchema :: "zod_formats \<Rightarrow> schema" where
  "requestPasswordResetValidationSchema fm = z_object [(''email'', emailSchema fm)]"

definition verifyPasswordResetValidationSchema :: "zod_formats \<Rightarrow> schema" where
  "verifyPasswordResetValidationSchema fm =
     z_object [(''resetToken'', required_text), (''newPassword'', z_format passwordSchema)]"

definition requestAccountRestoreValidationSchema :: "zod_formats \<Rightarrow> schema" where
  "requestAccountRestoreValidationSchema fm = z_object [(''email'', emailSchema fm)]"

definition verifyAccountRestoreValidationSchema :: "zod_formats \<Rightarrow> schema" where
  "verifyAccountRestoreValidationSchema fm = z_object [(''email'', emailSchema fm), (''otp'', z_format otpSchema)]"

definition verifyRegistrationSchema :: "zod_formats \<Rightarrow> schema" where
  "verifyRegistrationSchema fm = z_object [(''email'', emailSchema fm), (''otp'', z_format otpSchema)]"

definition resendOtpSchema :: "zod_formats \<Rightarrow> schema" where
  "resendOtpSchema fm = z_object [(''email'', emailSchema fm)]"

text \<open>The refinement sees the parsed data: the password trimmed, the confirmation as it came.\<close>

definition passwords_match :: schema where
  "passwords_match b \<longleftrightarrow> str_trim (body_text b ''password'') = body_text b ''confirmPassword''"

definition CustomerRegisterRequestSchema :: "zod_formats \<Rightarrow> schema" where
  "CustomerRegisterRequestSchema fm b \<longleftrightarrow>
     z_object [(''firstName'', required_text), (''lastName'', required_text), (''email'', emailSchema fm),
       (''password'', z_format passwordSchema), (''confirmPassword'', required_text),
       (''acceptTerms'', \<lambda>v. v = Some (JBool True)), (''marketingOptIn'', z_optional (\<lambda>v. v \<in> {Some (JBool True), Some (JBool False)}))] b
     \<and> passwords_match b"

definition SellerRegisterRequestSchema :: "zod_formats \<Rightarrow> schema" where
  "SellerRegisterRequestSchema fm b \<longleftrightarrow>
     z_object [(''firstName'', required_text), (''lastName'', required_text), (''email'', emailSchema fm),
       (''password'', z_format passwordSchema), (''confirmPassword'', required_text),
       (''phone'', z_optional phoneSchema), (''bio'', z_optional (z_format (\<lambda>s. length s \<le> 500)))] b
     \<and> passwords_match b"

definition inviteCreationSchema :: "zod_formats \<Rightarrow> schema" where
  "inviteCreationSchema fm = z_object [(''email'', emailSchema fm)]"

definition inviteAcceptSchema :: "zod_formats \<Rightarrow> schema" where
  "inviteAcceptSchema fm =
     z_object [(''password'', z_format passwordSchema), (''firstName'', required_text), (''lastName'', required_text),
       (''phone'', z_optional phoneSchema)]"

subsection \<open>Replies\<close>

datatype cookie_op =
    SetCookie (ckName: string) (ckValue: string) (ckMaxAge: int) (ckSecure: bool) (ckSameSite: string)
  | ClearCookie (ckName: string) (ckSecure: bool) (ckSameSite: string)

record http_reply =
  hrStatus :: int
  hrMessage :: string
  hrData :: json
  hrCookies :: "cookie_op list"

definition auth_sendResponse :: "int \<Rightarrow> string \<Rightarrow> json \<Rightarrow> http_reply" where
  "auth_sendResponse code msg d = \<lparr>hrStatus = code, hrMessage = msg, hrData = d, hrCookies = []\<rparr>"

definition setCookie :: "bool \<Rightarrow> string \<Rightarrow> string \<Rightarrow> int \<Rightarrow> cookie_op" where
  "setCookie live_site name v maxAge = SetCookie name v maxAge live_site (if live_site then ''none'' else ''lax'')"

definition clearCookie :: "bool \<Rightarrow> string \<Rightarrow> cookie_op" where
  "clearCookie live_site name = ClearCookie name live_site (if live_site then ''strict'' else ''lax'')"

definition ACCESS_TOKEN_MAX_AGE_MS :: int where "ACCESS_TOKEN_MAX_AGE_MS = 60 * 60 * 1000"
definition REFRESH_TOKEN_MAX_AGE_MS :: int where "REFRESH_TOKEN_MAX_AGE_MS = 7 * 24 * 60 * 60 * 1000"

text \<open>The tokens that are not empty, in the body or as cookies.\<close>

definition token_members :: "string \<Rightarrow> string \<Rightarrow> (string \<times> json) list" where
  "token_members access refresh =
     (if access \<noteq> [] then [(''accessToken'', JStr access)] else []) @
     (if refresh \<noteq> [] then [(''refreshToken'', JStr refresh)] else [])"

definition token_cookies :: "bool \<Rightarrow> string \<Rightarrow> string \<Rightarrow> cookie_op list" where
  "token_cookies live_site access refresh =
     (if access \<noteq> [] then [setCookie live_site ''accessToken'' access ACCESS_TOKEN_MAX_AGE_MS] else []) @
     (if refresh \<noteq> [] then [setCookie live_site ''refreshToken'' refresh REFRESH_TOKEN_MAX_AGE_MS] else [])"

definition sendSessionResponse :: "bool \<Rightarrow> auth_result \<Rightarrow> string option \<Rightarrow> int \<Rightarrow> string \<Rightarrow> http_reply" where
  "sendSessionResponse live_site r clientType code msg =
     (let inBody = clientType = Some ''customer-web'' in
      \<lparr>hrStatus = code, hrMessage = msg,
       hrData = JObj ([(''id'', JStr (arId r)), (''email'', JStr (arEmail r)), (''role'', roles_json (arRole r))] @
         (if inBody then token_members (arAccessToken r) (arRefreshToken r) else [])),
       hrCookies = (if inBody then [] else token_cookies live_site (arAccessToken r) (arRefreshToken r))\<rparr>)"

subsection \<open>Controllers of the role modules\<close>

type_synonym controller =
  "http_env \<Rightarrow> http_request \<Rightarrow> (string \<Rightarrow> string option) \<Rightarrow> request_user option \<Rightarrow> auth_world \<Rightarrow> (http_reply, auth_world) res"

definition reply_ok :: "int \<Rightarrow> string \<Rightarrow> json \<Rightarrow> auth_world \<Rightarrow> (http_reply, auth_world) res" where
  "reply_ok code msg d w = (Inr (auth_sendResponse code msg d), w)"

definition session_reply :: "http_env \<Rightarrow> http_request \<Rightarrow> int \<Rightarrow> string \<Rightarrow> auth_result \<Rightarrow> auth_world \<Rightarrow> (http_reply, auth_world) res" where
  "session_reply env q code msg r w = (Inr (sendSessionResponse (heProd env) r (hqClientType q) code msg), w)"

definition registerCustomer :: controller where
  "registerCustomer env q ps u w =
     on_ok (customerRegisterRequest (heAuth env) (body_text (hqBody q) ''email'') (body_text (hqBody q) ''password'')
        (body_text (hqBody q) ''firstName'') (body_text (hqBody q) ''lastName'') (auth_readRequestContext q) w)
       (\<lambda>_. reply_ok 200 ''OTP sent to your email for verification'' JNull)"

definition verifyCustomer :: controller where
  "verifyCustomer env q ps u w =
     on_ok (verifyCustomerRegistration (heAuth env) (body_text (hqBody q) ''email'') (body_text (hqBody q) ''otp'')
        (auth_readRequestContext q) w) (session_reply env q 201 ''Registration successful'')"

definition resendCustomerOtp :: controller where
  "resendCustomerOtp env q ps u w =
     on_ok (resendCustomerRegistrationOtp (heAuth env) (body_text (hqBody q) ''email'') (auth_readRequestContext q) w)
       (\<lambda>_. reply_ok 200 ''OTP resent to your email'' JNull)"

definition loginCustomerApp :: controller where
  "loginCustomerApp env q ps u w =
     on_ok (customerLogin (heAuth env) (body_text (hqBody q) ''email'') (body_text (hqBody q) ''password'')
        (auth_readRequestContext q) w) (session_reply env q 200 ''Login successful'')"

definition registerSeller :: controller where
  "registerSeller env q ps u w =
     on_ok (sellerRegisterRequest (heAuth env) (body_text (hqBody q) ''email'') (body_text (hqBody q) ''password'')
        (body_text (hqBody q) ''firstName'') (body_text (hqBody q) ''lastName'') (body_opt (hqBody q) ''phone'')
        (body_opt (hqBody q) ''bio'') (auth_readRequestContext q) w)
       (\<lambda>_. reply_ok 200 ''OTP sent to your email for verification'' JNull)"

definition verifySeller :: controller where
  "verifySeller env q ps u w =
     on_ok (verifySellerRegistration (heAuth env) (body_text (hqBody q) ''email'') (body_text (hqBody q) ''otp'')
        (auth_readRequestContext q) w) (session_reply env q 201 ''Seller registration successful'')"

definition resendSellerOtp :: controller where
  "resendSellerOtp env q ps u w =
     on_ok (resendSellerRegistrationOtp (heAuth env) (body_text (hqBody q) ''email'') (auth_readRequestContext q) w)
       (\<lambda>_. reply_ok 200 ''OTP resent to your email'' JNull)"

definition loginSellerApp :: controller where
  "loginSellerApp env q ps u w =
     on_ok (sellerLogin (heAuth env) (body_text (hqBody q) ''email'') (body_text (hqBody q) ''password'')
        (auth_readRequestContext q) w) (session_reply env q 200 ''Login successful'')"

subsection \<open>Controllers of the admin module\<close>

definition loginAdmin :: controller where
  "loginAdmin env q ps u w =
     on_ok (adminLogin (heAuth env) (body_text (hqBody q) ''email'') (body_text (hqBody q) ''password'')
        (auth_readRequestContext q) w) (session_reply env q 200 ''Login successful'')"

text \<open>A token without an id gives \<open>undefined\<close> for the column of the inviter, which Prisma refuses.\<close>

definition createInviteRoute :: controller where
  "createInviteRoute env q ps u w =
     (case u of
        None \<Rightarrow> (Inl (OtherError ''TypeError'' ''Cannot read properties of undefined''), w)
      | Some x \<Rightarrow> (case ruId x of
            None \<Rightarrow> (Inl (case findByEmail (body_text (hqBody q) ''email'') w of
                Some c \<Rightarrow> account_exists | None \<Rightarrow> PrismaValidation ''Argument invitedById is missing.''), w)
          | Some i \<Rightarrow> on_ok (createInvite (heAuth env) (body_text (hqBody q) ''email'') i w) (\<lambda>r w.
              case r of (inviteId, email, expiresAt) \<Rightarrow>
                reply_ok 201 ''Invite created and emailed to the invitee''
                  (JObj [(''id'', JStr inviteId), (''email'', JStr email), (''expiresAt'', JStr expiresAt)]) w)))"

definition token_required :: js_error where
  "token_required = AppErr (BadRequestError ''Invite token is required'' (Some ''token''))"

definition validation_json :: "invite_validation \<Rightarrow> json" where
  "validation_json v = (case v of
     InviteInvalid \<Rightarrow> JObj [(''valid'', JBool False), (''status'', JStr ''INVALID'')]
   | InviteConsumed \<Rightarrow> JObj [(''valid'', JBool False), (''status'', JStr ''CONSUMED'')]
   | InviteExpired \<Rightarrow> JObj [(''valid'', JBool False), (''status'', JStr ''EXPIRED'')]
   | InviteValid email expiresAt \<Rightarrow> JObj [(''valid'', JBool True), (''status'', JStr ''PENDING''),
       (''email'', JStr email), (''expiresAt'', JStr expiresAt)])"

definition validateInviteRoute :: controller where
  "validateInviteRoute env q ps u w =
     (if \<not> str_truthy (ps ''token'') then (Inl token_required, w)
      else case validateInvite (heAuth env) (the (ps ''token'')) w of
        (v, w) \<Rightarrow> reply_ok 200 (case v of InviteValid a b \<Rightarrow> ''Invite is valid''
            | _ \<Rightarrow> ''Invite is invalid, expired or already used'') (validation_json v) w)"

definition acceptInviteRoute :: controller where
  "acceptInviteRoute env q ps u w =
     (if \<not> str_truthy (ps ''token'') then (Inl token_required, w)
      else on_ok (acceptInvite (heAuth env) (the (ps ''token''))
          \<lparr>iaPassword = body_text (hqBody q) ''password'', iaFirstName = body_text (hqBody q) ''firstName'',
           iaLastName = body_text (hqBody q) ''lastName'', iaPhone = body_opt (hqBody q) ''phone''\<rparr> w)
        (\<lambda>r w. reply_ok 201 ''Admin account created. Please sign in.''
           (JObj [(''id'', JStr (fst r)), (''email'', JStr (snd r))]) w))"

subsection \<open>Controllers of the session routes\<close>

text \<open>\<open>req.cookies?.refreshToken || req.body.refreshToken\<close>: nothing (or a falsy value), a text, another value.\<close>

datatype presented = NoToken | TextToken string | OtherToken

definition presented_token :: "http_request \<Rightarrow> js_error + presented" where
  "presented_token q =
     (if str_truthy (hqRefreshCookie q) then Inr (TextToken (the (hqRefreshCookie q)))
      else case hqBody q of
        None \<Rightarrow> Inl (OtherError ''TypeError'' ''Cannot read properties of undefined (reading 'refreshToken')'')
      | Some b \<Rightarrow> (case jget b ''refreshToken'' of
            None \<Rightarrow> Inr NoToken
          | Some (JStr s) \<Rightarrow> Inr (if s = [] then NoToken else TextToken s)
          | Some v \<Rightarrow> Inr (if v \<in> {JNull, JBool False, JNum 0} then NoToken else OtherToken)))"

text \<open>\<open>jwt.verify\<close> refuses a value that is no text; \<open>jwt.decode\<close> makes nothing of it.\<close>

definition refresh_presented :: "auth_env \<Rightarrow> presented \<Rightarrow> token_refresh aw" where
  "refresh_presented env p w = (case p of
     NoToken \<Rightarrow> refreshToken env None w
   | TextToken s \<Rightarrow> refreshToken env (Some s) w
   | OtherToken \<Rightarrow> (Inl (if acRefreshSecret (aeConfig env) = [] then bad_request ''JWT secret is not configured''
                          else unauthorized ''jwt must be a string''), w))"

definition refreshTokenRoute :: controller where
  "refreshTokenRoute env q ps u w =
     (case presented_token q of
        Inl e \<Rightarrow> (Inl e, w)
      | Inr p \<Rightarrow> on_ok (refresh_presented (heAuth env) p w) (\<lambda>r w.
          let inBody = hqClientType q = Some ''customer-web'' in
          (Inr \<lparr>hrStatus = 200, hrMessage = ''Token refreshed successfully'',
             hrData = JObj ([(''role'', roles_json (trRole r))] @
               (if inBody then [(''accessToken'', JStr (trAccessToken r)), (''refreshToken'', JStr (trRefreshToken r))] else [])),
             hrCookies = (if inBody then []
               else [setCookie (heProd env) ''accessToken'' (trAccessToken r) ACCESS_TOKEN_MAX_AGE_MS,
                     setCookie (heProd env) ''refreshToken'' (trRefreshToken r) REFRESH_TOKEN_MAX_AGE_MS])\<rparr>, w)))"

definition logoutRoute :: controller where
  "logoutRoute env q ps u w =
     (case presented_token q of
        Inl e \<Rightarrow> (Inl e, w)
      | Inr p \<Rightarrow> on_ok (logout (heAuth env) (case p of TextToken s \<Rightarrow> Some s | _ \<Rightarrow> None) w) (\<lambda>_ w.
          (Inr \<lparr>hrStatus = 200, hrMessage = ''Logged out successfully'', hrData = JNull,
             hrCookies = [clearCookie (heProd env) ''accessToken'', clearCookie (heProd env) ''refreshToken'']\<rparr>, w)))"

definition requestPasswordResetRoute :: controller where
  "requestPasswordResetRoute env q ps u w =
     on_ok (requestPasswordReset (heAuth env) (heInherited env) (body_text (hqBody q) ''email'') (hqClientType q) w)
       (\<lambda>_. reply_ok 200 ''If an account with that email exists, a password reset link has been sent.'' JNull)"

definition verifyPasswordResetRoute :: controller where
  "verifyPasswordResetRoute env q ps u w =
     on_ok (verifyPasswordReset (heAuth env) (body_text (hqBody q) ''resetToken'') (body_text (hqBody q) ''newPassword'') w)
       (\<lambda>_. reply_ok 200 ''Password has been reset successfully.'' JNull)"

definition requestAccountRestoreRoute :: controller where
  "requestAccountRestoreRoute env q ps u w =
     on_ok (requestAccountRestore (heAuth env) (body_text (hqBody q) ''email'') w)
       (\<lambda>_. reply_ok 200 ''If an account with that email exists, a restore OTP has been sent.'' JNull)"

definition verifyAccountRestoreRoute :: controller where
  "verifyAccountRestoreRoute env q ps u w =
     on_ok (verifyAccountRestore (heAuth env) (body_text (hqBody q) ''email'') (body_text (hqBody q) ''otp'') w)
       (\<lambda>_. reply_ok 200 ''Account restored successfully.'' JNull)"

subsection \<open>Gates\<close>

record auth_server =
  srWorld :: auth_world
  srMemory :: "string \<Rightarrow> memory_entry option"
  srPositions :: "nat list"

datatype gate =
    RateLimit nat int string
  | Authenticated
  | RoleGate "role list"
  | Validated "zod_formats \<Rightarrow> schema"

type_synonym 'a served = "auth_server \<Rightarrow> ('a, auth_server) res"

text \<open>The limiter at the clock reading of the request, with a Redis that answers.\<close>

definition gate_limit :: "http_env \<Rightarrow> http_request \<Rightarrow> nat \<Rightarrow> int \<Rightarrow> string \<Rightarrow> unit served" where
  "gate_limit env q maxRequests windowSeconds route s =
     (let now = aeNow (heAuth env) in
      case auth_rateLimiter ((limiter_defaults route)\<lparr>loWindowSeconds := windowSeconds, loMaxRequests := maxRequests\<rparr>)
          \<lparr>lrForwardedFor = hqForwardedFor q, lrNow = now, lrReadAt = now, lrReadFault = False, lrWriteAt = now,
           lrWriteFault = False\<rparr> \<lparr>lwRedis = awRedis (srWorld s), lwMemory = srMemory s\<rparr> of
        (v, lw) \<Rightarrow> (case v of Next \<Rightarrow> Inr () | NextError e \<Rightarrow> Inl e,
           s\<lparr>srWorld := (srWorld s)\<lparr>awRedis := lwRedis lw\<rparr>, srMemory := lwMemory lw\<rparr>))"

definition auth_validateRequest :: "http_env \<Rightarrow> (zod_formats \<Rightarrow> schema) \<Rightarrow> json option \<Rightarrow> js_error + unit" where
  "auth_validateRequest env schema body =
     (if schema (heFormats env) body then Inr () else Inl (heZodError env body))"

fun run_gate :: "http_env \<Rightarrow> http_request \<Rightarrow> gate \<Rightarrow> request_user option \<Rightarrow> request_user option served" where
  "run_gate env q (RateLimit n secs route) u s = on_ok (gate_limit env q n secs route s) (\<lambda>_ s. (Inr u, s))"
| "run_gate env q Authenticated u s =
     (case authenticate (aeCrypto (heAuth env)) (aeNow (heAuth env)) (acAccessSecret (aeConfig (heAuth env)))
         (hqAccessCookie q) (hqAuthorization q) of
        Inl e \<Rightarrow> (Inl e, s) | Inr x \<Rightarrow> (Inr (Some x), s))"
| "run_gate env q (RoleGate roles) u s = (case requireRole roles u of Inl e \<Rightarrow> (Inl e, s) | Inr _ \<Rightarrow> (Inr u, s))"
| "run_gate env q (Validated schema) u s =
     (case auth_validateRequest env schema (hqBody q) of Inl e \<Rightarrow> (Inl e, s) | Inr _ \<Rightarrow> (Inr u, s))"

fun run_gates :: "http_env \<Rightarrow> http_request \<Rightarrow> gate list \<Rightarrow> request_user option \<Rightarrow> request_user option served" where
  "run_gates env q [] u s = (Inr u, s)"
| "run_gates env q (g # gs) u s = on_ok (run_gate env q g u s) (\<lambda>u. run_gates env q gs u)"

subsection \<open>Routes\<close>

record route =
  rtMethod :: string
  rtPath :: string
  rtGates :: "gate list"
  rtHandler :: controller

definition post :: "string \<Rightarrow> gate list \<Rightarrow> controller \<Rightarrow> route" where
  "post path gates h = \<lparr>rtMethod = ''POST'', rtPath = ''/api/v1'' @ path, rtGates = gates, rtHandler = h\<rparr>"

definition AuthRoutes :: "route list" where
  "AuthRoutes =
     [post ''/auth/refresh-token'' [] refreshTokenRoute,
      post ''/auth/logout'' [] logoutRoute,
      post ''/auth/forgot-password'' [RateLimit 3 300 ''forgot-password'', Validated requestPasswordResetValidationSchema]
        requestPasswordResetRoute,
      post ''/auth/reset-password'' [RateLimit 3 300 ''reset-password'', Validated verifyPasswordResetValidationSchema]
        verifyPasswordResetRoute,
      post ''/auth/restore/request'' [RateLimit 3 300 ''account-restore'', Validated requestAccountRestoreValidationSchema]
        requestAccountRestoreRoute,
      post ''/auth/restore/verify'' [RateLimit 3 300 ''account-restore-verify'', Validated verifyAccountRestoreValidationSchema]
        verifyAccountRestoreRoute]"

definition CustomerRoutes :: "route list" where
  "CustomerRoutes =
     [post ''/customers/register'' [RateLimit 5 300 ''register-customer'', Validated CustomerRegisterRequestSchema] registerCustomer,
      post ''/customers/register/verify'' [RateLimit 10 300 ''register-customer-verify'', Validated verifyRegistrationSchema]
        verifyCustomer,
      post ''/customers/register/resend-otp'' [RateLimit 3 300 ''register-customer-resend-otp'', Validated resendOtpSchema]
        resendCustomerOtp,
      post ''/customers/login'' [RateLimit 5 60 ''login-customer-app'', Validated loginValidationSchema] loginCustomerApp]"

definition SellerRoutes :: "route list" where
  "SellerRoutes =
     [post ''/sellers/register'' [RateLimit 5 300 ''register-seller'', Validated SellerRegisterRequestSchema] registerSeller,
      post ''/sellers/register/verify'' [RateLimit 10 300 ''register-seller-verify'', Validated verifyRegistrationSchema]
        verifySeller,
      post ''/sellers/register/resend-otp'' [RateLimit 3 300 ''register-seller-resend-otp'', Validated resendOtpSchema]
        resendSellerOtp,
      post ''/sellers/login'' [RateLimit 5 60 ''login-seller-app'', Validated loginValidationSchema] loginSellerApp]"

definition AdminRoutes :: "route list" where
  "AdminRoutes =
     [post ''/admins/login'' [RateLimit 3 300 ''login-admin'', Validated loginValidationSchema] loginAdmin,
      post ''/admins/invites'' [RateLimit 10 300 ''admin-invite-create'', Authenticated, RoleGate [SUPER_ADMIN],
        Validated inviteCreationSchema] createInviteRoute,
      \<lparr>rtMethod = ''GET'', rtPath = ''/api/v1/admins/invites/:token'', rtGates = [RateLimit 20 300 ''admin-invite-validate''],
       rtHandler = validateInviteRoute\<rparr>,
      post ''/admins/invites/:token/accept'' [RateLimit 5 300 ''admin-invite-accept'', Validated inviteAcceptSchema]
        acceptInviteRoute]"

definition auth_routes :: "route list" where
  "auth_routes = AuthRoutes @ CustomerRoutes @ SellerRoutes @ AdminRoutes"

text \<open>Express answers \<open>HEAD\<close> with the \<open>GET\<close> route.\<close>

definition route_serves :: "http_env \<Rightarrow> http_request \<Rightarrow> route \<Rightarrow> bool" where
  "route_serves env q r \<longleftrightarrow>
     (rtMethod r = hqMethod q \<or> rtMethod r = ''GET'' \<and> hqMethod q = ''HEAD'') \<and> heMatch env (rtPath r) (hqPath q) \<noteq> None"

definition run_route :: "http_env \<Rightarrow> http_request \<Rightarrow> route \<Rightarrow> http_reply served" where
  "run_route env q r s =
     on_ok (run_gates env q (rtGates r) None s) (\<lambda>u s.
       case rtHandler r env q (the (heMatch env (rtPath r) (hqPath q))) u (srWorld s) of
         (res, w) \<Rightarrow> (res, s\<lparr>srWorld := w\<rparr>))"

text \<open>A request from the sanitizer to the reply or the exception that the error handler gets; the routes
  \<open>/\<close> and \<open>/health\<close> are left out.\<close>

definition auth_serve :: "http_env \<Rightarrow> http_request \<Rightarrow> http_reply served" where
  "auth_serve env q s =
     (case sanitizationMiddleware True (hqBody q, hqQuery q) (srPositions s) of
        ((body, query), ps) \<Rightarrow>
          let q = q\<lparr>hqBody := body\<rparr>; s = s\<lparr>srPositions := ps\<rparr> in
          case find (route_serves env q) auth_routes of
            None \<Rightarrow> (Inl (notFoundHandler (hqMethod q) (hqOriginalUrl q)), s)
          | Some r \<Rightarrow> run_route env q r s)"

end
