(* ===== verification/Auth_Http_Claims.thy ===== *)
theory Auth_Http_Claims
  imports Auth_Http Admin_Claims
begin

text \<open>
  What holds of every request to the auth service: tokens are handed over in the way of the client's surface,
  and no route but the invite flow touches admin identities.
\<close>

subsection \<open>Admin identities and invites\<close>

definition admins :: "auth_world \<Rightarrow> (string \<times> role list) list" where
  "admins w = filter (\<lambda>(i, roles). list_ex admin_role roles) (map (\<lambda>c. (crId c, crRole c)) (adCredentials (awDb w)))"

definition invite_ids :: "auth_world \<Rightarrow> string list" where
  "invite_ids w = map inId (adInvites (awDb w))"

definition privileged :: "auth_world \<Rightarrow> (string \<times> role list) list \<times> string list" where
  "privileged w = (admins w, invite_ids w)"

named_theorems keeps_privileged \<open>operations that leave admin identities and invites as they are\<close>

lemma privileged_on_ok:
  "\<lbrakk>privileged (snd r) = p; \<And>x s. privileged s = p \<Longrightarrow> privileged (snd (k x s)) = p\<rbrakk> \<Longrightarrow> privileged (snd (on_ok r k)) = p"
  by (cases "(r, k)" rule: on_ok.cases) auto

lemma privileged_auth_tx:
  "\<lbrakk>privileged w = p; privileged (snd (f w)) = p\<rbrakk> \<Longrightarrow> privileged (snd (auth_tx f w)) = p"
  by (auto simp: auth_tx_def privileged_def admins_def invite_ids_def split: prod.splits sum.splits)

lemma privileged_db [keeps_privileged]:
  "adCredentials (awDb w') = adCredentials (awDb w) \<Longrightarrow> adInvites (awDb w') = adInvites (awDb w) \<Longrightarrow>
     privileged w' = privileged w"
  by (simp add: privileged_def admins_def invite_ids_def)

lemma privileged_redis [simp]: "privileged (on_redis f w) = privileged w"
  "privileged (r_setex env k s v w) = privileged w" "privileged (r_del ks w) = privileged w"
  "privileged (w\<lparr>awRedis := r\<rparr>) = privileged w"
  by (rule privileged_db; simp)+

lemma privileged_rows [simp]:
  "privileged (auth_writeAuditLog a w) = privileged w" "privileged (auth_emit env ty agg payload w) = privileged w"
  by (rule privileged_db; simp add: auth_writeAuditLog_def auth_emit_def)+

lemma map_filter_update_where:
  "(\<And>c. p c \<Longrightarrow> g (f c) = g c) \<Longrightarrow> map g (update_where p f xs) = map g xs"
  by (rule map_update_where_same)

lemma privileged_update [simp]:
  assumes "\<And>c. crId (f c) = crId c \<and> crRole (f c) = crRole c"
  shows "privileged (snd (update_credential i f w)) = privileged w"
proof -
  have "map (\<lambda>c. (crId c, crRole c)) (update_where q f cs) = map (\<lambda>c. (crId c, crRole c)) cs" for q cs
    by (rule map_update_where_same) (simp add: assms)
  then show ?thesis
    by (simp add: update_credential_def update_credentials_def privileged_def admins_def invite_ids_def)
qed

lemma privileged_invite_update:
  "(\<And>v. inId (f v) = inId v) \<Longrightarrow> privileged (snd (update_invites p f w)) = privileged w"
  by (simp add: update_invites_def privileged_def admins_def invite_ids_def map_update_where_same)

lemma privileged_markExpired [simp]: "privileged (markExpired i w) = privileged w"
  by (simp add: markExpired_def privileged_invite_update)

lemma privileged_reset [simp]: "privileged (snd (create_reset env i t w)) = privileged w"
  by (auto simp: create_reset_def intro: privileged_db)

subsection \<open>The operations of the service\<close>

lemma privileged_surface [simp]: "privileged (snd (assertClientSurface e ctx w)) = privileged w"
  by (simp add: assertClientSurface_def)

lemma privileged_otp [simp]:
  "privileged (snd (checkOtpRestrictions env e w)) = privileged w"
  "privileged (snd (trackOtpRequests env e w)) = privileged w"
  "privileged (snd (verifyOtp env e otp w)) = privileged w"
  by (simp_all add: checkOtpRestrictions_def trackOtpRequests_def verifyOtp_def Let_def split: option.splits)

lemma privileged_otp_mail [simp]: "privileged (snd (emitOtpEmail env e fn otp w)) = privileged w"
  by (simp add: emitOtpEmail_def privileged_auth_tx)

lemma privileged_start [simp]:
  "privileged (snd (startRegistration env i w)) = privileged w"
  "privileged (snd (resendRegistrationOtp env e r w)) = privileged w"
  by (auto simp: startRegistration_def resendRegistrationOtp_def Let_def split: option.splits sum.splits
      intro!: privileged_on_ok)

lemma privileged_session [simp]: "privileged (snd (issueSession env c r w)) = privileged w"
  by (simp add: issueSession_def issueRefreshToken_def Let_def)

text \<open>A credential with shop roles comes, or comes and goes.\<close>

lemma privileged_create:
  assumes "create_credential env e pw roles w = (Inr c, w')" "\<not> list_ex admin_role roles"
  shows "privileged w' = privileged w \<and> crId c = aeRowId env \<and>
    privileged (snd (delete_credential (crId c) w')) = privileged w"
proof -
  have new: "aeRowId env \<notin> crId ` set (adCredentials (awDb w))" and c: "crId c = aeRowId env" "crRole c = roles"
    and w': "w' = on_db (\<lambda>db. db\<lparr>adCredentials := adCredentials db @ [c]\<rparr>) w"
    using assms(1) by (auto simp: create_credential_def Let_def split: if_splits)
  have "filter (\<lambda>x. crId x \<noteq> aeRowId env) (adCredentials (awDb w)) = adCredentials (awDb w)"
    using new by (force simp: filter_id_conv)
  then show ?thesis using assms(2) c by (simp add: w' delete_credential_def privileged_def admins_def invite_ids_def)
qed

lemma privileged_complete [simp]:
  assumes "\<not> admin_role r"
  shows "privileged (snd (completeRegistration env r e otp w)) = privileged w"
proof -
  have "privileged (snd (on_ok (create_credential env e' pw [r] w) (\<lambda>c w. case aeUserService env of
      Inl er \<Rightarrow> on_ok (delete_credential (crId c) w) (\<lambda>_ w. (Inl (internal_error m), w))
    | Inr x \<Rightarrow> issueSession env c r (r_del ks w)))) = privileged w" for e' pw m ks w
  proof (cases "create_credential env e' pw [r] w")
    case (Pair res w')
    show ?thesis
    proof (cases res)
      case (Inl er)
      then show ?thesis using Pair by (auto simp: create_credential_def Let_def split: if_splits)
    next
      case (Inr c)
      then have c: "privileged w' = privileged w" "privileged (snd (delete_credential (crId c) w')) = privileged w"
        using privileged_create[of env e' pw "[r]" w c w'] Pair assms by auto
      then show ?thesis using Pair Inr by (auto split: sum.splits intro!: privileged_on_ok)
    qed
  qed
  note finish = this
  show ?thesis
  proof (cases "cached_registration env r e w")
    case (Inr reg)
    show ?thesis unfolding completeRegistration_def Inr sum.case
      by (rule privileged_on_ok) (simp_all only: finish privileged_otp)
  qed (simp add: completeRegistration_def)
qed

lemma privileged_failed_login [simp]: "privileged (snd (handleFailedLogin env i w)) = privileged w"
  by (auto simp: handleFailedLogin_def split: option.splits intro!: privileged_on_ok)

lemma privileged_verify_credentials [simp]: "privileged (snd (verifyCredentials env e pw w)) = privileged w"
  by (auto simp: verifyCredentials_def split: option.splits intro!: privileged_on_ok)

lemma privileged_complete_login [simp]: "privileged (snd (completeLogin env c r w)) = privileged w"
  by (auto simp: completeLogin_def resetLoginAttempts_def split: sum.splits intro!: privileged_on_ok)

lemma privileged_logins [simp]:
  "privileged (snd (customerLogin env e pw ctx w)) = privileged w"
  "privileged (snd (sellerLogin env e pw ctx w)) = privileged w"
  "privileged (snd (adminLogin env e pw ctx w)) = privileged w"
  by (auto simp: customerLogin_def sellerLogin_def adminLogin_def intro!: privileged_on_ok)

lemma privileged_refresh [simp]: "privileged (snd (refreshToken env t w)) = privileged w"
  by (auto simp: refreshToken_def refresh_check_def refresh_rotate_def rotateRefreshToken_def revokeTokenFamily_def
      rotate_script_def Let_def split: sum.splits option.splits prod.splits intro!: privileged_on_ok)

lemma privileged_logout [simp]: "privileged (snd (logout env t w)) = privileged w"
  by (simp add: logout_def revokeRefreshToken_def split: option.splits)

lemma privileged_password_reset [simp]:
  "privileged (snd (requestPasswordReset env inh e ct w)) = privileged w"
  "privileged (snd (verifyPasswordReset env t pw w)) = privileged w"
proof -
  show "privileged (snd (requestPasswordReset env inh e ct w)) = privileged w"
    by (auto simp: requestPasswordReset_def Let_def split: option.splits sum.splits intro!: privileged_on_ok privileged_auth_tx)
  have "privileged (on_db (\<lambda>db. db\<lparr>adResets := f db\<rparr>) s) = privileged s" for f s
    by (rule privileged_db) simp_all
  then show "privileged (snd (verifyPasswordReset env t pw w)) = privileged w"
    by (auto simp: verifyPasswordReset_def split: option.splits intro!: privileged_on_ok privileged_auth_tx)
qed

lemma privileged_restore [simp]:
  "privileged (snd (requestAccountRestore env e w)) = privileged w"
  "privileged (snd (verifyAccountRestore env e otp w)) = privileged w"
  by (auto simp: requestAccountRestore_def verifyAccountRestore_def Let_def split: option.splits js_text.splits
      intro!: privileged_auth_tx)

lemma privileged_registration_entries [simp]:
  "privileged (snd (customerRegisterRequest env e pw fn ln ctx w)) = privileged w"
  "privileged (snd (verifyCustomerRegistration env e otp ctx w)) = privileged w"
  "privileged (snd (resendCustomerRegistrationOtp env e ctx w)) = privileged w"
  "privileged (snd (sellerRegisterRequest env e pw fn ln ph bio ctx w)) = privileged w"
  "privileged (snd (verifySellerRegistration env e otp ctx w)) = privileged w"
  "privileged (snd (resendSellerRegistrationOtp env e ctx w)) = privileged w"
  by (auto simp: customerRegisterRequest_def verifyCustomerRegistration_def resendCustomerRegistrationOtp_def
      sellerRegisterRequest_def verifySellerRegistration_def resendSellerRegistrationOtp_def intro!: privileged_on_ok)

lemma privileged_validate [simp]: "privileged (snd (validateInvite env t w)) = privileged w"
  by (auto simp: validateInvite_def split: option.splits invite_status.splits)

subsection \<open>The routes\<close>

definition leaves_privileged :: "controller \<Rightarrow> bool" where
  "leaves_privileged h \<longleftrightarrow> (\<forall>env q ps u w. privileged (snd (h env q ps u w)) = privileged w)"

lemma reply_keeps [simp]: "snd (reply_ok code m d w) = w" "snd (session_reply env q code m r w) = w"
  by (simp_all add: reply_ok_def session_reply_def)

lemma plain_controllers:
  "leaves_privileged refreshTokenRoute" "leaves_privileged logoutRoute"
  "leaves_privileged requestPasswordResetRoute" "leaves_privileged verifyPasswordResetRoute"
  "leaves_privileged requestAccountRestoreRoute" "leaves_privileged verifyAccountRestoreRoute"
  "leaves_privileged registerCustomer" "leaves_privileged verifyCustomer" "leaves_privileged resendCustomerOtp"
  "leaves_privileged loginCustomerApp" "leaves_privileged registerSeller" "leaves_privileged verifySeller"
  "leaves_privileged resendSellerOtp" "leaves_privileged loginSellerApp" "leaves_privileged loginAdmin"
  "leaves_privileged validateInviteRoute"
  unfolding leaves_privileged_def
  by (auto simp: refreshTokenRoute_def logoutRoute_def requestPasswordResetRoute_def verifyPasswordResetRoute_def
      requestAccountRestoreRoute_def verifyAccountRestoreRoute_def registerCustomer_def verifyCustomer_def
      resendCustomerOtp_def loginCustomerApp_def registerSeller_def verifySeller_def resendSellerOtp_def
      loginSellerApp_def loginAdmin_def validateInviteRoute_def refresh_presented_def Let_def split_beta
      split: sum.splits presented.splits intro!: privileged_on_ok)

subsection \<open>The invite routes\<close>

lemma privileged_eqD: "privileged w' = privileged w \<Longrightarrow> admins w' = admins w \<and> invite_ids w' = invite_ids w"
  by (simp add: privileged_def)

lemma admins_on_ok:
  "\<lbrakk>admins (snd r) = p; \<And>x s. admins s = p \<Longrightarrow> admins (snd (k x s)) = p\<rbrakk> \<Longrightarrow> admins (snd (on_ok r k)) = p"
  by (cases "(r, k)" rule: on_ok.cases) auto

lemma admins_rows [simp]:
  "admins (auth_writeAuditLog a w) = admins w" "admins (auth_emit env ty agg payload w) = admins w"
  using privileged_rows[THEN privileged_eqD] by simp_all

lemma admins_auth_tx: "\<lbrakk>admins w = p; admins (snd (f w)) = p\<rbrakk> \<Longrightarrow> admins (snd (auth_tx f w)) = p"
  by (auto simp: auth_tx_def admins_def split: prod.splits sum.splits)

lemma createInvite_admins: "admins (snd (createInvite env e i w)) = admins w"
proof -
  have "admins (snd (invite_create env e h i t w)) = admins w" for h t w
    by (simp add: invite_create_def admins_def)
  then show ?thesis
    by (auto simp: createInvite_def Let_def split: option.splits intro!: admins_on_ok admins_auth_tx)
qed

lemma accept_check_passed:
  assumes "accept_check env token w = (Inr v, w')"
  shows "w' = w \<and> findByTokenHash (hashInviteToken env token) w = Some v \<and> inStatus v = INVITE_PENDING \<and>
    aeNow env < inExpiresAt v"
  using assms by (auto simp: accept_check_def Let_def split: option.splits if_splits)

lemma accept_check_keeps [simp]: "privileged (snd (accept_check env token w)) = privileged w"
  by (simp add: accept_check_def Let_def split: option.splits)

lemma accept_tx_effect:
  assumes "accept_tx env v pw w = (Inr c, w')"
  shows "crId c = aeRowId env \<and> admins w' = admins w @ [(aeRowId env, [ADMIN])] \<and> invite_ids w' = invite_ids w \<and>
    privileged (snd (delete_credential (crId c) w')) = privileged w"
proof -
  obtain u where u: "create_credential env (inEmail v) (bcryptHash (aeCrypto env) pw) [ADMIN] w = (Inr c, u)"
    and w': "privileged w' = privileged u" "adCredentials (awDb w') = adCredentials (awDb u)"
    using assms
    by (auto simp: accept_tx_def auth_tx_def on_ok_Inr_iff markConsumed_def update_invites_def auth_writeAuditLog_def
        privileged_def admins_def invite_ids_def map_update_where_same split: prod.splits sum.splits bool.splits)
  have new: "aeRowId env \<notin> crId ` set (adCredentials (awDb w))" and c: "crId c = aeRowId env" "crRole c = [ADMIN]"
    and u': "u = on_db (\<lambda>db. db\<lparr>adCredentials := adCredentials db @ [c]\<rparr>) w"
    using u by (auto simp: create_credential_def Let_def split: if_splits)
  have "filter (\<lambda>x. crId x \<noteq> aeRowId env) (adCredentials (awDb w)) = adCredentials (awDb w)"
    using new by (force simp: filter_id_conv)
  then show ?thesis using c w' privileged_eqD[OF w'(1)]
    by (simp add: u' delete_credential_def privileged_def admins_def invite_ids_def admin_role_def)
qed

lemma accept_tx_failed: "accept_tx env v pw w = (Inl e, w') \<Longrightarrow> privileged w' = privileged w"
  by (rule privileged_db) (auto simp: accept_tx_def auth_tx_def split: prod.splits sum.splits)

lemma accept_rollback_effect:
  assumes "crId c \<in> crId ` set (adCredentials (awDb w))"
  shows "privileged (snd (accept_rollback i (crId c) w)) = privileged (snd (delete_credential (crId c) w))"
  using assms
  by (auto simp: accept_rollback_def auth_tx_def delete_credential_def reopen_def privileged_invite_update
      split: prod.splits sum.splits)

lemma admins_ids: "(i, rs) \<in> set (admins w) \<Longrightarrow> i \<in> crId ` set (adCredentials (awDb w))"
  by (auto simp: admins_def)

lemma acceptInvite_effect:
  assumes "privileged (snd (acceptInvite env token p w)) \<noteq> privileged w"
  shows "\<exists>v. findByTokenHash (hashInviteToken env token) w = Some v \<and> inStatus v = INVITE_PENDING \<and>
    aeNow env < inExpiresAt v \<and> admins (snd (acceptInvite env token p w)) = admins w @ [(aeRowId env, [ADMIN])] \<and>
    invite_ids (snd (acceptInvite env token p w)) = invite_ids w"
proof (cases "accept_check env token w")
  case (Pair r w1)
  show ?thesis
  proof (cases r)
    case (Inl e)
    then show ?thesis using assms Pair accept_check_keeps[of env token w] by (simp add: acceptInvite_def)
  next
    case (Inr v)
    note check = accept_check_passed[OF Pair[unfolded Inr]]
    obtain r2 w2 where tx: "accept_tx env v (iaPassword p) w = (r2, w2)" by force
    show ?thesis
    proof (cases r2)
      case (Inl e)
      then show ?thesis using assms Pair Inr check tx accept_tx_failed[of env v "iaPassword p" w e w2]
        by (simp add: acceptInvite_def)
    next
      case (Inr c)
      note eff = accept_tx_effect[OF tx[unfolded Inr]]
      have "crId c \<in> crId ` set (adCredentials (awDb w2))"
        using eff by (intro admins_ids[of _ "[ADMIN]"]) simp
      from accept_rollback_effect[OF this, of "inId v"]
      have undone: "privileged (snd (accept_rollback (inId v) (crId c) w2)) = privileged w" using eff by metis
      have "snd (acceptInvite env token p w) = w2 \<or>
          privileged (snd (acceptInvite env token p w)) = privileged w"
        using Pair \<open>r = Inr v\<close> check tx Inr undone
        by (auto simp: acceptInvite_def split: sum.splits intro!: privileged_on_ok)
      then show ?thesis using assms check eff by auto
    qed
  qed
qed

subsection \<open>Every request\<close>

lemma gate_limit_db [simp]: "awDb (srWorld (snd (gate_limit env q n secs route s))) = awDb (srWorld s)"
  by (simp add: gate_limit_def Let_def split: prod.splits verdict.splits)

lemma run_gate_db: "awDb (srWorld (snd (run_gate env q g u s))) = awDb (srWorld s)"
proof (cases g)
  case (RateLimit n secs route)
  then show ?thesis using gate_limit_db[of env q n secs route s]
    by (cases "gate_limit env q n secs route s"; cases "fst (gate_limit env q n secs route s)") auto
qed (auto split: sum.splits)

lemma run_gates_db: "awDb (srWorld (snd (run_gates env q gs u s))) = awDb (srWorld s)"
proof (induction gs arbitrary: u s)
  case (Cons g gs)
  obtain r s' where r: "run_gate env q g u s = (r, s')" by force
  then have "awDb (srWorld s') = awDb (srWorld s)" using run_gate_db[of env q g u s] by simp
  then show ?case using r Cons by (cases r) auto
qed simp

lemma super_admin_gate:
  assumes "run_gates env q [RateLimit n secs route, Authenticated, RoleGate [SUPER_ADMIN], Validated schema] None s = (Inr u, s')"
  shows "\<exists>x. authenticate (aeCrypto (heAuth env)) (aeNow (heAuth env)) (acAccessSecret (aeConfig (heAuth env)))
      (hqAccessCookie q) (hqAuthorization q) = Inr x \<and> ruRole x = SUPER_ADMIN"
proof (cases "authenticate (aeCrypto (heAuth env)) (aeNow (heAuth env)) (acAccessSecret (aeConfig (heAuth env)))
      (hqAccessCookie q) (hqAuthorization q)")
  case (Inr x)
  show ?thesis
  proof (cases "ruRole x = SUPER_ADMIN")
    case False
    then have "requireRole [SUPER_ADMIN] (Some x) = Inl (forbidden ''You do not have permission to perform this action'')"
      by (simp add: requireRole_def)
    then show ?thesis using assms Inr by (auto simp: on_ok_Inr_iff)
  qed (use Inr in blast)
qed (use assms in \<open>auto simp: on_ok_Inr_iff\<close>)

lemma sanitized_request:
  obtains body ps where "auth_serve env q s = (let q' = q\<lparr>hqBody := body\<rparr>; s' = s\<lparr>srPositions := ps\<rparr> in
    case find (route_serves env q') auth_routes of
      None \<Rightarrow> (Inl (notFoundHandler (hqMethod q) (hqOriginalUrl q)), s') | Some r \<Rightarrow> run_route env q' r s')"
proof -
  obtain body query ps where "sanitizationMiddleware True (hqBody q, hqQuery q) (srPositions s) = ((body, query), ps)"
    by (metis surj_pair)
  then show thesis
    by (intro that[of body ps], cases "find (route_serves env (q\<lparr>hqBody := body\<rparr>)) auth_routes")
      (simp_all add: auth_serve_def Let_def)
qed

lemma privileged_same_db: "awDb w' = awDb w \<Longrightarrow> privileged w' = privileged w"
  by (rule privileged_db) simp_all

lemma run_route_cases:
  obtains (stopped) "privileged (srWorld (snd (run_route env q r s))) = privileged (srWorld s)"
  | (ran) u s' where "run_gates env q (rtGates r) None s = (Inr u, s')" "awDb (srWorld s') = awDb (srWorld s)"
      "srWorld (snd (run_route env q r s)) = snd (rtHandler r env q (the (heMatch env (rtPath r) (hqPath q))) u (srWorld s'))"
proof -
  obtain x s' where g: "run_gates env q (rtGates r) None s = (x, s')" by force
  have db: "awDb (srWorld s') = awDb (srWorld s)" using run_gates_db[of env q "rtGates r" None s] g by simp
  show thesis
  proof (cases x)
    case (Inl e)
    then have "snd (run_route env q r s) = s'" using g by (simp add: run_route_def)
    then show thesis using privileged_same_db[OF db] by (intro stopped) simp
  next
    case (Inr u)
    obtain res w where h: "rtHandler r env q (the (heMatch env (rtPath r) (hqPath q))) u (srWorld s') = (res, w)"
      by force
    have "run_gates env q (rtGates r) None s = (Inr u, s')" using g Inr by simp
    then have "run_route env q r s = (res, s'\<lparr>srWorld := w\<rparr>)"
      unfolding run_route_def by (simp only: on_ok.simps h prod.case)
    then show thesis using g db h Inr by (intro ran[of u s']) simp_all
  qed
qed

definition invites_path :: string where "invites_path = ''/api/v1/admins/invites''"
definition accept_path :: string where "accept_path = ''/api/v1/admins/invites/:token/accept''"

lemma auth_route_cases:
  assumes "r \<in> set auth_routes"
  obtains (plain) "leaves_privileged (rtHandler r)"
  | (create) "rtPath r = invites_path" "rtGates r = [RateLimit 10 300 ''admin-invite-create'', Authenticated,
      RoleGate [SUPER_ADMIN], Validated inviteCreationSchema]" "rtHandler r = createInviteRoute"
  | (accept) "rtPath r = accept_path" "rtHandler r = acceptInviteRoute"
proof -
  have "list_all (\<lambda>r. leaves_privileged (rtHandler r) \<or> (rtPath r = invites_path \<and>
      rtGates r = [RateLimit 10 300 ''admin-invite-create'', Authenticated, RoleGate [SUPER_ADMIN],
        Validated inviteCreationSchema] \<and> rtHandler r = createInviteRoute) \<or>
      (rtPath r = accept_path \<and> rtHandler r = acceptInviteRoute)) auth_routes"
    by (simp add: auth_routes_def AuthRoutes_def CustomerRoutes_def SellerRoutes_def AdminRoutes_def post_def
        invites_path_def accept_path_def plain_controllers)
  then show thesis using assms that by (auto simp: list_all_iff)
qed

lemma createInviteRoute_admins: "admins (snd (createInviteRoute env q ps u w)) = admins w"
  by (auto simp: createInviteRoute_def createInvite_admins split: option.splits intro!: admins_on_ok)

lemma acceptInviteRoute_world:
  assumes "privileged (snd (acceptInviteRoute env q ps u w)) \<noteq> privileged w"
  obtains token p where "ps ''token'' = Some token"
    "snd (acceptInviteRoute env q ps u w) = snd (acceptInvite (heAuth env) token p w)"
proof (cases "ps ''token''")
  case None
  then show ?thesis using assms by (simp add: acceptInviteRoute_def str_truthy_def)
next
  case (Some token)
  have keep: "snd (on_ok r (\<lambda>x w. reply_ok code m (d x) w)) = snd r" for r :: "('x, auth_world) res" and code m d
    by (cases r; cases "fst r") auto
  show ?thesis
  proof (cases "str_truthy (ps ''token'')")
    case True
    then show ?thesis using Some by (intro that[OF Some]) (simp add: acceptInviteRoute_def keep)
  qed (use assms in \<open>simp add: acceptInviteRoute_def\<close>)
qed

lemma on_same_db:
  assumes "awDb w' = awDb w"
  shows "admins w' = admins w" "invite_ids w' = invite_ids w" "findByTokenHash h w' = findByTokenHash h w"
  using assms by (simp_all add: admins_def invite_ids_def findByTokenHash_def)


subsection \<open>The shape of a reply\<close>

definition token_cookie :: "bool \<Rightarrow> cookie_op \<Rightarrow> bool" where
  "token_cookie live_site c = (case c of
     SetCookie name v age secure same \<Rightarrow> name \<in> {''accessToken'', ''refreshToken''} \<and> secure = live_site \<and>
       same = (if live_site then ''none'' else ''lax'')
   | ClearCookie name secure same \<Rightarrow> False)"

definition carries_token :: "json \<Rightarrow> bool" where
  "carries_token d \<longleftrightarrow> jget d ''accessToken'' \<noteq> None \<or> jget d ''refreshToken'' \<noteq> None"

text \<open>A reply to the web shop carries tokens in its body alone, any other one in cookies alone.\<close>

definition on_surface :: "bool \<Rightarrow> string option \<Rightarrow> http_reply \<Rightarrow> bool" where
  "on_surface live_site client r \<longleftrightarrow>
     (let set = filter (\<lambda>c. case c of SetCookie _ _ _ _ _ \<Rightarrow> True | _ \<Rightarrow> False) (hrCookies r) in
      if client = Some ''customer-web'' then set = [] else \<not> carries_token (hrData r) \<and> list_all (token_cookie live_site) set)"

definition answers_on_surface :: "bool \<Rightarrow> string option \<Rightarrow> js_error + http_reply \<Rightarrow> bool" where
  "answers_on_surface live_site client x = (case x of Inl e \<Rightarrow> True | Inr r \<Rightarrow> on_surface live_site client r)"

lemma surface_on_ok:
  "(\<And>x s. answers_on_surface l c (fst (k x s))) \<Longrightarrow> answers_on_surface l c (fst (on_ok r k))"
  by (cases "(r, k)" rule: on_ok.cases) (auto simp: answers_on_surface_def)

lemma surface_cases [simp]: "answers_on_surface l c (Inl e)" "answers_on_surface l c (Inr r) = on_surface l c r"
  by (simp_all add: answers_on_surface_def)

lemma surface_plain:
  assumes "\<not> carries_token d"
  shows "answers_on_surface l c (fst (reply_ok code m d w))"
  using assms by (simp add: answers_on_surface_def reply_ok_def auth_sendResponse_def on_surface_def)

lemma surface_session [simp]: "answers_on_surface (heProd env) (hqClientType q) (fst (session_reply env q code m r w))"
  by (simp add: answers_on_surface_def session_reply_def sendSessionResponse_def on_surface_def Let_def carries_token_def
      token_cookies_def setCookie_def token_cookie_def)

definition surface_controller :: "controller \<Rightarrow> bool" where
  "surface_controller h \<longleftrightarrow>
     (\<forall>env q ps u w. answers_on_surface (heProd env) (hqClientType q) (fst (h env q ps u w)))"

lemma no_token [simp]: "\<not> carries_token JNull" "\<not> carries_token (validation_json v)"
  "\<not> carries_token (JObj [(''id'', a), (''email'', b), (''expiresAt'', d)])" "\<not> carries_token (JObj [(''id'', a), (''email'', b)])"
  by (simp_all add: carries_token_def validation_json_def split: invite_validation.splits)

lemma surface_controllers:
  "surface_controller refreshTokenRoute" "surface_controller logoutRoute"
  "surface_controller requestPasswordResetRoute" "surface_controller verifyPasswordResetRoute"
  "surface_controller requestAccountRestoreRoute" "surface_controller verifyAccountRestoreRoute"
  "surface_controller registerCustomer" "surface_controller verifyCustomer" "surface_controller resendCustomerOtp"
  "surface_controller loginCustomerApp" "surface_controller registerSeller" "surface_controller verifySeller"
  "surface_controller resendSellerOtp" "surface_controller loginSellerApp" "surface_controller loginAdmin"
  "surface_controller createInviteRoute" "surface_controller validateInviteRoute" "surface_controller acceptInviteRoute"
proof -
  show "surface_controller refreshTokenRoute"
    unfolding surface_controller_def
    by (auto simp: refreshTokenRoute_def on_surface_def Let_def carries_token_def
        setCookie_def token_cookie_def split: sum.splits intro!: surface_on_ok)
  show "surface_controller logoutRoute"
    unfolding surface_controller_def
    by (auto simp: logoutRoute_def on_surface_def carries_token_def clearCookie_def
        split: sum.splits intro!: surface_on_ok)
qed (unfold surface_controller_def, auto simp: requestPasswordResetRoute_def verifyPasswordResetRoute_def
    requestAccountRestoreRoute_def verifyAccountRestoreRoute_def registerCustomer_def verifyCustomer_def resendCustomerOtp_def
    loginCustomerApp_def registerSeller_def verifySeller_def resendSellerOtp_def loginSellerApp_def loginAdmin_def
    createInviteRoute_def validateInviteRoute_def acceptInviteRoute_def split_beta split: option.splits
    intro!: surface_on_ok surface_plain)

lemma surface_routes: "list_all (\<lambda>r. surface_controller (rtHandler r)) auth_routes"
  by (simp add: auth_routes_def AuthRoutes_def CustomerRoutes_def SellerRoutes_def AdminRoutes_def post_def surface_controllers)


subsection \<open>A server that knows a few paths\<close>

definition demo_formats :: zod_formats where
  "demo_formats = \<lparr>isUuid = (\<lambda>_. True), isEmail = (\<lambda>_. True), isDatetime = (\<lambda>_. True)\<rparr>"

text \<open>A server that knows two paths.\<close>

definition demo_paths :: "string \<Rightarrow> string \<Rightarrow> (string \<Rightarrow> string option) option" where
  "demo_paths pat path = (if pat = path then Some (\<lambda>_. None)
     else if pat = accept_path \<and> path = ''/accept/tok'' then Some (\<lambda>k. if k = ''token'' then Some ''tok'' else None)
     else None)"

definition demo_http :: http_env where
  "demo_http = \<lparr>heAuth = demo_auth_env, heProd = True, heFormats = demo_formats, heMatch = demo_paths,
     heZodError = (\<lambda>_. NonError), heInherited = (\<lambda>_. None)\<rparr>"

definition demo_post :: "string \<Rightarrow> (string \<times> json) list \<Rightarrow> http_request" where
  "demo_post path members = \<lparr>hqMethod = ''POST'', hqPath = path, hqOriginalUrl = path, hqBody = Some (JObj members),
     hqQuery = [], hqAccessCookie = None, hqRefreshCookie = None, hqAuthorization = None, hqClientType = None,
     hqForwardedFor = Some ''10.0.0.1'', hqRemoteAddress = None, hqUserAgent = None\<rparr>"

definition accept_request :: http_request where
  "accept_request = demo_post ''/accept/tok'' [(''password'', JStr ''Abcdef1!''), (''firstName'', JStr ''A''), (''lastName'', JStr ''B'')]"

definition invited_server :: auth_server where
  "invited_server = \<lparr>srWorld = invited_world, srMemory = Map.empty, srPositions = [0, 0, 0, 0, 0]\<rparr>"



end
