(* ===== verification/User_Http.thy ===== *)
theory User_Http
  imports Internal_Calls User_Service Dead_Letters Sanitizer Error_Handlers Http_Requests
begin

text \<open>
  The HTTP surface of the user service: body schemas, gates, controllers and routes of \<open>modules/*/\<close> under
  \<open>routes/index.ts\<close>, from the sanitizer to the reply. The path matching of Express, the format checks of
  Zod and the text of its errors are parameters, as are \<open>jsonwebtoken\<close> and the HMAC.
\<close>

subsection \<open>Requests, environment and state\<close>

record service_request = http_request +
  srSignature :: "string option"
  srTimestamp :: "string option"

record service_env =
  seUser :: user_env
  seDead :: dead_letter_env
  seCrypto :: auth_crypto
  seAccessSecret :: string
  seInternalSecret :: string
  seFormats :: zod_formats
  seIsUrl :: "string \<Rightarrow> bool"
  seMatch :: "string \<Rightarrow> string \<Rightarrow> (string \<Rightarrow> string) option"
  seZodError :: "json option \<Rightarrow> js_error"
  seToDate :: "jtext \<Rightarrow> time option"
  seToNumber :: "string \<Rightarrow> js_number"
  seParse :: "string \<Rightarrow> json option"
  seKafka :: bool

record user_server =
  usWorld :: user_world
  usDead :: dead_letter_world
  usPositions :: "nat list"

datatype reply_data =
    NoData
  | UserData user_dto
  | LetterPage "dead_letter_row list" "string option" bool
  | LetterId string

record service_reply =
  vrStatus :: int
  vrSuccess :: bool
  vrMessage :: string
  vrData :: reply_data

type_synonym 'a us = "user_server \<Rightarrow> ('a, user_server) res"

definition on_users :: "'a uw \<Rightarrow> 'a us" where
  "on_users f s = (case f (usWorld s) of (r, w) \<Rightarrow> (r, s\<lparr>usWorld := w\<rparr>))"

definition user_sendResponse :: "int \<Rightarrow> bool \<Rightarrow> string \<Rightarrow> reply_data \<Rightarrow> service_reply us" where
  "user_sendResponse code success msg d s =
     (Inr \<lparr>vrStatus = code, vrSuccess = success, vrMessage = msg, vrData = d\<rparr>, s)"

definition user_readRequestContext :: "service_request \<Rightarrow> string option \<times> string option" where
  "user_readRequestContext q =
     (case hqForwardedFor q of Some f \<Rightarrow> Some f | None \<Rightarrow> hqRemoteAddress q, hqUserAgent q)"

subsection \<open>Schemas of the bodies\<close>

definition text_within :: "nat \<Rightarrow> nat \<Rightarrow> string \<Rightarrow> bool" where
  "text_within lo hi s \<longleftrightarrow> lo \<le> length s \<and> length s \<le> hi"

definition emailField :: "service_env \<Rightarrow> schema" where
  "emailField env = z_format (\<lambda>s. isEmail (seFormats env) s \<and> length s \<le> 255)"

definition firstNameField :: schema where "firstNameField = z_format (text_within 1 100)"
definition lastNameField :: schema where "lastNameField = z_format (text_within 1 100)"
definition phoneField :: schema where "phoneField = z_format phone_text"

definition avatarField :: "service_env \<Rightarrow> schema" where
  "avatarField env = z_format (\<lambda>s. seIsUrl env s \<and> length s \<le> 2048)"

definition dateOfBirthField :: schema where
  "dateOfBirthField = z_format (\<lambda>s. length s = 10 \<and> list_all (\<lambda>(i, c). if i \<in> {4, 7} then c = CHR ''-'' else digit c) (enumerate 0 s))"

definition bioField :: schema where "bioField = z_format (text_within 0 500)"

definition provisioning_body :: "service_env \<Rightarrow> (string \<times> schema) list \<Rightarrow> schema" where
  "provisioning_body env extra = z_object
     [(''id'', z_format (isUuid (seFormats env))), (''email'', emailField env),
      (''profile'', z_object ([(''firstName'', firstNameField), (''lastName'', lastNameField),
         (''phone'', z_optional phoneField)] @ extra))]"

definition customer_provisioningSchema :: "service_env \<Rightarrow> schema" where
  "customer_provisioningSchema env = provisioning_body env
     [(''avatar'', z_optional (avatarField env)), (''dateOfBirth'', z_optional dateOfBirthField)]"

definition seller_provisioningSchema :: "service_env \<Rightarrow> schema" where
  "seller_provisioningSchema env = provisioning_body env [(''bio'', z_optional bioField)]"

definition admin_provisioningSchema :: "service_env \<Rightarrow> schema" where
  "admin_provisioningSchema env = provisioning_body env []"

definition becomeSellerSchema :: "service_env \<Rightarrow> schema" where
  "becomeSellerSchema env = z_object [(''firstName'', firstNameField), (''lastName'', lastNameField),
     (''phone'', z_optional phoneField), (''bio'', z_optional bioField)]"

text \<open>Given \<open>{ body }\<close>, every field of \<open>listQuery\<close> is absent.\<close>

definition listQuery :: "service_env \<Rightarrow> schema" where
  "listQuery env b = True"

subsection \<open>Controllers of the user module\<close>

type_synonym service_controller =
  "service_env \<Rightarrow> service_request \<Rightarrow> (string \<Rightarrow> string) \<Rightarrow> user_request option \<Rightarrow> service_reply us"

text \<open>An absent id is \<open>undefined\<close> in the query, which Prisma refuses.\<close>

definition with_own_id :: "user_request option \<Rightarrow> (string \<Rightarrow> service_reply us) \<Rightarrow> service_reply us" where
  "with_own_id u k s = (case u of
     None \<Rightarrow> (Inl (OtherError ''TypeError'' ''Cannot read properties of undefined (reading 'id')''), s)
   | Some x \<Rightarrow> (case uqId x of
        None \<Rightarrow> (Inl (PrismaValidation ''Argument id is missing''), s)
      | Some i \<Rightarrow> k i s))"

definition acting_id :: "user_request option \<Rightarrow> string \<Rightarrow> string" where
  "acting_id u other = (case u of None \<Rightarrow> other | Some x \<Rightarrow> (case uqId x of None \<Rightarrow> other | Some i \<Rightarrow> i))"

definition user_or_404 :: "user_dto option \<Rightarrow> service_reply us" where
  "user_or_404 r = (case r of
     None \<Rightarrow> user_sendResponse 404 False ''User not found'' NoData
   | Some d \<Rightarrow> user_sendResponse 200 True ''User retrieved successfully'' (UserData d))"

definition getUserByIdRoute :: service_controller where
  "getUserByIdRoute env q ps u s = on_ok (on_users (getUserById (seUser env) (ps ''id'')) s) user_or_404"

definition getUserByEmailRoute :: service_controller where
  "getUserByEmailRoute env q ps u s = on_ok (on_users (getUserByEmail (seUser env) (ps ''email'')) s) user_or_404"

definition deleteUserRoute :: service_controller where
  "deleteUserRoute env q ps u s =
     on_ok (on_users (deleteUser (seUser env) (ps ''id'') (acting_id u ''system'')) s)
       (\<lambda>_. user_sendResponse 200 True ''User deleted successfully'' NoData)"

definition hardDeleteUserRoute :: service_controller where
  "hardDeleteUserRoute env q ps u s =
     on_ok (on_users (hardDeleteUser (seUser env) (ps ''id'') (acting_id u ''system'')) s)
       (\<lambda>_. user_sendResponse 200 True ''User permanently deleted'' NoData)"

definition restoreUserRoute :: service_controller where
  "restoreUserRoute env q ps u s =
     on_ok (on_users (restoreUser (seUser env) (ps ''id'') (acting_id u ''system'')) s)
       (\<lambda>d. user_sendResponse 200 True ''User restored successfully'' (UserData d))"

definition getUserMe :: service_controller where
  "getUserMe env q ps u s =
     with_own_id u (\<lambda>i s. on_ok (on_users (getUserById (seUser env) i) s) user_or_404) s"

definition deleteMe :: service_controller where
  "deleteMe env q ps u s =
     with_own_id u (\<lambda>i s. on_ok (on_users (deleteUser (seUser env) i i) s)
       (\<lambda>_. user_sendResponse 200 True ''User deleted successfully'' NoData)) s"

subsection \<open>Controllers of the profile modules\<close>

definition profile_of_body :: "json option \<Rightarrow> profile_payload" where
  "profile_of_body b =
     (let p = (case b of Some v \<Rightarrow> jget v ''profile'' | None \<Rightarrow> None) in
      \<lparr>ppId = body_text b ''id'', ppEmail = body_text b ''email'', ppFirstName = body_text p ''firstName'',
       ppLastName = body_text p ''lastName'', ppPhone = body_opt p ''phone'', ppAvatar = body_opt p ''avatar'',
       ppDateOfBirth = body_opt p ''dateOfBirth'', ppBio = body_opt p ''bio''\<rparr>)"

type_synonym provisioner =
  "user_env \<Rightarrow> profile_payload \<Rightarrow> string \<Rightarrow> string option \<Rightarrow> string option \<Rightarrow> user_dto uw"

definition provision_route :: "provisioner \<Rightarrow> string \<Rightarrow> service_controller" where
  "provision_route create msg env q ps u s =
     (let p = profile_of_body (hqBody q); (ip, ua) = user_readRequestContext q in
      on_ok (on_users (create (seUser env) p (acting_id u (ppId p)) ip ua) s)
        (\<lambda>d. user_sendResponse 201 True msg (UserData d)))"

definition createCustomerProfileRoute :: service_controller where
  "createCustomerProfileRoute = provision_route createCustomerProfile ''Customer profile created successfully''"

definition createSellerProfileRoute :: service_controller where
  "createSellerProfileRoute = provision_route createSellerProfile ''Seller profile created successfully''"

definition createAdminProfileRoute :: service_controller where
  "createAdminProfileRoute = provision_route createAdminProfile ''Admin profile created successfully''"

definition createSuperAdminProfileRoute :: service_controller where
  "createSuperAdminProfileRoute = provision_route createSuperAdminProfile ''Super admin profile created successfully''"

definition becomeSellerRoute :: service_controller where
  "becomeSellerRoute env q ps u s =
     with_own_id u (\<lambda>i s.
       on_ok (on_users (becomeSeller (seUser env)
           \<lparr>ppId = i, ppEmail = uqEmail (the u), ppFirstName = body_text (hqBody q) ''firstName'',
            ppLastName = body_text (hqBody q) ''lastName'', ppPhone = body_opt (hqBody q) ''phone'', ppAvatar = None,
            ppDateOfBirth = None, ppBio = body_opt (hqBody q) ''bio''\<rparr> i (uqEmail (the u))) s)
         (\<lambda>d. user_sendResponse 201 True ''Seller profile created. The seller app can sign in shortly.'' (UserData d))) s"

subsection \<open>Controllers of the dead letters\<close>

definition query_value_of :: "(string \<times> json) list \<Rightarrow> string \<Rightarrow> query_value option" where
  "query_value_of qs k = (case map_of qs k of
     None \<Rightarrow> None | Some (JStr t) \<Rightarrow> Some (QText t) | Some v \<Rightarrow> Some QOther)"

definition listDeadLettersRoute :: service_controller where
  "listDeadLettersRoute env q ps u s =
     (case deDb (seDead env) of
        Some m \<Rightarrow> (case listDeadLetters (seToDate env) (seToNumber env) (query_value_of (hqQuery q)) [] of
            Inl e \<Rightarrow> (Inl e, s) | Inr p \<Rightarrow> (Inl (db_error m), s))
      | None \<Rightarrow>
          (case listDeadLetters (seToDate env) (seToNumber env) (query_value_of (hqQuery q)) (dwRows (usDead s)) of
             Inl e \<Rightarrow> (Inl e, s)
           | Inr (rows, next_cursor, hasMore) \<Rightarrow>
               user_sendResponse 200 True ''Dead-letter events retrieved'' (LetterPage rows next_cursor hasMore) s))"

definition redriveDeadLetterRoute :: service_controller where
  "redriveDeadLetterRoute env q ps u s =
     (case redriveDeadLetter (seDead env) (seParse env) (seKafka env) (ps ''id'') (usDead s) of
        (Inl e, w) \<Rightarrow> (Inl e, s\<lparr>usDead := w\<rparr>)
      | (Inr i, w) \<Rightarrow>
          user_sendResponse 200 True ''Dead-letter event republished to domain-events'' (LetterId i) (s\<lparr>usDead := w\<rparr>))"

subsection \<open>Gates\<close>

datatype service_gate =
    UserAuth "role list"
  | InternalCall
  | BodySchema "service_env \<Rightarrow> schema"

definition service_session :: "service_env \<Rightarrow> role list \<Rightarrow> service_request \<Rightarrow> js_error + user_request" where
  "service_session env roles q =
     user_auth roles (seCrypto env) (ueNow (seUser env)) (seAccessSecret env) (hqAccessCookie q) (hqAuthorization q)"

definition internal_call :: "service_env \<Rightarrow> service_request \<Rightarrow> js_error + unit" where
  "internal_call env q =
     verifyInternalCall (hmac256 (seCrypto env)) (seInternalSecret env) (ueNow (seUser env))
       \<lparr>iqMethod = hqMethod q, iqPath = hqPath q, iqSignature = srSignature q, iqTimestamp = srTimestamp q,
        iqBody = (case hqBody q of None \<Rightarrow> JObj [] | Some v \<Rightarrow> if v = JNull then JObj [] else v)\<rparr>"

fun service_gate_run ::
    "service_env \<Rightarrow> service_request \<Rightarrow> service_gate \<Rightarrow> user_request option \<Rightarrow> js_error + user_request option" where
  "service_gate_run env q (UserAuth roles) u = (case service_session env roles q of Inl e \<Rightarrow> Inl e | Inr x \<Rightarrow> Inr (Some x))"
| "service_gate_run env q InternalCall u = (case internal_call env q of Inl e \<Rightarrow> Inl e | Inr _ \<Rightarrow> Inr u)"
| "service_gate_run env q (BodySchema schema) u = (if schema env (hqBody q) then Inr u else Inl (seZodError env (hqBody q)))"

fun service_gates ::
    "service_env \<Rightarrow> service_request \<Rightarrow> service_gate list \<Rightarrow> user_request option \<Rightarrow> js_error + user_request option" where
  "service_gates env q [] u = Inr u"
| "service_gates env q (g # gs) u =
     (case service_gate_run env q g u of Inl e \<Rightarrow> Inl e | Inr u \<Rightarrow> service_gates env q gs u)"

subsection \<open>Routes\<close>

text \<open>A route without a method serves every method.\<close>

record service_route =
  vtMethod :: "string option"
  vtPath :: string
  vtGates :: "service_gate list"
  vtHandler :: service_controller

definition on_path :: "string \<Rightarrow> string \<Rightarrow> service_gate list \<Rightarrow> service_controller \<Rightarrow> service_route" where
  "on_path meth path gates h =
     \<lparr>vtMethod = Some meth, vtPath = ''/api/v1'' @ path, vtGates = gates, vtHandler = h\<rparr>"

definition UserRoutes :: "service_route list" where
  "UserRoutes =
     [on_path ''GET'' ''/users/email/:email'' [InternalCall] getUserByEmailRoute,
      on_path ''GET'' ''/users/me'' [UserAuth []] getUserMe,
      on_path ''DELETE'' ''/users/me'' [UserAuth []] deleteMe,
      on_path ''GET'' ''/users/:id'' [UserAuth [ADMIN, SUPER_ADMIN]] getUserByIdRoute,
      on_path ''DELETE'' ''/users/:id'' [UserAuth [ADMIN, SUPER_ADMIN]] deleteUserRoute,
      on_path ''DELETE'' ''/users/:id/hard'' [UserAuth [SUPER_ADMIN]] hardDeleteUserRoute,
      on_path ''POST'' ''/users/:id/restore'' [InternalCall] restoreUserRoute]"

definition user_CustomerRoutes :: "service_route list" where
  "user_CustomerRoutes =
     [on_path ''POST'' ''/customers/profile'' [InternalCall, BodySchema customer_provisioningSchema] createCustomerProfileRoute,
      on_path ''POST'' ''/customers/me/become-seller'' [UserAuth [CUSTOMER], BodySchema becomeSellerSchema] becomeSellerRoute]"

definition user_SellerRoutes :: "service_route list" where
  "user_SellerRoutes =
     [on_path ''POST'' ''/sellers/profile'' [InternalCall, BodySchema seller_provisioningSchema] createSellerProfileRoute]"

text \<open>What lies below \<open>/dead-letters\<close> and is no route is refused without an admin session, and not found with one.\<close>

definition service_not_found :: service_controller where
  "service_not_found env q ps u s = (Inl (notFoundHandler (hqMethod q) (hqOriginalUrl q)), s)"

definition DeadLetterRoutes :: "service_route list" where
  "DeadLetterRoutes =
     [on_path ''GET'' ''/dead-letters'' [UserAuth [ADMIN, SUPER_ADMIN], BodySchema listQuery] listDeadLettersRoute,
      on_path ''POST'' ''/dead-letters/:id/redrive'' [UserAuth [ADMIN, SUPER_ADMIN]] redriveDeadLetterRoute,
      \<lparr>vtMethod = None, vtPath = ''/api/v1/dead-letters/*'', vtGates = [UserAuth [ADMIN, SUPER_ADMIN]],
       vtHandler = service_not_found\<rparr>]"

definition user_AdminRoutes :: "service_route list" where
  "user_AdminRoutes =
     [on_path ''POST'' ''/admins/profile'' [InternalCall, BodySchema admin_provisioningSchema] createAdminProfileRoute,
      on_path ''POST'' ''/admins/super-admin-profile'' [InternalCall, BodySchema admin_provisioningSchema]
        createSuperAdminProfileRoute]"

definition service_routes :: "service_route list" where
  "service_routes = UserRoutes @ user_CustomerRoutes @ user_SellerRoutes @ DeadLetterRoutes @ user_AdminRoutes"

definition service_serves :: "service_env \<Rightarrow> service_request \<Rightarrow> service_route \<Rightarrow> bool" where
  "service_serves env q r \<longleftrightarrow>
     (vtMethod r = None \<or> vtMethod r = Some (hqMethod q) \<or> vtMethod r = Some ''GET'' \<and> hqMethod q = ''HEAD'') \<and>
     seMatch env (vtPath r) (hqPath q) \<noteq> None"

definition service_run :: "service_env \<Rightarrow> service_request \<Rightarrow> service_route \<Rightarrow> service_reply us" where
  "service_run env q r s =
     (case service_gates env q (vtGates r) None of
        Inl e \<Rightarrow> (Inl e, s)
      | Inr u \<Rightarrow> vtHandler r env q (the (seMatch env (vtPath r) (hqPath q))) u s)"

definition service_sanitized :: "service_request \<Rightarrow> nat list \<Rightarrow> service_request \<times> nat list" where
  "service_sanitized q ps = (case sanitizationMiddleware True (hqBody q, hqQuery q) ps of
     ((body, query), ps) \<Rightarrow> (q\<lparr>hqBody := body\<rparr>, ps))"

text \<open>The routes \<open>/\<close> and \<open>/health\<close> are left out.\<close>

definition service_serve :: "service_env \<Rightarrow> service_request \<Rightarrow> service_reply us" where
  "service_serve env q s =
     (case service_sanitized q (usPositions s) of (q, ps) \<Rightarrow>
        (case find (service_serves env q) service_routes of
           None \<Rightarrow> (Inl (notFoundHandler (hqMethod q) (hqOriginalUrl q)), s\<lparr>usPositions := ps\<rparr>)
         | Some r \<Rightarrow> service_run env q r (s\<lparr>usPositions := ps\<rparr>)))"

end
