(* ===== verification/User_Http_Claims.thy ===== *)
theory User_Http_Claims
  imports User_Http User_Claims Otp_Claims
begin

text \<open>
  Who may change what through the user service: footprints of the operations as relations between databases, and
  the authority a request needs for them.
\<close>

subsection \<open>Footprints\<close>

text \<open>A relation between databases that looks at users and profiles alone. A program has the footprint when
  every run relates the database before to the one after.\<close>

locale footprint =
  fixes R :: "user_db \<Rightarrow> user_db \<Rightarrow> bool"
  assumes same_rows: "\<lbrakk>udUsers b = udUsers a; udCustomers b = udCustomers a; udSellers b = udSellers a; udAdmins b = udAdmins a\<rbrakk> \<Longrightarrow> R a b"
    and steps: "R a b \<Longrightarrow> R b c \<Longrightarrow> R a c"
begin

definition stays :: "'a uw \<Rightarrow> bool" where
  "stays f \<longleftrightarrow> (\<forall>w. R (uwDb w) (uwDb (snd (f w))))"

lemma refl: "R a a"
  by (rule same_rows) simp_all

lemma stays_on_ok: "\<lbrakk>stays f; \<And>x. stays (k x)\<rbrakk> \<Longrightarrow> stays (\<lambda>w. on_ok (f w) k)"
  unfolding stays_def
proof (intro allI)
  fix w
  assume f: "\<forall>w. R (uwDb w) (uwDb (snd (f w)))" and k: "\<And>x. \<forall>w. R (uwDb w) (uwDb (snd (k x w)))"
  show "R (uwDb w) (uwDb (snd (on_ok (f w) k)))"
    using f[rule_format, of w] k steps by (cases "(f w, k)" rule: on_ok.cases) auto
qed

lemma stays_transaction: "stays f \<Longrightarrow> stays (transaction f)"
  by (auto simp: stays_def transaction_def refl split: prod.splits sum.splits) (metis snd_conv)

lemma stays_const: "stays (\<lambda>w. (r, w))"
  by (simp add: stays_def refl)

lemma stays_reads:
  "stays (findUserById env i)" "stays (findUserByEmail env e)" "stays (existsByEmailIncludingDeleted e)"
  by (simp_all add: stays_def refl findUserById_def findUserByEmail_def existsByEmailIncludingDeleted_def)

lemma stays_rows: "stays (writeAuditLog p)" "stays (emit env ty agg payload)"
  by (simp_all add: stays_def same_rows writeAuditLog_def emit_def with_db_def)

lemma stays_if: "\<lbrakk>stays f; stays g\<rbrakk> \<Longrightarrow> stays (\<lambda>w. if b then f w else g w)"
  by (simp add: stays_def)

lemma stays_option: "\<lbrakk>stays f; \<And>x. stays (g x)\<rbrakk> \<Longrightarrow> stays (\<lambda>w. case v of None \<Rightarrow> f w | Some x \<Rightarrow> g x w)"
  by (cases v) simp_all

lemmas stays_intros = stays_on_ok stays_transaction stays_const stays_reads stays_rows stays_if stays_option

lemma stays_deleteUser:
  assumes "\<And>f n. \<lbrakk>\<And>u. uId (f u) = uId u; \<And>u. uRole (f u) = uRole u @ replicate n SELLER\<rbrakk> \<Longrightarrow> stays (update_user env i f)"
  shows "stays (deleteUser env i actor)"
proof -
  have soft: "stays (softDeleteUser env i b)" for b
  proof -
    have "stays (\<lambda>w. (Inr (), invalidate env k w))" for k by (simp add: stays_def invalidate_def refl)
    then show ?thesis unfolding softDeleteUser_def by (intro stays_on_ok assms[of _ 0]) simp_all
  qed
  have "stays (\<lambda>w. delete_tx env i actor u w)" for u
    unfolding delete_tx_def Let_def by (intro stays_intros soft)
  then show ?thesis unfolding deleteUser_def by (intro stays_intros)
qed

lemma stays_becomeSeller:
  assumes "stays (repo_createSellerProfile i (ppFirstName p) (ppLastName p) (ppPhone p) (ppBio p))"
    and "\<And>f n. \<lbrakk>\<And>u. uId (f u) = uId u; \<And>u. uRole (f u) = uRole u @ replicate n SELLER\<rbrakk> \<Longrightarrow> stays (update_user env i f)"
  shows "stays (becomeSeller env p i e)"
proof -
  have role: "stays (addRole env i SELLER)" unfolding addRole_def by (rule assms(2)[of _ 1]) simp_all
  have tx: "stays (\<lambda>w. become_seller_tx env p i e roles w)" for roles
    unfolding become_seller_tx_def by (intro stays_on_ok assms(1) role stays_rows)
  have again: "stays (\<lambda>w. on_ok (findUserById env i (invalidateUserCache env i e w)) k)" if "\<And>x. stays (k x)"
    for k :: "user_dto option \<Rightarrow> user_dto uw"
  proof -
    have "stays (\<lambda>w. findUserById env i (invalidateUserCache env i e w))"
      by (simp add: stays_def refl findUserById_def invalidateUserCache_def invalidate_def)
    then show ?thesis by (rule stays_on_ok) (rule that)
  qed
  show ?thesis
    unfolding becomeSeller_def by (intro stays_intros again tx)
qed

lemma stays_provision:
  assumes "stays (createUser env (piId p) (piEmail p) (piRole p))" "stays c"
  shows "stays (provisionAccount env p c)"
proof -
  have "stays (provision_tx env p c)"
    unfolding provision_tx_def by (intro stays_intros assms)
  then show ?thesis unfolding provisionAccount_def by (intro stays_intros)
qed

lemma stays_restore:
  assumes "\<And>f n. \<lbrakk>\<And>u. uId (f u) = uId u; \<And>u. uRole (f u) = uRole u @ replicate n SELLER\<rbrakk> \<Longrightarrow> stays (update_user env i f)"
  shows "stays (restoreUser env i actor)"
proof -
  have "stays (\<lambda>w. case find_user i (uwDb w) of None \<Rightarrow> (Inl record_not_found, w)
      | Some u \<Rightarrow> (Inr (dto_of (uwDb w) u), invalidate env (userProfileKey (uId u)) w))"
    by (auto simp: stays_def refl invalidate_def split: option.splits)
  then have repo: "stays (repo_restoreUser env i)"
    unfolding repo_restoreUser_def by (intro stays_on_ok assms[of _ 0]) simp_all
  have "stays (\<lambda>w. case found of None \<Rightarrow> (Inl user_not_found, w)
      | Some raw \<Rightarrow> (case uDeletedAt raw of
          None \<Rightarrow> (Inl (AppErr (BadRequestError ''Account is not restorable'' (Some ''id''))), w)
        | Some t \<Rightarrow>
            if ueNow env > restore_deadline t (uDeletedBy raw)
            then (Inl (AppErr (BadRequestError ''Restore window expired'' (Some ''id''))), w)
            else
              on_ok (repo_restoreUser env i w) (\<lambda>user w.
              on_ok (writeAuditLog (system_audit actor ''USER_RESTORED'' i None
                       (Some (identity_values user)) None None) w) (\<lambda>_ w.
              on_ok (transaction (emit env USER_RESTORED i
                       (JObj [(''userId'', JStr i), (''email'', JStr (dtoEmail user))])) w) (\<lambda>_ w.
              (Inr user, w))))))" for found
    by (intro stays_intros repo)
  note each = this[unfolded stays_def, rule_format]
  show ?thesis unfolding stays_def restoreUser_def by (rule allI) (rule each)
qed

end

subsection \<open>Three footprints\<close>

text \<open>The rows of one account.\<close>

definition account :: "string \<Rightarrow> user_db \<Rightarrow> user_row list \<times> customer_profile list \<times> seller_profile list \<times> admin_profile list" where
  "account i db = (filter (\<lambda>u. uId u = i) (udUsers db), filter (\<lambda>p. cpUserId p = i) (udCustomers db),
     filter (\<lambda>p. spUserId p = i) (udSellers db), filter (\<lambda>p. apUserId p = i) (udAdmins db))"

definition account_ids :: "user_db \<Rightarrow> string set" where
  "account_ids db = uId ` set (udUsers db)"

definition roles_of :: "string \<Rightarrow> user_db \<Rightarrow> role list list" where
  "roles_of i db = List.map uRole (filter (\<lambda>u. uId u = i) (udUsers db))"

definition others_kept :: "string \<Rightarrow> user_db \<Rightarrow> user_db \<Rightarrow> bool" where
  "others_kept j a b \<longleftrightarrow> (\<forall>i. i \<noteq> j \<longrightarrow> account i b = account i a)"

definition none_lost :: "user_db \<Rightarrow> user_db \<Rightarrow> bool" where
  "none_lost a b \<longleftrightarrow> account_ids a \<subseteq> account_ids b"

text \<open>Every account stays, and its roles grow at most by \<open>SELLER\<close>.\<close>

definition sellers_at_most :: "user_db \<Rightarrow> user_db \<Rightarrow> bool" where
  "sellers_at_most a b \<longleftrightarrow> none_lost a b \<and>
     (\<forall>i \<in> account_ids a. \<exists>n. roles_of i b = List.map (\<lambda>rs. rs @ replicate n SELLER) (roles_of i a))"

lemma sellers_at_most_same:
  assumes "account_ids a \<subseteq> account_ids b" "\<And>i. i \<in> account_ids a \<Longrightarrow> roles_of i b = roles_of i a"
  shows "sellers_at_most a b"
  unfolding sellers_at_most_def none_lost_def
proof (intro conjI ballI)
  fix i assume "i \<in> account_ids a"
  then have "roles_of i b = List.map (\<lambda>rs. rs @ replicate 0 SELLER) (roles_of i a)" using assms(2) by simp
  then show "\<exists>n. roles_of i b = List.map (\<lambda>rs. rs @ replicate n SELLER) (roles_of i a)" ..
qed (rule assms(1))

lemma sellers_at_most_users: "udUsers b = udUsers a \<Longrightarrow> sellers_at_most a b"
  by (rule sellers_at_most_same) (simp_all add: account_ids_def roles_of_def)

interpretation others: footprint "others_kept j" for j
  by unfold_locales (simp_all add: others_kept_def account_def)

interpretation roles: footprint sellers_at_most
proof
  fix a b c :: user_db
  assume ab: "sellers_at_most a b" and bc: "sellers_at_most b c"
  show "sellers_at_most a c"
    unfolding sellers_at_most_def
  proof (intro conjI ballI)
    show "none_lost a c" using ab bc by (auto simp: sellers_at_most_def none_lost_def)
    fix i assume i: "i \<in> account_ids a"
    obtain n where n: "roles_of i b = List.map (\<lambda>rs. rs @ replicate n SELLER) (roles_of i a)"
      using ab i by (auto simp: sellers_at_most_def)
    have "i \<in> account_ids b" using ab i by (auto simp: sellers_at_most_def none_lost_def)
    then obtain m where "roles_of i c = List.map (\<lambda>rs. rs @ replicate m SELLER) (roles_of i b)"
      using bc by (auto simp: sellers_at_most_def)
    then have "roles_of i c = List.map (\<lambda>rs. rs @ replicate (n + m) SELLER) (roles_of i a)"
      by (simp add: n replicate_add)
    then show "\<exists>n. roles_of i c = List.map (\<lambda>rs. rs @ replicate n SELLER) (roles_of i a)" ..
  qed
qed (rule sellers_at_most_users)

subsection \<open>The writes\<close>

lemma filter_update_where:
  assumes "\<And>x. q x \<Longrightarrow> \<not> p x \<and> \<not> p (f x)"
  shows "filter p (update_where q f xs) = filter p xs"
  using assms by (induction xs) (auto simp: update_where_def)

lemma others_update: "(\<And>u. uId (f u) = uId u) \<Longrightarrow> footprint.stays (others_kept j) (update_user env j f)"
  by (auto simp: footprint.stays_def[OF others.footprint_axioms] update_user_def with_db_def others_kept_def account_def
      intro!: filter_update_where)

lemma others_seller: "footprint.stays (others_kept j) (repo_createSellerProfile j fn sn ph bio)"
  by (simp add: footprint.stays_def[OF others.footprint_axioms] repo_createSellerProfile_def with_db_def others_kept_def
      account_def Let_def)

lemma update_ids: "(\<And>u. uId (f u) = uId u) \<Longrightarrow> account_ids (uwDb (snd (update_user env i f w))) = account_ids (uwDb w)"
  by (simp add: account_ids_def update_user_def with_db_def set_map[symmetric] map_update_where_same del: set_map)

lemma filter_map_update:
  assumes "\<And>x. q x \<Longrightarrow> p x" "\<And>x. p x \<Longrightarrow> q x \<Longrightarrow> p (f x)"
  shows "filter p (update_where q f xs) = update_where q f (filter p xs)"
  using assms by (induction xs) (auto simp: update_where_def)

lemma update_roles:
  assumes "\<And>u. uId (f u) = uId u" "\<And>u. uRole (f u) = uRole u @ replicate n SELLER"
  shows "footprint.stays sellers_at_most (update_user env i f)"
proof -
  define g where "g = (\<lambda>u. (f u)\<lparr>uUpdatedAt := ueNow env\<rparr>)"
  have same: "roles_of k (db\<lparr>udUsers := update_where (\<lambda>u. uId u = i) g (udUsers db)\<rparr>) =
      List.map (\<lambda>rs. rs @ replicate (if k = i then n else 0) SELLER) (roles_of k db)" for k db
  proof (cases "k = i")
    case True
    have "List.map uRole (filter (\<lambda>u. uId u = i) (update_where (\<lambda>u. uId u = i) g us)) =
        List.map (\<lambda>rs. rs @ replicate n SELLER) (List.map uRole (filter (\<lambda>u. uId u = i) us))" for us
      using assms by (induction us) (auto simp: update_where_def g_def)
    then show ?thesis using True by (simp add: roles_of_def)
  next
    case False
    have "filter (\<lambda>u. uId u = k) (update_where (\<lambda>u. uId u = i) g us) = filter (\<lambda>u. uId u = k) us" for us
      using False assms(1) by (intro filter_update_where) (simp add: g_def)
    then show ?thesis using False by (simp add: roles_of_def)
  qed
  have "sellers_at_most (uwDb w) (uwDb (snd (update_user env i f w)))" for w
  proof (cases "i \<in> uId ` set (udUsers (uwDb w))")
    case True
    then have "uwDb (snd (update_user env i f w)) = (uwDb w)\<lparr>udUsers := update_where (\<lambda>u. uId u = i) g (udUsers (uwDb w))\<rparr>"
      by (simp add: update_user_def with_db_def g_def)
    then show ?thesis
      using update_ids[OF assms(1), of env i w] same[of _ "uwDb w"] by (auto simp: sellers_at_most_def none_lost_def)
  qed (simp add: update_user_def roles.refl)
  then show ?thesis by (simp add: roles.stays_def)
qed

lemma create_roles: "footprint.stays sellers_at_most (createUser env i e r)"
proof -
  have "sellers_at_most db (db\<lparr>udUsers := udUsers db @ [u]\<rparr>)" if "uId u \<notin> account_ids db" for db u
    using that by (intro sellers_at_most_same) (auto simp: roles_of_def account_ids_def)
  then show ?thesis
    by (auto simp: roles.stays_def createUser_def with_db_def Let_def roles.refl account_ids_def[symmetric])
qed

lemma profile_roles: "profile_write f \<Longrightarrow> footprint.stays sellers_at_most f"
  unfolding roles.stays_def profile_write_def by (intro allI sellers_at_most_users) simp

subsection \<open>The operations\<close>

abbreviation roles_stay :: "'a uw \<Rightarrow> bool" where
  "roles_stay \<equiv> footprint.stays sellers_at_most"

lemma roles_provision:
  "roles_stay (createCustomerProfile env p a ip ua)" "roles_stay (createSellerProfile env p a ip ua)"
  "roles_stay (createAdminProfile env p a ip ua)" "roles_stay (createSuperAdminProfile env p a ip ua)"
  unfolding createCustomerProfile_def createSellerProfile_def createAdminProfile_def createSuperAdminProfile_def
  by (intro roles.stays_provision create_roles profile_roles profile_writes)+

lemma roles_changes:
  "roles_stay (deleteUser env i a)" "roles_stay (restoreUser env i a)" "roles_stay (becomeSeller env p i e)"
  by (rule roles.stays_deleteUser roles.stays_restore roles.stays_becomeSeller;
      (rule update_roles | rule profile_roles, rule profile_writes); assumption?)+

lemma others_changes:
  "footprint.stays (others_kept j) (deleteUser env j a)" "footprint.stays (others_kept j) (becomeSeller env p j e)"
  by (rule others.stays_deleteUser others.stays_becomeSeller; (rule others_seller | rule others_update); assumption?)+

lemma hard_delete_db:
  "uwDb (snd (hardDeleteUser env i a w)) = uwDb w \<or>
   (others_kept i (uwDb w) (uwDb (snd (hardDeleteUser env i a w))) \<and>
    (\<forall>k. k \<noteq> i \<longrightarrow> roles_of k (uwDb (snd (hardDeleteUser env i a w))) = roles_of k (uwDb w)) \<and>
    i \<notin> account_ids (uwDb (snd (hardDeleteUser env i a w))))"
proof -
  obtain r w1 where f: "findUserById env i w = (Inr r, w1)" using findUserById_ok by blast
  have db: "uwDb w1 = uwDb w" by (rule findUserById_db[OF f])
  show ?thesis
  proof (cases r)
    case None
    then show ?thesis using f db by (simp add: hardDeleteUser_def)
  next
    case (Some user)
    have gone: "others_kept i a b" "i \<notin> account_ids b" "k \<noteq> i \<Longrightarrow> roles_of k b = roles_of k a"
      if "udUsers b = filter (\<lambda>u. uId u \<noteq> i) (udUsers a)" "udCustomers b = filter (\<lambda>p. cpUserId p \<noteq> i) (udCustomers a)"
        "udSellers b = filter (\<lambda>p. spUserId p \<noteq> i) (udSellers a)" "udAdmins b = filter (\<lambda>p. apUserId p \<noteq> i) (udAdmins a)"
      for a b k
      using that
      by (auto simp: others_kept_def account_def account_ids_def roles_of_def conj_commute intro!: filter_cong arg_cong[where f = "List.map uRole"])
    then show ?thesis
      using f db Some
      by (auto simp: hardDeleteUser_def transaction_def repo_hardDeleteUser_def writeAuditLog_def with_db_def split: if_splits)
  qed
qed

subsection \<open>Authority\<close>

text \<open>Rows of an account change behind an internal signature, the session of the account or an admin session;
  an account vanishes behind a super admin session; roles grow by \<open>SELLER\<close> alone.\<close>

definition authorised :: "service_env \<Rightarrow> service_request \<Rightarrow> user_db \<Rightarrow> user_db \<Rightarrow> bool" where
  "authorised env q a b \<longleftrightarrow>
     (\<forall>i. account i b \<noteq> account i a \<longrightarrow> internal_call env q = Inr () \<or>
        (\<exists>u. service_session env [] q = Inr u \<and> (uqId u = Some i \<or> list_ex admin_role (uqRole u)))) \<and>
     (\<forall>i \<in> account_ids a - account_ids b. \<exists>u. service_session env [] q = Inr u \<and> SUPER_ADMIN \<in> set (uqRole u)) \<and>
     (\<forall>i \<in> account_ids a \<inter> account_ids b. \<exists>n. roles_of i b = List.map (\<lambda>rs. rs @ replicate n SELLER) (roles_of i a))"

lemma none_vanishes: "sellers_at_most a b \<Longrightarrow> i \<in> account_ids a - account_ids b \<Longrightarrow> P"
  by (auto simp: sellers_at_most_def none_lost_def)

lemma roles_kept: "sellers_at_most a b \<Longrightarrow> i \<in> account_ids a \<inter> account_ids b \<Longrightarrow>
    \<exists>n. roles_of i b = List.map (\<lambda>rs. rs @ replicate n SELLER) (roles_of i a)"
  by (auto simp: sellers_at_most_def)

lemma authorisedI:
  assumes "\<And>i. account i b \<noteq> account i a \<Longrightarrow> internal_call env q = Inr () \<or>
      (\<exists>u. service_session env [] q = Inr u \<and> (uqId u = Some i \<or> list_ex admin_role (uqRole u)))"
    and "sellers_at_most a b"
  shows "authorised env q a b"
  unfolding authorised_def using assms(1) none_vanishes[OF assms(2)] roles_kept[OF assms(2)] by (intro conjI allI impI ballI)

lemma authorised_internal: "\<lbrakk>internal_call env q = Inr (); sellers_at_most a b\<rbrakk> \<Longrightarrow> authorised env q a b"
  by (rule authorisedI) simp_all

lemma authorised_read: "b = a \<Longrightarrow> authorised env q a b"
  by (rule authorisedI) (simp_all add: roles.refl)

lemma authorised_refl [simp]: "authorised env q a a"
  by (rule authorised_read) simp

lemma authorised_own:
  "\<lbrakk>service_session env [] q = Inr u; uqId u = Some j; others_kept j a b; sellers_at_most a b\<rbrakk> \<Longrightarrow> authorised env q a b"
  by (rule authorisedI) (auto simp: others_kept_def)

lemma authorised_admin:
  "\<lbrakk>service_session env [] q = Inr u; list_ex admin_role (uqRole u); sellers_at_most a b\<rbrakk> \<Longrightarrow> authorised env q a b"
  by (rule authorisedI) simp_all

lemma service_session_roles:
  assumes "service_session env rs q = Inr u"
  shows "service_session env [] q = Inr u" "rs \<noteq> [] \<Longrightarrow> list_ex (\<lambda>r. r \<in> set rs) (uqRole u)"
  using assms by (auto simp: service_session_def user_auth_def Let_def split: if_splits sum.splits)

lemma admin_session:
  assumes "service_session env rs q = Inr u" "rs = [ADMIN, SUPER_ADMIN] \<or> rs = [SUPER_ADMIN]"
  shows "service_session env [] q = Inr u" "list_ex admin_role (uqRole u)" "rs = [SUPER_ADMIN] \<Longrightarrow> SUPER_ADMIN \<in> set (uqRole u)"
  using service_session_roles[OF assms(1)] assms(2) by (auto simp: list_ex_iff admin_role_def)

lemma authorised_hard:
  assumes "service_session env [SUPER_ADMIN] q = Inr u"
  shows "authorised env q (uwDb w) (uwDb (snd (hardDeleteUser e i a w)))"
proof -
  have s: "service_session env [] q = Inr u" "list_ex admin_role (uqRole u)" "SUPER_ADMIN \<in> set (uqRole u)"
    using admin_session[OF assms] by simp_all
  let ?b = "uwDb (snd (hardDeleteUser e i a w))"
  have "\<exists>n. roles_of k ?b = List.map (\<lambda>rs. rs @ replicate n SELLER) (roles_of k (uwDb w))"
    if "k \<in> account_ids (uwDb w) \<inter> account_ids ?b" for k
  proof -
    have "roles_of k ?b = roles_of k (uwDb w)" using hard_delete_db[of e i a w] that by (metis IntD2)
    then have "roles_of k ?b = List.map (\<lambda>rs. rs @ replicate 0 SELLER) (roles_of k (uwDb w))" by simp
    then show ?thesis ..
  qed
  then show ?thesis using s unfolding authorised_def by blast
qed

subsection \<open>The routes of the user service\<close>

definition server_db :: "user_server \<Rightarrow> user_db" where
  "server_db s = uwDb (usWorld s)"

definition route_authorised :: "service_route \<Rightarrow> bool" where
  "route_authorised r \<longleftrightarrow> (\<forall>env q ps u s. service_gates env q (vtGates r) None = Inr u \<longrightarrow>
     authorised env q (server_db s) (server_db (snd (vtHandler r env q ps u s))))"

lemma server_on_users: "server_db (snd (on_users f s)) = uwDb (snd (f (usWorld s)))"
  by (simp add: server_db_def on_users_def split_beta)

lemma server_answer:
  assumes "\<And>x s. server_db (snd (k x s)) = server_db s"
  shows "server_db (snd (on_ok r k)) = server_db (snd r)"
  using assms by (cases "(r, k)" rule: on_ok.cases) auto

lemma answers_keep [simp]:
  "server_db (snd (user_sendResponse c b m d s)) = server_db s" "server_db (snd (user_or_404 r s)) = server_db s"
  by (simp_all add: user_sendResponse_def user_or_404_def split: option.split)

lemma on_users_answer:
  "server_db (snd (on_ok (on_users f s) (\<lambda>x. user_sendResponse c b m (d x)))) = uwDb (snd (f (usWorld s)))"
  "server_db (snd (on_ok (on_users g s) user_or_404)) = uwDb (snd (g (usWorld s)))"
  by (subst server_answer; simp add: server_on_users)+

lemmas answers_world = on_users_answer[unfolded server_db_def] answers_keep[unfolded server_db_def]

lemma reads_db: "uwDb (snd (getUserById env i w)) = uwDb w" "uwDb (snd (getUserByEmail env e w)) = uwDb w"
  by (simp_all add: getUserById_def getUserByEmail_def findUserById_def findUserByEmail_def)

lemma roles_stay_run: "roles_stay f \<Longrightarrow> sellers_at_most (uwDb w) (uwDb (snd (f w)))"
  by (simp add: roles.stays_def)

lemma others_stay_run: "footprint.stays (others_kept j) f \<Longrightarrow> others_kept j (uwDb w) (uwDb (snd (f w)))"
  by (simp add: footprint.stays_def[OF others.footprint_axioms])

lemma answered:
  "roles_stay f \<Longrightarrow> sellers_at_most (server_db s) (server_db (snd (on_ok (on_users f s) (\<lambda>x. user_sendResponse c b m (d x)))))"
  "footprint.stays (others_kept j) f \<Longrightarrow>
     others_kept j (server_db s) (server_db (snd (on_ok (on_users f s) (\<lambda>x. user_sendResponse c b m (d x)))))"
  unfolding on_users_answer by (simp_all only: server_db_def roles_stay_run others_stay_run)

lemma reading_routes:
  "route_authorised (on_path m path gs getUserByEmailRoute)" "route_authorised (on_path m path gs getUserByIdRoute)"
  "route_authorised (on_path m path gs getUserMe)" "route_authorised (on_path m path gs listDeadLettersRoute)"
  "route_authorised (on_path m path gs redriveDeadLetterRoute)"
  "route_authorised \<lparr>vtMethod = None, vtPath = path, vtGates = gs, vtHandler = service_not_found\<rparr>"
  unfolding route_authorised_def on_path_def
  by (auto simp: getUserByEmailRoute_def getUserByIdRoute_def getUserMe_def listDeadLettersRoute_def redriveDeadLetterRoute_def
      service_not_found_def with_own_id_def answers_world reads_db server_db_def
      intro!: authorised_read split: option.split sum.split prod.split)

lemma provisioning_routes:
  assumes "InternalCall = hd gs" "gs \<noteq> []"
  shows "route_authorised (on_path m path gs createCustomerProfileRoute)" "route_authorised (on_path m path gs createSellerProfileRoute)"
    "route_authorised (on_path m path gs createAdminProfileRoute)" "route_authorised (on_path m path gs createSuperAdminProfileRoute)"
    "route_authorised (on_path m path gs restoreUserRoute)"
proof -
  obtain rest where gs: "gs = InternalCall # rest" using assms by (cases gs) auto
  have internal: "internal_call env q = Inr ()" if "service_gates env q gs None = Inr u" for env q u
    using that by (auto simp: gs split: sum.splits)
  show "route_authorised (on_path m path gs createCustomerProfileRoute)" "route_authorised (on_path m path gs createSellerProfileRoute)"
    "route_authorised (on_path m path gs createAdminProfileRoute)" "route_authorised (on_path m path gs createSuperAdminProfileRoute)"
    "route_authorised (on_path m path gs restoreUserRoute)"
    unfolding route_authorised_def on_path_def
    by (auto simp: createCustomerProfileRoute_def createSellerProfileRoute_def createAdminProfileRoute_def
        createSuperAdminProfileRoute_def provision_route_def restoreUserRoute_def split_beta Let_def
        dest!: internal intro!: authorised_internal answered roles_provision roles_changes)
qed

lemma own_routes:
  assumes "gs = UserAuth rs # rest" "list_all (\<lambda>g. case g of UserAuth _ \<Rightarrow> False | _ \<Rightarrow> True) rest"
  shows "route_authorised (on_path m path gs deleteMe)" "route_authorised (on_path m path gs becomeSellerRoute)"
proof -
  have keep: "service_gates env q rest (Some x) = Inr u \<Longrightarrow> u = Some x" for env q x u
    using assms(2)
  proof (induction rest)
    case (Cons g rest)
    then show ?case by (cases g) (auto split: sum.splits if_splits)
  qed simp
  have session: "\<exists>x. u = Some x \<and> service_session env [] q = Inr x" if "service_gates env q gs None = Inr u" for env q u
    using that by (auto simp: assms(1) dest!: keep split: sum.splits intro: service_session_roles(1))
  show "route_authorised (on_path m path gs deleteMe)" "route_authorised (on_path m path gs becomeSellerRoute)"
    unfolding route_authorised_def on_path_def
    by (auto simp: deleteMe_def becomeSellerRoute_def with_own_id_def dest!: session split: option.split
        intro!: authorised_own answered roles_changes others_changes)
qed

lemma admin_routes:
  "route_authorised (on_path m path [UserAuth [ADMIN, SUPER_ADMIN]] deleteUserRoute)"
  "route_authorised (on_path m path [UserAuth [SUPER_ADMIN]] hardDeleteUserRoute)"
proof -
  have "authorised env q (server_db s) (server_db (snd (deleteUserRoute env q ps u s)))"
    if "service_session env [ADMIN, SUPER_ADMIN] q = Inr x" for env q ps u s x
    using admin_session(1,2)[OF that] unfolding deleteUserRoute_def by (intro authorised_admin[of env q x] answered roles_changes) simp_all
  then show "route_authorised (on_path m path [UserAuth [ADMIN, SUPER_ADMIN]] deleteUserRoute)"
    by (auto simp: route_authorised_def on_path_def split: sum.splits)
  have "authorised env q (server_db s) (server_db (snd (hardDeleteUserRoute env q ps u s)))"
    if "service_session env [SUPER_ADMIN] q = Inr x" for env q ps u s x
    unfolding hardDeleteUserRoute_def on_users_answer unfolding server_db_def by (rule authorised_hard[OF that])
  then show "route_authorised (on_path m path [UserAuth [SUPER_ADMIN]] hardDeleteUserRoute)"
    by (auto simp: route_authorised_def on_path_def split: sum.splits)
qed

lemma all_routes_authorised: "list_all route_authorised service_routes"
  by (simp add: service_routes_def UserRoutes_def user_CustomerRoutes_def user_SellerRoutes_def DeadLetterRoutes_def
      user_AdminRoutes_def reading_routes provisioning_routes own_routes admin_routes)

lemma service_authorised:
  "authorised env (fst (service_sanitized q (usPositions s))) (server_db s) (server_db (snd (service_serve env q s)))"
proof -
  obtain q2 ps where sq: "service_sanitized q (usPositions s) = (q2, ps)" by force
  have pos: "server_db (s\<lparr>usPositions := ps\<rparr>) = server_db s" by (simp add: server_db_def)
  show ?thesis
  proof (cases "find (service_serves env q2) service_routes")
    case None
    then show ?thesis by (simp add: service_serve_def sq pos authorised_read)
  next
    case (Some r)
    then have auth: "route_authorised r" using all_routes_authorised by (auto simp: find_Some_iff list_all_iff)
    show ?thesis
    proof (cases "service_gates env q2 (vtGates r) None")
      case (Inl e)
      then show ?thesis using Some by (simp add: service_serve_def sq service_run_def pos authorised_read)
    next
      case (Inr u)
      then show ?thesis
        using Some auth unfolding route_authorised_def
        by (simp add: service_serve_def sq service_run_def) (metis pos)
    qed
  qed
qed

text \<open>C9: Whatever the request to the user service: the rows of an account (user and profiles) change only behind a
  valid internal signature, the session of that very account, or an admin session; an account vanishes only behind a
  super admin session; and no request, internal ones included, gives an existing account any role but \<open>SELLER\<close>.\<close>

theorem accounts_change_by_authority:
  fixes env q s
  defines "q' \<equiv> fst (service_sanitized q (usPositions s))"
    and "a \<equiv> server_db s" and "b \<equiv> server_db (snd (service_serve env q s))"
  shows "(account i b \<noteq> account i a \<longrightarrow> internal_call env q' = Inr () \<or>
      (\<exists>u. service_session env [] q' = Inr u \<and> (uqId u = Some i \<or> list_ex admin_role (uqRole u)))) \<and>
    (i \<in> account_ids a - account_ids b \<longrightarrow> (\<exists>u. service_session env [] q' = Inr u \<and> SUPER_ADMIN \<in> set (uqRole u))) \<and>
    (i \<in> account_ids a \<inter> account_ids b \<longrightarrow>
      (\<exists>n. roles_of i b = List.map (\<lambda>rs. rs @ replicate n SELLER) (roles_of i a)))"
  using service_authorised[of env q s] unfolding authorised_def q'_def a_def b_def by (intro conjI) blast+

subsection \<open>A customer leaves\<close>

definition user_crypto :: auth_crypto where
  "user_crypto = demo_crypto\<lparr>jwtVerify := (\<lambda>t k now. Inr \<lparr>jwId = Some t, jwEmail = ''a@b.c'', jwRole = [CUSTOMER],
     jwActiveRole = Some CUSTOMER, jwFamilyId = None, jwTokenType = Some ''access''\<rparr>)\<rparr>"

definition demo_service :: service_env where
  "demo_service = \<lparr>seUser = \<lparr>ueCache = \<lparr>ceClock = \<lambda>n. 5, ceRedisFault = \<lambda>n. None\<rparr>, ueNow = 7, ueUuid = ''e1'',
       ueRowUuid = ''r1'', ueParseDate = (\<lambda>_. 0)\<rparr>,
     seDead = \<lparr>deNow = 7, deUuid = ''d1'', deDb = None, deConn = None, deSend = SendOk\<rparr>,
     seCrypto = user_crypto, seAccessSecret = ''a'', seInternalSecret = ''i'',
     seFormats = \<lparr>isUuid = (\<lambda>_. True), isEmail = (\<lambda>_. True), isDatetime = (\<lambda>_. True)\<rparr>, seIsUrl = (\<lambda>_. True),
     seMatch = (\<lambda>pat path. if pat = path then Some (\<lambda>_. '''') else None), seZodError = (\<lambda>_. NonError),
     seToDate = (\<lambda>_. None), seToNumber = (\<lambda>_. NaN), seParse = (\<lambda>_. None), seKafka = False\<rparr>"

definition delete_me :: "string \<Rightarrow> service_request" where
  "delete_me token = \<lparr>hqMethod = ''DELETE'', hqPath = ''/api/v1/users/me'', hqOriginalUrl = ''/api/v1/users/me'', hqBody = None,
     hqQuery = [], hqAccessCookie = Some token, hqRefreshCookie = None, hqAuthorization = None, hqClientType = None,
     hqForwardedFor = None, hqRemoteAddress = None, hqUserAgent = None, srSignature = None, srTimestamp = None\<rparr>"

definition one_customer :: user_server where
  "one_customer = \<lparr>usWorld = empty_user_world\<lparr>uwDb := (uwDb empty_user_world)\<lparr>udUsers :=
     [\<lparr>uId = ''u1'', uEmail = ''a@b.c'', uRole = [CUSTOMER], uIsActive = True, uIsBlocked = False,
       uIsDeleted = False, uDeletedAt = None, uDeletedBy = None, uCreatedAt = 0, uUpdatedAt = 0\<rparr>]\<rparr>\<rparr>,
     usDead = \<lparr>dwRows = [], dwBus = createEventBus\<rparr>, usPositions = fresh_positions\<rparr>"

lemma accounts_change_by_authority_witness:
  "account ''u1'' (server_db (snd (service_serve demo_service (delete_me ''u1'') one_customer))) \<noteq> account ''u1'' (server_db one_customer) \<and>
   (\<exists>u. service_session demo_service [] (delete_me ''u1'') = Inr u \<and> (uqId u = Some ''u1'' \<or> list_ex admin_role (uqRole u)))"
proof -
  have "List.map uIsDeleted (udUsers (server_db (snd (service_serve demo_service (delete_me ''u1'') one_customer)))) = [True]"
    "List.map uId (udUsers (server_db (snd (service_serve demo_service (delete_me ''u1'') one_customer)))) = [''u1'']"
    "fst (account ''u1'' (server_db one_customer)) = udUsers (server_db one_customer)"
    "List.map uIsDeleted (udUsers (server_db one_customer)) = [False]"
    by code_simp+
  then have changed: "account ''u1'' (server_db (snd (service_serve demo_service (delete_me ''u1'') one_customer))) \<noteq>
      account ''u1'' (server_db one_customer)"
    by (auto simp: account_def Cons_eq_map_conv map_eq_Cons_conv)
  have "fst (service_sanitized (delete_me ''u1'') (usPositions one_customer)) = delete_me ''u1''"
    "internal_call demo_service (delete_me ''u1'') = Inl (unauthorized ''Missing internal service credentials'')"
    by code_simp+
  then show ?thesis
    using accounts_change_by_authority[of "''u1''" demo_service "delete_me ''u1''" one_customer] changed by simp
qed

end
