(* ===== verification/Session_Refinement.thy ===== *)
theory Session_Refinement
  imports Session_Claims
begin

text \<open>
  What the refresh token store promises: a map from sessions (credential and family) to the hash of the one token
  that is good, with the time it ends. The Redis commands of \<open>repositories/refreshToken.ts\<close> implement it, whatever
  the rest of the service writes under keys of its own. Ids hold no colon (credential ids and families are UUIDs).
\<close>

subsection \<open>Calls\<close>

datatype session_call =
    Issue auth_env jwt_claims string "string option"
  | Rotate auth_env string string string jwt_claims
  | RevokeFamily string string
  | RevokeAll string
  | Logout auth_env "string option"
  | OtherWrite auth_env string int "auth_value js_text"
  | OtherDelete string

text \<open>The answer of a call: the token handed out, if any.\<close>

fun session_do :: "session_call \<Rightarrow> auth_world \<Rightarrow> string option \<times> auth_world" where
  "session_do (Issue env p i fam) w = (case issueRefreshToken env p i fam w of ((token, f), w') \<Rightarrow> (Some token, w'))"
| "session_do (Rotate env i fam expected p) w =
     (case rotateRefreshToken env i fam expected p w of (r, w') \<Rightarrow> (map_option fst r, w'))"
| "session_do (RevokeFamily i fam) w = (None, revokeTokenFamily i fam w)"
| "session_do (RevokeAll i) w = (None, revokeAllRefreshTokens i w)"
| "session_do (Logout env token) w = (None, revokeRefreshToken env token w)"
| "session_do (OtherWrite env k secs v) w = (None, r_setex env k secs v w)"
| "session_do (OtherDelete k) w = (None, r_del [k] w)"

fun session_run :: "session_call list \<Rightarrow> auth_world \<Rightarrow> string option list \<times> auth_world" where
  "session_run [] w = ([], w)"
| "session_run (c # cs) w =
     (case session_do c w of (a, w) \<Rightarrow> (case session_run cs w of (as', w) \<Rightarrow> (a # as', w)))"

subsection \<open>The specification\<close>

type_synonym sessions = "string \<times> string \<Rightarrow> (string \<times> time option) option"

definition good_now :: "time \<Rightarrow> string \<times> string \<Rightarrow> sessions \<Rightarrow> string option" where
  "good_now now s S = (case S s of None \<Rightarrow> None | Some (h, e) \<Rightarrow> if live now e then Some h else None)"

definition week :: time where "week = 604800000"

definition start_session :: "auth_env \<Rightarrow> string \<times> string \<Rightarrow> string \<Rightarrow> sessions \<Rightarrow> sessions" where
  "start_session env s token S = S(s \<mapsto> (sha256 (aeCrypto env) token, Some (aeNow env + week)))"

fun spec_do :: "session_call \<Rightarrow> sessions \<Rightarrow> string option \<times> sessions" where
  "spec_do (Issue env p i fam) S =
     (let f = (case fam of None \<Rightarrow> aeFamily env | Some f \<Rightarrow> f); token = signRefreshToken env p f
      in (Some token, start_session env (i, f) token S))"
| "spec_do (Rotate env i fam expected p) S =
     (if good_now (aeNow env) (i, fam) S = Some expected
      then (Some (signRefreshToken env p fam), start_session env (i, fam) (signRefreshToken env p fam) S) else (None, S))"
| "spec_do (RevokeFamily i fam) S = (None, S((i, fam) := None))"
| "spec_do (RevokeAll i) S = (None, \<lambda>(j, f). if j = i then None else S (j, f))"
| "spec_do (Logout env token) S =
     (None, case (case token of None \<Rightarrow> None | Some t \<Rightarrow> jwtDecode (aeCrypto env) t) of
        None \<Rightarrow> S
      | Some c \<Rightarrow> if str_truthy (jwId c) \<and> str_truthy (jwFamilyId c) then S((the (jwId c), the (jwFamilyId c)) := None) else S)"
| "spec_do (OtherWrite env k secs v) S = (None, S)"
| "spec_do (OtherDelete k) S = (None, S)"

fun spec_run :: "session_call list \<Rightarrow> sessions \<Rightarrow> string option list \<times> sessions" where
  "spec_run [] S = ([], S)"
| "spec_run (c # cs) S = (case spec_do c S of (a, S) \<Rightarrow> (case spec_run cs S of (as', S) \<Rightarrow> (a # as', S)))"

subsection \<open>The abstraction\<close>

definition colon_free :: "string \<Rightarrow> bool" where
  "colon_free s \<longleftrightarrow> CHR '':'' \<notin> set s"

definition sessions_of :: "auth_world \<Rightarrow> sessions" where
  "sessions_of w = (\<lambda>(i, f). if colon_free i \<and> colon_free f
     then (case rdMap (awRedis w) (refreshKey i f) of
        None \<Rightarrow> None | Some (t, e) \<Rightarrow> map_option (\<lambda>h. (h, e)) (stored_hash_of t))
     else None)"

definition session_key :: "string \<Rightarrow> bool" where
  "session_key k \<longleftrightarrow> is_prefix_of ''auth:refresh:'' k"

fun well_formed :: "session_call \<Rightarrow> bool" where
  "well_formed (Issue env p i fam) = (colon_free i \<and> colon_free (case fam of None \<Rightarrow> aeFamily env | Some f \<Rightarrow> f))"
| "well_formed (Rotate env i fam expected p) = (colon_free i \<and> colon_free fam)"
| "well_formed (RevokeFamily i fam) = (colon_free i \<and> colon_free fam)"
| "well_formed (RevokeAll i) = colon_free i"
| "well_formed (Logout env token) =
     (case (case token of None \<Rightarrow> None | Some t \<Rightarrow> jwtDecode (aeCrypto env) t) of
        None \<Rightarrow> True
      | Some c \<Rightarrow> colon_free (case jwId c of None \<Rightarrow> '''' | Some i \<Rightarrow> i) \<and> colon_free (case jwFamilyId c of None \<Rightarrow> '''' | Some f \<Rightarrow> f))"
| "well_formed (OtherWrite env k secs v) = (\<not> session_key k)"
| "well_formed (OtherDelete k) = (\<not> session_key k)"

lemma id_split:
  "colon_free i \<Longrightarrow> colon_free j \<Longrightarrow> i @ CHR '':'' # f = j @ CHR '':'' # g \<longleftrightarrow> i = j \<and> f = g"
proof (induction i arbitrary: j)
  case Nil
  then show ?case by (cases j) (auto simp: colon_free_def)
next
  case (Cons c i)
  then show ?case by (cases j) (auto simp: colon_free_def)
qed

lemma refreshKey_inj: "colon_free i \<Longrightarrow> colon_free j \<Longrightarrow> refreshKey i f = refreshKey j g \<longleftrightarrow> i = j \<and> f = g"
  using id_split[of i j f g] by (simp add: refreshKey_def)

lemma prefix_append: "is_prefix_of (p @ q) (p @ r) = is_prefix_of q r"
  by (induction p) auto

lemma prefix_colon: "colon_free j \<Longrightarrow> colon_free i \<Longrightarrow> is_prefix_of (i @ '':'') (j @ CHR '':'' # g) \<longleftrightarrow> i = j"
proof (induction i arbitrary: j)
  case Nil
  then show ?case by (cases j) (auto simp: colon_free_def)
next
  case (Cons c i)
  then show ?case by (cases j) (auto simp: colon_free_def)
qed

lemma all_keys_prefix: "colon_free i \<Longrightarrow> colon_free j \<Longrightarrow> is_prefix_of (refreshKey i []) (refreshKey j g) \<longleftrightarrow> i = j"
  using prefix_append[of "''auth:refresh:''" "i @ '':''" "j @ '':'' @ g"] prefix_colon[of j i g]
  by (simp add: refreshKey_def)

lemma session_key_refresh: "session_key (refreshKey i f)"
  using is_prefix_of_append[of "''auth:refresh:''" "i @ '':'' @ f"] by (simp add: session_key_def refreshKey_def)

lemma stored_truthy: "stored_hash_of t = Some h \<Longrightarrow> text_truthy t"
  by (cases t) (simp_all add: stored_hash_of_def)

lemma good_now_found:
  assumes "colon_free i" "colon_free fam"
  shows "good_now (aeNow env) (i, fam) (sessions_of w) = findActiveTokenHash env i fam w"
  using assms stored_truthy
  by (auto simp: good_now_def sessions_of_def findActiveTokenHash_def r_get_def redis_get_def split: option.splits)

subsection \<open>Each call\<close>

text \<open>A write to one key, seen through the abstraction.\<close>

lemma sessions_of_put:
  assumes "colon_free i" "colon_free fam" "rdMap (awRedis w') = (rdMap (awRedis w))(refreshKey i fam := v)"
  shows "sessions_of w' = (sessions_of w)((i, fam) :=
    (case v of None \<Rightarrow> None | Some (t, e) \<Rightarrow> map_option (\<lambda>h. (h, e)) (stored_hash_of t)))"
proof (rule ext)
  fix s :: "string \<times> string"
  obtain j g where s: "s = (j, g)" by force
  show "sessions_of w' s = ((sessions_of w)((i, fam) :=
    (case v of None \<Rightarrow> None | Some (t, e) \<Rightarrow> map_option (\<lambda>h. (h, e)) (stored_hash_of t)))) s"
    using assms refreshKey_inj[of j i g fam] by (auto simp: s sessions_of_def)
qed

lemma sessions_of_other:
  assumes "\<And>i f. rdMap (awRedis w') (refreshKey i f) = rdMap (awRedis w) (refreshKey i f)"
  shows "sessions_of w' = sessions_of w"
  using assms by (auto simp: sessions_of_def fun_eq_iff)

lemma stored_value: "stored_hash_of (buildStoredValue env token) = Some (sha256 (aeCrypto env) token)"
  by (simp add: stored_hash_of_def buildStoredValue_def hashRefreshToken_def)

lemma sessions_of_start:
  assumes "colon_free i" "colon_free fam"
  shows "sessions_of (r_setex env (refreshKey i fam) REFRESH_TOKEN_TTL_SECONDS (buildStoredValue env token) w) =
    start_session env (i, fam) token (sessions_of w)"
  using sessions_of_put[OF assms, where v = "Some (buildStoredValue env token, Some (aeNow env + 604800000))"
      and w = w and w' = "r_setex env (refreshKey i fam) REFRESH_TOKEN_TTL_SECONDS (buildStoredValue env token) w"]
  by (simp add: r_setex_def redis_setex_def stored_value start_session_def week_def REFRESH_TOKEN_TTL_SECONDS_def)

lemma sessions_of_revoke:
  "colon_free i \<Longrightarrow> colon_free fam \<Longrightarrow> sessions_of (r_del [refreshKey i fam] w) = (sessions_of w)((i, fam) := None)"
  by (subst sessions_of_put[where i = i and fam = fam and v = None]) (simp_all add: r_del_def redis_del_def)

lemma sessions_of_revoke_all:
  assumes "colon_free i"
  shows "sessions_of (revokeAllRefreshTokens i w) = (\<lambda>(j, f). if j = i then None else sessions_of w (j, f))"
  using assms all_keys_prefix[OF assms]
  by (auto simp: sessions_of_def revokeAllRefreshTokens_def fun_eq_iff)

lemma sessions_of_rotate:
  assumes "colon_free i" "colon_free fam"
  shows "case rotateRefreshToken env i fam expected p w of (r, w') \<Rightarrow>
    (map_option fst r, sessions_of w') = spec_do (Rotate env i fam expected p) (sessions_of w)"
proof (cases "good_now (aeNow env) (i, fam) (sessions_of w) = Some expected")
  case True
  then obtain t where t: "redis_get (aeNow env) (refreshKey i fam) (awRedis w) = Some t" "stored_hash_of t = Some expected"
    using findActive_at good_now_found[OF assms] by metis
  then show ?thesis
    using True sessions_of_start[OF assms, of env "signRefreshToken env p fam" w]
    by (simp add: rotateRefreshToken_def rotate_script_def Let_def r_setex_def on_redis_def)
next
  case False
  have "stored_hash_of t \<noteq> Some expected" if "redis_get (aeNow env) (refreshKey i fam) (awRedis w) = Some t" for t
    using False that stored_truthy[of t expected] unfolding good_now_found[OF assms]
    by (auto simp: findActiveTokenHash_def r_get_def)
  then have "rotate_script (aeNow env) (refreshKey i fam) expected v secs (awRedis w) = (0, awRedis w)" for v secs
    by (simp add: rotate_script_def split: option.split)
  then show ?thesis using False by (simp add: rotateRefreshToken_def Let_def)
qed

lemma session_step:
  assumes "well_formed c"
  shows "(case session_do c w of (a, w') \<Rightarrow> (a, sessions_of w')) = spec_do c (sessions_of w)"
  using assms
proof (cases c)
  case (Issue env p i fam)
  then show ?thesis using assms by (simp add: issueRefreshToken_def Let_def sessions_of_start)
next
  case (Rotate env i fam expected p)
  obtain r w' where "rotateRefreshToken env i fam expected p w = (r, w')" by force
  then show ?thesis using Rotate assms sessions_of_rotate[of i fam env expected p w] by (simp del: spec_do.simps)
next
  case (Logout env token)
  then show ?thesis using assms
    by (auto simp: revokeRefreshToken_def sessions_of_revoke str_truthy_def split: option.splits)
next
  case (OtherWrite env k secs v)
  then have "refreshKey i f \<noteq> k" for i f using assms session_key_refresh by auto
  then have "sessions_of (r_setex env k secs v w) = sessions_of w"
    by (intro sessions_of_other) (simp add: r_setex_def redis_setex_def)
  then show ?thesis using OtherWrite by simp
next
  case (OtherDelete k)
  then have "refreshKey i f \<noteq> k" for i f using assms session_key_refresh by auto
  then have "sessions_of (r_del [k] w) = sessions_of w" by (intro sessions_of_other) (simp add: r_del_def redis_del_def)
  then show ?thesis using OtherDelete by simp
qed (simp_all add: revokeTokenFamily_def sessions_of_revoke sessions_of_revoke_all)

lemma session_refinement:
  "list_all well_formed cs \<Longrightarrow>
     (case session_run cs w of (as', w') \<Rightarrow> (as', sessions_of w')) = spec_run cs (sessions_of w)"
proof (induction cs arbitrary: w)
  case (Cons c cs)
  obtain a w1 where c: "session_do c w = (a, w1)" by force
  obtain as1 w2 where r: "session_run cs w1 = (as1, w2)" by force
  have "spec_do c (sessions_of w) = (a, sessions_of w1)" using session_step[of c w] Cons.prems c by simp
  moreover have "spec_run cs (sessions_of w1) = (as1, sessions_of w2)" using Cons.IH[of w1] Cons.prems r by simp
  ultimately show ?case using c r by simp
qed simp

text \<open>
  C12: The refresh token commands implement a map from sessions to the one good token. For every sequence of issues,
  rotations, revocations of a family, of a credential or by logout, and of writes elsewhere in Redis, the tokens
  handed out are those of the map, and the store that remains is the one that the map describes: a session never
  changes through another session's key, a rotation succeeds only against the hash that is current and in time, and
  revoking a credential ends exactly its own sessions.
\<close>

theorem session_store_refines:
  assumes "list_all well_formed cs"
  shows "fst (session_run cs w) = fst (spec_run cs (sessions_of w)) \<and>
    sessions_of (snd (session_run cs w)) = snd (spec_run cs (sessions_of w))"
  using session_refinement[OF assms, of w] by (simp_all add: split_beta prod_eq_iff)

definition demo_calls :: "session_call list" where
  "demo_calls = [Issue (at_time jwt_env 0) demo_claims ''c1'' (Some ''f1''),
     Rotate (at_time jwt_env 1000) ''c1'' ''f1'' ''0'' demo_claims,
     Rotate (at_time jwt_env 1000) ''c1'' ''f1'' ''0'' demo_claims,
     Rotate (at_time jwt_env 2000) ''c1'' ''f2'' ''1'' demo_claims,
     RevokeAll ''c2'',
     Rotate (at_time jwt_env 2000) ''c1'' ''f1'' ''1'' demo_claims]"

lemma demo_calls_good: "list_all well_formed demo_calls"
  by (simp add: demo_calls_def colon_free_def)

theorem session_store_refines_witness:
  "fst (session_run demo_calls empty_auth) = [Some ''0'', Some ''1'', None, None, None, Some ''2'']"
proof -
  have s: "signRefreshToken (at_time jwt_env t) c f = show_int (t div 1000)" for t c f
    using jwt_env_refreshed by (simp add: signRefreshToken_def generateToken_def jwt_env_def)
  have h: "sha256 (aeCrypto jwt_env) x = x" for x
    by (simp add: jwt_env_def demo_auth_env_def demo_crypto_def)
  have n: "sessions_of empty_auth = (\<lambda>s. None)"
    by (simp add: sessions_of_def empty_auth_def redis_empty_def fun_eq_iff)
  show ?thesis
    using conjunct1[OF session_store_refines[OF demo_calls_good, of empty_auth]]
    by (simp add: n) (simp add: demo_calls_def s h show_0 start_session_def good_now_def live_def week_def Let_def split_beta)
qed

end
