(* ===== verification/Email_Templates.thy ===== *)
theory Email_Templates
  imports Notification_Pipeline
begin

text \<open>
  The mails of \<open>notification-service/src/templates\<close>: five React components in one layout, their registry and
  \<open>renderTemplate\<close>. A component is a function from its props to a tree of elements; the tags are those of
  \<open>react-email\<close>, whose rendering to HTML is a parameter, as are the current year and \<open>toUTCString\<close>. Text of the
  source is kept as JSX joins it; the dash U+2014, beyond the 256 characters of the model, is written as two hyphens.
\<close>

subsection \<open>Elements\<close>

datatype css_value = Css string | CssNumber int

type_synonym css = "(string \<times> css_value) list"

datatype react_prop = PropText string | PropStyle css

datatype react_node = RText string | RElement string "(string \<times> react_prop) list" "react_node list"

definition styled :: "string \<Rightarrow> css \<Rightarrow> react_node list \<Rightarrow> react_node" where
  "styled tag style kids = RElement tag [(''style'', PropStyle style)] kids"

abbreviation (input) text_in :: "css \<Rightarrow> string \<Rightarrow> react_node" where
  "text_in style s \<equiv> styled ''Text'' style [RText s]"

subsection \<open>The layout\<close>

definition BRAND_COLOR :: string where
  "BRAND_COLOR = ''#4f46e5''"

record email_styles =
  esBody :: css
  esContainer :: css
  esHeader :: css
  esBrand :: css
  esCard :: css
  esHeading :: css
  esParagraph :: css
  esMutedText :: css
  esButton :: css
  esLink :: css
  esHr :: css
  esFooterText :: css
  esFooterLink :: css

definition emailStyles :: email_styles where
  "emailStyles =
     \<lparr>esBody = [(''backgroundColor'', Css ''#f4f6fb''),
        (''fontFamily'', Css (''-apple-system, BlinkMacSystemFont, '' @ [CHR 0x22] @ ''Segoe UI'' @ [CHR 0x22] @
           '', Roboto, Helvetica, Arial, sans-serif'')),
        (''margin'', CssNumber 0), (''padding'', Css ''32px 12px'')],
      esContainer = [(''maxWidth'', Css ''600px''), (''margin'', Css ''0 auto'')],
      esHeader = [(''padding'', Css ''0 8px 16px'')],
      esBrand = [(''fontSize'', Css ''22px''), (''fontWeight'', CssNumber 700), (''color'', Css BRAND_COLOR),
        (''letterSpacing'', Css ''-0.02em''), (''margin'', CssNumber 0)],
      esCard = [(''backgroundColor'', Css ''#ffffff''), (''borderRadius'', Css ''12px''),
        (''border'', Css ''1px solid #e2e8f0''), (''padding'', Css ''32px 28px'')],
      esHeading = [(''fontSize'', Css ''20px''), (''fontWeight'', CssNumber 700), (''color'', Css ''#0f172a''),
        (''lineHeight'', Css ''28px''), (''margin'', Css ''0 0 16px'')],
      esParagraph = [(''fontSize'', Css ''15px''), (''lineHeight'', Css ''24px''), (''color'', Css ''#334155''),
        (''margin'', Css ''0 0 16px'')],
      esMutedText = [(''fontSize'', Css ''13px''), (''lineHeight'', Css ''20px''), (''color'', Css ''#64748b''),
        (''margin'', Css ''12px 0 0'')],
      esButton = [(''backgroundColor'', Css BRAND_COLOR), (''borderRadius'', Css ''8px''), (''color'', Css ''#ffffff''),
        (''fontSize'', Css ''15px''), (''fontWeight'', CssNumber 600), (''textDecoration'', Css ''none''),
        (''padding'', Css ''12px 20px''), (''display'', Css ''inline-block'')],
      esLink = [(''color'', Css BRAND_COLOR), (''textDecoration'', Css ''underline'')],
      esHr = [(''borderColor'', Css ''#e2e8f0''), (''margin'', Css ''24px 0 0'')],
      esFooterText = [(''fontSize'', Css ''12px''), (''lineHeight'', Css ''18px''), (''color'', Css ''#94a3b8''),
        (''margin'', Css ''4px 0'')],
      esFooterLink = [(''fontSize'', Css ''12px''), (''color'', Css ''#94a3b8''), (''textDecoration'', Css ''underline'')]\<rparr>"

text \<open>What the components read beside their props: the year of the clock and \<open>new Date(s).toUTCString()\<close>.\<close>

record mail_clock =
  mcFullYear :: int
  mcUTCString :: "string \<Rightarrow> string"

definition EmailLayout :: "mail_clock \<Rightarrow> string \<Rightarrow> react_node list \<Rightarrow> react_node" where
  "EmailLayout clock previewText children =
     RElement ''Html'' [(''lang'', PropText ''en'')]
       [RElement ''Head'' [] [],
        RElement ''Preview'' [] [RText previewText],
        styled ''Body'' (esBody emailStyles)
          [styled ''Container'' (esContainer emailStyles)
             [styled ''Section'' (esHeader emailStyles) [text_in (esBrand emailStyles) ''Nexus''],
              styled ''Section'' (esCard emailStyles) children,
              styled ''Hr'' (esHr emailStyles) [],
              styled ''Section'' [(''padding'', Css ''16px 8px 0''), (''textAlign'', Css ''center'')]
                [styled ''Text'' (esFooterText emailStyles)
                   [RText [CHR 0xA9, CHR '' ''], RText (show_int (mcFullYear clock)),
                    RText '' Nexus Commerce. All rights reserved.''],
                 RElement ''Link'' [(''href'', PropText ''https://nexus-commerce.com''),
                     (''style'', PropStyle (esFooterLink emailStyles))] [RText ''nexus-commerce.com'']]]]]"

subsection \<open>The components\<close>

definition bold :: "string \<Rightarrow> react_node" where
  "bold s = styled ''span'' [(''fontWeight'', CssNumber 600)] [RText s]"

definition link_button :: "string \<Rightarrow> string \<Rightarrow> react_node" where
  "link_button href label =
     RElement ''Button'' [(''href'', PropText href), (''style'', PropStyle (esButton emailStyles))] [RText label]"

record EmailVerificationEmailProps =
  evEmail :: string
  evOtp :: string

definition EmailVerificationEmail :: "mail_clock \<Rightarrow> EmailVerificationEmailProps \<Rightarrow> react_node" where
  "EmailVerificationEmail clock p =
     EmailLayout clock (''Your Nexus verification code is '' @ evOtp p)
       [text_in (esHeading emailStyles) ''Verify your email address'',
        styled ''Text'' (esParagraph emailStyles)
          [RText ''Use the code below to verify'', RText '' '', bold (evEmail p),
           RText '' and finish setting up your Nexus account. This code expires in 5 minutes.''],
        styled ''Section'' [(''textAlign'', Css ''center''), (''margin'', Css ''28px 0'')]
          [text_in [(''fontSize'', Css ''32px''), (''fontWeight'', CssNumber 700), (''letterSpacing'', Css ''8px''),
             (''color'', Css ''#0f172a''), (''margin'', CssNumber 0)] (evOtp p)],
        text_in (esParagraph emailStyles)
          ''Didn't request this? You can safely ignore this email -- your account is not at risk.'',
        text_in (esMutedText emailStyles) ''Need help? Reply to this email or visit our Help Center.'']"

record PasswordResetEmailProps =
  prEmail :: string
  prResetUiLink :: string

definition PasswordResetEmail :: "mail_clock \<Rightarrow> PasswordResetEmailProps \<Rightarrow> react_node" where
  "PasswordResetEmail clock p =
     EmailLayout clock ''Reset your Nexus password''
       [text_in (esHeading emailStyles) ''Reset your password'',
        text_in (esParagraph emailStyles) ''Hi there,'',
        styled ''Text'' (esParagraph emailStyles)
          [RText ''We received a request to reset the password for'', RText '' '', bold (prEmail p),
           RText ''. Click the button below to choose a new password. This link expires in 15 minutes.''],
        link_button (prResetUiLink p) ''Reset password'',
        text_in (esParagraph emailStyles)
          ''If the button doesn't work, copy and paste this link into your browser:'',
        text_in (esMutedText emailStyles) (prResetUiLink p),
        text_in (esParagraph emailStyles) (''Didn't request a password reset? You can ignore this email. Your '' @
          ''password will stay the same until you use the link above.'')]"

record AccountRestoreEmailProps =
  arEmail :: string
  arOtp :: string

definition AccountRestoreEmail :: "mail_clock \<Rightarrow> AccountRestoreEmailProps \<Rightarrow> react_node" where
  "AccountRestoreEmail clock p =
     EmailLayout clock ''Restore your Nexus account''
       [text_in (esHeading emailStyles) ''Restore your account'',
        text_in (esParagraph emailStyles) ''Hi there,'',
        styled ''Text'' (esParagraph emailStyles)
          [RText ''We received a request to restore the account for'', RText '' '', bold (arEmail p),
           RText (''. Use the code below to verify and restore your account. '' @ ''This code expires in 10 minutes.'')],
        text_in (esMutedText emailStyles) (arOtp p),
        text_in (esParagraph emailStyles) ''Didn't request this? You can ignore this email.'']"

record AdminInviteEmailProps =
  aiEmail :: string
  aiInviteLink :: string
  aiExpiresAt :: string

definition AdminInviteEmail :: "mail_clock \<Rightarrow> AdminInviteEmailProps \<Rightarrow> react_node" where
  "AdminInviteEmail clock p =
     EmailLayout clock ''You have been invited as a Nexus administrator''
       [text_in (esHeading emailStyles) ''You have been invited'',
        styled ''Text'' (esParagraph emailStyles)
          [RText ''A Nexus super administrator invited'', RText '' '', bold (aiEmail p),
           RText '' to join the admin team. Set your password below to activate the account.''],
        link_button (aiInviteLink p) ''Accept invitation'',
        styled ''Text'' (esParagraph emailStyles)
          [RText ''This invitation is single-use and expires on'', RText '' '', bold (mcUTCString clock (aiExpiresAt p)),
           RText ''.''],
        text_in (esParagraph emailStyles)
          ''If the button doesn't work, copy and paste this link into your browser:'',
        text_in (esMutedText emailStyles) (aiInviteLink p),
        text_in (esParagraph emailStyles) (''If you weren't expecting this invitation, you can ignore this email '' @
          ''-- no account will be created unless the link above is used.'')]"

record WelcomeEmailProps =
  weFirstName :: string

definition WelcomeEmail :: "mail_clock \<Rightarrow> WelcomeEmailProps \<Rightarrow> react_node" where
  "WelcomeEmail clock p =
     EmailLayout clock (''Welcome to Nexus, '' @ weFirstName p @ ''!'')
       [styled ''Text'' (esHeading emailStyles) [RText ''Welcome to Nexus, '', RText (weFirstName p), RText ''!''],
        text_in (esParagraph emailStyles) (''Your account is ready. Browse curated products from independent sellers, '' @
          ''track orders, and check out securely -- all in one place.''),
        link_button ''https://nexus-commerce.com'' ''Start exploring'',
        text_in (esParagraph emailStyles) ''See you inside,'',
        text_in (esParagraph emailStyles) ''The Nexus Team'']"

subsection \<open>The registry\<close>

text \<open>A component reads members of the payload that the schema has checked to be strings.\<close>

definition string_member :: "json \<Rightarrow> string \<Rightarrow> string" where
  "string_member p k = (case jget p k of Some (JStr s) \<Rightarrow> s | _ \<Rightarrow> '''')"

definition templateRegistry :: "mail_clock \<Rightarrow> (string \<times> (json \<Rightarrow> react_node)) list" where
  "templateRegistry clock =
     [(''email-verification'', \<lambda>p. EmailVerificationEmail clock
         \<lparr>evEmail = string_member p ''email'', evOtp = string_member p ''otp''\<rparr>),
      (''password-reset'', \<lambda>p. PasswordResetEmail clock
         \<lparr>prEmail = string_member p ''email'', prResetUiLink = string_member p ''resetUiLink''\<rparr>),
      (''account-restore'', \<lambda>p. AccountRestoreEmail clock
         \<lparr>arEmail = string_member p ''email'', arOtp = string_member p ''otp''\<rparr>),
      (''admin-invite'', \<lambda>p. AdminInviteEmail clock
         \<lparr>aiEmail = string_member p ''email'', aiInviteLink = string_member p ''inviteLink'',
          aiExpiresAt = string_member p ''expiresAt''\<rparr>),
      (''welcome'', \<lambda>p. WelcomeEmail clock \<lparr>weFirstName = string_member p ''firstName''\<rparr>)]"

text \<open>A key the registry lacks: \<open>entry\<close> is undefined. \<open>render\<close> of \<open>@react-email/render\<close> may reject.\<close>

definition renderTemplate ::
    "(react_node \<Rightarrow> js_error + string) \<Rightarrow> mail_clock \<Rightarrow> string \<Rightarrow> json \<Rightarrow> js_error + string" where
  "renderTemplate render clock key props =
     (case map_of (templateRegistry clock) key of
        None \<Rightarrow> Inl (OtherError ''TypeError'' ''Cannot read properties of undefined (reading 'render')'')
      | Some component \<Rightarrow> render (component props))"

lemma template_keys_registry: "isTemplateKey k \<longleftrightarrow> k \<in> fst ` set (templateRegistry clock)"
  by (auto simp: isTemplateKey_def template_keys_def templateRegistry_def)

subsection \<open>What a tree shows\<close>

fun texts :: "react_node \<Rightarrow> string list" where
  "texts (RText s) = [s]"
| "texts (RElement tag props kids) = concat (List.map texts kids)"

text \<open>The targets of links.\<close>

fun hrefs :: "react_node \<Rightarrow> string list" where
  "hrefs (RText s) = []"
| "hrefs (RElement tag props kids) =
     List.map_filter (\<lambda>(k, v). case v of PropText s \<Rightarrow> if k = ''href'' then Some s else None | PropStyle c \<Rightarrow> None) props @
     concat (List.map hrefs kids)"

text \<open>The markup alone: texts and link targets are blanked.\<close>

fun skeleton :: "react_node \<Rightarrow> react_node" where
  "skeleton (RText s) = RText ''''"
| "skeleton (RElement tag props kids) =
     RElement tag (List.map (\<lambda>(k, v). (k, if k = ''href'' then PropText '''' else v)) props) (List.map skeleton kids)"

end
