(* ===== verification/Email_Claims.thy ===== *)
theory Email_Claims
  imports Email_Templates Notification_Claims
begin

text \<open>What the mails of the notification service say.\<close>

subsection \<open>The trees\<close>

text \<open>The members of an event that its mail shows.\<close>

definition shown_members :: "string \<Rightarrow> string list" where
  "shown_members ty = the (map_of
     [(EMAIL_VERIFICATION_OTP_SENT, [''email'', ''otp'']), (PASSWORD_RESET_REQUESTED, [''email'', ''resetUiLink'']),
      (ACCOUNT_RESTORE_REQUESTED, [''email'', ''otp'']), (USER_REGISTERED, [''firstName''])] ty)"

definition shop_url :: string where
  "shop_url = ''https://nexus-commerce.com''"

definition allowed_links :: "domain_event \<Rightarrow> string set" where
  "allowed_links ev = (if deEventType ev = PASSWORD_RESET_REQUESTED
     then {shop_url, payload_text ev ''resetUiLink''} else {shop_url})"

text \<open>The tree of a mail: all the values of the event as texts, no link but the allowed ones, and the markup
  that the template has for an empty payload.\<close>

definition shows_event :: "mail_clock \<Rightarrow> domain_event \<Rightarrow> react_node \<Rightarrow> bool" where
  "shows_event clock ev tree \<longleftrightarrow>
     (\<forall>k \<in> set (shown_members (deEventType ev)). payload_text ev k \<in> set (texts tree)) \<and>
     set (hrefs tree) \<subseteq> allowed_links ev \<and>
     (\<exists>component. map_of (templateRegistry clock) (reTemplateKey (getEventRegistryEntry (deEventType ev))) = Some component \<and>
        skeleton tree = skeleton (component (JObj [])))"

lemmas component_defs =
  EmailVerificationEmail_def PasswordResetEmail_def AccountRestoreEmail_def WelcomeEmail_def EmailLayout_def styled_def
  bold_def link_button_def

lemma handled_types:
  "isHandledDomainEvent ty \<longleftrightarrow> ty = EMAIL_VERIFICATION_OTP_SENT \<or> ty = PASSWORD_RESET_REQUESTED \<or>
     ty = ACCOUNT_RESTORE_REQUESTED \<or> ty = USER_REGISTERED"
  by (auto simp: isHandledDomainEvent_def domainEventRegistry_def)

lemma string_member_payload: "string_member (dePayload ev) k = payload_text ev k"
  by (simp add: string_member_def payload_text_def)

lemma component_shows_event:
  assumes "isHandledDomainEvent (deEventType ev)"
  shows "\<exists>component. map_of (templateRegistry clock) (reTemplateKey (getEventRegistryEntry (deEventType ev))) = Some component \<and>
    shows_event clock ev (component (dePayload ev))"
  using assms unfolding handled_types
  by (elim disjE)
    (simp_all add: shows_event_def getEventRegistryEntry_def domainEventRegistry_def templateRegistry_def shown_members_def
      allowed_links_def shop_url_def string_member_payload component_defs List.map_filter_def event_type_defs)

subsection \<open>What is posted\<close>

definition posts_only :: "(send_email_command \<Rightarrow> bool) \<Rightarrow> notif_world \<Rightarrow> notif_world \<Rightarrow> bool" where
  "posts_only P w w' \<longleftrightarrow> (\<exists>ps. nwPosts w' = nwPosts w @ ps \<and> (\<forall>p \<in> set ps. P (mpCommand p)))"

lemma posts_same: "nwPosts w' = nwPosts w \<Longrightarrow> posts_only P w w'"
  by (simp add: posts_only_def)

lemma posts_trans: "posts_only P w w1 \<Longrightarrow> posts_only P w1 w2 \<Longrightarrow> posts_only P w w2"
  by (fastforce simp: posts_only_def)

text \<open>The mails made from an event.\<close>

definition mail_of :: "(react_node \<Rightarrow> js_error + string) \<Rightarrow> mail_clock \<Rightarrow> domain_event \<Rightarrow> send_email_command \<Rightarrow> bool" where
  "mail_of render clock ev cmd \<longleftrightarrow> seTo cmd = payload_text ev ''email'' \<and>
     (\<exists>tree. shows_event clock ev tree \<and> render tree = Inr (seHtml cmd))"

lemma recipient_email: "isHandledDomainEvent (deEventType ev) \<Longrightarrow>
    reRecipient (getEventRegistryEntry (deEventType ev)) ev = payload_text ev ''email''"
  unfolding handled_types
  by (elim disjE) (simp_all add: getEventRegistryEntry_def domainEventRegistry_def event_type_defs)

lemma send_mail_posts:
  assumes "neRender env = renderTemplate render clock" "isHandledDomainEvent (deEventType (imEvent m))"
    and "send_mail env d m i w = (r, w')"
  shows "posts_only (mail_of render clock (imEvent m)) w w'"
proof -
  let ?ev = "imEvent m"
  let ?entry = "getEventRegistryEntry (deEventType ?ev)"
  obtain component where c: "map_of (templateRegistry clock) (reTemplateKey ?entry) = Some component"
    "shows_event clock ?ev (component (dePayload ?ev))" using component_shows_event[OF assms(2)] by blast
  have k: "isTemplateKey (reTemplateKey ?entry)"
    using c(1) unfolding template_keys_registry[of _ clock] by (metis fst_conv image_eqI map_of_SomeD)
  have n: "neRender env (reTemplateKey ?entry) (dePayload ?ev) = render (component (dePayload ?ev))"
    by (simp add: assms(1) renderTemplate_def c(1))
  show ?thesis
  proof (cases "render (component (dePayload ?ev))")
    case (Inl e)
    then have "w' = w" using assms(3) k n by (simp add: send_mail_def Let_def)
    then show ?thesis by (simp add: posts_same)
  next
    case (Inr html)
    let ?cmd = "\<lparr>seTo = reRecipient ?entry ?ev, seSubject = reSubject ?entry ?ev, seHtml = html\<rparr>"
    obtain x w2 where g: "guarded_send env d i ?cmd w = (x, w2)" by force
    have "mail_of render clock ?ev ?cmd" using c(2) Inr recipient_email[OF assms(2)] by (auto simp: mail_of_def)
    then have P: "posts_only (mail_of render clock ?ev) w w2"
      using guarded_send_posts[OF g] by (auto simp: posts_only_def)
    have "nwPosts w' = nwPosts w2"
    proof (cases x)
      case (Inl e)
      then show ?thesis using assms(3) k n Inr g by (simp add: send_mail_def Let_def)
    next
      case (Inr v)
      obtain y w3 where ms: "markAsSent env i (srMessageId v) w2 = (y, w3)" by force
      have "w' = w3" using assms(3) k n \<open>render _ = Inr html\<close> g Inr ms
        by (cases y) (simp_all add: send_mail_def Let_def lift_err_def)
      then show ?thesis using markAsSent_cases[OF ms] by simp
    qed
    then show ?thesis using posts_trans[OF P] posts_same by blast
  qed
qed


lemma process_event_posts:
  assumes "neRender env = renderTemplate render clock" "notification_processEvent env d m w = (r, w')"
  shows "posts_only (mail_of render clock (imEvent m)) w w'"
proof (cases "isHandledDomainEvent (deEventType (imEvent m))")
  case False
  then show ?thesis using assms(2) by (simp add: notification_processEvent_def posts_same)
next
  case True
  let ?P = "mail_of render clock (imEvent m)"
  obtain c w1 where c: "claimNotification env (claim_of m) w = (c, w1)" by force
  have s1: "posts_only ?P w w1"
    using claim_cases[OF c] by (intro posts_same) (auto simp: claimed_def split: sum.splits idempotency_result.splits)
  show ?thesis
  proof (cases "\<exists>i. c = Inr (Claimed i)")
    case False
    then have "w' = w1" using assms(2) True c
      by (cases c) (auto simp: notification_processEvent_def split: idempotency_result.splits)
    then show ?thesis using s1 by simp
  next
    case claimed: True
    then obtain i where i: "c = Inr (Claimed i)" by blast
    obtain q w2 where q: "process_claimed env d m i w1 = (q, w2)" by force
    have s2: "posts_only ?P w1 w2"
    proof -
      obtain l w3 where rc: "rate_check env d m w1 = (l, w3)" by force
      have s3: "posts_only ?P w1 w3" using rate_check_same[OF rc] by (simp add: posts_same)
      show ?thesis
      proof (cases "\<exists>k. l = Some k \<and> \<not> rrAllowed k")
        case True
        then obtain k where "l = Some k" "\<not> rrAllowed k" by blast
        then obtain a b z x w4 where "fail_log env d m i a b z w3 = (x, w4)" "w2 = w4"
          using q rc by (auto simp: process_claimed_def lift_err_def split: prod.splits sum.splits)
        then show ?thesis using posts_trans[OF s3] touches_fail_log posts_same unfolding touches_def by metis
      next
        case False
        then have "send_mail env d m i w3 = (q, w2)" using q rc
          by (auto simp: process_claimed_def split: option.splits if_splits)
        then show ?thesis using posts_trans[OF s3] send_mail_posts[OF assms(1) True] by blast
      qed
    qed
    have "posts_only ?P w2 w'"
    proof (cases q)
      case (Inl e)
      then have "fail_log env d m i (notify_message e) (notify_message e) (notify_message e) w2 = (r, w')"
        using assms(2) True c i q by (simp add: notification_processEvent_def)
      then show ?thesis using touches_fail_log posts_same unfolding touches_def by metis
    next
      case (Inr v)
      then have "w' = w2" using assms(2) True c i q by (simp add: notification_processEvent_def)
      then show ?thesis by (simp add: posts_same)
    qed
    then show ?thesis using posts_trans[OF s1 posts_trans[OF s2]] by blast
  qed
qed

text \<open>
  C34: Whatever a delivery posts to the mail provider is a mail of the event that was delivered: it goes to the
  event's \<open>email\<close>, and its HTML is the rendering of a tree that holds each value the mail is for (the code, the
  reset link, the name) as a text, links only to the shop or, in a reset mail, to the reset link of the event, and
  has for every payload the same markup, so no value of an event becomes an element, an attribute or a style.
\<close>

theorem mails_show_their_event:
  assumes "neRender env = renderTemplate render clock"
    and "handleDomainEventMessage fm details env d ctx raw value w = (r, w')"
  shows "\<exists>ps. nwPosts w' = nwPosts w @ ps \<and> (\<forall>p \<in> set ps. \<exists>m tree.
      parseKafkaMessage fm details value (scHeaders ctx) = Inr m \<and>
      seTo (mpCommand p) = payload_text (imEvent m) ''email'' \<and>
      render tree = Inr (seHtml (mpCommand p)) \<and> shows_event clock (imEvent m) tree)"
proof (cases "parseKafkaMessage fm details value (scHeaders ctx)")
  case (Inl e)
  then show ?thesis using assms(2) by (auto simp: handleDomainEventMessage_def routePoisonMessage_def)
next
  case (Inr m)
  obtain q w2 where q: "notification_processEvent env d m w = (q, w2)" by force
  then have "w' = w2" using assms(2) Inr by (cases q) (simp_all add: handleDomainEventMessage_def)
  then show ?thesis using process_event_posts[OF assms(1) q] Inr unfolding posts_only_def mail_of_def by fastforce
qed

text \<open>A provider that is sent the texts of the tree, one after the other.\<close>

definition plain_render :: "react_node \<Rightarrow> js_error + string" where
  "plain_render tree = Inr (concat (texts tree))"

definition mail_clock_2026 :: mail_clock where
  "mail_clock_2026 = \<lparr>mcFullYear = 2026, mcUTCString = (\<lambda>s. s)\<rparr>"

definition mailing_env :: notif_env where
  "mailing_env = demo_notif_env\<lparr>neRender := renderTemplate plain_render mail_clock_2026\<rparr>"

definition mailed :: notif_world where
  "mailed = snd (handleDomainEventMessage mail_formats (\<lambda>v. '''') mailing_env demo_deps demo_ctx '''' otp_value empty_notif)"

lemma mailed_once: "length (nwPosts mailed) = 1"
proof -
  let ?p = "JObj [(''email'', JStr ''a@b.c''), (''otp'', JStr ''123456'')]"
  have r: "isHandledDomainEvent EMAIL_VERIFICATION_OTP_SENT" by (simp add: handled_types)
  have k: "isTemplateKey (reTemplateKey (getEventRegistryEntry EMAIL_VERIFICATION_OTP_SENT))"
    by (simp add: isTemplateKey_def template_keys_def getEventRegistryEntry_def domainEventRegistry_def)
  obtain html where h: "renderTemplate plain_render mail_clock_2026
      (reTemplateKey (getEventRegistryEntry EMAIL_VERIFICATION_OTP_SENT)) ?p = Inr html"
    by (simp add: renderTemplate_def templateRegistry_def plain_render_def getEventRegistryEntry_def domainEventRegistry_def)
  show ?thesis
    by (simp add: mailed_def handleDomainEventMessage_def otp_parsed notification_processEvent_def r k h
        claimNotification_def create_log_def ndb_def mailing_env_def demo_notif_env_def empty_notif_def claim_row_def claim_of_def
        process_claimed_def rate_check_def demo_deps_def send_mail_def guarded_send_def nb_execute_begin_def nb_new_def
        retryWithBackoff_def provider_send_def provider_result_def ntick_def lift_err_def markAsSent_text update_log_def
        update_where_def mark_sent_def Let_def nb_settle_def onSuccess_def numeral_3_eq_3)
qed

theorem mails_show_their_event_witness:
  "\<exists>p tree. nwPosts mailed = [p] \<and> seTo (mpCommand p) = ''a@b.c'' \<and> seHtml (mpCommand p) = concat (texts tree) \<and>
     ''123456'' \<in> set (texts tree)"
proof -
  have e: "neRender mailing_env = renderTemplate plain_render mail_clock_2026" by (simp add: mailing_env_def)
  obtain r where run: "handleDomainEventMessage mail_formats (\<lambda>v. '''') mailing_env demo_deps demo_ctx '''' otp_value
      empty_notif = (r, mailed)"
    unfolding mailed_def by (metis prod.collapse)
  obtain p where p: "nwPosts mailed = [p]" using mailed_once by (auto simp: length_Suc_conv)
  obtain m tree where m: "parseKafkaMessage mail_formats (\<lambda>v. '''') otp_value (scHeaders demo_ctx) = Inr m"
    "seTo (mpCommand p) = payload_text (imEvent m) ''email''" "plain_render tree = Inr (seHtml (mpCommand p))"
    "shows_event mail_clock_2026 (imEvent m) tree"
    using mails_show_their_event[OF e run] p by (auto simp: empty_notif_def)
  then have "seTo (mpCommand p) = ''a@b.c''" "''123456'' \<in> set (texts tree)"
    by (auto simp: otp_parsed shows_event_def shown_members_def payload_text_def)
  moreover have "seHtml (mpCommand p) = concat (texts tree)" using m(3) by (simp add: plain_render_def)
  ultimately show ?thesis using p by blast
qed

end
