(* ===== verification/Otp_Races.thy ===== *)
theory Otp_Races
  imports Otp_Claims
begin

text \<open>
  \<open>utils/otp/verifyOtp.ts\<close> cut at its awaits: each Redis command is one step, and the steps of any number of
  requests for one address interleave. The counter of wrong codes is read in one step and written in another.
\<close>

subsection \<open>One request\<close>

datatype otp_phase =
    Started string
  | BlockRead string
  | Matched string
  | Mismatched string
  | Counted string "nat option"
  | Accepted string
  | Refused string string

definition wrong_code_message :: "nat option \<Rightarrow> string" where
  "wrong_code_message n = ''Invalid OTP. '' @
     (case n of None \<Rightarrow> ''NaN'' | Some m \<Rightarrow> show_int (int MAX_ATTEMPTS - int m)) @ '' attempts left.''"

fun otp_next :: "auth_env \<Rightarrow> string \<Rightarrow> otp_phase \<Rightarrow> auth_world \<Rightarrow> otp_phase \<times> auth_world" where
  "otp_next env email (Started g) w =
     (if r_truthy env (otp_block_key email) w
      then (Refused g ''Too many failed attempts. Please try again after 30 minutes.'', w) else (BlockRead g, w))"
| "otp_next env email (BlockRead g) w =
     (case r_get env (registrationOtpKey email) w of
        None \<Rightarrow> (Refused g ''Invalid or Expired OTP'', w)
      | Some stored \<Rightarrow>
          if \<not> text_truthy stored then (Refused g ''Invalid or Expired OTP'', w)
          else if stored \<noteq> Txt g then (Mismatched g, w) else (Matched g, w))"
| "otp_next env email (Matched g) w = (Accepted g, r_del [registrationOtpKey email, otp_attempts_key email] w)"
| "otp_next env email (Mismatched g) w =
     (Counted g (map_option Suc (js_count (r_get env (otp_attempts_key email) w))), w)"
| "otp_next env email (Counted g n) w =
     (if count_gt n MAX_ATTEMPTS
      then (Refused g ''Account blocked due to multiple failed OTP attempts. Please try again after 30 minutes.'',
            r_del [registrationOtpKey email, otp_attempts_key email]
              (r_setex env (otp_block_key email) BLOCK_TIME (Txt ''blocked'') w))
      else (Refused g (wrong_code_message n), r_setex env (otp_attempts_key email) BLOCK_TIME (Txt (count_text n)) w))"
| "otp_next env email (Accepted g) w = (Accepted g, w)"
| "otp_next env email (Refused g m) w = (Refused g m, w)"

fun otp_answer :: "otp_phase \<Rightarrow> (js_error + unit) option" where
  "otp_answer (Accepted g) = Some (Inr ())"
| "otp_answer (Refused g m) = Some (Inl (AppErr (BadRequestError m None)))"
| "otp_answer p = None"

definition otp_run :: "auth_env \<Rightarrow> string \<Rightarrow> nat \<Rightarrow> otp_phase \<times> auth_world \<Rightarrow> otp_phase \<times> auth_world" where
  "otp_run env email n = ((\<lambda>(p, w). otp_next env email p w) ^^ n)"

text \<open>A request that nothing interrupts is \<open>verifyOtp\<close>.\<close>

lemma otp_run_verifies:
  "case otp_run env email 4 (Started g, w) of (p, w') \<Rightarrow>
     otp_answer p = Some (fst (verifyOtp env email g w)) \<and> w' = snd (verifyOtp env email g w)"
  by (simp add: otp_run_def numeral_eq_Suc verifyOtp_def wrong_code_message_def Let_def split: option.splits if_splits)

subsection \<open>Any number of requests\<close>

inductive otp_move :: "auth_env \<Rightarrow> string \<Rightarrow> otp_phase list \<times> auth_world \<Rightarrow> otp_phase list \<times> auth_world \<Rightarrow> bool"
  for env :: auth_env and email :: string where
  otp_step: "\<lbrakk>i < length ps; otp_next (at_time env t) email (ps ! i) w = (p, w')\<rbrakk> \<Longrightarrow>
    otp_move env email (ps, w) (ps[i := p], w')"

abbreviation otp_reaches :: "auth_env \<Rightarrow> string \<Rightarrow> otp_phase list \<times> auth_world \<Rightarrow> otp_phase list \<times> auth_world \<Rightarrow> bool" where
  "otp_reaches env email \<equiv> (otp_move env email)\<^sup>*\<^sup>*"

lemma otp_move_at:
  "otp_next (at_time env t) email p w = (q, w') \<Longrightarrow> otp_move env email (xs @ p # ys, w) (xs @ q # ys, w')"
  using otp_step[where i = "length xs" and ps = "xs @ p # ys" and env = env and t = t and email = email and w = w and p = q and w' = w'] by simp

text \<open>All requests take the same step, one after the other.\<close>

lemma lockstep:
  assumes "\<And>g w. \<lbrakk>g \<in> set ys; I w\<rbrakk> \<Longrightarrow> \<exists>w'. otp_next (at_time env t) email (P g) w = (Q g, w') \<and> I w'" "I w"
  shows "\<exists>w'. otp_reaches env email (List.map Q xs @ List.map P ys, w) (List.map Q (xs @ ys), w') \<and> I w'"
  using assms
proof (induction ys arbitrary: xs w)
  case (Cons y ys)
  obtain w1 where w1: "otp_next (at_time env t) email (P y) w = (Q y, w1)" "I w1" using Cons.prems by auto
  have "\<exists>w'. otp_reaches env email (List.map Q (xs @ [y]) @ List.map P ys, w1) (List.map Q ((xs @ [y]) @ ys), w') \<and> I w'"
    by (rule Cons.IH) (use Cons.prems w1(2) in auto)
  then show ?case
    using otp_move_at[OF w1(1), of "List.map Q xs" "List.map P ys"]
    by (auto intro: converse_rtranclp_into_rtranclp)
qed auto

text \<open>What is true in every interleaving: the key of the code holds the code or nothing, and only the code matches.\<close>

definition otp_sound :: "string \<Rightarrow> string \<Rightarrow> otp_phase list \<times> auth_world \<Rightarrow> bool" where
  "otp_sound email code s \<longleftrightarrow>
     (\<forall>t. redis_get t (registrationOtpKey email) (awRedis (snd s)) \<in> {None, Some (Txt code)}) \<and>
     (\<forall>g. Matched g \<in> set (fst s) \<or> Accepted g \<in> set (fst s) \<longrightarrow> g = code)"

lemma otp_next_key:
  assumes "otp_next env email p w = (q, w')"
  shows "redis_get u (registrationOtpKey email) (awRedis w') \<in> {None, redis_get u (registrationOtpKey email) (awRedis w)}"
  using assms by (cases p) (auto simp: r_setex_def r_del_def split: if_splits option.splits)

lemma otp_next_match:
  assumes "otp_next env email p w = (q, w')" "q = Matched g \<or> q = Accepted g"
  shows "p = Matched g \<or> p = Accepted g \<or> redis_get (aeNow env) (registrationOtpKey email) (awRedis w) = Some (Txt g)"
  using assms by (cases p) (auto simp: r_get_def split: if_splits option.splits)

lemma otp_sound_step:
  assumes "otp_next (at_time env t) email (ps ! i) w = (p, w')" "i < length ps" "otp_sound email code (ps, w)"
  shows "otp_sound email code (ps[i := p], w')"
proof -
  let ?key = "registrationOtpKey email"
  have key: "redis_get u ?key (awRedis w) \<in> {None, Some (Txt code)}" for u
    using assms(3) unfolding otp_sound_def snd_conv by blast
  have key': "redis_get u ?key (awRedis w') \<in> {None, Some (Txt code)}" for u
    using otp_next_key[OF assms(1), of u] key[of u] by (elim insertE emptyE) simp_all
  have old: "g = code" if "Matched g \<in> set ps \<or> Accepted g \<in> set ps" for g
    using assms(3) that unfolding otp_sound_def fst_conv by blast
  have new: "g = code" if q: "p = Matched g \<or> p = Accepted g" for g
    using otp_next_match[OF assms(1) q]
  proof (elim disjE)
    assume "redis_get (aeNow (at_time env t)) ?key (awRedis w) = Some (Txt g)"
    then show ?thesis using key[of "aeNow (at_time env t)"] by simp
  qed (use old[of g] nth_mem[OF assms(2)] in metis)+
  have "g = code" if "Matched g \<in> set (ps[i := p]) \<or> Accepted g \<in> set (ps[i := p])" for g
    using that set_update_subset_insert[of ps i p] old[of g] new[of g] by blast
  then show ?thesis using key' unfolding otp_sound_def fst_conv snd_conv by blast
qed

lemma otp_sound_move: "otp_move env email s s' \<Longrightarrow> otp_sound email code s \<Longrightarrow> otp_sound email code s'"
  by (cases rule: otp_move.cases, assumption) (metis otp_sound_step)

lemma otp_sound_reaches: "otp_reaches env email s s' \<Longrightarrow> otp_sound email code s \<Longrightarrow> otp_sound email code s'"
  by (induction rule: rtranclp_induct) (auto intro: otp_sound_move)

subsection \<open>Guesses in parallel\<close>

lemma guessing_reads:
  assumes "guessing email code expires n w" "t < expires"
  shows "\<not> r_truthy (at_time env t) (otp_block_key email) w"
    "r_get (at_time env t) (registrationOtpKey email) w = Some (Txt code)" "code \<noteq> []"
    "js_count (r_get (at_time env t) (otp_attempts_key email) w) = Some n"
  using assms by (simp_all add: guessing_def r_get_def r_truthy_def)

lemma guessing_write:
  assumes "guessing email code expires n w" "expires \<le> t + 1800000"
  shows "guessing email code expires 1 (r_setex (at_time env t) (otp_attempts_key email) BLOCK_TIME (Txt (count_text (Some 1))) w)"
  using assms by (simp add: guessing_def r_setex_def js_count_def BLOCK_TIME_def count_text_def)

text \<open>All requests read the counter before the first of them writes it.\<close>

lemma parallel_guesses:
  assumes "guessing email code expires 0 w" "t < expires" "expires \<le> t + 1800000" "gs \<noteq> []" "\<forall>g \<in> set gs. g \<noteq> code"
  shows "\<exists>w'. otp_reaches env email (List.map Started gs, w)
      (List.map (\<lambda>g. Refused g ''Invalid OTP. 2 attempts left.'') gs, w') \<and> guessing email code expires 1 w'"
proof -
  note R = guessing_reads[OF _ assms(2)]
  have ne: "code \<noteq> g" if "g \<in> set gs" for g using assms(5) that by auto
  let ?I = "\<lambda>n w. guessing email code expires n w"
  obtain w1 where w1: "otp_reaches env email (List.map Started gs, w) (List.map BlockRead gs, w1)" "?I 0 w1"
    using lockstep[where I = "?I 0" and env = env and t = t and email = email and P = Started and Q = BlockRead and ys = gs and xs = "[]" and w = w]
      R(1) assms(1) by auto
  obtain w2 where w2: "otp_reaches env email (List.map BlockRead gs, w1) (List.map Mismatched gs, w2)" "?I 0 w2"
    using lockstep[where I = "?I 0" and env = env and t = t and email = email and P = BlockRead and Q = Mismatched and ys = gs and xs = "[]" and w = w1]
      R(2,3) w1(2) ne by (simp, blast)
  let ?C = "\<lambda>g. Counted g (Some 1)"
  obtain w3 where w3: "otp_reaches env email (List.map Mismatched gs, w2) (List.map ?C gs, w3)" "?I 0 w3"
    using lockstep[where I = "?I 0" and env = env and t = t and email = email and P = Mismatched and Q = ?C and ys = gs and xs = "[]" and w = w2]
      R(4) w2(2) by auto
  let ?R = "\<lambda>g. Refused g ''Invalid OTP. 2 attempts left.''"
  have m: "wrong_code_message (Some (Suc 0)) = ''Invalid OTP. 2 attempts left.''" by code_simp
  have wrt: "\<exists>w'. otp_next (at_time env t) email (?C g) w = (?R g, w') \<and> ?I 1 w'" if "?I n w" for g w n
    using guessing_write[OF that assms(3)] by (simp add: count_gt_def MAX_ATTEMPTS_def m)
  obtain g rest where gs: "gs = g # rest" using assms(4) by (cases gs) auto
  obtain w4 where w4: "otp_next (at_time env t) email (?C g) w3 = (?R g, w4)" "?I 1 w4" using wrt[OF w3(2)] by blast
  obtain w5 where w5: "otp_reaches env email (List.map ?R [g] @ List.map ?C rest, w4) (List.map ?R ([g] @ rest), w5)" "?I 1 w5"
    using lockstep[where I = "?I 1" and env = env and t = t and email = email and P = ?C and Q = ?R and ys = rest and xs = "[g]" and w = w4]
      wrt w4(2) by blast
  have "otp_reaches env email (List.map ?C gs, w3) (List.map ?R gs, w5)"
    using otp_move_at[OF w4(1), of "[]" "List.map ?C rest"] w5(1) unfolding gs
    by (auto intro: converse_rtranclp_into_rtranclp)
  then show ?thesis using w1(1) w2(1) w3(1) w5(2) by (meson rtranclp_trans)
qed

text \<open>
  C30: Guesses that interleave. However the Redis commands of any number of requests for one address interleave, a
  request is accepted only if it sent the stored code. But the limit of attempts holds for one request after the
  other only: any number of wrong guesses sent at once are all answered with two attempts left, are counted as
  one, and the right code is accepted after them, while three wrong guesses in turn use the attempts up.
\<close>

theorem parallel_guesses_count_once:
  assumes "guessing email code expires 0 w" "t < expires" "expires \<le> t + 1800000" "gs \<noteq> []" "code \<notin> set gs"
  shows "(\<forall>ps w' g. otp_sound email code ([], w) \<and> otp_reaches env email (List.map Started gs', w) (ps, w') \<and> Accepted g \<in> set ps \<longrightarrow>
       g = code) \<and>
    (\<exists>w'. otp_reaches env email (List.map Started gs, w) (List.map (\<lambda>g. Refused g ''Invalid OTP. 2 attempts left.'') gs, w') \<and>
       fst (verifyOtp (at_time env t) email code w') = Inr ())"
proof (intro conjI allI impI)
  fix ps w' g
  assume a: "otp_sound email code ([], w) \<and> otp_reaches env email (List.map Started gs', w) (ps, w') \<and> Accepted g \<in> set ps"
  then have "otp_sound email code (List.map Started gs', w)" by (auto simp: otp_sound_def)
  then have "otp_sound email code (ps, w')" using otp_sound_reaches a by blast
  then show "g = code" using a by (auto simp: otp_sound_def)
next
  have ne: "\<forall>g \<in> set gs. g \<noteq> code" using assms(5) by auto
  show "\<exists>w'. otp_reaches env email (List.map Started gs, w) (List.map (\<lambda>g. Refused g ''Invalid OTP. 2 attempts left.'') gs, w') \<and>
       fst (verifyOtp (at_time env t) email code w') = Inr ()"
    using parallel_guesses[OF assms(1-4) ne, of env] verifyOtp_right[where env = "at_time env t"] assms(2) by fastforce
qed

theorem parallel_guesses_count_once_witness:
  "\<exists>w'. otp_reaches demo_auth_env ''a@b.c'' (List.map Started (replicate 1000 ''000000''),
       r_setex demo_auth_env (registrationOtpKey ''a@b.c'') 300 (Txt ''123456'') empty_auth)
      (List.map (\<lambda>g. Refused g ''Invalid OTP. 2 attempts left.'') (replicate 1000 ''000000''), w') \<and>
     fst (verifyOtp (at_time demo_auth_env 7) ''a@b.c'' ''123456'' w') = Inr ()"
proof -
  have g: "guessing ''a@b.c'' ''123456'' 300000 0
     (r_setex demo_auth_env (registrationOtpKey ''a@b.c'') 300 (Txt ''123456'') empty_auth)"
    by (rule guessing_start) simp
  show ?thesis
    by (rule conjunct2[OF parallel_guesses_count_once[OF g, of 7 "replicate 1000 ''000000''" demo_auth_env "[]"]]) simp_all
qed

end
