(* ===== verification/Registration_Saga.thy ===== *)
theory Registration_Saga
  imports User_Http User_Claims Internal_Claims
begin

text \<open>
  A registration across the two services: \<open>completeRegistration\<close> of the auth service, its client with retries and
  breaker, and the provisioning route of the user service, each with its own state. The signature is left out: the
  requests reach the handler, as they would once client and server sign the same path (\<open>Internal_Claims\<close>).
\<close>

subsection \<open>The user service answers\<close>

text \<open>The routes \<open>/customers/profile\<close>, \<open>/sellers/profile\<close>, \<open>/admins/profile\<close>, \<open>/admins/super-admin-profile\<close>, called
  without a session: the actor is the account.\<close>

fun provisioner_of :: "role \<Rightarrow> provisioner" where
  "provisioner_of CUSTOMER = createCustomerProfile"
| "provisioner_of SELLER = createSellerProfile"
| "provisioner_of ADMIN = createAdminProfile"
| "provisioner_of SUPER_ADMIN = createSuperAdminProfile"

definition profile_answer :: "user_env \<Rightarrow> role \<Rightarrow> json \<Rightarrow> user_world \<Rightarrow> http_answer \<times> user_world" where
  "profile_answer env r body w =
     (let p = profile_of_body (Some body) in
      case provisioner_of r env p (ppId p) None None w of
        (Inr d, w') \<Rightarrow> (Status 201, w')
      | (Inl e, w') \<Rightarrow> (Status (sStatus (classify_error e)), w'))"

text \<open>The user service after the first \<open>n\<close> requests; \<open>es k\<close> is the environment of the \<open>k\<close>-th.\<close>

fun served :: "(nat \<Rightarrow> user_env) \<Rightarrow> role \<Rightarrow> json \<Rightarrow> user_world \<Rightarrow> nat \<Rightarrow> user_world" where
  "served es r body w 0 = w"
| "served es r body w (Suc n) = snd (profile_answer (es n) r body (served es r body w n))"

definition answers :: "(nat \<Rightarrow> user_env) \<Rightarrow> role \<Rightarrow> json \<Rightarrow> user_world \<Rightarrow> nat \<Rightarrow> http_answer" where
  "answers es r body w k = fst (profile_answer (es k) r body (served es r body w k))"

subsection \<open>Both services\<close>

record shop =
  shAuth :: auth_world
  shBreaker :: cb_state
  shUsers :: user_world

text \<open>The call with its retries, begun at \<open>t0\<close> and settled at \<open>t1\<close>; \<open>None\<close> when it never settles.\<close>

definition provisioning_call ::
    "time \<Rightarrow> time \<Rightarrow> (nat \<Rightarrow> user_env) \<Rightarrow> role \<Rightarrow> json \<Rightarrow> shop \<Rightarrow> ((js_error + unit) \<times> cb_state \<times> user_world) option" where
  "provisioning_call t0 t1 es r body s =
     (case createUserProfile t0 t1 (answers es r body (shUsers s)) (shBreaker s) of
        None \<Rightarrow> None
      | Some (x, b) \<Rightarrow> Some (x, b,
          if is_ok (fst (execute_begin user_service_breaker t0 (shBreaker s)))
          then (case client_request (answers es r body (shUsers s)) 0 None of
              None \<Rightarrow> shUsers s | Some (a, n) \<Rightarrow> served es r body (shUsers s) n)
          else shUsers s))"

text \<open>The request gets as far as the call: the code is right and the credential was inserted.\<close>

definition calls_out :: "auth_env \<Rightarrow> role \<Rightarrow> string \<Rightarrow> string \<Rightarrow> registration \<Rightarrow> auth_world \<Rightarrow> bool" where
  "calls_out env r email otp reg w \<longleftrightarrow> is_ok (fst (on_ok (verifyOtp env email otp w)
     (\<lambda>_ w. create_credential env (rgEmail reg) (rgPassword reg) [r] w)))"

definition register_across ::
    "auth_env \<Rightarrow> time \<Rightarrow> time \<Rightarrow> (nat \<Rightarrow> user_env) \<Rightarrow> role \<Rightarrow> string \<Rightarrow> string \<Rightarrow> shop \<Rightarrow> ((js_error + auth_result) \<times> shop) option" where
  "register_across env t0 t1 es r email otp s =
     (case cached_registration env r email (shAuth s) of
        Inl e \<Rightarrow> Some (Inl e, s)
      | Inr reg \<Rightarrow>
          if calls_out env r email otp reg (shAuth s) then
            (case provisioning_call t0 t1 es r (profile_body (aeRowId env) (rgEmail reg) (rgProfile reg)) s of
               None \<Rightarrow> None
             | Some (x, b, uw) \<Rightarrow>
                 (case completeRegistration (env\<lparr>aeUserService := x\<rparr>) r email otp (shAuth s) of (y, aw) \<Rightarrow>
                    Some (y, \<lparr>shAuth = aw, shBreaker = b, shUsers = uw\<rparr>)))
          else (case completeRegistration env r email otp (shAuth s) of (y, aw) \<Rightarrow> Some (y, s\<lparr>shAuth := aw\<rparr>)))"

lemma payload_of_profile_body [simp]:
  "ppId (profile_of_body (Some (profile_body i e p))) = i" "ppEmail (profile_of_body (Some (profile_body i e p))) = e"
  by (simp_all add: profile_of_body_def profile_body_def body_text_def Let_def)

subsection \<open>What a request to the user service leaves\<close>

text \<open>The cache does not hold the user \<open>i\<close>, or knows that there is none.\<close>

definition knows_no_user :: "string \<Rightarrow> user_world \<Rightarrow> bool" where
  "knows_no_user i w \<longleftrightarrow> coherent {userProfileKey i} (\<lambda>k. None) (uwCache w)"

lemma never_cached_knows: "never_cached (userProfileKey i) (uwCache w) \<Longrightarrow> knows_no_user i w"
  by (simp add: knows_no_user_def coherent_def l1_agrees_def redis_agrees_def never_cached_def uncached_def)

lemma absent_read:
  assumes "knows_no_user i w" "i \<notin> uId ` set (udUsers (uwDb w))"
  obtains w' where "findUserById env i w = (Inr None, w')" "uwDb w' = uwDb w" "knows_no_user i w'"
proof -
  let ?o = "DEFAULT_CACHE_OPTIONS\<lparr>coL2Ttl := TTL_USER_PROFILE\<rparr>"
  have n: "active_by_id (uwDb w) i = None" using assms(2) by (auto simp: active_by_id_def find_None_iff)
  obtain r c where g: "cacheGet (ueCache env) ?o (userProfileKey i) (Inr None) (uwCache w) = (r, c)" by force
  have "r = Inr None" "coherent {userProfileKey i} (\<lambda>k. None) c"
    using cacheGet_sound[OF assms(1)[unfolded knows_no_user_def], of "userProfileKey i" "ueCache env" ?o] g
    by (simp_all add: value_keys_def)
  then show thesis
    using g n by (intro that[of "w\<lparr>uwCache := c\<rparr>"]) (simp_all add: findUserById_def cached_read_def knows_no_user_def)
qed

text \<open>Either the user row is there afterwards, or the request failed and nothing has changed.\<close>

definition provisioned :: "string \<Rightarrow> string \<Rightarrow> role \<Rightarrow> user_world \<Rightarrow> bool" where
  "provisioned i e r w \<longleftrightarrow> (\<exists>u \<in> set (udUsers (uwDb w)). uId u = i \<and> uEmail u = e \<and> uRole u = [r])"

definition refused :: "js_error + 'a \<Rightarrow> bool" where
  "refused x \<longleftrightarrow> (\<exists>e. x = Inl e \<and> \<not> http_ok (Status (sStatus (classify_error e))))"

lemma refusals:
  "refused (Inl (unique_violation t))" "refused (Inl foreign_key_violation)"
  "refused (Inl (AppErr (ConflictError ''A user with this email address already exists'' (Some ''email''))))"
  by (simp_all add: refused_def unique_violation_def foreign_key_violation_def classify_error_def prisma_known_error_def
      simplified_def mentions_redis_def app_error_response_def)

text \<open>A write of the repository: the cache stays, and its errors are refusals.\<close>

definition db_write :: "unit uw \<Rightarrow> bool" where
  "db_write f \<longleftrightarrow> (\<forall>w. uwCache (snd (f w)) = uwCache w \<and> (is_ok (fst (f w)) \<or> refused (fst (f w))))"

lemma db_writes:
  "db_write (repo_createCustomerProfile env i n m ph av dob)" "db_write (repo_createSellerProfile i n m ph bio)"
  "db_write (repo_createAdminProfile i n m)"
  by (simp_all add: db_write_def repo_createCustomerProfile_def repo_createSellerProfile_def repo_createAdminProfile_def
      with_db_def Let_def refusals)

lemma db_write_tx:
  assumes "db_write f" "transaction (provision_tx env p f) w = (x, w')"
  shows "uwCache w' = uwCache w \<and> (is_ok x \<or> refused x \<and> uwDb w' = uwDb w)"
proof -
  obtain a w1 where c: "createUser env (piId p) (piEmail p) (piRole p) w = (a, w1)" by force
  have c1: "uwCache w1 = uwCache w" "is_ok a \<or> refused a"
    using c by (auto simp: createUser_def Let_def with_db_def refusals split: if_splits)
  obtain b w2 where d: "f w1 = (b, w2)" by force
  have c2: "uwCache w2 = uwCache w" "is_ok b \<or> refused b"
    using assms(1) d c1 unfolding db_write_def by (metis fst_conv snd_conv)+
  show ?thesis using assms(2) c d c1 c2
    by (cases a; cases b) (auto simp: transaction_def provision_tx_def writeAuditLog_def emit_def refused_def
        emitDomainEvent_def writeOutboxEvent_def with_db_def split: prod.splits sum.splits)
qed

lemma tx_provisioned:
  assumes "profile_write f" "transaction (provision_tx env p f) w = (Inr x, w')"
  shows "provisioned (piId p) (piEmail p) (piRole p) w'"
proof -
  obtain a w1 where c: "createUser env (piId p) (piEmail p) (piRole p) w = (a, w1)" by force
  obtain b w2 where d: "f w1 = (b, w2)" by force
  have ok: "is_ok a" "is_ok b" using assms(2) c d
    by (cases a; cases b; simp add: transaction_def provision_tx_def)+
  have u1: "provisioned (piId p) (piEmail p) (piRole p) w1"
    using c ok(1) by (auto simp: createUser_def Let_def with_db_def provisioned_def split: if_splits)
  have "udUsers (uwDb w2) = udUsers (uwDb w1)"
    using assms(1) d unfolding profile_write_def by (metis snd_conv)
  moreover have "udUsers (uwDb w') = udUsers (uwDb w2)" using assms(2) c d ok
    by (cases a; cases b) (auto simp: transaction_def provision_tx_def writeAuditLog_def emit_def emitDomainEvent_def
        writeOutboxEvent_def with_db_def)
  ultimately show ?thesis using u1 by (simp add: provisioned_def)
qed

lemma provisionAccount_cases:
  assumes "profile_write f" "db_write f" "knows_no_user (piId p) w" "piId p \<notin> uId ` set (udUsers (uwDb w))"
    and "provisionAccount env p f w = (x, w')"
  shows "provisioned (piId p) (piEmail p) (piRole p) w' \<or>
    refused x \<and> udUsers (uwDb w') = udUsers (uwDb w) \<and> knows_no_user (piId p) w'"
proof -
  obtain w1 where w1: "findUserById env (piId p) w = (Inr None, w1)" "uwDb w1 = uwDb w" "knows_no_user (piId p) w1"
    by (rule absent_read[OF assms(3,4)])
  show ?thesis
  proof (cases "piEmail p \<in> uEmail ` set (udUsers (uwDb w))")
    case True
    then show ?thesis using assms(5) w1 by (auto simp: provisionAccount_def existsByEmailIncludingDeleted_def refusals)
  next
    case False
    obtain t w2 where t: "transaction (provision_tx env p f) w1 = (t, w2)" by force
    note T = db_write_tx[OF assms(2) t]
    show ?thesis
    proof (cases t)
      case (Inl e)
      then show ?thesis using assms(5) w1 False t T
        by (auto simp: provisionAccount_def existsByEmailIncludingDeleted_def knows_no_user_def refused_def)
    next
      case (Inr i)
      have row: "provisioned (piId p) (piEmail p) (piRole p) w2" using tx_provisioned[OF assms(1)] t Inr by simp
      obtain u w3 where r: "findUserById env i w2 = (Inr u, w3)" using findUserById_ok by blast
      then have "uwDb w' = uwDb w2" using assms(5) w1 False t Inr findUserById_db[OF r]
        by (cases u) (auto simp: provisionAccount_def existsByEmailIncludingDeleted_def)
      then show ?thesis using row by (simp add: provisioned_def)
    qed
  qed
qed

lemma provision_input_sel [simp]:
  "piId (provision_input_of r p actor ip ua) = ppId p" "piEmail (provision_input_of r p actor ip ua) = ppEmail p"
  "piRole (provision_input_of r p actor ip ua) = r"
  by (simp_all add: provision_input_of_def)

lemma provisioner_shape:
  obtains f where "profile_write f" "db_write f"
    "provisioner_of r env p actor ip ua = provisionAccount env (provision_input_of r p actor ip ua) f"
proof (cases r)
  case CUSTOMER
  then show thesis
    using that[of "repo_createCustomerProfile env (ppId p) (ppFirstName p) (ppLastName p) (ppPhone p) (ppAvatar p) (ppDateOfBirth p)"]
    by (simp add: profile_writes db_writes createCustomerProfile_def fun_eq_iff)
next
  case SELLER
  then show thesis
    using that[of "repo_createSellerProfile (ppId p) (ppFirstName p) (ppLastName p) (ppPhone p) (ppBio p)"]
    by (simp add: profile_writes db_writes createSellerProfile_def fun_eq_iff)
next
  case ADMIN
  then show thesis
    using that[of "repo_createAdminProfile (ppId p) (ppFirstName p) (ppLastName p)"]
    by (simp add: profile_writes db_writes createAdminProfile_def fun_eq_iff)
next
  case SUPER_ADMIN
  then show thesis
    using that[of "repo_createAdminProfile (ppId p) (ppFirstName p) (ppLastName p)"]
    by (simp add: profile_writes db_writes createSuperAdminProfile_def fun_eq_iff)
qed

lemma provisioner_cases:
  assumes "knows_no_user (ppId p) w" "ppId p \<notin> uId ` set (udUsers (uwDb w))"
    and "provisioner_of r env p actor ip ua w = (x, w')"
  shows "provisioned (ppId p) (ppEmail p) r w' \<or>
    refused x \<and> udUsers (uwDb w') = udUsers (uwDb w) \<and> knows_no_user (ppId p) w'"
proof (rule provisioner_shape[of r env p actor ip ua])
  fix f
  assume "profile_write f" "db_write f"
    and "provisioner_of r env p actor ip ua = provisionAccount env (provision_input_of r p actor ip ua) f"
  then show ?thesis using provisionAccount_cases[of f "provision_input_of r p actor ip ua"] assms by simp
qed

lemma provisioner_registers:
  "registers (ppId p) (ppEmail p) r (uwDb w) (uwDb (snd (provisioner_of r env p actor ip ua w)))"
proof (rule provisioner_shape[of r env p actor ip ua])
  fix f
  assume "profile_write f"
    and "provisioner_of r env p actor ip ua = provisionAccount env (provision_input_of r p actor ip ua) f"
  then show ?thesis using provisionAccount_registers[of f "provision_input_of r p actor ip ua" w env] by simp
qed

subsection \<open>Any number of requests\<close>

lemma served_provisioned:
  fixes i e :: string and profile :: "(string \<times> json) list"
  defines "body \<equiv> profile_body i e profile"
  assumes "knows_no_user i w" "i \<notin> uId ` set (udUsers (uwDb w))"
  shows "provisioned i e r (served es r body w n) \<or>
    udUsers (uwDb (served es r body w n)) = udUsers (uwDb w) \<and> knows_no_user i (served es r body w n) \<and>
    (\<forall>k < n. \<not> http_ok (answers es r body w k))"
proof (induction n)
  case 0
  then show ?case using assms by simp
next
  case (Suc n)
  let ?w = "served es r body w n"
  let ?p = "profile_of_body (Some body)"
  obtain x w' where run: "provisioner_of r (es n) ?p i None None ?w = (x, w')" by force
  have next_state: "served es r body w (Suc n) = w'" "refused x \<Longrightarrow> \<not> http_ok (answers es r body w n)"
    using run by (cases x; simp add: refused_def profile_answer_def answers_def body_def Let_def)+
  from Suc show ?case
  proof
    assume row: "provisioned i e r ?w"
    have "registers i e r (uwDb ?w) (uwDb w')"
      using provisioner_registers[of ?p r ?w "es n" i None None] run by (simp add: body_def)
    then have "set (udUsers (uwDb ?w)) \<subseteq> set (udUsers (uwDb w'))" by (auto simp: registers_def)
    then show ?case using row next_state(1) by (auto simp: provisioned_def)
  next
    assume none: "udUsers (uwDb ?w) = udUsers (uwDb w) \<and> knows_no_user i ?w \<and>
      (\<forall>k < n. \<not> http_ok (answers es r body w k))"
    have "provisioned i e r w' \<or> refused x \<and> udUsers (uwDb w') = udUsers (uwDb ?w) \<and> knows_no_user i w'"
      using provisioner_cases[of ?p ?w r "es n" i None None x w'] run none assms by (simp add: body_def)
    then show ?case
      using none next_state by (auto simp: less_Suc_eq)
  qed
qed

lemma client_request_counts:
  assumes "client_request answer 0 None = Some (a, n)"
  obtains j where "n = Suc j" "a = answer j" "\<not> retryable a" "\<And>k. k < j \<Longrightarrow> retryable (answer k)"
proof -
  have "\<exists>j. \<not> retryable (answer j)" using client_request_never[of 0 answer None] assms by fastforce
  then obtain j where j: "\<not> retryable (answer j)" "\<And>k. k < j \<Longrightarrow> retryable (answer k)"
    using exists_least_iff[of "\<lambda>j. \<not> retryable (answer j)"] by blast
  then have "client_request answer 0 None = Some (answer j, j + 1)" using client_request_settles[of answer 0 j None] by simp
  then show thesis using assms j that by simp
qed

subsection \<open>A credential has its profile\<close>

lemma call_ok_provisioned:
  assumes "provisioning_call t0 t1 es r (profile_body i e profile) s = Some (Inr u, b, uw)"
    and "knows_no_user i (shUsers s)" "i \<notin> uId ` set (udUsers (uwDb (shUsers s)))"
  shows "provisioned i e r uw"
proof -
  let ?body = "profile_body i e profile"
  let ?ans = "answers es r ?body (shUsers s)"
  have c: "createUserProfile t0 t1 ?ans (shBreaker s) = Some (Inr u, b)"
    using assms(1) by (auto simp: provisioning_call_def split: option.splits prod.splits)
  obtain a n where q: "client_request ?ans 0 None = Some (a, n)"
    using c by (auto simp: createUserProfile_def split: option.splits prod.splits sum.splits)
  have ok: "http_ok a" "is_ok (fst (execute_begin user_service_breaker t0 (shBreaker s)))"
    using c q by (auto simp: createUserProfile_def execute_def split: prod.splits sum.splits if_splits)
  obtain j where j: "n = Suc j" "a = ?ans j" using client_request_counts[OF q] by blast
  have "uw = served es r ?body (shUsers s) (Suc j)"
    using assms(1) c q ok(2) j(1) by (simp add: provisioning_call_def)
  moreover have "provisioned i e r (served es r ?body (shUsers s) (Suc j)) \<or> \<not> http_ok (?ans j)"
    using served_provisioned[OF assms(2,3), of e r es profile "Suc j"] by auto
  ultimately show ?thesis using ok(1) j(2) by simp
qed

lemma no_call_no_session:
  assumes "cached_registration env r email w = Inr reg" "\<not> calls_out env r email otp reg w"
  shows "\<not> is_ok (fst (completeRegistration env r email otp w))"
proof -
  obtain x w1 where v: "verifyOtp env email otp w = (x, w1)" by force
  obtain y w2 where c: "create_credential env (rgEmail reg) (rgPassword reg) [r] w1 = (y, w2)" by force
  show ?thesis using assms v c by (cases x; cases y) (simp_all add: completeRegistration_def calls_out_def)
qed

lemma created_id:
  assumes "completeRegistration env r email otp w = (Inr res, w')"
  shows "\<exists>c. adCredentials (awDb w') = adCredentials (awDb w) @ [c] \<and> crId c = aeRowId env"
proof -
  obtain reg where reg: "cached_registration env r email w = Inr reg"
    using assms by (cases "cached_registration env r email w") (simp_all add: completeRegistration_def)
  obtain x w1 where v: "verifyOtp env email otp w = (x, w1)" by force
  obtain y w2 where c: "create_credential env (rgEmail reg) (rgPassword reg) [r] w1 = (y, w2)" by force
  obtain cr where y: "y = Inr cr" "is_ok x" using assms reg v c
    by (cases x; cases y) (simp_all add: completeRegistration_def)
  have "adCredentials (awDb w1) = adCredentials (awDb w)" using verifyOtp_db[of env email otp w] v by simp
  then show ?thesis
    using assms reg v c y create_credential_ok[OF c[unfolded y(1)]]
    by (cases x; cases "aeUserService env")
      (auto simp: completeRegistration_def issueSession_def issueRefreshToken_def Let_def delete_credential_def split: if_splits)
qed

lemma env_update [simp]:
  "cached_registration (env\<lparr>aeUserService := x\<rparr>) r email w = cached_registration env r email w"
  by (simp add: cached_registration_def r_get_def)

text \<open>A session means that the call was made and answered with success.\<close>

lemma session_called:
  assumes "register_across env t0 t1 es r email otp s = Some (x, s')"
  shows "case x of
     Inl e \<Rightarrow> adCredentials (awDb (shAuth s')) = adCredentials (awDb (shAuth s))
   | Inr res \<Rightarrow> \<exists>reg b c. cached_registration env r email (shAuth s) = Inr reg \<and>
       provisioning_call t0 t1 es r (profile_body (aeRowId env) (rgEmail reg) (rgProfile reg)) s = Some (Inr (), b, shUsers s') \<and>
       adCredentials (awDb (shAuth s')) = adCredentials (awDb (shAuth s)) @ [c] \<and> crRole c = [r] \<and>
       crId c = aeRowId env \<and> crEmail c = rgEmail reg"
proof (cases "cached_registration env r email (shAuth s)")
  case (Inl e)
  then show ?thesis using assms by (auto simp: register_across_def)
next
  case (Inr reg)
  note reg = Inr
  let ?body = "profile_body (aeRowId env) (rgEmail reg) (rgProfile reg)"
  show ?thesis
  proof (cases "calls_out env r email otp reg (shAuth s)")
    case False
    obtain y aw where run: "completeRegistration env r email otp (shAuth s) = (y, aw)" by force
    then obtain e where "y = Inl e" using no_call_no_session[OF reg False] by (cases y) auto
    then show ?thesis
      using assms reg False run registration_outcome[where env = env and r = r and email = email and otp = otp and w = "shAuth s"]
      by (auto simp: register_across_def)
  next
    case True
    obtain z b uw where call: "provisioning_call t0 t1 es r ?body s = Some (z, b, uw)"
      using assms reg True by (auto simp: register_across_def split: option.splits)
    let ?env = "env\<lparr>aeUserService := z\<rparr>"
    obtain y aw where run: "completeRegistration ?env r email otp (shAuth s) = (y, aw)" by force
    have s': "x = y" "shAuth s' = aw" "shUsers s' = uw"
      using assms reg True call run by (auto simp: register_across_def)
    note O = registration_outcome[where env = ?env and r = r and email = email and otp = otp and w = "shAuth s", unfolded run]
    show ?thesis
    proof (cases y)
      case (Inl e)
      then show ?thesis using O s' by simp
    next
      case (Inr res)
      obtain c where c: "adCredentials (awDb aw) = adCredentials (awDb (shAuth s)) @ [c]" "crEmail c = rgEmail reg"
        "crRole c = [r]" "z = Inr ()"
        using O Inr reg by auto
      have "crId c = aeRowId env" using created_id[of ?env r email otp "shAuth s" res aw] run Inr c(1) by auto
      then show ?thesis using s' Inr c reg call by auto
    qed
  qed
qed


subsection \<open>A profile without its credential\<close>

lemma breaker_admits: "cbState b = CLOSED \<Longrightarrow> is_ok (fst (execute_begin opt t b))"
  by (simp add: execute_begin_def pruneFailureTimestamps_def enter_half_open_def Let_def)

text \<open>An address some user has: no other account can be provisioned for it.\<close>

lemma taken_served:
  "e \<in> uEmail ` set (udUsers (uwDb w)) \<Longrightarrow>
     udUsers (uwDb (served es r (profile_body i e profile) w n)) = udUsers (uwDb w)"
proof (induction n)
  case (Suc n)
  let ?b = "profile_body i e profile"
  let ?w = "served es r ?b w n"
  have "udUsers (uwDb (snd (provisioner_of r (es n) (profile_of_body (Some ?b)) i None None ?w))) = udUsers (uwDb ?w)"
    using provisioner_registers[of "profile_of_body (Some ?b)" r ?w "es n" i None None] Suc by (auto simp: registers_def)
  then show ?case using Suc by (simp add: profile_answer_def Let_def split: prod.splits sum.splits) (auto split: sum.splits)
qed simp

lemma taken_address:
  assumes "e \<in> uEmail ` set (udUsers (uwDb (shUsers s)))" "knows_no_user i (shUsers s)"
    "i \<notin> uId ` set (udUsers (uwDb (shUsers s)))"
  shows "provisioning_call t0 t1 es r (profile_body i e profile) s \<noteq> Some (Inr u, b, uw)"
proof
  assume call: "provisioning_call t0 t1 es r (profile_body i e profile) s = Some (Inr u, b, uw)"
  then have "udUsers (uwDb uw) = udUsers (uwDb (shUsers s))"
    using taken_served[OF assms(1), of es r i profile]
    by (auto simp: provisioning_call_def split: option.splits prod.splits if_splits)
  then show False using call_ok_provisioned[OF call assms(2,3)] assms(3) by (auto simp: provisioned_def)
qed

lemma taken_address_no_session:
  assumes "cached_registration env r email (shAuth s) = Inr reg" "rgEmail reg \<in> uEmail ` set (udUsers (uwDb (shUsers s)))"
    "knows_no_user (aeRowId env) (shUsers s)" "aeRowId env \<notin> uId ` set (udUsers (uwDb (shUsers s)))"
  shows "register_across env t0 t1 es r email otp s \<noteq> Some (Inr res, s')"
proof
  assume "register_across env t0 t1 es r email otp s = Some (Inr res, s')"
  then show False using session_called[of env t0 t1 es r email otp s "Inr res" s'] assms taken_address[OF assms(2,3,4)] by auto
qed

text \<open>The two requests of a first registration: 500 after the commit, then 409.\<close>

lemma first_answers:
  fixes i e :: string and profile :: "(string \<times> json) list"
  defines "p \<equiv> profile_of_body (Some (profile_body i e profile))"
  assumes env: "\<And>k. ueCache (es k) = ce" "redis_up ce" "within_minute ce"
    and cold: "calm (uwCache w)" "never_cached (userProfileKey i) (uwCache w)"
    and new: "i \<notin> uId ` set (udUsers (uwDb w))" "e \<notin> uEmail ` set (udUsers (uwDb w))"
      "i \<notin> cpUserId ` set (udCustomers (uwDb w))"
      "ppFirstName p @ ''-'' @ ppLastName p @ ''-'' @ take 8 (ueRowUuid (es 0)) \<notin> cpReferralCode ` set (udCustomers (uwDb w))"
  shows "client_request (answers es CUSTOMER (profile_body i e profile) w) 0 None = Some (Status 409, 2)"
    "\<exists>u \<in> set (udUsers (uwDb (served es CUSTOMER (profile_body i e profile) w 2))). uId u = i \<and> uEmail u = e"
proof -
  let ?b = "profile_body i e profile"
  have [simp]: "ppId p = i" "ppEmail p = e" by (simp_all add: p_def)
  have up: "redis_up (ueCache (es k))" "within_minute (ueCache (es k))" for k using env by simp_all
  obtain w1 where "createCustomerProfile (es 0) p i None None w = (Inl (internal_error ''Account provisioning failed''), w1)"
    "\<exists>u \<in> set (udUsers (uwDb w1)). uId u = ppId p \<and> uEmail u = ppEmail p \<and> \<not> uIsDeleted u"
    "length (udOutbox (uwDb w1)) = Suc (length (udOutbox (uwDb w)))"
    "calm (uwCache w1)" "uncached (userProfileKey (ppId p)) (uwCache w1)"
    "absence_known (ueCache (es 0)) (userProfileKey (ppId p)) (uwCache w1)"
    by (rule provisioning_fails_late[OF up cold(1), where p = p and actor = i and ip = None and ua = None])
      (use cold(2) new in simp_all)
  then have w1: "createCustomerProfile (es 0) p i None None w = (Inl (internal_error ''Account provisioning failed''), w1)"
    "\<exists>u \<in> set (udUsers (uwDb w1)). uId u = i \<and> uEmail u = e \<and> \<not> uIsDeleted u"
    "calm (uwCache w1)" "uncached (userProfileKey i) (uwCache w1)" "absence_known ce (userProfileKey i) (uwCache w1)"
    using env(1) by simp_all
  have mem: "e \<in> uEmail ` set (udUsers (uwDb w1))" using w1(2) by force
  obtain w2 where w2: "createCustomerProfile (es 1) p i None None w1 =
      (Inl (AppErr (ConflictError ''A user with this email address already exists'' (Some ''email''))), w2)" "uwDb w2 = uwDb w1"
    by (rule provisioning_retry_conflicts[OF up(1) w1(3), where p = p and actor = i and ip = None and ua = None])
      (use w1 env(1) mem in simp_all)
  have s1: "profile_answer (es 0) CUSTOMER ?b w = (Status 500, w1)"
    using w1(1) by (simp add: profile_answer_def p_def[symmetric] classify_error_def mentions_redis_def app_error_response_def
        simplified_def)
  have s2: "profile_answer (es 1) CUSTOMER ?b w1 = (Status 409, w2)"
    using w2(1) by (simp add: profile_answer_def p_def[symmetric] classify_error_def mentions_redis_def app_error_response_def
        simplified_def)
  have a: "answers es CUSTOMER ?b w 0 = Status 500" "answers es CUSTOMER ?b w 1 = Status 409"
    using s1 s2 by (simp_all add: answers_def)
  then show "client_request (answers es CUSTOMER ?b w) 0 None = Some (Status 409, 2)"
    using client_request_settles[of "answers es CUSTOMER ?b w" 0 1 None] by (simp add: less_Suc_eq numeral_2_eq_2)
  show "\<exists>u \<in> set (udUsers (uwDb (served es CUSTOMER ?b w 2))). uId u = i \<and> uEmail u = e"
    using s1 s2 w1(2) w2(2) by (auto simp: numeral_2_eq_2)
qed


text \<open>A shop where a registration waits for its code and the user service is empty.\<close>

definition waiting_shop :: shop where
  "waiting_shop = \<lparr>shAuth = waiting_world, shBreaker = new_breaker 0, shUsers = empty_user_world\<rparr>"

lemma waiting:
  "cached_registration demo_auth_env CUSTOMER ''a@b.c'' waiting_world =
     Inr \<lparr>rgEmail = ''a@b.c'', rgPassword = ''pw'', rgFirstName = ''A'', rgProfile = []\<rparr>"
  by code_simp

lemma waiting_calls_out:
  "calls_out demo_auth_env CUSTOMER ''a@b.c'' ''123456''
     \<lparr>rgEmail = ''a@b.c'', rgPassword = ''pw'', rgFirstName = ''A'', rgProfile = []\<rparr> waiting_world"
  by code_simp

lemma empty_shop:
  "calm (uwCache (shUsers waiting_shop))" "never_cached k (uwCache (shUsers waiting_shop))"
  "udUsers (uwDb (shUsers waiting_shop)) = []" "udCustomers (uwDb (shUsers waiting_shop)) = []"
  "knows_no_user i (shUsers waiting_shop)"
  by (simp_all add: waiting_shop_def empty_user_world_def empty_cache_cold never_cached_knows)


text \<open>A retry that comes long after the first request finds the row, and the registration succeeds.\<close>

definition slow_envs :: "nat \<Rightarrow> user_env" where
  "slow_envs k = quick_user_env\<lparr>ueCache := \<lparr>ceClock = \<lambda>n. 1000000000 * int k, ceRedisFault = \<lambda>n. None\<rparr>\<rparr>"

lemma slow_answers: "answers slow_envs CUSTOMER (profile_body ''c1'' ''a@b.c'' []) empty_user_world 0 = Status 500"
  "answers slow_envs CUSTOMER (profile_body ''c1'' ''a@b.c'' []) empty_user_world 1 = Status 201"
  by code_simp+

lemma waiting_completes: "is_ok (fst (completeRegistration (demo_auth_env\<lparr>aeUserService := Inr ()\<rparr>) CUSTOMER ''a@b.c'' ''123456'' waiting_world))"
  by code_simp

lemma registered_late:
  obtains res s' where "register_across demo_auth_env 0 2000 slow_envs CUSTOMER ''a@b.c'' ''123456'' waiting_shop = Some (Inr res, s')"
proof -
  let ?b = "profile_body ''c1'' ''a@b.c'' []"
  have q: "client_request (answers slow_envs CUSTOMER ?b empty_user_world) 0 None = Some (Status 201, 2)"
    using client_request_settles[of "answers slow_envs CUSTOMER ?b empty_user_world" 0 1 None] slow_answers
    by (simp add: less_Suc_eq numeral_2_eq_2)
  have c: "cbState (shBreaker waiting_shop) = CLOSED" "shAuth waiting_shop = waiting_world" "shUsers waiting_shop = empty_user_world"
    "aeRowId demo_auth_env = ''c1''"
    by (simp_all add: waiting_shop_def new_breaker_def demo_auth_env_def)
  obtain u b where "execute_begin user_service_breaker 0 (shBreaker waiting_shop) = (Inr u, b)"
    using breaker_admits[OF c(1), of user_service_breaker 0] by (auto simp: is_ok_iff prod_eq_iff)
  then obtain b' w' where call: "provisioning_call 0 2000 slow_envs CUSTOMER ?b waiting_shop = Some (Inr (), b', w')"
    using q c(3) by (simp add: provisioning_call_def createUserProfile_def execute_def)
  obtain res aw where "completeRegistration (demo_auth_env\<lparr>aeUserService := Inr ()\<rparr>) CUSTOMER ''a@b.c'' ''123456'' waiting_world = (Inr res, aw)"
    using waiting_completes by (auto simp: is_ok_iff prod_eq_iff)
  then show thesis using call waiting waiting_calls_out c(2,4) that by (simp add: register_across_def)
qed

end
