(* ===== verification/Log_Redaction.thy ===== *)
theory Log_Redaction
  imports Nexus_Prelude
begin

text \<open>
  \<open>packages/logger/src/redaction.ts\<close>: what of a log entry reaches the transports. Winston's symbol
  keys are left out. An instance of a class (an \<open>Error\<close>, a \<open>Date\<close>) is its hidden part, which
  \<open>Object.entries\<close> does not list, and its own enumerable members.
\<close>

subsection \<open>Values\<close>

datatype log_value =
    LStr string
  | LNum int
  | LBool bool
  | LNull
  | LUndefined
  | LArr "log_value list"
  | LObj "(string \<times> log_value) list"
  | LInstance string "(string \<times> log_value) list"

definition DEFAULT_REDACT_KEYS :: "string list" where
  "DEFAULT_REDACT_KEYS =
     [''password'', ''pass'', ''pwd'', ''token'', ''apikey'', ''api_key'', ''secret'', ''authorization'', ''auth'', ''otp'',
      ''code'', ''cardnumber'', ''card_number'', ''creditcard'', ''credit_card'', ''cvv'', ''pin'', ''resettoken'',
      ''reset_token'', ''refreshtoken'', ''refresh_token'', ''accesstoken'', ''access_token'', ''bearer'', ''cookie'',
      ''set-cookie'', ''sessionid'', ''session'', ''privatekey'', ''private_key'', ''ssn'']"

definition REDACTED :: string where "REDACTED = ''[REDACTED]''"

text \<open>The record of keys, and \<open>in\<close>, which also finds what the record inherits from \<open>Object.prototype\<close>.\<close>

definition redact_record :: "string list \<Rightarrow> string list" where
  "redact_record extraKeys = List.map str_lower DEFAULT_REDACT_KEYS @ List.map str_lower extraKeys"

definition in_record :: "string \<Rightarrow> string list \<Rightarrow> bool" where
  "in_record k keys \<longleftrightarrow> k \<in> set keys \<or> k \<in> {''constructor'', ''__proto__''}"

text \<open>A key that is redacted; a text assigned to \<open>__proto__\<close> makes no member.\<close>

definition sensitive :: "string list \<Rightarrow> string \<Rightarrow> bool" where
  "sensitive keys k \<longleftrightarrow> in_record (str_lower k) keys"

fun redactValue :: "string list \<Rightarrow> log_value \<Rightarrow> log_value" where
  "redactValue keys (LArr vs) = LArr (List.map (redactValue keys) vs)"
| "redactValue keys (LObj kvs) =
     LObj (List.map (\<lambda>(k, v). (k, if sensitive keys k then LStr REDACTED else redactValue keys v))
       (filter (\<lambda>kv. fst kv \<noteq> ''__proto__'') kvs))"
| "redactValue keys (LInstance hidden kvs) =
     LObj (List.map (\<lambda>(k, v). (k, if sensitive keys k then LStr REDACTED else redactValue keys v))
       (filter (\<lambda>kv. fst kv \<noteq> ''__proto__'') kvs))"
| "redactValue keys v = v"

text \<open>The transform of \<open>redactionFormat\<close> on the members of \<open>info\<close>.\<close>

definition redactionFormat :: "string list \<Rightarrow> (string \<times> log_value) list \<Rightarrow> log_value" where
  "redactionFormat extraKeys info = redactValue (redact_record extraKeys) (LObj info)"

subsection \<open>Paths into a value\<close>

datatype log_step = Member string | Item nat

fun children :: "log_value \<Rightarrow> log_step \<Rightarrow> log_value option" where
  "children (LArr vs) (Item n) = (if n < length vs then Some (vs ! n) else None)"
| "children (LObj kvs) (Member k) = map_of kvs k"
| "children (LInstance hidden kvs) (Member k) = map_of kvs k"
| "children _ _ = None"

fun value_at :: "log_value \<Rightarrow> log_step list \<Rightarrow> log_value option" where
  "value_at v [] = Some v"
| "value_at v (s # p) = (case children v s of None \<Rightarrow> None | Some w \<Rightarrow> value_at w p)"

definition secret_step :: "string list \<Rightarrow> log_step \<Rightarrow> bool" where
  "secret_step keys s = (case s of Member k \<Rightarrow> sensitive keys k | Item n \<Rightarrow> False)"

subsection \<open>What is printed\<close>

lemma proto_sensitive [simp]: "sensitive keys ''__proto__''"
proof -
  have "str_lower ''__proto__'' = ''__proto__''" by code_simp
  then show ?thesis by (simp add: sensitive_def in_record_def)
qed

lemma map_of_redacted:
  "map_of (List.map (\<lambda>(k, v). (k, if sensitive keys k then LStr REDACTED else redactValue keys v))
      (filter (\<lambda>kv. fst kv \<noteq> ''__proto__'') kvs)) k =
   (if k = ''__proto__'' then None
    else map_option (\<lambda>v. if sensitive keys k then LStr REDACTED else redactValue keys v) (map_of kvs k))"
  by (induction kvs) auto

lemma children_redacted:
  "children (redactValue keys v) s =
     (if s = Member ''__proto__'' then None
      else map_option (\<lambda>w. if secret_step keys s then LStr REDACTED else redactValue keys w) (children v s))"
  by (cases v; cases s) (simp_all add: map_of_redacted secret_step_def)

lemma printed_at:
  "value_at (redactValue keys v) p =
     (if list_ex (secret_step keys) p
      then (if secret_step keys (last p) \<and> \<not> list_ex (secret_step keys) (butlast p) \<and> last p \<noteq> Member ''__proto__''
               \<and> value_at v p \<noteq> None then Some (LStr REDACTED) else None)
      else map_option (redactValue keys) (value_at v p))"
proof (induction p arbitrary: v)
  case (Cons s p)
  show ?case
  proof (cases "children v s")
    case None
    then show ?thesis by (simp add: children_redacted)
  next
    case (Some w)
    show ?thesis
    proof (cases "secret_step keys s")
      case True
      have "s = Member ''__proto__'' \<or> children (redactValue keys v) s = Some (LStr REDACTED)"
        using Some True by (simp add: children_redacted)
      then show ?thesis
        using Some True by (cases p) (auto simp: children_redacted)
    next
      case False
      then have "s \<noteq> Member ''__proto__''" by (auto simp: secret_step_def)
      then show ?thesis
        using Some False Cons.IH[of w] by (cases p) (auto simp: children_redacted)
    qed
  qed
qed simp

text \<open>The same value with other secrets.\<close>

fun change_secrets :: "string list \<Rightarrow> (log_value \<Rightarrow> log_value) \<Rightarrow> log_value \<Rightarrow> log_value" where
  "change_secrets keys f (LArr vs) = LArr (List.map (change_secrets keys f) vs)"
| "change_secrets keys f (LObj kvs) =
     LObj (List.map (\<lambda>(k, v). (k, if sensitive keys k then f v else change_secrets keys f v)) kvs)"
| "change_secrets keys f (LInstance hidden kvs) =
     LInstance hidden (List.map (\<lambda>(k, v). (k, if sensitive keys k then f v else change_secrets keys f v)) kvs)"
| "change_secrets keys f v = v"

lemma redacted_members_same:
  assumes "list_all (\<lambda>(k, v). redactValue keys (g v) = redactValue keys v) kvs"
  shows "List.map (\<lambda>(k, v). (k, if sensitive keys k then LStr REDACTED else redactValue keys v))
      (filter (\<lambda>kv. fst kv \<noteq> ''__proto__'') (List.map (\<lambda>(k, v). (k, if sensitive keys k then f v else g v)) kvs)) =
    List.map (\<lambda>(k, v). (k, if sensitive keys k then LStr REDACTED else redactValue keys v))
      (filter (\<lambda>kv. fst kv \<noteq> ''__proto__'') kvs)"
  using assms by (induction kvs) auto

lemma members_all:
  "(\<And>kv v. kv \<in> set kvs \<Longrightarrow> v \<in> Basic_BNFs.snds kv \<Longrightarrow> P v) \<Longrightarrow> list_all (\<lambda>(k, v). P v) kvs"
  by (force simp: list_all_iff)

lemma redaction_ignores_secrets: "redactValue keys (change_secrets keys f v) = redactValue keys v"
proof (induction v)
  case (LObj kvs)
  show ?case using redacted_members_same[OF members_all[OF LObj.IH]] by simp
next
  case (LInstance hidden kvs)
  show ?case using redacted_members_same[OF members_all[OF LInstance.IH]] by simp
qed simp_all

lemma redacted_members_once:
  assumes "list_all (\<lambda>(k, v). redactValue keys (redactValue keys v) = redactValue keys v) kvs"
  shows "redactValue keys (redactValue keys (LObj kvs)) = redactValue keys (LObj kvs)"
  using assms by (induction kvs) (auto simp: REDACTED_def)

lemma redaction_once: "redactValue keys (redactValue keys v) = redactValue keys v"
proof (induction v)
  case (LObj kvs)
  show ?case by (rule redacted_members_once[OF members_all[OF LObj.IH]])
next
  case (LInstance hidden kvs)
  show ?case using redacted_members_once[OF members_all[OF LInstance.IH]] by simp
qed simp_all


text \<open>Keys are matched whole: compound names of secrets are printed.\<close>

lemma compound_names_are_printed:
  "List.map (sensitive (redact_record [])) [''newPassword'', ''confirmPassword'', ''inviteToken'', ''Password'', ''statusCode'', ''constructor''] =
     [False, False, False, True, False, True]"
  by code_simp

end
