(* ===== verification/Service_Lifecycle.thy ===== *)
theory Service_Lifecycle
  imports Auth_Admin Admin_Claims
begin

text \<open>
  \<open>packages/config\<close>, the configuration of the auth service, and start and shutdown of the four services
  (\<open>server.ts\<close>). The outcome of each call to the infrastructure is an input; a log line has no effect.
\<close>

subsection \<open>Environment variables\<close>

type_synonym process_env = "string \<Rightarrow> string option"

definition requireEnv :: "process_env \<Rightarrow> string \<Rightarrow> js_error + string" where
  "requireEnv env name = (case env name of
     Some v \<Rightarrow> if v = [] \<or> str_trim v = [] then Inl (OtherError ''Error'' (''[CONFIG] Missing required environment variable: '' @ name))
       else Inr v
   | None \<Rightarrow> Inl (OtherError ''Error'' (''[CONFIG] Missing required environment variable: '' @ name)))"

definition optionalEnv :: "process_env \<Rightarrow> string \<Rightarrow> string \<Rightarrow> string" where
  "optionalEnv env name defaultValue = (case env name of Some v \<Rightarrow> v | None \<Rightarrow> defaultValue)"

definition need :: "process_env \<Rightarrow> string \<Rightarrow> (string \<Rightarrow> js_error + 'a) \<Rightarrow> js_error + 'a" where
  "need env name k = (case requireEnv env name of Inl e \<Rightarrow> Inl e | Inr v \<Rightarrow> k v)"

text \<open>The part of the auth configuration the model of the service uses, read in the order of the file.\<close>

definition load_auth_config :: "process_env \<Rightarrow> js_error + auth_config" where
  "load_auth_config env =
     need env ''REDIS_DATABASE_URL'' (\<lambda>_. need env ''KAFKA_BROKER'' (\<lambda>_. need env ''KAFKA_USERNAME'' (\<lambda>_.
     need env ''KAFKA_PASSWORD'' (\<lambda>_. need env ''ACCESS_TOKEN_SECRET'' (\<lambda>access. need env ''REFRESH_TOKEN_SECRET'' (\<lambda>refresh.
     need env ''PASSWORD_RESET_TOKEN_SECRET'' (\<lambda>reset. need env ''INTERNAL_SERVICE_SECRET'' (\<lambda>internal.
     Inr \<lparr>acAccessSecret = access, acAccessExpires = optionalEnv env ''ACCESS_TOKEN_EXPIRES_IN'' ''15m'',
       acRefreshSecret = refresh, acRefreshExpires = optionalEnv env ''REFRESH_TOKEN_EXPIRES_IN'' ''7d'',
       acResetSecret = reset, acResetExpires = optionalEnv env ''PASSWORD_RESET_TOKEN_EXPIRES_IN'' ''15m'',
       acInternalSecret = internal, acCustomerUrl = optionalEnv env ''CUSTOMER_CLIENT_URL'' ''http://localhost:3000'',
       acSellerUrl = optionalEnv env ''SELLER_CLIENT_URL'' ''http://localhost:5173'',
       acAdminUrl = optionalEnv env ''ADMIN_CLIENT_URL'' ''http://localhost:5174''\<rparr>))))))))"

subsection \<open>Start\<close>

datatype life_step =
    DbConnected
  | RedisAnswered
  | ProducerConnected
  | PollerStarted
  | ConsumerStarted
  | PipelineCreated
  | SuperAdminLookedUp
  | BootstrapEnvChecked
  | Listening
  | ProcessExit int

text \<open>The \<open>try\<close> block of \<open>main\<close>: the first step that throws ends the process with 1.\<close>

fun start_steps :: "(life_step \<times> js_error option) list \<Rightarrow> life_step list" where
  "start_steps [] = []"
| "start_steps ((s, None) # rest) = s # start_steps rest"
| "start_steps ((s, Some e) # rest) = [ProcessExit 1]"

record startup =
  suDb :: "js_error option"
  suRedis :: "js_error option"
  suKafka :: bool
  suProducer :: "js_error option"
  suPoller :: "js_error option"
  suConsumer :: "js_error option"
  suLookup :: "js_error option"
  suAdminEnv :: "js_error + super_admin_env"
  suAttempts :: "nat \<Rightarrow> auth_env"
  suApiKey :: "string option"

definition bus_steps :: "startup \<Rightarrow> (life_step \<times> js_error option) list" where
  "bus_steps su = (if suKafka su
     then [(ProducerConnected, suProducer su), (PollerStarted, suPoller su), (ConsumerStarted, suConsumer su)] else [])"

definition gateway_main :: "startup \<Rightarrow> life_step list" where
  "gateway_main su = start_steps [(RedisAnswered, suRedis su), (Listening, None)]"

definition user_main :: "startup \<Rightarrow> life_step list" where
  "user_main su = start_steps ([(DbConnected, suDb su), (RedisAnswered, suRedis su)] @ bus_steps su @ [(Listening, None)])"

text \<open>\<open>startNotificationPipeline\<close>: the service needs the key of the mail provider; without Kafka nothing
  is subscribed.\<close>

definition pipeline_steps :: "startup \<Rightarrow> (life_step \<times> js_error option) list" where
  "pipeline_steps su =
     (PipelineCreated, if str_truthy (suApiKey su) then None
        else Some (OtherError ''Error'' ''RESEND_API_KEY is required - cannot start notification service'')) #
     (if suKafka su then [(ConsumerStarted, suConsumer su)] else [])"

definition notification_main :: "startup \<Rightarrow> life_step list" where
  "notification_main su = start_steps
     ([(DbConnected, suDb su), (RedisAnswered, suRedis su)] @ pipeline_steps su @ [(Listening, None)])"

text \<open>Phase A before the listener, phase B behind it; the environment is validated in both.\<close>

definition auth_main :: "startup \<Rightarrow> auth_world \<Rightarrow> life_step list \<times> auth_world" where
  "auth_main su w =
     (let exists = existsSuperAdmin w;
          started = start_steps ([(DbConnected, suDb su), (RedisAnswered, suRedis su)] @ bus_steps su @
            [(SuperAdminLookedUp, suLookup su),
             (BootstrapEnvChecked, if exists then None else case suAdminEnv su of Inl e \<Rightarrow> Some e | Inr _ \<Rightarrow> None),
             (Listening, None)])
      in if Listening \<notin> set started \<or> exists then (started, w)
         else (case bootstrapSuperAdminWithRetry (suAttempts su) (suAdminEnv su) w of
             ((Inr _, n), w') \<Rightarrow> (started, w')
           | ((Inl _, n), w') \<Rightarrow> (started @ [ProcessExit 1], w')))"

subsection \<open>Shutdown\<close>

text \<open>When the listener reports that it is closed and when each disconnect settles (fulfilled or rejected), in
  milliseconds from its start; \<open>None\<close> is never. Without a listener the first wait is skipped.\<close>

record closing =
  clListener :: "nat option option"
  clTasks :: "nat option list"

definition WATCHDOG_MS :: nat where "WATCHDOG_MS = 10000"

definition settled_at :: "closing \<Rightarrow> nat option" where
  "settled_at c =
     (case (case clListener c of None \<Rightarrow> Some 0 | Some t \<Rightarrow> t) of
        None \<Rightarrow> None
      | Some t \<Rightarrow> if list_ex (\<lambda>x. x = None) (clTasks c) then None else Some (t + Max (set (0 # List.map the (clTasks c)))))"

text \<open>The code and the time the process ends with.\<close>

definition shutdown :: "closing \<Rightarrow> int \<times> nat" where
  "shutdown c = (case settled_at c of
     Some t \<Rightarrow> if t < WATCHDOG_MS then (0, t) else (1, WATCHDOG_MS)
   | None \<Rightarrow> (1, WATCHDOG_MS))"

text \<open>An uncaught exception: the handler of the service shuts down, those of the loggers exit with 1 after a second.\<close>

definition crash_exit :: "closing \<Rightarrow> int \<times> nat" where
  "crash_exit c = (if snd (shutdown c) < 1000 then shutdown c else (1, 1000))"

subsection \<open>Properties\<close>

lemma need_Inr: "need env name k = Inr x \<longleftrightarrow> (\<exists>v. env name = Some v \<and> v \<noteq> [] \<and> str_trim v \<noteq> [] \<and> k v = Inr x)"
  by (auto simp: need_def requireEnv_def split: option.splits)

text \<open>A service that starts signs with no empty secret.\<close>

lemma loaded_secrets:
  "load_auth_config env = Inr c \<Longrightarrow>
     acAccessSecret c \<noteq> [] \<and> acRefreshSecret c \<noteq> [] \<and> acResetSecret c \<noteq> [] \<and> acInternalSecret c \<noteq> []"
  by (auto simp: load_auth_config_def need_Inr)

definition exits :: "life_step list \<Rightarrow> bool" where
  "exits tr = list_ex (\<lambda>s. case s of ProcessExit _ \<Rightarrow> True | _ \<Rightarrow> False) tr"

lemma exits_append [simp]: "exits (a @ b) \<longleftrightarrow> exits a \<or> exits b"
  by (simp add: exits_def)

lemma start_to_listening:
  assumes "list_all (\<lambda>x. fst x \<noteq> Listening \<and> (\<forall>c. fst x \<noteq> ProcessExit c)) xs"
  defines "tr \<equiv> start_steps (xs @ [(Listening, None)])"
  shows "if exits tr then last tr = ProcessExit 1 \<and> Listening \<notin> set tr
    else tr = List.map fst xs @ [Listening] \<and> Listening \<in> set tr"
  using assms(1) unfolding tr_def
proof (induction xs)
  case (Cons x xs)
  obtain s o' where x: "x = (s, o')" by force
  have s: "s \<noteq> Listening" "\<not> exits [s]" using Cons.prems x by (auto simp: exits_def split: life_step.split)
  have "start_steps (xs @ [(Listening, None)]) \<noteq> []" by (cases "xs @ [(Listening, None)]" rule: start_steps.cases) auto
  then show ?case using Cons x s by (cases o') (auto simp: exits_def split: if_splits)
qed (simp add: exits_def)

lemma super_admin_found: "findByEmail e w = Some c \<Longrightarrow> SUPER_ADMIN \<in> set (crRole c) \<Longrightarrow> existsSuperAdmin w"
  by (auto simp: existsSuperAdmin_def findByEmail_def find_Some_iff filter_empty_conv)


text \<open>A shutdown ends within ten seconds; a crash that is cleaned up within one second is reported as a success.\<close>

lemma shutdown_bounded: "snd (shutdown c) \<le> WATCHDOG_MS \<and> (fst (shutdown c) = 0 \<longleftrightarrow> (\<exists>t < WATCHDOG_MS. settled_at c = Some t))"
  by (auto simp: shutdown_def split: option.splits)

lemma crash_reports_success:
  "crash_exit \<lparr>clListener = Some (Some 20), clTasks = [Some 0, Some 30, Some 100, Some 40]\<rparr> = (0, 120)"
  by code_simp

end
