(* ===== verification/Spec2Isabelle.thy ===== *)
theory Spec2Isabelle
  imports Error_Handlers Outbox_Claims Breaker_Claims Internal_Claims Limiter_Claims Wire_Claims Dead_Letter_Claims
    Sanitizer_Claims Auth_Limiter_Claims Gateway_Claims Auth_Http_Claims User_Http_Claims Session_Refinement Email_Claims
    Otp_Races Registration_Saga Log_Redaction Service_Lifecycle
begin

text \<open>
  \<^bold>\<open>The program.\<close> nexus-commerce is the back end of a shop: an API gateway in front of an auth service (credentials,
  sessions, one-time codes, invites of administrators) and a user service (profiles, roles, dead letters), and a
  notification service that mails. Each service owns its PostgreSQL tables; auth, user and gateway keep short-lived
  facts in Redis. The services talk in two ways. The auth service calls the user service over HTTP with a signature
  (\<open>lib/axiosClients/userServiceClient.ts\<close>, \<open>middlewares/verifyInternalCall.ts\<close>). Auth and user service write domain events into an
  outbox table in the transaction of the change; a poller (\<open>packages/kafka/src/outboxPoller.ts\<close>) sends the rows to
  Kafka, where the notification service, the role replica of the auth service and the dead-letter table of the user
  service read them.

  \<^bold>\<open>How the model is laid out.\<close> A service is a record of its tables and stores; an operation is a function of the
  environment, the arguments and that record, with its exception or answer and the record after it as result
  (\<open>Nexus_Prelude\<close>: \<open>on_ok\<close>, \<open>on_err\<close>). Where calls interleave (pollers, invites, refresh, breakers, limiter) an
  operation is cut at its \<open>await\<close>s and the properties quantify over every order of the pieces.

  \<^item> Shared packages. \<open>Errors\<close>: \<open>packages/errors\<close>. \<open>Error_Handlers\<close>: the four \<open>globalErrorHandler.ts\<close>.
    \<open>Event_Contracts\<close>: \<open>packages/event-contracts\<close>, a Zod schema as the predicate of what it accepts. \<open>Event_Bus\<close>:
    \<open>eventBus.ts\<close>. \<open>Kafka_Outbox\<close>: writer, poller, topic router, backoff, dead letters of \<open>packages/kafka\<close>.
    \<open>Log_Redaction\<close>: \<open>packages/logger/src/redaction.ts\<close>. \<open>Json_Text\<close>, \<open>Json_Roundtrip\<close>, \<open>Js_Date\<close>: what the code uses
    of \<open>JSON\<close>, \<open>Buffer\<close> and \<open>Date\<close>. \<open>Redis_Store\<close>: the Redis commands, behind the locales \<open>cache_store\<close> (entries may
    vanish, never change) and \<open>ttl_store\<close> (a write leaves other keys alone), both interpreted on the model of Redis,
    the first also on the in-memory cache of the user service.
  \<^item> Outbox. \<open>Outbox_Delivery\<close>, \<open>Outbox_Steps\<close>: pollers, writers and crashes as a step relation with the invariant of
    its reachable states. \<open>Outbox_Batches\<close>, \<open>Outbox_Properties\<close>, \<open>Outbox_Claims\<close>: batches of one poller run to the end.
  \<^item> Circuit breakers. \<open>Breaker_Interface\<close>: the locale \<open>circuit_breaker\<close>; \<open>Breakers\<close>: the three implementations and its
    interpretations (\<open>auth_cb\<close>, \<open>notification_cb\<close>, \<open>gateway_cb\<close>); \<open>Breaker_Claims\<close>.
  \<^item> Auth service. \<open>User_Roles\<close>, \<open>Auth_World\<close>: tables, Redis, environment. \<open>Auth_Otp\<close>: \<open>utils/otp\<close>, with
    \<open>verifyOtp.ts\<close> cut at its awaits in \<open>Otp_Races\<close>. \<open>Auth_Sessions\<close>: \<open>utils/token\<close>,
    \<open>repositories/refreshToken.ts\<close>, \<open>middlewares/auth.ts\<close>. \<open>Auth_Login\<close>: \<open>utils/handleLogin.ts\<close>, the login
    surfaces. \<open>Auth_Registration\<close>: the rest of \<open>modules/auth\<close>, with \<open>modules/customer\<close>, \<open>modules/seller\<close> and
    \<open>events/consumers\<close>. \<open>Auth_Admin\<close>: \<open>modules/admin\<close>, \<open>bootstrap/superAdmin.ts\<close>. \<open>Invite_Flow\<close>: the invites as a state
    machine. \<open>Auth_Limiter\<close>: \<open>middlewares/rateLimiter.ts\<close>. \<open>Sanitizer\<close>: \<open>middlewares/sanitize.ts\<close>. \<open>Http_Requests\<close>,
    \<open>Auth_Http\<close>: schemas, gates, routes, controllers, cookies. \<open>Internal_Calls\<close>: both ends of the signed calls.
  \<^item> Both. \<open>Registration_Saga\<close>: a registration run over the state of auth and user service, retries and breaker included.
  \<^item> User service. \<open>User_Cache\<close>: \<open>cache/\<close>. \<open>User_Repository\<close>: \<open>modules/user/user.repository.ts\<close>, \<open>user.dto.ts\<close>.
    \<open>User_Service\<close>: \<open>provisionAccount.ts\<close> and the services of the modules. \<open>Dead_Letters\<close>: \<open>modules/dead-letter-event\<close>,
    \<open>pagination/\<close>. \<open>User_Http\<close>: routes, gates, controllers.
  \<^item> Notification service. \<open>Notify_Limits\<close>: \<open>ratelimit/\<close>. \<open>Notify_Mail\<close>: \<open>resilience/backoff.ts\<close>, \<open>providers/\<close>.
    \<open>Notification_Flow\<close>: \<open>idempotency/\<close>, \<open>services/notificationLog.ts\<close>, \<open>services/dlq.ts\<close>. \<open>Notification_Pipeline\<close>:
    \<open>events/\<close>, \<open>services/notificationService.ts\<close>. \<open>Email_Templates\<close>: \<open>templates/\<close>.
  \<^item> Gateway. \<open>Gateway\<close>: \<open>services/api-gateway/src\<close>, the middlewares in the order of \<open>app.ts\<close>.
  \<^item> Processes. \<open>Service_Lifecycle\<close>: \<open>packages/config\<close>, the \<open>server.ts\<close> of the four services.

  \<^bold>\<open>What is shown.\<close>

  \<^item> Events: with any number of pollers, crashes and failures a completed row has been sent and a dead one is a dead
    letter (at least once); with one poller, no lost acknowledgement and an answering database exactly once; batches
    drain the table; a broker that rejects everything is given up after \<open>maxRetries\<close> batches (\<open>Outbox_Claims\<close>).
    A mail goes out at most once per event id and shows the event it was made from (\<open>Notification_Claims\<close>,
    \<open>Email_Claims\<close>); the sliding window limiter refines one that remembers everything (\<open>Limiter_Claims\<close>). A dead
    letter keeps its fields, and pages of dead letters are complete (\<open>Dead_Letter_Claims\<close>).
  \<^item> Accounts: registration, provisioning and invites write all of their rows or none (\<open>Registration_Claims\<close>,
    \<open>User_Claims\<close>, \<open>Admin_Claims\<close>); shop roles and admin roles stay on separate identities (\<open>Seller_Claims\<close>,
    \<open>Registration_Claims\<close>); over HTTP, an account changes only for an authority that may change it (\<open>User_Http_Claims\<close>)
    and administrators come only from an invite (\<open>Auth_Http_Claims\<close>); once the auth service runs, a super admin exists
    (\<open>Service_Lifecycle\<close>). A registration that answers with a session has its profile in the user service
    (\<open>Registration_Saga\<close>).
  \<^item> Sessions: the Redis commands of refresh tokens refine a map from sessions to the one good token
    (\<open>Session_Refinement\<close>); a token is exchanged once and its reuse ends the family (\<open>Session_Claims\<close>); logins are
    checked and locked out (\<open>Login_Claims\<close>); codes survive three wrong guesses in turn and no more (\<open>Otp_Claims\<close>),
    but any number of guesses sent at once (\<open>Otp_Races\<close>); tokens are
    handed over in the way of the client's surface (\<open>Auth_Http_Claims\<close>).
  \<^item> Resilience: the breakers fail fast, open at their threshold and recover (\<open>Breaker_Claims\<close>); the cache answers
    what the database holds (\<open>Cache_Coherence\<close>, \<open>User_Claims\<close>); limiters admit their limit (\<open>Auth_Limiter_Claims\<close>).
  \<^item> What leaves the system: errors (\<open>Error_Handlers\<close>), log entries (\<open>Log_Redaction\<close>), sanitized input
    (\<open>Sanitizer_Claims\<close>), forwarded requests (\<open>Gateway_Claims\<close>).
  \<^item> Where the parts do not fit: a first registration leaves a profile without a credential, which blocks its address
    (\<open>Registration_Saga\<close>); events carry no type on the wire, so the role replica skips those of the user service
    (\<open>Event_Claims\<close>) and the mails of the auth service end as dead letters (\<open>Wire_Claims\<close>); client and server sign
    different paths, so every signed call is refused (\<open>Internal_Claims\<close>); the gateway's breaker sees no answer that is
    piped through (\<open>Gateway_Claims\<close>). These are proved of the model as the code is; the properties of the single
    components hold independently of them.

  \<^bold>\<open>Bounds and fuel.\<close> \<open>all_pages\<close> has one step per row and one more, and the theorem shows that this is enough. The
  JSON reader and the percent decoder have the length of their text. The client that may retry for ever is a
  \<open>partial_function\<close>, for which both settling and not settling are proved. Retry loops count down their attempts (those of
  the options for mails, five for the bootstrap). Batches of the poller are finite lists. Times and counters are unbounded
  integers, since every one in the code is a JavaScript number far below \<open>2 ^ 53\<close>.

  \<^bold>\<open>Assumptions.\<close> A handler of the auth service reads the clock once, and its database and Redis answer; in the outbox,
  the notification service, the cache and the auth limiter every call may fail. Redis drops a key by the clock of its
  caller. Parameters, with what is assumed of them at each theorem that needs it: hashes, HMAC, bcrypt, JSON web
  tokens, UUIDs; the formats Zod checks and the texts of its errors; \<open>new Date\<close> and \<open>Number\<close> on texts; path matching,
  preflight and body parsing of Express, \<open>cors\<close>, \<open>express-rate-limit\<close> and the proxy of the gateway; the rendering of
  mails to HTML; the answers of Resend, Kafka and axios. A consumer handles one message at a time. Characters are
  code units below 256. In \<open>Session_Refinement\<close> ids hold no colon (they are UUIDs).

  \<^bold>\<open>Not modelled.\<close> The web application (\<open>apps/web\<close>, a starter page) and \<open>packages/ui\<close>, which hold no logic of the shop;
  Prisma schemas and migrations beyond the unique keys and defaults the operations rely on; clients of Redis, Kafka
  and Prisma and their connection handling (\<open>lib/\<close>, \<open>packages/redis\<close>), which only call libraries; transports and
  formats of the logger; CORS, helmet and request logging set up in \<open>app.ts\<close>; lint and TypeScript configuration;
  tests. The user service has copies of the error classification, the circuit breaker, the sanitizer and \<open>verifyToken.ts\<close> of
  the auth service; the definitions stand for both. What could still be added: the configurations of gateway, user
  and notification service, and the failure of database and Redis calls inside the handlers of the auth service.
\<close>

end
